(* ===== verification/Prelude.thy ===== *)
theory Prelude
  imports Main "HOL-Library.AList" "HOL-Library.Word" "HOL-Library.Char_ord"
    "HOL-Library.List_Lexorder"
begin

text \<open>
  Shared vocabulary of the development: Go's byte strings and the functions of its package
  strings that the controller calls, Go maps as association lists, error values, and the
  collections of simplification rules the component theories use.

  \<^item> A Go \<^verbatim>\<open>string\<close> or \<^verbatim>\<open>[]byte\<close> is a HOL \<open>string\<close>: a list of 8-bit characters, so \<open>length\<close>
    is Go's \<^verbatim>\<open>len\<close>.
  \<^item> A Go \<^verbatim>\<open>map[string]T\<close> is an association list; its order stands for the unspecified order in
    which Go ranges over a map, and theorems hold for every such order.
  \<^item> A Go \<^verbatim>\<open>error\<close> is a value of type \<open>gerr\<close>; a function that returns \<^verbatim>\<open>(T, error)\<close> has result
    type \<open>gerr + 'a\<close>.
\<close>

named_theorems go_string \<open>facts about the string functions of the Go standard library\<close>
named_theorems go_map \<open>facts about Go maps\<close>
named_theorems prog_inv \<open>inversion of program executions\<close>
named_theorems prog_frame \<open>which requests a program can issue\<close>

section \<open>Strings\<close>

definition hasPrefix :: "string \<Rightarrow> string \<Rightarrow> bool" where
  "hasPrefix s p \<longleftrightarrow> take (length p) s = p"

definition hasSuffix :: "string \<Rightarrow> string \<Rightarrow> bool" where
  "hasSuffix s p \<longleftrightarrow> drop (length s - length p) s = p"

fun contains :: "string \<Rightarrow> string \<Rightarrow> bool" where
  "contains [] sub = (sub = [])"
| "contains (c # cs) sub = (hasPrefix (c # cs) sub \<or> contains cs sub)"

text \<open>\<^verbatim>\<open>strings.ReplaceAll(s, old, new)\<close> for a nonempty \<open>old\<close>, the only use in the sources.\<close>

fun replaceAll :: "string \<Rightarrow> string \<Rightarrow> string \<Rightarrow> string" where
  "replaceAll old new [] = []"
| "replaceAll old new (c # cs) =
     (if old \<noteq> [] \<and> hasPrefix (c # cs) old
      then new @ replaceAll old new (drop (length old - 1) cs)
      else c # replaceAll old new cs)"

definition trimLeft :: "string \<Rightarrow> string \<Rightarrow> string" where
  "trimLeft s cutset = dropWhile (\<lambda>c. c \<in> set cutset) s"

definition trimRight :: "string \<Rightarrow> string \<Rightarrow> string" where
  "trimRight s cutset = rev (dropWhile (\<lambda>c. c \<in> set cutset) (rev s))"

definition trim :: "string \<Rightarrow> string \<Rightarrow> string" where
  "trim s cutset = trimRight (trimLeft s cutset) cutset"

definition trimPrefix :: "string \<Rightarrow> string \<Rightarrow> string" where
  "trimPrefix s p = (if hasPrefix s p then drop (length p) s else s)"

definition trimSuffix :: "string \<Rightarrow> string \<Rightarrow> string" where
  "trimSuffix s p = (if hasSuffix s p then take (length s - length p) s else s)"

text \<open>\<^verbatim>\<open>strings.TrimSpace\<close> on the ASCII white space characters.\<close>

definition spaces :: string where
  "spaces = [CHR 0x09, CHR 0x0A, CHR 0x0B, CHR 0x0C, CHR 0x0D, CHR '' '']"

definition trimSpace :: "string \<Rightarrow> string" where
  "trimSpace s = trim s spaces"

fun join :: "string \<Rightarrow> string list \<Rightarrow> string" where
  "join sep [] = []"
| "join sep [x] = x"
| "join sep (x # y # zs) = x @ sep @ join sep (y # zs)"

text \<open>Splitting at every occurrence of one separator character, as \<^verbatim>\<open>strings.Split(s, "/")\<close>.\<close>

fun splitOn :: "char \<Rightarrow> string \<Rightarrow> string list" where
  "splitOn c [] = [[]]"
| "splitOn c (x # xs) =
     (if x = c then [] # splitOn c xs
      else (case splitOn c xs of [] \<Rightarrow> [[x]] | p # ps \<Rightarrow> (x # p) # ps))"

text \<open>
  Lower case on bytes. Go lowers Unicode code points; the two non-ASCII code points whose lower
  case is an ASCII letter (U+212A KELVIN SIGN to k, U+0130 to i) are written out, and every other
  non-ASCII byte is kept.
\<close>

definition lowerChar :: "char \<Rightarrow> char" where
  "lowerChar c = (if CHR ''A'' \<le> c \<and> c \<le> CHR ''Z'' then char_of (of_char c + 32 :: nat) else c)"

fun toLower :: "string \<Rightarrow> string" where
  "toLower [] = []"
| "toLower (c # cs) =
     (if c = CHR 0xE2 \<and> take 2 cs = [CHR 0x84, CHR 0xAA] then CHR ''k'' # toLower (drop 2 cs)
      else if c = CHR 0xC4 \<and> take 1 cs = [CHR 0xB0] then CHR ''i'' # toLower (drop 1 cs)
      else lowerChar c # toLower cs)"

text \<open>
  The precision of \<^verbatim>\<open>%.200s\<close> counts code points: \<open>takeRunes n\<close> keeps the first \<open>n\<close> of them, a continuation
  byte (10xxxxxx) belonging to the code point before it.
\<close>

definition continuationByte :: "char \<Rightarrow> bool" where
  "continuationByte c \<longleftrightarrow> digit7 c \<and> \<not> digit6 c"

fun takeRunes :: "nat \<Rightarrow> string \<Rightarrow> string" where
  "takeRunes n [] = []"
| "takeRunes n (c # cs) =
     (if continuationByte c then c # takeRunes n cs
      else case n of 0 \<Rightarrow> [] | Suc m \<Rightarrow> c # takeRunes m cs)"

text \<open>Decimal and hexadecimal formatting (\<^verbatim>\<open>%d\<close>, \<^verbatim>\<open>%02x\<close>, \<^verbatim>\<open>%x\<close> of a byte slice).\<close>

definition digitChar :: "int \<Rightarrow> char" where
  "digitChar n = (if n < 10 then char_of (48 + n) else char_of (87 + n))"

text \<open>\<open>showDigits\<close> prints a non-negative number.\<close>

function showDigits :: "int \<Rightarrow> string" where
  "showDigits n = (if n < 10 then [digitChar n] else showDigits (n div 10) @ [digitChar (n mod 10)])"
  by auto
termination by (relation "measure nat") auto

declare showDigits.simps [simp del]

definition showInt :: "int \<Rightarrow> string" where
  "showInt i = (if i < 0 then CHR ''-'' # showDigits (- i) else showDigits i)"

text \<open>The hexadecimal digit of four bits, highest first.\<close>

definition hexNibble :: "bool \<Rightarrow> bool \<Rightarrow> bool \<Rightarrow> bool \<Rightarrow> char" where
  "hexNibble b3 b2 b1 b0 = (if b3 then (if b2 then (if b1 then (if b0 then CHR ''f'' else CHR ''e'') else (if b0 then
     CHR ''d'' else CHR ''c'')) else (if b1 then (if b0 then CHR ''b'' else CHR ''a'') else (if
     b0 then CHR ''9'' else CHR ''8''))) else (if b2 then (if b1 then (if b0 then CHR ''7''
     else CHR ''6'') else (if b0 then CHR ''5'' else CHR ''4'')) else (if b1 then (if b0 then
     CHR ''3'' else CHR ''2'') else (if b0 then CHR ''1'' else CHR ''0''))))"

definition hexByte :: "char \<Rightarrow> string" where
  "hexByte b = [hexNibble (digit7 b) (digit6 b) (digit5 b) (digit4 b),
     hexNibble (digit3 b) (digit2 b) (digit1 b) (digit0 b)]"

definition hexBytes :: "string \<Rightarrow> string" where
  "hexBytes bs = concat (map hexByte bs)"

subsection \<open>Facts about strings\<close>

lemma hasPrefix_append [simp, go_string]: "hasPrefix (p @ s) p"
  by (simp add: hasPrefix_def)

lemma hasPrefix_iff [go_string]: "hasPrefix s p \<longleftrightarrow> (\<exists>t. s = p @ t)"
  by (metis append_take_drop_id append_eq_conv_conj hasPrefix_def)

lemma hasSuffix_iff [go_string]: "hasSuffix s p \<longleftrightarrow> (\<exists>t. s = t @ p)"
proof
  assume "hasSuffix s p"
  then show "\<exists>t. s = t @ p" by (metis append_take_drop_id hasSuffix_def)
next
  assume "\<exists>t. s = t @ p"
  then show "hasSuffix s p" by (auto simp: hasSuffix_def)
qed

lemma contains_iff [go_string]: "contains s sub \<longleftrightarrow> (\<exists>a b. s = a @ sub @ b)"
proof (induction s)
  case (Cons c cs)
  show ?case
  proof
    assume "contains (c # cs) sub"
    then consider "hasPrefix (c # cs) sub" | "contains cs sub" by auto
    then show "\<exists>a b. c # cs = a @ sub @ b"
    proof cases
      case 1
      then obtain t where "c # cs = [] @ sub @ t" by (auto simp: hasPrefix_iff)
      then show ?thesis by blast
    next
      case 2
      with Cons.IH obtain a b where "cs = a @ sub @ b" by blast
      then have "c # cs = (c # a) @ sub @ b" by simp
      then show ?thesis by blast
    qed
  next
    assume "\<exists>a b. c # cs = a @ sub @ b"
    then obtain a b where ab: "c # cs = a @ sub @ b" by blast
    show "contains (c # cs) sub"
    proof (cases a)
      case Nil
      with ab have "hasPrefix (c # cs) sub" by (auto simp: hasPrefix_iff)
      then show ?thesis by simp
    next
      case (Cons d a')
      with ab have "cs = a' @ sub @ b" by simp
      with \<open>contains cs sub = (\<exists>a b. cs = a @ sub @ b)\<close> show ?thesis by auto
    qed
  qed
qed auto

lemma set_trimRight [go_string]: "set (trimRight s cs) \<subseteq> set s"
  unfolding trimRight_def by (metis set_dropWhileD set_rev subsetI)

lemma set_trim [go_string]: "set (trim s cs) \<subseteq> set s"
  unfolding trim_def trimRight_def trimLeft_def
  by (metis set_dropWhileD set_rev subsetI)

lemma length_trimRight [go_string]: "length (trimRight s cs) \<le> length s"
  by (simp add: trimRight_def) (metis length_dropWhile_le length_rev)

lemma trimRight_last [go_string]: "trimRight s cs \<noteq> [] \<Longrightarrow> last (trimRight s cs) \<notin> set cs"
  unfolding trimRight_def
  by (metis (no_types, lifting) hd_dropWhile last_rev rev.simps(1) rev_rev_ident)

lemma trimLeft_hd [go_string]: "trimLeft s cs \<noteq> [] \<Longrightarrow> hd (trimLeft s cs) \<notin> set cs"
  unfolding trimLeft_def by (metis (no_types, lifting) hd_dropWhile)

lemma trimRight_prefix [go_string]: "\<exists>t. s = trimRight s cs @ t"
proof -
  have "rev s = takeWhile (\<lambda>c. c \<in> set cs) (rev s) @ dropWhile (\<lambda>c. c \<in> set cs) (rev s)"
    by simp
  then have "s = rev (dropWhile (\<lambda>c. c \<in> set cs) (rev s)) @ rev (takeWhile (\<lambda>c. c \<in> set cs) (rev s))"
    by (metis rev_append rev_rev_ident)
  then show ?thesis unfolding trimRight_def by blast
qed

lemma trim_ends [go_string]:
  assumes "trim s cs \<noteq> []"
  shows "hd (trim s cs) \<notin> set cs" and "last (trim s cs) \<notin> set cs"
proof -
  show "last (trim s cs) \<notin> set cs" using assms unfolding trim_def by (rule trimRight_last)
  obtain t where t: "trimLeft s cs = trim s cs @ t" unfolding trim_def using trimRight_prefix by blast
  with assms have "trimLeft s cs \<noteq> []" and "hd (trimLeft s cs) = hd (trim s cs)" by auto
  then show "hd (trim s cs) \<notin> set cs" using trimLeft_hd by metis
qed

lemma length_hexByte [simp, go_string]: "length (hexByte b) = 2"
  by (simp add: hexByte_def)

lemma length_hexBytes [simp, go_string]: "length (hexBytes bs) = 2 * length bs"
  by (induction bs) (simp_all add: hexBytes_def)

section \<open>Maps\<close>

type_synonym strmap = "(string \<times> string) list"

text \<open>
  \<open>mget m k\<close> is Go's \<^verbatim>\<open>m[k]\<close> on a \<^verbatim>\<open>map[string]string\<close> (the zero value when absent), \<open>mhas\<close> is the
  comma-ok form, \<open>mset\<close> an assignment, \<open>mdel\<close> the builtin \<^verbatim>\<open>delete\<close>, and \<open>mcopy dst src\<close> the loop
  \<^verbatim>\<open>for k, v := range src { dst[k] = v }\<close>.
\<close>

definition mget :: "strmap \<Rightarrow> string \<Rightarrow> string" where
  "mget m k = (case map_of m k of None \<Rightarrow> [] | Some v \<Rightarrow> v)"

definition mhas :: "(string \<times> 'v) list \<Rightarrow> string \<Rightarrow> bool" where
  "mhas m k \<longleftrightarrow> map_of m k \<noteq> None"

definition mset :: "(string \<times> 'v) list \<Rightarrow> string \<Rightarrow> 'v \<Rightarrow> (string \<times> 'v) list" where
  "mset m k v = AList.update k v m"

definition mdel :: "(string \<times> 'v) list \<Rightarrow> string \<Rightarrow> (string \<times> 'v) list" where
  "mdel m k = AList.delete k m"

definition mcopy :: "(string \<times> 'v) list \<Rightarrow> (string \<times> 'v) list \<Rightarrow> (string \<times> 'v) list" where
  "mcopy dst src = AList.merge dst src"

text \<open>Equality of Go maps: the same keys with the same values.\<close>

definition mequal :: "(string \<times> 'v) list \<Rightarrow> (string \<times> 'v) list \<Rightarrow> bool" where
  "mequal m n \<longleftrightarrow> list_all (\<lambda>k. map_of m k = map_of n k) (map fst m @ map fst n)"

lemma map_of_mset [simp, go_map]: "map_of (mset m k v) = (map_of m)(k \<mapsto> v)"
  by (simp add: mset_def update_conv')

lemma map_of_mdel [simp, go_map]: "map_of (mdel m k) = (map_of m)(k := None)"
  by (simp add: mdel_def delete_conv')

lemma map_of_mcopy [simp, go_map]: "map_of (mcopy d s) = map_of d ++ map_of s"
  by (simp add: mcopy_def merge_conv')

lemma mget_mset [simp, go_map]: "mget (mset m k v) j = (if j = k then v else mget m j)"
  by (simp add: mget_def)

lemma mget_mdel [simp, go_map]: "mget (mdel m k) j = (if j = k then [] else mget m j)"
  by (simp add: mget_def)

lemma mhas_mset [simp, go_map]: "mhas (mset m k v) j \<longleftrightarrow> j = k \<or> mhas m j"
  by (simp add: mhas_def)

lemma mhas_mdel [simp, go_map]: "mhas (mdel m k) j \<longleftrightarrow> j \<noteq> k \<and> mhas m j"
  by (simp add: mhas_def)

lemma mget_mcopy [go_map]:
  "mget (mcopy d s) k = (if mhas s k then mget s k else mget d k)"
  by (simp add: mget_def mhas_def map_add_def split: option.split)

lemma mequal_iff [go_map]: "mequal m n \<longleftrightarrow> map_of m = map_of n"
proof
  assume eq: "mequal m n"
  show "map_of m = map_of n"
  proof
    fix k
    show "map_of m k = map_of n k"
    proof (cases "k \<in> fst ` set m \<union> fst ` set n")
      case True
      with eq show ?thesis by (auto simp: mequal_def list_all_iff)
    next
      case False
      then have "map_of m k = None" and "map_of n k = None" by (auto simp: map_of_eq_None_iff)
      then show ?thesis by simp
    qed
  qed
qed (simp add: mequal_def list_all_iff)

lemma mequal_refl [simp, go_map]: "mequal m m"
  by (simp add: mequal_iff)

text \<open>
  A Go map has one entry per key. On such lists equality is equality of the keys in their order
  and of the values; assigning to keys that are present keeps the keys.
\<close>

abbreviation wfmap :: "(string \<times> 'v) list \<Rightarrow> bool" where "wfmap m \<equiv> distinct (map fst m)"

lemma wfmap_mset [simp, go_map]: "wfmap m \<Longrightarrow> wfmap (mset m k v)"
  by (simp add: mset_def distinct_update)

lemma wfmap_mcopy [simp, go_map]: "wfmap m \<Longrightarrow> wfmap (mcopy m n)"
  by (simp add: mcopy_def distinct_merge)

lemma fst_set_mset [simp, go_map]: "fst ` set (mset m k v) = insert k (fst ` set m)"
  by (simp add: mset_def dom_update)

lemma fst_set_mcopy [simp, go_map]: "fst ` set (mcopy m n) = fst ` set m \<union> fst ` set n"
  by (simp add: mcopy_def dom_merge)

lemma keys_mset_present [go_map]: "k \<in> fst ` set m \<Longrightarrow> map fst (mset m k v) = map fst m"
  by (simp add: mset_def update_keys)

lemma keys_mcopy_present [go_map]: "fst ` set n \<subseteq> fst ` set m \<Longrightarrow> map fst (mcopy m n) = map fst m"
proof (induction n)
  case Nil
  then show ?case by (simp add: mcopy_def)
next
  case (Cons p n)
  have "mcopy m (p # n) = mset (mcopy m n) (fst p) (snd p)"
    by (cases p) (simp add: mcopy_def mset_def)
  with Cons show ?case by (simp add: keys_mset_present)
qed

lemma wfmap_eqI:
  assumes "wfmap m" and "map fst m = map fst n" and "map_of m = map_of n"
  shows "m = n"
proof (rule nth_equalityI)
  show len: "length m = length n" using assms(2) by (metis length_map)
  fix i assume i: "i < length m"
  with len have fst: "fst (m ! i) = fst (n ! i)" using assms(2) by (metis nth_map)
  have "map_of m (fst (m ! i)) = Some (snd (m ! i))"
    using assms(1) i by (intro map_of_is_SomeI) auto
  moreover have "map_of n (fst (n ! i)) = Some (snd (n ! i))"
    using assms(1,2) i len by (intro map_of_is_SomeI) auto
  ultimately show "m ! i = n ! i" using assms(3) fst by (metis option.inject prod_eq_iff)
qed

lemma mset_present_id [go_map]: "map_of m k = Some v \<Longrightarrow> mset m k v = m"
  by (simp add: mset_def update_triv)

section \<open>Errors\<close>

text \<open>
  \<open>ApiErr\<close> is an error of the Kubernetes API machinery with the reason the apierrors predicates
  test, \<open>Errorf\<close> a plain \<^verbatim>\<open>fmt.Errorf\<close>, \<open>Wrapf\<close> one that wraps a cause with \<^verbatim>\<open>%w\<close>, \<open>PanicErr\<close> a run
  time panic. The predicates look through \<open>Wrapf\<close> as \<^verbatim>\<open>errors.As\<close> does.
\<close>

datatype reason =
    ReasonNotFound | ReasonConflict | ReasonAlreadyExists | ReasonInvalid | ReasonBadRequest
  | ReasonNoMatch | ReasonOther

datatype gerr =
    ApiErr reason string
  | Errorf string
  | Wrapf string gerr
  | InvalidManifest gerr
  | PanicErr string

primrec errText :: "gerr \<Rightarrow> string" where
  "errText (ApiErr r m) = m"
| "errText (Errorf m) = m"
| "errText (Wrapf m e) = m @ errText e"
| "errText (InvalidManifest e) = errText e"
| "errText (PanicErr m) = m"

primrec errReason :: "gerr \<Rightarrow> reason option" where
  "errReason (ApiErr r m) = Some r"
| "errReason (Errorf m) = None"
| "errReason (Wrapf m e) = errReason e"
| "errReason (InvalidManifest e) = errReason e"
| "errReason (PanicErr m) = None"

definition isNotFound :: "gerr \<Rightarrow> bool" where
  "isNotFound e \<longleftrightarrow> errReason e = Some ReasonNotFound"

definition isInvalid :: "gerr \<Rightarrow> bool" where
  "isInvalid e \<longleftrightarrow> errReason e = Some ReasonInvalid"

definition isBadRequest :: "gerr \<Rightarrow> bool" where
  "isBadRequest e \<longleftrightarrow> errReason e = Some ReasonBadRequest"

definition isAlreadyExists :: "gerr \<Rightarrow> bool" where
  "isAlreadyExists e \<longleftrightarrow> errReason e = Some ReasonAlreadyExists"

primrec isInvalidManifest :: "gerr \<Rightarrow> bool" where
  "isInvalidManifest (ApiErr r m) = False"
| "isInvalidManifest (Errorf m) = False"
| "isInvalidManifest (Wrapf m e) = isInvalidManifest e"
| "isInvalidManifest (InvalidManifest e) = True"
| "isInvalidManifest (PanicErr m) = False"

definition isConflict :: "gerr \<Rightarrow> bool" where
  "isConflict e \<longleftrightarrow> errReason e = Some ReasonConflict"

lemma isNotFound_simps [simp]:
  "isNotFound (ApiErr r m) \<longleftrightarrow> r = ReasonNotFound"
  "\<not> isNotFound (Errorf m)"
  "isNotFound (Wrapf m e) \<longleftrightarrow> isNotFound e"
  "\<not> isNotFound (PanicErr m)"
  by (auto simp: isNotFound_def)

type_synonym 'a result = "gerr + 'a"

end
