(* ===== verification/Objects.thy ===== *)
theory Objects
  imports Prelude
begin

text \<open>
  The shapes of the Kubernetes objects the controller exchanges with the API server: object
  metadata, status conditions, pods and pod templates, workloads, Services, Secrets, Namespaces,
  RoleBindings, ResourceQuotas and the untyped ("unstructured") KubeVirt and CDI objects.
  The types belong to k8s.io/api and k8s.io/apimachinery; a record here has the fields that the
  controller reads or writes, and a field \<open>...Other\<close> of type \<open>json\<close> for all those it only copies.
\<close>

section \<open>Untyped values\<close>

text \<open>A value of Go's \<^verbatim>\<open>map[string]interface{}\<close> documents.\<close>

datatype json =
    JNull
  | JBool bool
  | JInt int
  | JStr string
  | JArr "json list"
  | JObj "(string \<times> json) list"

section \<open>Metadata and conditions\<close>

record ownerRef =
  or_apiVersion :: string
  or_kind :: string
  or_name :: string
  or_uid :: string
  or_controller :: bool

text \<open>
  \<open>m_deletion\<close> is \<^verbatim>\<open>DeletionTimestamp\<close> (\<open>None\<close> for the zero or nil time); \<open>m_creation\<close> is the
  creation time, \<open>None\<close> when zero. Times are integers (nanoseconds).
\<close>

record ometa =
  m_name :: string
  m_namespace :: string
  m_uid :: string
  m_resourceVersion :: string
  m_generation :: int
  m_labels :: strmap
  m_annotations :: strmap
  m_finalizers :: "string list"
  m_ownerRefs :: "ownerRef list"
  m_creation :: "int option"
  m_deletion :: "int option"

definition objectMeta :: "string \<Rightarrow> string \<Rightarrow> ometa" where
  "objectMeta ns name = \<lparr>m_name = name, m_namespace = ns, m_uid = [], m_resourceVersion = [],
     m_generation = 0, m_labels = [], m_annotations = [], m_finalizers = [], m_ownerRefs = [],
     m_creation = None, m_deletion = None\<rparr>"

lemma objectMeta_sel [simp]:
  "m_name (objectMeta ns n) = n" "m_namespace (objectMeta ns n) = ns"
  "m_uid (objectMeta ns n) = []" "m_resourceVersion (objectMeta ns n) = []"
  "m_labels (objectMeta ns n) = []" "m_annotations (objectMeta ns n) = []"
  "m_finalizers (objectMeta ns n) = []" "m_ownerRefs (objectMeta ns n) = []"
  "m_creation (objectMeta ns n) = None" "m_deletion (objectMeta ns n) = None"
  by (simp_all add: objectMeta_def)

text \<open>\<^verbatim>\<open>metav1.Condition\<close>; \<open>c_ltt\<close> is \<^verbatim>\<open>LastTransitionTime\<close>, \<open>None\<close> when zero.\<close>

record condition =
  c_type :: string
  c_status :: string
  c_observedGeneration :: int
  c_ltt :: "int option"
  c_reason :: string
  c_message :: string

section \<open>Quantities\<close>

text \<open>\<^verbatim>\<open>resource.Quantity\<close>: an amount in thousandths and the suffix format it is printed in.\<close>

record quantity =
  q_milli :: int
  q_format :: string

type_synonym resourceList = "(string \<times> quantity) list"

section \<open>Pods and pod templates\<close>

record containerPort =
  cp_name :: string
  cp_containerPort :: int
  cp_protocol :: string

record volumeMount =
  vm_name :: string
  vm_mountPath :: string
  vm_readOnly :: bool

record container =
  ct_name :: string
  ct_image :: string
  ct_command :: "string list"
  ct_args :: "string list"
  ct_ports :: "containerPort list"
  ct_limits :: resourceList
  ct_requests :: resourceList
  ct_volumeMounts :: "volumeMount list"
  ct_terminationMessagePath :: string
  ct_terminationMessagePolicy :: string
  ct_imagePullPolicy :: string
  ct_runAsUser :: "int option"
  ct_readOnlyRootFilesystem :: "bool option"
  ct_other :: json

text \<open>The volume sources the controller builds; any other source is kept as \<open>VolOther\<close>.\<close>

datatype volumeSource =
    VolSecret string int "(string \<times> string) list"  \<comment> \<open>Secret name, default mode, (key, path) items\<close>
  | VolEmptyDir
  | VolOther json

record volume =
  vol_name :: string
  vol_source :: volumeSource

record toleration =
  tol_key :: string
  tol_operator :: string
  tol_value :: string
  tol_effect :: string
  tol_seconds :: "int option"

record podSpec =
  ps_containers :: "container list"
  ps_initContainers :: "container list"
  ps_volumes :: "volume list"
  ps_nodeSelector :: strmap
  ps_tolerations :: "toleration list"
  ps_other :: json

record podTemplate =
  pt_labels :: strmap
  pt_annotations :: strmap
  pt_spec :: podSpec

record terminated =
  tm_exitCode :: int
  tm_message :: string
  tm_finishedAt :: "int option"

text \<open>\<^verbatim>\<open>corev1.ContainerState\<close>: the waiting and running parts are only copied.\<close>

record containerState =
  cs_waiting :: "json option"
  cs_running :: "json option"
  cs_terminated :: "terminated option"

record containerStatus =
  cst_state :: containerState
  cst_lastTerminationState :: containerState

record podCondition =
  pc_type :: string
  pc_status :: string
  pc_reason :: string
  pc_message :: string
  pc_lastProbeTime :: "int option"
  pc_lastTransitionTime :: "int option"

record pod =
  pod_meta :: ometa
  pod_conditions :: "podCondition list"
  pod_containerStatuses :: "containerStatus list"
  pod_statusOther :: json

section \<open>Workloads, Services, Secrets\<close>

text \<open>A StatefulSet and a Deployment have the same fields as far as the controller is concerned.\<close>

record workload =
  wl_meta :: ometa
  wl_replicas :: int
  wl_selector :: strmap
  wl_template :: podTemplate
  wl_readyReplicas :: int

record servicePort =
  sp_name :: string
  sp_port :: int
  sp_targetPort :: int
  sp_protocol :: string

record service =
  svc_meta :: ometa
  svc_type :: string
  svc_selector :: strmap
  svc_ports :: "servicePort list"

record secret =
  sec_meta :: ometa
  sec_type :: string
  sec_immutable :: "bool option"
  sec_data :: strmap
  sec_stringData :: strmap

record configMap =
  cm_meta :: ometa
  cm_data :: strmap

section \<open>Namespaces, RoleBindings, ResourceQuotas\<close>

record namespace =
  ns_meta :: ometa

record subject =
  sub_kind :: string
  sub_name :: string

record roleRef =
  rr_apiGroup :: string
  rr_kind :: string
  rr_name :: string

record roleBinding =
  rb_meta :: ometa
  rb_subjects :: "subject list"
  rb_roleRef :: roleRef

record resourceQuota =
  rq_meta :: ometa
  rq_hard :: resourceList

section \<open>Nodes and storage classes\<close>

record node =
  node_meta :: ometa
  node_unschedulable :: bool
  node_allocatable :: resourceList
  node_conditions :: "(string \<times> string) list"  \<comment> \<open>type, status\<close>

record storageClass =
  sc_meta :: ometa
  sc_provisioner :: string

section \<open>Untyped objects\<close>

text \<open>
  \<^verbatim>\<open>unstructured.Unstructured\<close>: the metadata is typed, \<open>un_object\<close> holds the other top-level fields
  (\<^verbatim>\<open>spec\<close>, \<^verbatim>\<open>status\<close>, ...).
\<close>

record unstructured =
  un_apiVersion :: string
  un_kind :: string
  un_meta :: ometa
  un_object :: "(string \<times> json) list"

text \<open>
  Reading and writing along a path of field names, as the \<^verbatim>\<open>Nested...\<close> accessors of package
  unstructured do on such documents. The readers return \<open>None\<close> for a missing field and for a value of
  another type; the sources never tell the two apart.
\<close>

type_synonym jobj = "(string \<times> json) list"

fun nestedField :: "json \<Rightarrow> string list \<Rightarrow> json option" where
  "nestedField v [] = Some v"
| "nestedField v (f # fs) = (case v of
     JObj m \<Rightarrow> (case map_of m f of None \<Rightarrow> None | Some w \<Rightarrow> nestedField w fs)
   | _ \<Rightarrow> None)"

definition nestedMap :: "jobj \<Rightarrow> string list \<Rightarrow> jobj option" where
  "nestedMap m path = (case nestedField (JObj m) path of Some (JObj x) \<Rightarrow> Some x | _ \<Rightarrow> None)"

definition nestedSlice :: "jobj \<Rightarrow> string list \<Rightarrow> json list option" where
  "nestedSlice m path = (case nestedField (JObj m) path of Some (JArr x) \<Rightarrow> Some x | _ \<Rightarrow> None)"

definition nestedString :: "jobj \<Rightarrow> string list \<Rightarrow> string option" where
  "nestedString m path = (case nestedField (JObj m) path of Some (JStr x) \<Rightarrow> Some x | _ \<Rightarrow> None)"

definition nestedBool :: "jobj \<Rightarrow> string list \<Rightarrow> bool option" where
  "nestedBool m path = (case nestedField (JObj m) path of Some (JBool x) \<Rightarrow> Some x | _ \<Rightarrow> None)"

text \<open>\<open>zeroOr\<close> is the value Go binds when the found flag is ignored.\<close>

abbreviation zeroOr :: "'a \<Rightarrow> 'a option \<Rightarrow> 'a" where
  "zeroOr z v \<equiv> (case v of None \<Rightarrow> z | Some x \<Rightarrow> x)"

text \<open>\<open>setNested\<close> fails when a field on the way holds something other than a map.\<close>

fun setNested :: "jobj \<Rightarrow> string list \<Rightarrow> json \<Rightarrow> jobj option" where
  "setNested m [] v = Some m"
| "setNested m [f] v = Some (mset m f v)"
| "setNested m (f # g # fs) v = (case map_of m f of
     None \<Rightarrow> (case setNested [] (g # fs) v of None \<Rightarrow> None | Some x \<Rightarrow> Some (mset m f (JObj x)))
   | Some (JObj y) \<Rightarrow> (case setNested y (g # fs) v of None \<Rightarrow> None | Some x \<Rightarrow> Some (mset m f (JObj x)))
   | Some _ \<Rightarrow> None)"

text \<open>A value that was set is found again, and fields off the path are untouched.\<close>

lemma nestedField_setNested:
  "path \<noteq> [] \<Longrightarrow> setNested m path v = Some m' \<Longrightarrow> nestedField (JObj m') path = Some v"
proof (induction path arbitrary: m m')
  case (Cons f path)
  show ?case
  proof (cases path)
    case Nil
    with Cons.prems show ?thesis by auto
  next
    case (Cons g fs)
    with Cons.prems obtain y x where "setNested y path v = Some x" "m' = mset m f (JObj x)"
      by (auto split: option.splits json.splits)
    with Cons.IH Cons show ?thesis by simp
  qed
qed simp

lemma setNested_other:
  "setNested m path v = Some m' \<Longrightarrow> path \<noteq> [] \<Longrightarrow> k \<noteq> hd path \<Longrightarrow> map_of m' k = map_of m k"
  by (cases "(m, path, v)" rule: setNested.cases) (auto split: option.splits json.splits)

end
