(* ===== verification/Api_Types.thy ===== *)
theory Api_Types
  imports Objects
begin

text \<open>
  The custom resources of the kubeworkspaces.io/v1alpha1 API group (src/api/v1alpha1): one record
  per Go struct, with the struct's fields in the struct's order. A pointer field is an \<open>option\<close>, an
  enumerated string type stays a \<open>string\<close> as in Go. \<^verbatim>\<open>metav1.TypeMeta\<close> is left out: the kind of an
  object is the constructor it has in \<open>kobj\<close> (theory Client).
\<close>

section \<open>User\<close>

definition UserRoleAdmin :: string where "UserRoleAdmin = ''admin''"
definition UserRoleEditor :: string where "UserRoleEditor = ''editor''"
definition UserRoleViewer :: string where "UserRoleViewer = ''viewer''"

record secretKeyRef =
  skr_name :: string
  skr_key :: string

record namespaceAccessEntry =
  na_namespace :: string
  na_role :: string

record executionGrant =
  eg_namespace :: string
  eg_workspaces :: "string list"
  eg_permissions :: "string list"
  eg_expiresAt :: "int option"

record localAuthSpec =
  las_enabled :: bool
  las_passwordSecretRef :: secretKeyRef
  las_mustChangePassword :: bool

record externalIdentityBinding =
  ei_issuer :: string
  ei_subject :: string

record userSpec =
  us_email :: string
  us_displayName :: string
  us_role :: string
  us_disabled :: bool
  us_groups :: "string list"
  us_namespaceAccess :: "namespaceAccessEntry list"
  us_executionGrants :: "executionGrant list"
  us_localAuth :: "localAuthSpec option"
  us_externalIdentities :: "externalIdentityBinding list"

record userStatus =
  ut_personalNamespace :: string
  ut_avatarURL :: string
  ut_lastLogin :: "int option"
  ut_loginCount :: int
  ut_failedLoginAttempts :: int
  ut_lockedUntil :: "int option"
  ut_conditions :: "condition list"

record user =
  u_meta :: ometa
  u_spec :: userSpec
  u_status :: userStatus

section \<open>AuthConfig\<close>

record oidcConfig =
  oc_issuerURL :: string
  oc_clientID :: string
  oc_clientSecret :: secretKeyRef
  oc_scopes :: "string list"
  oc_usernameClaim :: string
  oc_groupsClaim :: string

record sessionConfig =
  sc_signingKey :: secretKeyRef
  sc_tokenExpiry :: string
  sc_refreshExpiry :: string

record personalNamespaceConfig =
  pn_enabled :: bool
  pn_template :: string
  pn_labels :: strmap
  pn_annotations :: strmap
  pn_resourceQuota :: strmap

record registrationConfig =
  rc_autoProvision :: bool
  rc_defaultRole :: string
  rc_allowedDomains :: "string list"
  rc_allowedEmails :: "string list"
  rc_requireApproval :: bool

record authorizationConfig =
  az_restrictNamespaceAccess :: bool

record bootstrapAdminConfig =
  ba_email :: string
  ba_skip :: bool
  ba_mustChangePassword :: "bool option"

record localAuthConfig =
  lac_enabled :: bool
  lac_bootstrapAdmin :: "bootstrapAdminConfig option"

record authConfigSpec =
  ac_enabled :: bool
  ac_oidc :: "oidcConfig option"
  ac_session :: "sessionConfig option"
  ac_personalNamespaces :: "personalNamespaceConfig option"
  ac_registration :: "registrationConfig option"
  ac_authorization :: "authorizationConfig option"
  ac_adminEmails :: "string list"
  ac_localAuth :: "localAuthConfig option"

record authConfigStatus =
  at_enabled :: bool
  at_issuerReachable :: bool
  at_lastVerified :: "int option"
  at_conditions :: "condition list"

record authConfig =
  a_meta :: ometa
  a_spec :: authConfigSpec
  a_status :: authConfigStatus

section \<open>ImageRepository\<close>

record imageRepositoryAuth =
  ira_secretRef :: "string option"
  ira_type :: string

record imageRepositorySpec =
  irs_url :: string
  irs_ref :: string
  irs_paths :: "string list"
  irs_auth :: "imageRepositoryAuth option"
  irs_syncInterval :: "int option"
  irs_suspend :: bool

record imageRepositoryStatus =
  irt_conditions :: "condition list"
  irt_lastSyncTime :: "int option"
  irt_lastSyncCommit :: string
  irt_importedImages :: "string list"
  irt_observedGeneration :: int

record imageRepository =
  ir_meta :: ometa
  ir_spec :: imageRepositorySpec
  ir_status :: imageRepositoryStatus

section \<open>SshKey\<close>

record sshKeySpec =
  sk_name :: string
  sk_publicKey :: string

record sshKey =
  k_meta :: ometa
  k_spec :: sshKeySpec

section \<open>Workspace\<close>

definition Windows11AMD64V1 :: string where "Windows11AMD64V1 = ''windows11-amd64-v1''"

definition GroupVersion :: string where "GroupVersion = ''kubeworkspaces.io/v1alpha1''"

record containerInitSpec =
  ci_mode :: string
  ci_defaultUser :: string
  ci_runAsUser :: string
  ci_userData :: string
  ci_userDataSecretRef :: "string option"

record vmGPUProfile =
  gp_id :: string
  gp_displayName :: string
  gp_resourceName :: string
  gp_kind :: string
  gp_count :: int
  gp_nodeSelector :: strmap
  gp_guestDriverVersion :: string
  gp_experimental :: bool

record resolvedVMProfile =
  vp_gpu :: "vmGPUProfile option"
  vp_id :: string
  vp_image :: string
  vp_generation :: string
  vp_rootDiskSize :: string
  vp_cpuCores :: int
  vp_guestMemory :: string
  vp_importSecretName :: string
  vp_importCertConfigMapName :: string
  vp_storageClassName :: string

record workspaceSpec =
  wss_containerInit :: "containerInitSpec option"
  wss_executionRevocationEpoch :: int
  wss_vmProfile :: "resolvedVMProfile option"
  wss_type :: string
  wss_template :: podSpec

record workspaceCondition =
  wc_type :: string
  wc_status :: string
  wc_lastProbeTime :: "int option"
  wc_lastTransitionTime :: "int option"
  wc_reason :: string
  wc_message :: string

record managementExecutionStatus =
  me_vmUID :: string
  me_revocationEpoch :: int

text \<open>\<open>wst_conditions\<close> is \<open>None\<close> for a nil slice, which Go's \<^verbatim>\<open>reflect.DeepEqual\<close> tells from an empty one.\<close>

record workspaceStatus =
  wst_managementExecution :: "managementExecutionStatus option"
  wst_conditions :: "workspaceCondition list option"
  wst_readyReplicas :: int
  wst_containerState :: containerState

record workspace =
  w_meta :: ometa
  w_spec :: workspaceSpec
  w_status :: workspaceStatus

section \<open>Image\<close>

record containerInitDefaults =
  cid_mode :: string
  cid_defaultUser :: string
  cid_runAsUser :: string

record imageRemoteDesktop =
  rd_protocol :: string
  rd_port :: int
  rd_path :: string

record imageProxyConfig =
  pxy_needsNoopSW :: bool
  pxy_webSocketPaths :: "string list"
  pxy_rewriteHostAbsolutePaths :: bool
  pxy_customRequestHeaders :: strmap
  pxy_injectBaseTag :: bool
  pxy_scheme :: string
  pxy_tlsSkipVerify :: bool
  pxy_tlsInsecure :: bool
  pxy_preservePathPrefix :: bool
  pxy_audioPort :: int
  pxy_agentPort :: int
  pxy_port :: int

record imageLink =
  lk_title :: string
  lk_url :: string

record imageEnvVar =
  iev_name :: string
  iev_value :: string

record imageCredentials =
  icr_username :: string
  icr_password :: string

record imagePort =
  ipt_name :: string
  ipt_port :: int
  ipt_protocol :: string

record imageSpec =
  is_image :: string
  is_displayName :: string
  is_description :: string
  is_category :: string
  is_tags :: "string list"
  is_defaultPort :: int
  is_defaultPath :: string
  is_icon :: string
  is_defaultArgs :: "string list"
  is_defaultCommand :: "string list"
  is_defaultContainerInit :: "containerInitDefaults option"
  is_defaultEnv :: "imageEnvVar list"
  is_defaultCredentials :: "imageCredentials option"
  is_privileged :: bool
  is_homepageURL :: string
  is_sourceURL :: string
  is_imageHomepageURL :: string
  is_defaultUser :: string
  is_defaultPassword :: string
  is_defaultCloudInit :: bool
  is_defaultUserData :: string
  is_defaultHomedir :: string
  is_defaultShell :: string
  is_links :: "imageLink list"
  is_proxyConfig :: "imageProxyConfig option"
  is_defaultUID :: "int option"
  is_defaultInitContainers :: "container list"
  is_additionalPorts :: "imagePort list"
  is_defaultSharedMemory :: bool
  is_defaultImagePullPolicy :: string
  is_workspaceTypes :: "string list"
  is_vmProfile :: string
  is_persistentRootDisk :: bool
  is_persistentRootDiskSize :: string
  is_memoryLimit :: string
  is_memoryRequest :: string
  is_videoDevice :: string
  is_soundDevice :: string
  is_remoteDesktop :: "imageRemoteDesktop option"

record image =
  i_meta :: ometa
  i_spec :: imageSpec
  i_conditions :: "condition list"

section \<open>PlatformConfig\<close>

record maintenanceConfig =
  mc_enabled :: bool
  mc_message :: string

record platformFormFieldLock =
  fl_field :: string
  fl_value :: string
  fl_message :: string

record platformConfigSpec =
  pcs_vmGPUProfiles :: "vmGPUProfile list"
  pcs_maintenance :: "maintenanceConfig option"
  pcs_form_lockedFields :: "platformFormFieldLock list option"
  pcs_vmExecution :: "(bool \<times> bool) option"  \<comment> \<open>Enabled, AllowElevated\<close>
  pcs_agentUpgrades :: "bool option"  \<comment> \<open>Enabled\<close>

record platformConfig =
  pcfg_meta :: ometa
  pcfg_spec :: platformConfigSpec
  pcfg_maintenanceActive :: bool
  pcfg_conditions :: "condition list"

end
