(* ===== verification/Client.thy ===== *)
theory Client
  imports Api_Types
begin

text \<open>
  The controller's effects. A reconciler is a program that issues requests (to the API server
  through controller-runtime's client, to the clock, the random source, git, the file system, an
  OIDC issuer, a guest agent) and continues with the response. The responses are not computed by
  the model: \<open>runs p tr x\<close> says that \<open>p\<close>, answered as recorded in the trace \<open>tr\<close>, issues exactly the
  requests of \<open>tr\<close> and returns \<open>x\<close>. A theorem about every \<open>tr\<close> therefore holds for every behaviour
  of the API server: failed requests, stale caches and concurrent writers included.

  \<open>run\<close> executes a program against a given environment, a function of type
  \<open>'w \<Rightarrow> req \<Rightarrow> resp \<times> 'w\<close>; it is how concrete clusters are plugged in.

  The functions of third-party Go packages that the controller calls are the fields of the record
  \<open>lib\<close>, an argument of every definition that uses one of them.
\<close>

section \<open>Objects, requests and responses\<close>

datatype kind =
    KWorkspace | KImage | KImageRepository | KUser | KAuthConfig | KPlatformConfig | KSshKey
  | KStatefulSet | KDeployment | KService | KSecret | KConfigMap | KPod
  | KNamespace | KRoleBinding | KResourceQuota | KNode | KStorageClass
  | KUnstructured string string  \<comment> \<open>apiVersion and kind\<close>

datatype kobj =
    OWorkspace workspace | OImage image | OImageRepository imageRepository | OUser user
  | OAuthConfig authConfig | OPlatformConfig platformConfig | OSshKey sshKey
  | OStatefulSet workload | ODeployment workload | OService service | OSecret secret
  | OConfigMap configMap | OPod pod | ONamespace namespace | ORoleBinding roleBinding
  | OResourceQuota resourceQuota | ONode node | OStorageClass storageClass | OUnstructured unstructured

primrec kindOf :: "kobj \<Rightarrow> kind" where
  "kindOf (OWorkspace x) = KWorkspace"
| "kindOf (OImage x) = KImage"
| "kindOf (OImageRepository x) = KImageRepository"
| "kindOf (OUser x) = KUser"
| "kindOf (OAuthConfig x) = KAuthConfig"
| "kindOf (OPlatformConfig x) = KPlatformConfig"
| "kindOf (OSshKey x) = KSshKey"
| "kindOf (OStatefulSet x) = KStatefulSet"
| "kindOf (ODeployment x) = KDeployment"
| "kindOf (OService x) = KService"
| "kindOf (OSecret x) = KSecret"
| "kindOf (OConfigMap x) = KConfigMap"
| "kindOf (OPod x) = KPod"
| "kindOf (ONamespace x) = KNamespace"
| "kindOf (ORoleBinding x) = KRoleBinding"
| "kindOf (OResourceQuota x) = KResourceQuota"
| "kindOf (ONode x) = KNode"
| "kindOf (OStorageClass x) = KStorageClass"
| "kindOf (OUnstructured x) = KUnstructured (un_apiVersion x) (un_kind x)"

primrec metaOf :: "kobj \<Rightarrow> ometa" where
  "metaOf (OWorkspace x) = w_meta x"
| "metaOf (OImage x) = i_meta x"
| "metaOf (OImageRepository x) = ir_meta x"
| "metaOf (OUser x) = u_meta x"
| "metaOf (OAuthConfig x) = a_meta x"
| "metaOf (OPlatformConfig x) = pcfg_meta x"
| "metaOf (OSshKey x) = k_meta x"
| "metaOf (OStatefulSet x) = wl_meta x"
| "metaOf (ODeployment x) = wl_meta x"
| "metaOf (OService x) = svc_meta x"
| "metaOf (OSecret x) = sec_meta x"
| "metaOf (OConfigMap x) = cm_meta x"
| "metaOf (OPod x) = pod_meta x"
| "metaOf (ONamespace x) = ns_meta x"
| "metaOf (ORoleBinding x) = rb_meta x"
| "metaOf (OResourceQuota x) = rq_meta x"
| "metaOf (ONode x) = node_meta x"
| "metaOf (OStorageClass x) = sc_meta x"
| "metaOf (OUnstructured x) = un_meta x"

type_synonym key = "string \<times> string"  \<comment> \<open>namespace (empty for cluster-scoped kinds) and name\<close>

definition keyOf :: "kobj \<Rightarrow> key" where
  "keyOf ob = (m_namespace (metaOf ob), m_name (metaOf ob))"

text \<open>The cached client of the manager, and the API reader that bypasses the cache.\<close>

datatype reader = Cached | Live

datatype delopt = PreUID string | PreResourceVersion string | Foreground

datatype req =
    ReqGet reader kind key
  | ReqList reader kind "string option" strmap  \<comment> \<open>namespace filter, label selector\<close>
  | ReqCreate kobj
  | ReqUpdate kobj
  | ReqStatusUpdate kobj
  | ReqDelete kobj "delopt list"
  | ReqEvent string string string  \<comment> \<open>EventRecorder.Event: type, reason, message\<close>
  | ReqNow
  | ReqUUID
  | ReqRandBytes nat  \<comment> \<open>rand.Read\<close>
  | ReqRandInt nat  \<comment> \<open>rand.Int below a bound\<close>
  | ReqBcrypt string nat  \<comment> \<open>bcrypt.GenerateFromPassword: password, cost\<close>
  | ReqHTTPGet string
  | ReqMkdirTemp
  | ReqRemoveAll string
  | ReqGitClone string nat "(string \<times> string) option" string  \<comment> \<open>URL, depth, basic auth, directory\<close>
  | ReqGitResolve string
  | ReqGitWorktree
  | ReqGitCheckout string
  | ReqGitHead
  | ReqEvalSymlinks string
  | ReqReadDir string
  | ReqReadFile string
  | ReqJitter int  \<comment> \<open>wait.Jitter with factor 0.2\<close>
  | ReqGuestComplete string string string string  \<comment> \<open>CompleteBootstrap: namespace, pod, vm, hostname\<close>
  | ReqGuestStage string string string string  \<comment> \<open>StageEnrollment: namespace, pod, vm, token\<close>
  | ReqGuestDial string string  \<comment> \<open>NewSPDYExecutor for the exec subresource: namespace, pod\<close>
  | ReqGuestExec string string "string list"  \<comment> \<open>StreamWithContext of a command: namespace, pod, command\<close>
  | ReqPause int  \<comment> \<open>a select of a timer and the end of the context, \<open>RBool True\<close> for the latter\<close>

datatype resp =
    RErr gerr
  | ROk
  | RObj kobj
  | RList "kobj list"
  | RInt int
  | RStr string
  | RBool bool
  | RDir "(string \<times> bool) list"  \<comment> \<open>entry name, IsDir\<close>
  | RChunks "(bool \<times> string) list"  \<comment> \<open>the writes of a stream, to stderr or to stdout\<close>

type_synonym trace = "(req \<times> resp) list"

section \<open>Programs\<close>

datatype 'a prog = Ret 'a | Call req "resp \<Rightarrow> 'a prog"

primrec bind :: "'a prog \<Rightarrow> ('a \<Rightarrow> 'b prog) \<Rightarrow> 'b prog" where
  "bind (Ret x) f = f x"
| "bind (Call q k) f = Call q (\<lambda>r. bind (k r) f)"

inductive runs :: "'a prog \<Rightarrow> trace \<Rightarrow> 'a \<Rightarrow> bool" where
  runs_Ret: "runs (Ret x) [] x"
| runs_Call: "runs (k r) tr x \<Longrightarrow> runs (Call q k) ((q, r) # tr) x"

inductive_simps runs_Ret_iff [prog_inv]: "runs (Ret x) tr y"
inductive_simps runs_Call_iff [prog_inv]: "runs (Call q k) tr y"

lemma runs_bind [prog_inv]:
  "runs (bind p f) tr y \<longleftrightarrow> (\<exists>t1 x t2. runs p t1 x \<and> runs (f x) t2 y \<and> tr = t1 @ t2)"
proof (induction p arbitrary: tr)
  case (Ret x)
  then show ?case by (simp add: runs_Ret_iff)
next
  case (Call q k)
  show ?case
  proof
    assume "runs (bind (Call q k) f) tr y"
    then obtain r tr' where tr: "tr = (q, r) # tr'" and "runs (bind (k r) f) tr' y"
      by (auto simp: runs_Call_iff)
    with Call.IH[of "k r" tr'] obtain t1 x t2
      where "runs (k r) t1 x" "runs (f x) t2 y" "tr' = t1 @ t2" by blast
    then have "runs (Call q k) ((q, r) # t1) x" "runs (f x) t2 y" "tr = ((q, r) # t1) @ t2"
      using tr by (auto intro: runs_Call)
    then show "\<exists>t1 x t2. runs (Call q k) t1 x \<and> runs (f x) t2 y \<and> tr = t1 @ t2" by blast
  next
    assume "\<exists>t1 x t2. runs (Call q k) t1 x \<and> runs (f x) t2 y \<and> tr = t1 @ t2"
    then obtain r t1' x t2 where "runs (k r) t1' x" "runs (f x) t2 y" "tr = (q, r) # t1' @ t2"
      by (auto simp: runs_Call_iff)
    moreover from this have "runs (bind (k r) f) (t1' @ t2) y" using Call.IH[of "k r"] by blast
    ultimately show "runs (bind (Call q k) f) tr y" by (auto simp: runs_Call_iff)
  qed
qed

text \<open>\<open>tryP p k\<close> is the Go idiom \<^verbatim>\<open>x, err := p; if err != nil { return err }; k(x)\<close>.\<close>

definition tryP :: "'a result prog \<Rightarrow> ('a \<Rightarrow> 'b result prog) \<Rightarrow> 'b result prog" where
  "tryP p k = bind p (\<lambda>r. case r of Inl e \<Rightarrow> Ret (Inl e) | Inr x \<Rightarrow> k x)"

text \<open>The same with the error wrapped: \<^verbatim>\<open>return fmt.Errorf("msg: %w", err)\<close>.\<close>

definition wrapP :: "string \<Rightarrow> 'a result prog \<Rightarrow> ('a \<Rightarrow> 'b result prog) \<Rightarrow> 'b result prog" where
  "wrapP msg p k = bind p (\<lambda>r. case r of Inl e \<Rightarrow> Ret (Inl (Wrapf msg e)) | Inr x \<Rightarrow> k x)"

lemma runs_tryP [prog_inv]:
  "runs (tryP p k) tr y \<longleftrightarrow>
     (\<exists>e. runs p tr (Inl e) \<and> y = Inl e)
   \<or> (\<exists>t1 x t2. runs p t1 (Inr x) \<and> runs (k x) t2 y \<and> tr = t1 @ t2)"
  unfolding tryP_def runs_bind
proof (intro iffI)
  assume "\<exists>t1 x t2. runs p t1 x \<and>
    runs (case x of Inl e \<Rightarrow> Ret (Inl e) | Inr x \<Rightarrow> k x) t2 y \<and> tr = t1 @ t2"
  then obtain t1 x t2 where *: "runs p t1 x"
    "runs (case x of Inl e \<Rightarrow> Ret (Inl e) | Inr x \<Rightarrow> k x) t2 y" "tr = t1 @ t2" by blast
  then show "(\<exists>e. runs p tr (Inl e) \<and> y = Inl e) \<or>
    (\<exists>t1 x t2. runs p t1 (Inr x) \<and> runs (k x) t2 y \<and> tr = t1 @ t2)"
    by (cases x) (auto simp: runs_Ret_iff)
next
  assume "(\<exists>e. runs p tr (Inl e) \<and> y = Inl e) \<or>
    (\<exists>t1 x t2. runs p t1 (Inr x) \<and> runs (k x) t2 y \<and> tr = t1 @ t2)"
  then consider (err) e where "runs p tr (Inl e)" "y = Inl e"
    | (ok) t1 x t2 where "runs p t1 (Inr x)" "runs (k x) t2 y" "tr = t1 @ t2" by blast
  then show "\<exists>t1 x t2. runs p t1 x \<and>
    runs (case x of Inl e \<Rightarrow> Ret (Inl e) | Inr x \<Rightarrow> k x) t2 y \<and> tr = t1 @ t2"
  proof cases
    case err
    then have "runs p tr (Inl e) \<and> runs (case Inl e of Inl e \<Rightarrow> Ret (Inl e) | Inr x \<Rightarrow> k x) [] y
      \<and> tr = tr @ []" by (simp add: runs_Ret_iff)
    then show ?thesis by blast
  next
    case ok
    then have "runs p t1 (Inr x) \<and> runs (case Inr x of Inl e \<Rightarrow> Ret (Inl e) | Inr x \<Rightarrow> k x) t2 y
      \<and> tr = t1 @ t2" by simp
    then show ?thesis by blast
  qed
qed

lemma bind_assoc: "bind (bind p f) g = bind p (\<lambda>x. bind (f x) g)"
  by (induction p) auto

lemma wrapP_eq: "wrapP msg p k =
    tryP (bind p (\<lambda>r. Ret (case r of Inl e \<Rightarrow> Inl (Wrapf msg e) | Inr x \<Rightarrow> Inr x))) k"
  unfolding wrapP_def tryP_def bind_assoc
  by (rule arg_cong[where f = "bind p"]) (auto split: sum.split)

lemma runs_wrapP [prog_inv]:
  "runs (wrapP msg p k) tr y \<longleftrightarrow>
     (\<exists>e. runs p tr (Inl e) \<and> y = Inl (Wrapf msg e))
   \<or> (\<exists>t1 x t2. runs p t1 (Inr x) \<and> runs (k x) t2 y \<and> tr = t1 @ t2)"
proof -
  have map: "runs (bind p (\<lambda>r. Ret (case r of Inl e \<Rightarrow> Inl (Wrapf msg e) | Inr x \<Rightarrow> Inr x))) t z
    \<longleftrightarrow> (\<exists>e. runs p t (Inl e) \<and> z = Inl (Wrapf msg e)) \<or> (\<exists>x. runs p t (Inr x) \<and> z = Inr x)" for t z
    unfolding runs_bind runs_Ret_iff
    by (auto split: sum.split) (metis sum.exhaust_sel append_Nil2 sum.collapse(1) sum.collapse(2))
  show ?thesis unfolding wrapP_eq runs_tryP map by auto
qed

text \<open>A case distinction on the result of a call.\<close>

lemma runs_bind_sum:
  "runs (bind p (case_sum f g)) tr z \<longleftrightarrow>
     (\<exists>t1 e t2. runs p t1 (Inl e) \<and> runs (f e) t2 z \<and> tr = t1 @ t2)
   \<or> (\<exists>t1 y t2. runs p t1 (Inr y) \<and> runs (g y) t2 z \<and> tr = t1 @ t2)"
proof -
  have "runs (bind p (case_sum f g)) tr z \<longleftrightarrow> (\<exists>x t1 t2. runs p t1 x \<and> runs (case_sum f g x) t2 z \<and> tr = t1 @ t2)"
    unfolding runs_bind by blast
  also have "\<dots> \<longleftrightarrow> (\<exists>e t1 t2. runs p t1 (Inl e) \<and> runs (f e) t2 z \<and> tr = t1 @ t2)
      \<or> (\<exists>y t1 t2. runs p t1 (Inr y) \<and> runs (g y) t2 z \<and> tr = t1 @ t2)"
    by (simp add: split_sum_ex)
  finally show ?thesis by blast
qed

text \<open>A loop over a list that stops at the first error.\<close>

fun forE :: "('a \<Rightarrow> unit result prog) \<Rightarrow> 'a list \<Rightarrow> unit result prog" where
  "forE f [] = Ret (Inr ())"
| "forE f (x # xs) = tryP (f x) (\<lambda>_. forE f xs)"

text \<open>A loop that ends without an error has run its body to the end for every element.\<close>

lemma forE_done:
  assumes "runs (forE f xs) tr (Inr ())" and "x \<in> set xs"
    and "\<And>t. runs (f x) t (Inr ()) \<Longrightarrow> Q x (set t)"
    and "\<And>A B. A \<subseteq> B \<Longrightarrow> Q x A \<Longrightarrow> Q x B"
  shows "Q x (set tr)"
  using assms(1,2)
proof (induction xs arbitrary: tr)
  case (Cons y ys)
  then obtain t1 t2 where "runs (f y) t1 (Inr ())" "runs (forE f ys) t2 (Inr ())" "tr = t1 @ t2"
    by (auto simp: runs_tryP)
  with Cons show ?case using assms(3,4) by (metis Un_upper1 Un_upper2 set_ConsD set_append)
qed simp

subsection \<open>Which requests a program can issue\<close>

text \<open>\<open>calls P p\<close>: whatever the responses, every request of \<open>p\<close> satisfies \<open>P\<close>.\<close>

primrec calls :: "(req \<Rightarrow> bool) \<Rightarrow> 'a prog \<Rightarrow> bool" where
  "calls P (Ret x) = True"
| "calls P (Call q k) = (P q \<and> (\<forall>r. calls P (k r)))"

lemma calls_bind [prog_frame]: "calls P p \<Longrightarrow> (\<And>x. calls P (f x)) \<Longrightarrow> calls P (bind p f)"
  by (induction p) auto

lemma calls_tryP [prog_frame]: "calls P p \<Longrightarrow> (\<And>x. calls P (k x)) \<Longrightarrow> calls P (tryP p k)"
  unfolding tryP_def by (rule calls_bind) (auto split: sum.split)

lemma calls_wrapP [prog_frame]: "calls P p \<Longrightarrow> (\<And>x. calls P (k x)) \<Longrightarrow> calls P (wrapP m p k)"
  unfolding wrapP_def by (rule calls_bind) (auto split: sum.split)

lemma calls_forE [prog_frame]: "(\<And>x. x \<in> set xs \<Longrightarrow> calls P (f x)) \<Longrightarrow> calls P (forE f xs)"
  by (induction xs) (auto intro: calls_tryP)

lemma runs_total: "\<exists>tr x. runs p tr x"
proof (induction p)
  case (Ret x)
  then show ?case by (auto intro: runs_Ret)
next
  case (Call q k)
  then obtain tr x where "runs (k ROk) tr x" by blast
  then show ?case by (blast intro: runs_Call)
qed

lemma calls_iff: "calls P p \<longleftrightarrow> (\<forall>tr x. runs p tr x \<longrightarrow> (\<forall>e \<in> set tr. P (fst e)))"
proof
  assume "calls P p"
  then show "\<forall>tr x. runs p tr x \<longrightarrow> (\<forall>e \<in> set tr. P (fst e))"
  proof (induction p)
    case (Ret x)
    then show ?case by (auto simp: runs_Ret_iff)
  next
    case (Call q k)
    then show ?case by (auto simp: runs_Call_iff) (metis fst_conv rangeI)
  qed
next
  assume "\<forall>tr x. runs p tr x \<longrightarrow> (\<forall>e \<in> set tr. P (fst e))"
  then show "calls P p"
  proof (induction p)
    case (Call q k)
    have "P q" using runs_total[of "Call q k"] Call.prems by (fastforce simp: runs_Call_iff)
    moreover have "calls P (k r)" for r
    proof (rule Call.IH)
      show "\<forall>tr x. runs (k r) tr x \<longrightarrow> (\<forall>e \<in> set tr. P (fst e))"
      proof (intro allI impI ballI)
        fix tr x e assume "runs (k r) tr x" "e \<in> set tr"
        then have "runs (Call q k) ((q, r) # tr) x" by (auto intro: runs_Call)
        with Call.prems \<open>e \<in> set tr\<close> show "P (fst e)" by fastforce
      qed
    qed simp
    ultimately show ?case by simp
  qed simp
qed

lemma calls_weaken: "calls P p \<Longrightarrow> (\<And>q. P q \<Longrightarrow> Q q) \<Longrightarrow> calls Q p"
  by (auto simp: calls_iff)

lemma callsD: "calls P p \<Longrightarrow> runs p tr x \<Longrightarrow> (q, r) \<in> set tr \<Longrightarrow> P q"
  by (fastforce simp: calls_iff)

subsection \<open>Requests justified by what was observed\<close>

text \<open>
  \<open>guarded P h p\<close>: after the history \<open>h\<close>, whatever the responses, every request \<open>q\<close> of \<open>p\<close> satisfies
  \<open>P h' q\<close>, where \<open>h'\<close> is the history up to that request.
\<close>

primrec guarded :: "(trace \<Rightarrow> req \<Rightarrow> bool) \<Rightarrow> 'a prog \<Rightarrow> trace \<Rightarrow> bool" where
  "guarded P (Ret x) h = True"
| "guarded P (Call q k) h = (P h q \<and> (\<forall>r. guarded P (k r) (h @ [(q, r)])))"

lemma guarded_bind [prog_frame]:
  "guarded P p h \<Longrightarrow> (\<And>tr x. runs p tr x \<Longrightarrow> guarded P (f x) (h @ tr)) \<Longrightarrow> guarded P (bind p f) h"
proof (induction p arbitrary: h)
  case (Ret x)
  then show ?case using runs_Ret[of x] by force
next
  case (Call q k)
  have "guarded P (bind (k r) f) (h @ [(q, r)])" for r
  proof (rule Call.IH)
    show "guarded P (k r) (h @ [(q, r)])" using Call.prems(1) by simp
    fix tr x assume "runs (k r) tr x"
    then have "runs (Call q k) ((q, r) # tr) x" by (rule runs_Call)
    from Call.prems(2)[OF this] show "guarded P (f x) ((h @ [(q, r)]) @ tr)" by simp
  qed simp
  with Call.prems(1) show ?case by simp
qed

lemma guarded_tryP [prog_frame]:
  "guarded P p h \<Longrightarrow> (\<And>tr x. runs p tr (Inr x) \<Longrightarrow> guarded P (k x) (h @ tr)) \<Longrightarrow> guarded P (tryP p k) h"
  unfolding tryP_def by (rule guarded_bind) (auto split: sum.split)

lemma guarded_wrapP [prog_frame]:
  "guarded P p h \<Longrightarrow> (\<And>tr x. runs p tr (Inr x) \<Longrightarrow> guarded P (k x) (h @ tr)) \<Longrightarrow> guarded P (wrapP m p k) h"
  unfolding wrapP_def by (rule guarded_bind) (auto split: sum.split)

lemma guarded_forE [prog_frame]:
  "(\<And>x t. x \<in> set xs \<Longrightarrow> guarded P (f x) (h @ t)) \<Longrightarrow> guarded P (forE f xs) h"
proof (induction xs arbitrary: h)
  case (Cons y ys)
  have "guarded P (f y) h" using Cons.prems[of y "[]"] by simp
  moreover have "guarded P (forE f ys) (h @ t)" for t
    by (rule Cons.IH) (use Cons.prems in auto)
  ultimately show ?case by (auto intro: guarded_tryP)
qed simp

lemma guarded_conj: "guarded P p h \<Longrightarrow> guarded Q p h \<Longrightarrow> guarded (\<lambda>h q. P h q \<and> Q h q) p h"
  by (induction p arbitrary: h) auto

lemma guarded_calls [prog_frame]:
  "calls Q p \<Longrightarrow> (\<And>t q. Q q \<Longrightarrow> P (h @ t) q) \<Longrightarrow> guarded P p h"
proof (induction p arbitrary: h)
  case (Call q k)
  have "guarded P (k r) (h @ [(q, r)])" for r
  proof (rule Call.IH)
    show "calls Q (k r)" using Call.prems(1) by simp
    show "P ((h @ [(q, r)]) @ t) q'" if "Q q'" for t q' using Call.prems(2)[OF that, of "(q, r) # t"] by simp
  qed simp
  with Call.prems(1) Call.prems(2)[of q "[]"] show ?case by simp
qed simp

lemma guardedD:
  "runs p tr x \<Longrightarrow> guarded P p h \<Longrightarrow> tr = pre @ (q, r) # post \<Longrightarrow> P (h @ pre) q"
proof (induction arbitrary: h pre rule: runs.induct)
  case (runs_Ret x)
  then show ?case by simp
next
  case (runs_Call k r' tr x q')
  then show ?case by (cases pre) fastforce+
qed

lemma guardedI:
  "(\<And>tr x pre q r post. runs p tr x \<Longrightarrow> tr = pre @ (q, r) # post \<Longrightarrow> P (h @ pre) q) \<Longrightarrow> guarded P p h"
proof (induction p arbitrary: h)
  case (Call q k)
  have "guarded P (k r) (h @ [(q, r)])" for r
  proof (rule Call.IH)
    fix tr x pre q' r' post assume "runs (k r) tr x" and "tr = pre @ (q', r') # post"
    then have "runs (Call q k) ((q, r) # tr) x" and "(q, r) # tr = ((q, r) # pre) @ (q', r') # post"
      by (auto intro: runs_Call)
    from Call.prems[OF this] show "P ((h @ [(q, r)]) @ pre) q'" by simp
  qed simp
  moreover obtain tr x where "runs (k ROk) tr x" using runs_total[of "k ROk"] by blast
  then have "P (h @ []) q" using Call.prems[of "(q, ROk) # tr" x "[]" q ROk tr] by (auto intro: runs_Call)
  ultimately show ?case by simp
qed simp

lemma guardedD_set:
  "guarded P p [] \<Longrightarrow> runs p tr x \<Longrightarrow> (q, r) \<in> set tr \<Longrightarrow> \<exists>pre post. tr = pre @ (q, r) # post \<and> P pre q"
  using guardedD[of p tr x P "[]"] by (metis append_Nil split_list)

subsection \<open>Running against an environment\<close>

primrec run :: "('w \<Rightarrow> req \<Rightarrow> resp \<times> 'w) \<Rightarrow> 'a prog \<Rightarrow> 'w \<Rightarrow> 'a \<times> 'w" where
  "run h (Ret x) w = (x, w)"
| "run h (Call q k) w = (case h w q of (r, w') \<Rightarrow> run h (k r) w')"

lemma run_bind: "run h (bind p f) w = (case run h p w of (x, w') \<Rightarrow> run h (f x) w')"
  by (induction p arbitrary: w) (auto split: prod.split)

lemma run_runs: "\<exists>tr. runs p tr (fst (run h p w))"
proof (induction p arbitrary: w)
  case (Ret x)
  then show ?case by (auto intro: runs_Ret)
next
  case (Call q k)
  obtain r w' where h: "h w q = (r, w')" by (cases "h w q") auto
  obtain tr where "runs (k r) tr (fst (run h (k r) w'))" using Call.IH by blast
  then have "runs (Call q k) ((q, r) # tr) (fst (run h (k r) w'))" by (rule runs_Call)
  with h show ?case by auto
qed

text \<open>\<open>exec\<close> feeds a program a fixed list of responses and records the trace.\<close>

primrec exec :: "'a prog \<Rightarrow> resp list \<Rightarrow> trace \<times> 'a option" where
  "exec (Ret x) rs = ([], Some x)"
| "exec (Call q k) rs = (case rs of [] \<Rightarrow> ([], None)
     | r # rs' \<Rightarrow> (case exec (k r) rs' of (tr, x) \<Rightarrow> ((q, r) # tr, x)))"

lemma exec_runs: "exec p rs = (tr, Some x) \<Longrightarrow> runs p tr x"
proof (induction p arbitrary: rs tr)
  case (Ret y)
  then show ?case by (auto intro: runs_Ret)
next
  case (Call q k)
  then obtain r rs' tr' where "rs = r # rs'" "exec (k r) rs' = (tr', Some x)" "tr = (q, r) # tr'"
    by (auto split: list.splits prod.splits)
  with Call.IH[of "k r"] show ?case by (auto intro: runs_Call)
qed

lemma exec_map:
  "exec (bind p (\<lambda>x. Ret (f x))) rs = (fst (exec p rs), map_option f (snd (exec p rs)))"
  by (induction p arbitrary: rs) (auto split: list.split prod.split)

lemma tryP_map: "tryP p (\<lambda>x. Ret (Inr (g x))) =
    bind p (\<lambda>r. Ret (case r of Inl e \<Rightarrow> Inl e | Inr x \<Rightarrow> Inr (g x)))"
  unfolding tryP_def by (rule arg_cong[where f = "bind p"]) (auto split: sum.split)

section \<open>The client interface\<close>

definition badResponse :: gerr where
  "badResponse = ApiErr ReasonOther ''unexpected response type''"

definition asObj :: "(kobj \<Rightarrow> 'a option) \<Rightarrow> resp \<Rightarrow> 'a result" where
  "asObj proj r = (case r of
     RErr e \<Rightarrow> Inl e
   | RObj ob \<Rightarrow> (case proj ob of Some x \<Rightarrow> Inr x | None \<Rightarrow> Inl badResponse)
   | _ \<Rightarrow> Inl badResponse)"

definition asList :: "(kobj \<Rightarrow> 'a option) \<Rightarrow> resp \<Rightarrow> 'a list result" where
  "asList proj r = (case r of
     RErr e \<Rightarrow> Inl e
   | RList obs \<Rightarrow> Inr (List.map_filter proj obs)
   | _ \<Rightarrow> Inl badResponse)"

definition asUnit :: "resp \<Rightarrow> unit result" where
  "asUnit r = (case r of RErr e \<Rightarrow> Inl e | _ \<Rightarrow> Inr ())"

definition asStr :: "resp \<Rightarrow> string result" where
  "asStr r = (case r of RErr e \<Rightarrow> Inl e | RStr s \<Rightarrow> Inr s | _ \<Rightarrow> Inl badResponse)"

definition asInt :: "resp \<Rightarrow> int result" where
  "asInt r = (case r of RErr e \<Rightarrow> Inl e | RInt i \<Rightarrow> Inr i | _ \<Rightarrow> Inl badResponse)"

definition ask :: "req \<Rightarrow> (resp \<Rightarrow> 'a) \<Rightarrow> 'a prog" where
  "ask q dec = Call q (\<lambda>r. Ret (dec r))"

lemma runs_ask [prog_inv]: "runs (ask q dec) tr y \<longleftrightarrow> (\<exists>r. tr = [(q, r)] \<and> dec r = y)"
  by (auto simp: ask_def runs_Call_iff runs_Ret_iff)

lemma calls_ask [simp, prog_frame]: "calls P (ask q dec) \<longleftrightarrow> P q"
  by (simp add: ask_def)

lemma guarded_ask [simp, prog_frame]: "guarded P (ask q dec) h \<longleftrightarrow> P h q"
  by (simp add: ask_def)

text \<open>
  \<^verbatim>\<open>client.Get\<close>, \<^verbatim>\<open>List\<close>, \<^verbatim>\<open>Create\<close>, \<^verbatim>\<open>Update\<close>, \<^verbatim>\<open>Status().Update\<close>, \<^verbatim>\<open>Delete\<close>. A successful write returns
  the object as the server stored it, which is what the Go client leaves in the argument. The
  clock never fails.
\<close>

definition getP :: "reader \<Rightarrow> kind \<Rightarrow> (kobj \<Rightarrow> 'a option) \<Rightarrow> string \<Rightarrow> string \<Rightarrow> 'a result prog" where
  "getP rd k proj ns name = ask (ReqGet rd k (ns, name)) (asObj proj)"

definition listP :: "reader \<Rightarrow> kind \<Rightarrow> (kobj \<Rightarrow> 'a option) \<Rightarrow> string option \<Rightarrow> strmap \<Rightarrow> 'a list result prog" where
  "listP rd k proj ns sel = ask (ReqList rd k ns sel) (asList proj)"

definition createP :: "(kobj \<Rightarrow> 'a option) \<Rightarrow> kobj \<Rightarrow> 'a result prog" where
  "createP proj ob = ask (ReqCreate ob) (asObj proj)"

definition updateP :: "(kobj \<Rightarrow> 'a option) \<Rightarrow> kobj \<Rightarrow> 'a result prog" where
  "updateP proj ob = ask (ReqUpdate ob) (asObj proj)"

definition statusUpdateP :: "(kobj \<Rightarrow> 'a option) \<Rightarrow> kobj \<Rightarrow> 'a result prog" where
  "statusUpdateP proj ob = ask (ReqStatusUpdate ob) (asObj proj)"

definition deleteP :: "kobj \<Rightarrow> delopt list \<Rightarrow> unit result prog" where
  "deleteP ob opts = ask (ReqDelete ob opts) asUnit"

definition eventP :: "string \<Rightarrow> string \<Rightarrow> string \<Rightarrow> unit prog" where
  "eventP ty reason msg = ask (ReqEvent ty reason msg) (\<lambda>_. ())"

definition nowP :: "int prog" where
  "nowP = ask ReqNow (\<lambda>r. case r of RInt t \<Rightarrow> t | _ \<Rightarrow> 0)"

lemmas client_defs = getP_def listP_def createP_def updateP_def statusUpdateP_def deleteP_def
  eventP_def nowP_def

lemma runs_client [prog_inv]:
  "runs (getP rd k proj ns name) tr y \<longleftrightarrow> (\<exists>r. tr = [(ReqGet rd k (ns, name), r)] \<and> asObj proj r = y)"
  "runs (listP rd k proj sc sel) tr ys \<longleftrightarrow> (\<exists>r. tr = [(ReqList rd k sc sel, r)] \<and> asList proj r = ys)"
  "runs (createP proj ob) tr y \<longleftrightarrow> (\<exists>r. tr = [(ReqCreate ob, r)] \<and> asObj proj r = y)"
  "runs (updateP proj ob) tr y \<longleftrightarrow> (\<exists>r. tr = [(ReqUpdate ob, r)] \<and> asObj proj r = y)"
  "runs (statusUpdateP proj ob) tr y \<longleftrightarrow> (\<exists>r. tr = [(ReqStatusUpdate ob, r)] \<and> asObj proj r = y)"
  "runs (deleteP ob opts) tr u \<longleftrightarrow> (\<exists>r. tr = [(ReqDelete ob opts, r)] \<and> asUnit r = u)"
  by (simp_all add: client_defs runs_ask)

lemma calls_client [simp, prog_frame]:
  "calls P (getP rd k proj ns name) \<longleftrightarrow> P (ReqGet rd k (ns, name))"
  "calls P (listP rd k proj sc sel) \<longleftrightarrow> P (ReqList rd k sc sel)"
  "calls P (createP proj ob) \<longleftrightarrow> P (ReqCreate ob)"
  "calls P (updateP proj ob) \<longleftrightarrow> P (ReqUpdate ob)"
  "calls P (statusUpdateP proj ob) \<longleftrightarrow> P (ReqStatusUpdate ob)"
  "calls P (deleteP ob opts) \<longleftrightarrow> P (ReqDelete ob opts)"
  "calls P (eventP t e m) \<longleftrightarrow> P (ReqEvent t e m)"
  "calls P nowP \<longleftrightarrow> P ReqNow"
  by (simp_all add: client_defs)

lemma guarded_client [simp, prog_frame]:
  "guarded Q (getP rd k proj ns name) h \<longleftrightarrow> Q h (ReqGet rd k (ns, name))"
  "guarded Q (listP rd k proj sc sel) h \<longleftrightarrow> Q h (ReqList rd k sc sel)"
  "guarded Q (createP proj ob) h \<longleftrightarrow> Q h (ReqCreate ob)"
  "guarded Q (updateP proj ob) h \<longleftrightarrow> Q h (ReqUpdate ob)"
  "guarded Q (statusUpdateP proj ob) h \<longleftrightarrow> Q h (ReqStatusUpdate ob)"
  "guarded Q (deleteP ob opts) h \<longleftrightarrow> Q h (ReqDelete ob opts)"
  "guarded Q (eventP t e m) h \<longleftrightarrow> Q h (ReqEvent t e m)"
  "guarded Q nowP h \<longleftrightarrow> Q h ReqNow"
  by (simp_all add: client_defs)

text \<open>\<^verbatim>\<open>err != nil && !errors.IsNotFound(err)\<close> after a delete: a missing object is no failure.\<close>

definition ignoreNotFound :: "unit result \<Rightarrow> unit result" where
  "ignoreNotFound r = (case r of Inl e \<Rightarrow> if isNotFound e then Inr () else Inl e | Inr u \<Rightarrow> Inr u)"

text \<open>A deletion is confirmed when the server accepted it or reports the object as gone.\<close>

definition confirmed :: "resp \<Rightarrow> bool" where
  "confirmed r \<longleftrightarrow> ignoreNotFound (asUnit r) = Inr ()"

definition mapP :: "('a \<Rightarrow> 'b) \<Rightarrow> 'a prog \<Rightarrow> 'b prog" where
  "mapP f p = bind p (\<lambda>x. Ret (f x))"

lemma runs_mapP [prog_inv]: "runs (mapP f p) tr y \<longleftrightarrow> (\<exists>x. runs p tr x \<and> f x = y)"
  by (auto simp: mapP_def runs_bind runs_Ret_iff)

lemma calls_mapP [prog_frame]: "calls P p \<Longrightarrow> calls P (mapP f p)"
  by (auto simp: mapP_def intro: calls_bind)

lemma guarded_mapP [simp, prog_frame]: "guarded P (mapP f p) h \<longleftrightarrow> guarded P p h"
proof
  assume "guarded P (mapP f p) h"
  then show "guarded P p h" unfolding mapP_def
    by (induction p arbitrary: h) auto
qed (auto simp: mapP_def intro: guarded_bind)

subsection \<open>Projections\<close>

definition toWorkspace :: "kobj \<Rightarrow> workspace option" where
  "toWorkspace ob = (case ob of OWorkspace x \<Rightarrow> Some x | _ \<Rightarrow> None)"
definition toUser :: "kobj \<Rightarrow> user option" where
  "toUser ob = (case ob of OUser x \<Rightarrow> Some x | _ \<Rightarrow> None)"
definition toAuthConfig :: "kobj \<Rightarrow> authConfig option" where
  "toAuthConfig ob = (case ob of OAuthConfig x \<Rightarrow> Some x | _ \<Rightarrow> None)"
definition toImage :: "kobj \<Rightarrow> image option" where
  "toImage ob = (case ob of OImage x \<Rightarrow> Some x | _ \<Rightarrow> None)"
definition toImageRepository :: "kobj \<Rightarrow> imageRepository option" where
  "toImageRepository ob = (case ob of OImageRepository x \<Rightarrow> Some x | _ \<Rightarrow> None)"
definition toSshKey :: "kobj \<Rightarrow> sshKey option" where
  "toSshKey ob = (case ob of OSshKey x \<Rightarrow> Some x | _ \<Rightarrow> None)"
definition toStatefulSet :: "kobj \<Rightarrow> workload option" where
  "toStatefulSet ob = (case ob of OStatefulSet x \<Rightarrow> Some x | _ \<Rightarrow> None)"
definition toDeployment :: "kobj \<Rightarrow> workload option" where
  "toDeployment ob = (case ob of ODeployment x \<Rightarrow> Some x | _ \<Rightarrow> None)"
definition toService :: "kobj \<Rightarrow> service option" where
  "toService ob = (case ob of OService x \<Rightarrow> Some x | _ \<Rightarrow> None)"
definition toSecret :: "kobj \<Rightarrow> secret option" where
  "toSecret ob = (case ob of OSecret x \<Rightarrow> Some x | _ \<Rightarrow> None)"
definition toConfigMap :: "kobj \<Rightarrow> configMap option" where
  "toConfigMap ob = (case ob of OConfigMap x \<Rightarrow> Some x | _ \<Rightarrow> None)"
definition toPod :: "kobj \<Rightarrow> pod option" where
  "toPod ob = (case ob of OPod x \<Rightarrow> Some x | _ \<Rightarrow> None)"
definition toNamespace :: "kobj \<Rightarrow> namespace option" where
  "toNamespace ob = (case ob of ONamespace x \<Rightarrow> Some x | _ \<Rightarrow> None)"
definition toRoleBinding :: "kobj \<Rightarrow> roleBinding option" where
  "toRoleBinding ob = (case ob of ORoleBinding x \<Rightarrow> Some x | _ \<Rightarrow> None)"
definition toResourceQuota :: "kobj \<Rightarrow> resourceQuota option" where
  "toResourceQuota ob = (case ob of OResourceQuota x \<Rightarrow> Some x | _ \<Rightarrow> None)"
definition toPlatformConfig :: "kobj \<Rightarrow> platformConfig option" where
  "toPlatformConfig ob = (case ob of OPlatformConfig x \<Rightarrow> Some x | _ \<Rightarrow> None)"
definition toNode :: "kobj \<Rightarrow> node option" where
  "toNode ob = (case ob of ONode x \<Rightarrow> Some x | _ \<Rightarrow> None)"
definition toStorageClass :: "kobj \<Rightarrow> storageClass option" where
  "toStorageClass ob = (case ob of OStorageClass x \<Rightarrow> Some x | _ \<Rightarrow> None)"
definition toUnstructured :: "kobj \<Rightarrow> unstructured option" where
  "toUnstructured ob = (case ob of OUnstructured x \<Rightarrow> Some x | _ \<Rightarrow> None)"

lemma asObj_Inr [prog_inv]: "asObj proj r = Inr x \<longleftrightarrow> (\<exists>ob. r = RObj ob \<and> proj ob = Some x)"
  by (auto simp: asObj_def split: resp.splits option.splits)

lemma asList_Inr [prog_inv]: "asList proj r = Inr xs \<longleftrightarrow> (\<exists>obs. r = RList obs \<and> xs = List.map_filter proj obs)"
  by (auto simp: asList_def split: resp.splits)

lemma asInt_Inr [prog_inv]: "asInt r = Inr i \<longleftrightarrow> r = RInt i"
  by (auto simp: asInt_def split: resp.splits)

lemma asStr_Inr [prog_inv]: "asStr r = Inr s \<longleftrightarrow> r = RStr s"
  by (auto simp: asStr_def split: resp.splits)

lemma asUnit_cases: "asUnit r = Inl e \<longleftrightarrow> r = RErr e"
  by (auto simp: asUnit_def split: resp.splits)

lemma proj_Some [simp]:
  "toWorkspace ob = Some w \<longleftrightarrow> ob = OWorkspace w"
  "toUser ob = Some u \<longleftrightarrow> ob = OUser u"
  "toAuthConfig ob = Some a \<longleftrightarrow> ob = OAuthConfig a"
  "toImage ob = Some i \<longleftrightarrow> ob = OImage i"
  "toImageRepository ob = Some ir \<longleftrightarrow> ob = OImageRepository ir"
  "toSshKey ob = Some k \<longleftrightarrow> ob = OSshKey k"
  "toStatefulSet ob = Some wl \<longleftrightarrow> ob = OStatefulSet wl"
  "toDeployment ob = Some wl \<longleftrightarrow> ob = ODeployment wl"
  "toService ob = Some sv \<longleftrightarrow> ob = OService sv"
  "toSecret ob = Some s \<longleftrightarrow> ob = OSecret s"
  "toConfigMap ob = Some cm \<longleftrightarrow> ob = OConfigMap cm"
  "toPod ob = Some p \<longleftrightarrow> ob = OPod p"
  "toNamespace ob = Some n \<longleftrightarrow> ob = ONamespace n"
  "toRoleBinding ob = Some rb \<longleftrightarrow> ob = ORoleBinding rb"
  "toResourceQuota ob = Some rq \<longleftrightarrow> ob = OResourceQuota rq"
  "toPlatformConfig ob = Some pc \<longleftrightarrow> ob = OPlatformConfig pc"
  "toNode ob = Some nd \<longleftrightarrow> ob = ONode nd"
  "toStorageClass ob = Some sc \<longleftrightarrow> ob = OStorageClass sc"
  "toUnstructured ob = Some un \<longleftrightarrow> ob = OUnstructured un"
  by (auto simp: toWorkspace_def toUser_def toAuthConfig_def toImage_def toImageRepository_def
  toSshKey_def toStatefulSet_def toDeployment_def toService_def toSecret_def toConfigMap_def
  toPod_def toNamespace_def toRoleBinding_def toResourceQuota_def toPlatformConfig_def toNode_def toStorageClass_def toUnstructured_def split: kobj.splits)

lemmas proj_defs = toWorkspace_def toUser_def toAuthConfig_def toImage_def toImageRepository_def
  toSshKey_def toStatefulSet_def toDeployment_def toService_def toSecret_def toConfigMap_def
  toPod_def toNamespace_def toRoleBinding_def toResourceQuota_def toPlatformConfig_def toNode_def toStorageClass_def toUnstructured_def

lemma proj_same [simp]:
  "toWorkspace (OWorkspace x0) = Some x0"
  "toUser (OUser x1) = Some x1"
  "toAuthConfig (OAuthConfig x2) = Some x2"
  "toImage (OImage x3) = Some x3"
  "toImageRepository (OImageRepository x4) = Some x4"
  "toSshKey (OSshKey x5) = Some x5"
  "toStatefulSet (OStatefulSet x6) = Some x6"
  "toDeployment (ODeployment x7) = Some x7"
  "toService (OService x8) = Some x8"
  "toSecret (OSecret x9) = Some x9"
  "toConfigMap (OConfigMap x10) = Some x10"
  "toPod (OPod x11) = Some x11"
  "toNamespace (ONamespace x12) = Some x12"
  "toRoleBinding (ORoleBinding x13) = Some x13"
  "toResourceQuota (OResourceQuota x14) = Some x14"
  "toPlatformConfig (OPlatformConfig x16) = Some x16"
  "toNode (ONode x17) = Some x17"
  "toStorageClass (OStorageClass x18) = Some x18"
  "toUnstructured (OUnstructured x15) = Some x15"
  by (simp_all add: proj_defs)

lemma asObj_simps [simp]:
  "asObj proj (RErr e) = Inl e"
  "asObj proj (RObj ob) = (case proj ob of Some x \<Rightarrow> Inr x | None \<Rightarrow> Inl badResponse)"
  "asObj proj ROk = Inl badResponse"
  by (simp_all add: asObj_def)

lemma asUnit_simps [simp]:
  "asUnit (RErr e) = Inl e" "asUnit ROk = Inr ()" "asUnit (RObj ob) = Inr ()"
  by (simp_all add: asUnit_def)

lemma asUnit_Inr [prog_inv]: "asUnit r = Inr u \<longleftrightarrow> (\<forall>e. r \<noteq> RErr e)"
  by (simp add: asUnit_def split: resp.split)

lemma confirmed_iff: "confirmed r \<longleftrightarrow> (\<forall>e. r = RErr e \<longrightarrow> isNotFound e)"
  by (auto simp: confirmed_def ignoreNotFound_def asUnit_def split: resp.splits)

lemma ignoreNotFound_Inr [prog_inv]: "ignoreNotFound (asUnit x) = Inr u \<longleftrightarrow> confirmed x"
  by (simp add: confirmed_def)

lemma asObj_notFound [prog_inv]: "isNotFound e \<Longrightarrow> asObj proj r = Inl e \<longleftrightarrow> r = RErr e"
  by (auto simp: asObj_def badResponse_def split: resp.splits option.splits)

text \<open>Requests that change the cluster.\<close>

definition isWrite :: "req \<Rightarrow> bool" where
  "isWrite q \<longleftrightarrow> (case q of ReqCreate ob \<Rightarrow> True | ReqUpdate ob \<Rightarrow> True | ReqStatusUpdate ob \<Rightarrow> True
     | ReqDelete ob opts \<Rightarrow> True | _ \<Rightarrow> False)"

lemma isWrite_simps [simp]:
  "isWrite (ReqCreate ob)" "isWrite (ReqUpdate ob)" "isWrite (ReqStatusUpdate ob)" "isWrite (ReqDelete ob opts)"
  "\<not> isWrite (ReqGet rd k key)" "\<not> isWrite (ReqList rd k sc sel)" "\<not> isWrite (ReqEvent a b c)" "\<not> isWrite ReqNow"
  "\<not> isWrite (ReqRandInt n)" "\<not> isWrite (ReqBcrypt p n)" "\<not> isWrite (ReqHTTPGet u)" "\<not> isWrite ReqUUID" "\<not> isWrite (ReqRandBytes n)"
  "\<not> isWrite ReqMkdirTemp" "\<not> isWrite (ReqRemoveAll p)" "\<not> isWrite (ReqGitClone u d au p)" "\<not> isWrite (ReqGitResolve p)"
  "\<not> isWrite ReqGitWorktree" "\<not> isWrite (ReqGitCheckout p)" "\<not> isWrite ReqGitHead" "\<not> isWrite (ReqEvalSymlinks p)"
  "\<not> isWrite (ReqReadDir p)" "\<not> isWrite (ReqReadFile p)" "\<not> isWrite (ReqJitter i)"
  "\<not> isWrite (ReqGuestComplete a b c p)" "\<not> isWrite (ReqGuestStage a b c p)"
  "\<not> isWrite (ReqGuestDial a b)" "\<not> isWrite (ReqGuestExec a b cmd)" "\<not> isWrite (ReqPause i)"
  by (simp_all add: isWrite_def)

abbreviation noDelete :: "req \<Rightarrow> bool" where "noDelete q \<equiv> \<forall>ob opts. q \<noteq> ReqDelete ob opts"

lemma no_deletes: "calls noDelete p \<Longrightarrow> runs p t y \<Longrightarrow> (ReqDelete ob opts, x) \<notin> set t"
  using callsD by fastforce

lemma no_writes: "calls (\<lambda>q. \<not> isWrite q) p \<Longrightarrow> runs p t y \<Longrightarrow> isWrite q \<Longrightarrow> (q, x) \<notin> set t"
  using callsD by fastforce

lemma map_filter_mem: "x \<in> set (List.map_filter f xs) \<longleftrightarrow> (\<exists>y \<in> set xs. f y = Some x)"
  by (force simp: List.map_filter_def image_iff)

end
