(* ===== verification/Library.thy ===== *)
theory Library
  imports Client
begin

text \<open>
  The third-party Go functions that the controller calls, as the fields of a record \<open>lib\<close> that
  every definition using one of them takes as an argument. Nothing is assumed of them in the
  definitions. Where a theorem relies on one, the documented behaviour is a hypothesis named
  \<open>..._doc\<close>; \<open>ref_lib\<close> is a concrete library that meets them all, for the witnesses.
\<close>

text \<open>\<^verbatim>\<open>managementBootstrapDocument\<close> of vm_management_bootstrap.go, and the parts of a \<^verbatim>\<open>url.URL\<close> that are read.\<close>

record bootstrapDocument =
  bd_version :: int
  bd_token :: string
  bd_namespace :: string
  bd_workspaceName :: string
  bd_workspaceUID :: string
  bd_generation :: string
  bd_revocationEpoch :: "64 word"
  bd_expiresAt :: "int option"

record url =
  url_scheme :: string
  url_hostname :: string
  url_hasUser :: bool
  url_fragment :: string

record lib =
  l_createOrUpdate :: "kobj \<Rightarrow> (kobj \<Rightarrow> kobj result) \<Rightarrow> unit result prog"
    \<comment> \<open>controllerutil.CreateOrUpdate\<close>
  l_retryOnConflict :: "unit result prog \<Rightarrow> unit result prog"  \<comment> \<open>retry.RetryOnConflict, default backoff\<close>
  l_retryOnError :: "(gerr \<Rightarrow> bool) \<Rightarrow> unit result prog \<Rightarrow> unit result prog"  \<comment> \<open>retry.OnError\<close>
  l_setStatusCondition :: "int \<Rightarrow> condition list \<Rightarrow> condition \<Rightarrow> condition list"
    \<comment> \<open>meta.SetStatusCondition at a given time\<close>
  l_removeStatusCondition :: "condition list \<Rightarrow> string \<Rightarrow> condition list"
  l_isStatusConditionTrue :: "condition list \<Rightarrow> string \<Rightarrow> bool"
  l_parseQuantity :: "string \<Rightarrow> quantity result"  \<comment> \<open>resource.ParseQuantity\<close>
  l_bcryptCost :: "string \<Rightarrow> nat result"  \<comment> \<open>bcrypt.Cost\<close>
  l_isControlledBy :: "ometa \<Rightarrow> ometa \<Rightarrow> bool"  \<comment> \<open>metav1.IsControlledBy(object, owner)\<close>
  l_controllerRef :: "ometa \<Rightarrow> string \<Rightarrow> string \<Rightarrow> ownerRef"
    \<comment> \<open>metav1.NewControllerRef(owner, apiVersion, kind)\<close>
  l_setControllerReference :: "ometa \<Rightarrow> ometa \<Rightarrow> ometa result"
    \<comment> \<open>ctrl.SetControllerReference(owner, object)\<close>
  l_sha256 :: "string \<Rightarrow> string"  \<comment> \<open>sha256.Sum256\<close>
  l_marshalTemplate :: "podTemplate \<Rightarrow> string"  \<comment> \<open>json.Marshal of a pod template\<close>
  l_templateDerivative :: "podTemplate \<Rightarrow> podTemplate \<Rightarrow> bool"
    \<comment> \<open>equality.Semantic.DeepDerivative on pod templates\<close>
  l_yamlToJSON :: "string \<Rightarrow> string result"
  l_unmarshalObject :: "string \<Rightarrow> unstructured result"  \<comment> \<open>Unstructured.UnmarshalJSON\<close>
  l_objectEqual :: "unstructured \<Rightarrow> unstructured \<Rightarrow> bool"  \<comment> \<open>equality.Semantic.DeepEqual\<close>
  l_isDNS1123Label :: "string \<Rightarrow> bool"  \<comment> \<open>validation.IsDNS1123Label reports no error\<close>
  l_isDNS1123Subdomain :: "string \<Rightarrow> bool"
  l_isQualifiedName :: "string \<Rightarrow> bool"
  l_isValidLabelValue :: "string \<Rightarrow> bool"
  l_getControllerOf :: "ometa \<Rightarrow> ownerRef option"  \<comment> \<open>metav1.GetControllerOf\<close>
  l_derivative :: "json \<Rightarrow> json \<Rightarrow> bool"  \<comment> \<open>equality.Semantic.DeepDerivative on untyped values\<close>
  l_yamlUnmarshal :: "string \<Rightarrow> jobj option result"
    \<comment> \<open>yaml.Unmarshal into a map; \<open>None\<close> is the nil map, which a null document yields\<close>
  l_yamlMarshal :: "json \<Rightarrow> string result"
  l_quantityString :: "quantity \<Rightarrow> string"  \<comment> \<open>Quantity.String\<close>
  l_quantityValue :: "quantity \<Rightarrow> int"  \<comment> \<open>Quantity.Value\<close>
  l_quantityAdd :: "quantity \<Rightarrow> quantity \<Rightarrow> quantity"  \<comment> \<open>Quantity.Add\<close>
  l_jsonStrings :: "strmap \<Rightarrow> string result"  \<comment> \<open>json.Marshal of a string map\<close>
  l_jsonMarshal :: "json \<Rightarrow> string result"  \<comment> \<open>json.Marshal of an untyped value\<close>
  l_jsonUnmarshal :: "string \<Rightarrow> json result"  \<comment> \<open>json.Unmarshal into an untyped value, members in the order of the text\<close>
  l_parseDiagnostic :: "string \<Rightarrow> (string \<times> int \<times> string \<times> string) result"
    \<comment> \<open>json.Unmarshal of a container-init diagnostic: source, version, state, step\<close>
  l_encodeBootstrap :: "bootstrapDocument \<Rightarrow> string result"  \<comment> \<open>json.Marshal\<close>
  l_decodeBootstrap :: "string \<Rightarrow> bootstrapDocument result"
    \<comment> \<open>json.Decoder with DisallowUnknownFields, one value up to the end of the input\<close>
  l_parseSelector :: "string \<Rightarrow> strmap result"  \<comment> \<open>labels.Parse of an equality selector\<close>
  l_urlParse :: "string \<Rightarrow> url result"  \<comment> \<open>url.Parse\<close>

section \<open>Documented behaviour\<close>

text \<open>
  \<^verbatim>\<open>CreateOrUpdate\<close> gets the object; when it is absent it applies the callback to the given object
  and creates the result, otherwise it applies the callback to the stored object and updates it
  when that changed anything. The callback may not change the object's name or namespace.
\<close>

inductive cou_trace :: "kobj \<Rightarrow> (kobj \<Rightarrow> kobj result) \<Rightarrow> trace \<Rightarrow> unit result \<Rightarrow> bool"
  for ob :: kobj and f :: "kobj \<Rightarrow> kobj result"
where
  get_failed: "asObj Some g = Inl e \<Longrightarrow> \<not> isNotFound e \<Longrightarrow>
    cou_trace ob f [(ReqGet Cached (kindOf ob) (keyOf ob), g)] (Inl e)"
| create_refused: "asObj Some g = Inl e \<Longrightarrow> isNotFound e \<Longrightarrow> f ob = Inl e' \<Longrightarrow>
    cou_trace ob f [(ReqGet Cached (kindOf ob) (keyOf ob), g)] (Inl e')"
| create_moved: "asObj Some g = Inl e \<Longrightarrow> isNotFound e \<Longrightarrow> f ob = Inr ob' \<Longrightarrow> keyOf ob' \<noteq> keyOf ob \<Longrightarrow>
    cou_trace ob f [(ReqGet Cached (kindOf ob) (keyOf ob), g)] (Inl e')"
| created: "asObj Some g = Inl e \<Longrightarrow> isNotFound e \<Longrightarrow> f ob = Inr ob' \<Longrightarrow> keyOf ob' = keyOf ob \<Longrightarrow>
    cou_trace ob f [(ReqGet Cached (kindOf ob) (keyOf ob), g), (ReqCreate ob', r)] (asUnit r)"
| update_refused: "f cur = Inl e' \<Longrightarrow>
    cou_trace ob f [(ReqGet Cached (kindOf ob) (keyOf ob), RObj cur)] (Inl e')"
| update_moved: "f cur = Inr ob' \<Longrightarrow> keyOf ob' \<noteq> keyOf cur \<Longrightarrow>
    cou_trace ob f [(ReqGet Cached (kindOf ob) (keyOf ob), RObj cur)] (Inl e')"
| unchanged: "f cur = Inr cur \<Longrightarrow>
    cou_trace ob f [(ReqGet Cached (kindOf ob) (keyOf ob), RObj cur)] (Inr ())"
| updated: "f cur = Inr ob' \<Longrightarrow> keyOf ob' = keyOf cur \<Longrightarrow>
    cou_trace ob f [(ReqGet Cached (kindOf ob) (keyOf ob), RObj cur), (ReqUpdate ob', r)] (asUnit r)"

definition createOrUpdate_doc :: "lib \<Rightarrow> bool" where
  "createOrUpdate_doc L \<longleftrightarrow>
     (\<forall>ob f tr r. runs (l_createOrUpdate L ob f) tr r \<longrightarrow> cou_trace ob f tr r)"

text \<open>
  \<^verbatim>\<open>RetryOnConflict\<close> repeats its argument while it fails with a conflict and returns the last result.
\<close>

inductive retry_trace :: "(gerr \<Rightarrow> bool) \<Rightarrow> unit result prog \<Rightarrow> trace \<Rightarrow> unit result \<Rightarrow> bool"
  for retriable :: "gerr \<Rightarrow> bool" and p :: "unit result prog"
where
  last_attempt: "runs p tr r \<Longrightarrow> retry_trace retriable p tr r"
| another_attempt: "runs p tr (Inl e) \<Longrightarrow> retriable e \<Longrightarrow> retry_trace retriable p tr' r \<Longrightarrow>
    retry_trace retriable p (tr @ tr') r"

definition retryOnConflict_doc :: "lib \<Rightarrow> bool" where
  "retryOnConflict_doc L \<longleftrightarrow>
     (\<forall>p tr r. runs (l_retryOnConflict L p) tr r \<longrightarrow> retry_trace isConflict p tr r)"

definition retryOnError_doc :: "lib \<Rightarrow> bool" where
  "retryOnError_doc L \<longleftrightarrow>
     (\<forall>f p tr r. runs (l_retryOnError L f p) tr r \<longrightarrow> retry_trace f p tr r)"

text \<open>A request of a retried program is a request of one of its attempts.\<close>

lemma retry_trace_attempt:
  "retry_trace f p tr r \<Longrightarrow> x \<in> set tr \<Longrightarrow> \<exists>t y. runs p t y \<and> x \<in> set t \<and> set t \<subseteq> set tr"
proof (induction rule: retry_trace.induct)
  case (last_attempt tr r)
  then show ?case by blast
next
  case (another_attempt tr e tr' r)
  then show ?case by (auto; blast)
qed

text \<open>The attempt is a stretch of the trace: what lies before a request within it happened in the same attempt.\<close>

lemma retry_trace_segment:
  "retry_trace f p tr r \<Longrightarrow> (q, x) \<in> set tr \<Longrightarrow> \<exists>l pre post l' y. tr = l @ pre @ (q, x) # post @ l' \<and> runs p (pre @ (q, x) # post) y"
proof (induction rule: retry_trace.induct)
  case (last_attempt tr r)
  then show ?case by (metis append_Nil append_Nil2 split_list)
next
  case (another_attempt tr e tr' r)
  from another_attempt.prems consider "(q, x) \<in> set tr" | "(q, x) \<in> set tr'" by auto
  then show ?case
  proof cases
    case 1
    then obtain pre post where "tr = pre @ (q, x) # post" by (meson split_list)
    with another_attempt.hyps(1) show ?thesis by (intro exI[of _ "[]"] exI[of _ pre] exI[of _ post] exI[of _ tr'] exI[of _ "Inl e"]) simp
  next
    case 2
    with another_attempt.IH obtain l pre post l' y where "tr' = l @ pre @ (q, x) # post @ l'" "runs p (pre @ (q, x) # post) y" by blast
    then show ?thesis by (intro exI[of _ "tr @ l"] exI[of _ pre] exI[of _ post] exI[of _ l'] exI[of _ y]) simp
  qed
qed

lemma retry_trace_result: "retry_trace f p tr r \<Longrightarrow> \<exists>t. runs p t r \<and> set t \<subseteq> set tr"
  by (induction rule: retry_trace.induct) auto

lemma calls_retryOnError [prog_frame]:
  "retryOnError_doc L \<Longrightarrow> calls P p \<Longrightarrow> calls P (l_retryOnError L f p)"
  unfolding retryOnError_doc_def calls_iff by (meson retry_trace_attempt)

lemma calls_retryOnConflict [prog_frame]:
  "retryOnConflict_doc L \<Longrightarrow> calls P p \<Longrightarrow> calls P (l_retryOnConflict L p)"
  unfolding retryOnConflict_doc_def calls_iff by (meson retry_trace_attempt)

text \<open>
  \<^verbatim>\<open>SetStatusCondition\<close> replaces the condition of the same type or appends it; the transition time of
  an existing condition is kept while its status stays the same.
\<close>

definition findCondition :: "condition list \<Rightarrow> string \<Rightarrow> condition option" where
  "findCondition cs t = find (\<lambda>c. c_type c = t) cs"

definition sameVerdict :: "condition \<Rightarrow> condition \<Rightarrow> bool" where
  "sameVerdict c d \<longleftrightarrow> c_type c = c_type d \<and> c_status c = c_status d \<and> c_reason c = c_reason d
     \<and> c_message c = c_message d \<and> c_observedGeneration c = c_observedGeneration d"

definition setStatusCondition_doc :: "lib \<Rightarrow> bool" where
  "setStatusCondition_doc L \<longleftrightarrow> (\<forall>now cs c.
     (\<exists>d. findCondition (l_setStatusCondition L now cs c) (c_type c) = Some d \<and> sameVerdict d c
        \<and> (\<forall>old. findCondition cs (c_type c) = Some old \<longrightarrow> c_status old = c_status c \<longrightarrow> c_ltt d = c_ltt old))
   \<and> (\<forall>t. t \<noteq> c_type c \<longrightarrow>
        findCondition (l_setStatusCondition L now cs c) t = findCondition cs t))"

definition removeStatusCondition_doc :: "lib \<Rightarrow> bool" where
  "removeStatusCondition_doc L \<longleftrightarrow> (\<forall>cs t u.
     findCondition (l_removeStatusCondition L cs t) u = (if u = t then None else findCondition cs u))"

definition sha256_doc :: "lib \<Rightarrow> bool" where
  "sha256_doc L \<longleftrightarrow> (\<forall>s. length (l_sha256 L s) = 32)"

lemma calls_createOrUpdate [prog_frame]:
  assumes "createOrUpdate_doc L" and "P (ReqGet Cached (kindOf ob) (keyOf ob))"
    and "\<And>ob'. f ob = Inr ob' \<Longrightarrow> keyOf ob' = keyOf ob \<Longrightarrow> P (ReqCreate ob')"
    and "\<And>cur ob'. f cur = Inr ob' \<Longrightarrow> P (ReqUpdate ob')"
  shows "calls P (l_createOrUpdate L ob f)"
  unfolding calls_iff
proof (intro allI impI ballI)
  fix tr r e assume "runs (l_createOrUpdate L ob f) tr r" and e: "e \<in> set tr"
  then have "cou_trace ob f tr r" using assms(1) by (simp add: createOrUpdate_doc_def)
  then show "P (fst e)" using e assms(2-4) by cases auto
qed

lemma guarded_createOrUpdate [prog_frame]:
  assumes "createOrUpdate_doc L" and "P h (ReqGet Cached (kindOf ob) (keyOf ob))"
    and "\<And>g ob'. f ob = Inr ob' \<Longrightarrow> keyOf ob' = keyOf ob \<Longrightarrow>
           P (h @ [(ReqGet Cached (kindOf ob) (keyOf ob), g)]) (ReqCreate ob')"
    and "\<And>cur ob'. f cur = Inr ob' \<Longrightarrow> keyOf ob' = keyOf cur \<Longrightarrow>
           P (h @ [(ReqGet Cached (kindOf ob) (keyOf ob), RObj cur)]) (ReqUpdate ob')"
  shows "guarded P (l_createOrUpdate L ob f) h"
proof (rule guardedI)
  fix tr x pre q r post
  assume "runs (l_createOrUpdate L ob f) tr x" and tr: "tr = pre @ (q, r) # post"
  then have "cou_trace ob f tr x" using assms(1) by (simp add: createOrUpdate_doc_def)
  then show "P (h @ pre) q" using tr assms(2-4)
    by cases (auto simp: Cons_eq_append_conv append_eq_Cons_conv)
qed

text \<open>What a call that read the object did with it.\<close>

lemma createOrUpdate_runs:
  "createOrUpdate_doc L \<Longrightarrow> runs (l_createOrUpdate L ob f) tr r \<Longrightarrow> cou_trace ob f tr r"
  by (simp add: createOrUpdate_doc_def)

section \<open>The contract of a \<^verbatim>\<open>CreateOrUpdate\<close> callback\<close>

text \<open>
  Every callback the controller hands to \<^verbatim>\<open>CreateOrUpdate\<close> keeps the identity of the object, brings
  it into the desired shape and changes nothing when applied again. From this alone follows what
  the call writes, and that reconciling an object that is already in shape writes nothing new.
\<close>

definition wfMeta :: "ometa \<Rightarrow> bool" where
  "wfMeta m \<longleftrightarrow> wfmap (m_labels m) \<and> wfmap (m_annotations m)"

locale mutator =
  fixes mutate :: "kobj \<Rightarrow> kobj result"
    and good :: "kobj \<Rightarrow> bool"
  assumes keeps_identity: "mutate ob = Inr ob' \<Longrightarrow> kindOf ob' = kindOf ob \<and> keyOf ob' = keyOf ob
      \<and> m_uid (metaOf ob') = m_uid (metaOf ob)
      \<and> m_resourceVersion (metaOf ob') = m_resourceVersion (metaOf ob)"
    and establishes: "mutate ob = Inr ob' \<Longrightarrow> good ob'"
    and settles: "wfMeta (metaOf ob) \<Longrightarrow> mutate ob = Inr ob' \<Longrightarrow> mutate ob' = Inr ob'"
begin

lemma writes:
  assumes "createOrUpdate_doc L" and "runs (l_createOrUpdate L ob mutate) tr r"
    and "(q, x) \<in> set tr"
  shows "q = ReqGet Cached (kindOf ob) (keyOf ob)
    \<or> (\<exists>ob'. q = ReqCreate ob' \<and> mutate ob = Inr ob' \<and> good ob' \<and> keyOf ob' = keyOf ob)
    \<or> (\<exists>cur ob'. q = ReqUpdate ob' \<and> mutate cur = Inr ob' \<and> good ob' \<and> keyOf ob' = keyOf cur
        \<and> (ReqGet Cached (kindOf ob) (keyOf ob), RObj cur) \<in> set tr)"
proof -
  have "cou_trace ob mutate tr r" using assms(1,2) by (simp add: createOrUpdate_doc_def)
  then show ?thesis using assms(3) by cases (auto intro: establishes)
qed

lemma reached:
  assumes "createOrUpdate_doc L" and "runs (l_createOrUpdate L ob mutate) tr (Inr ())"
  shows "\<exists>ob' x. good ob' \<and> ((ReqCreate ob', x) \<in> set tr \<and> asUnit x = Inr ()
    \<or> (ReqUpdate ob', x) \<in> set tr \<and> asUnit x = Inr ()
    \<or> (ReqGet Cached (kindOf ob) (keyOf ob), RObj ob') \<in> set tr)"
proof -
  have "cou_trace ob mutate tr (Inr ())" using assms by (simp add: createOrUpdate_doc_def)
  then show ?thesis
  proof cases
    case (created g e ob' x)
    then show ?thesis by (intro exI[of _ ob'] exI[of _ x]) (auto intro: establishes)
  next
    case (unchanged cur)
    then show ?thesis by (intro exI[of _ cur]) (auto intro: establishes)
  next
    case (updated cur ob' x)
    then show ?thesis by (intro exI[of _ ob'] exI[of _ x]) (auto intro: establishes)
  qed
qed

text \<open>Once the stored object came out of the callback, a further call leaves it as it is.\<close>

lemma stable:
  assumes "createOrUpdate_doc L" and "wfMeta (metaOf ob0)" and "mutate ob0 = Inr cur"
    and "runs (l_createOrUpdate L ob mutate) tr r"
    and "(ReqGet Cached (kindOf ob) (keyOf ob), RObj cur) \<in> set tr" and "(q, x) \<in> set tr"
  shows "q = ReqGet Cached (kindOf ob) (keyOf ob) \<or> q = ReqUpdate cur"
proof -
  have cur: "mutate cur = Inr cur" using assms(2,3) by (rule settles)
  have "cou_trace ob mutate tr r" using assms(1,4) by (simp add: createOrUpdate_doc_def)
  then show ?thesis using assms(5,6) cur by cases (auto simp: asObj_def)
qed

end

section \<open>A reference library\<close>

definition keyMoved :: gerr where
  "keyMoved = Errorf ''MutateFn cannot mutate object name and/or object namespace''"

definition ref_createOrUpdate :: "kobj \<Rightarrow> (kobj \<Rightarrow> kobj result) \<Rightarrow> unit result prog" where
  "ref_createOrUpdate ob f = bind (getP Cached (kindOf ob) Some (m_namespace (metaOf ob)) (m_name (metaOf ob)))
    (\<lambda>g. case g of
       Inl e \<Rightarrow> if \<not> isNotFound e then Ret (Inl e) else (case f ob of
           Inl e' \<Rightarrow> Ret (Inl e')
         | Inr ob' \<Rightarrow> if keyOf ob' \<noteq> keyOf ob then Ret (Inl keyMoved) else ask (ReqCreate ob') asUnit)
     | Inr cur \<Rightarrow> (case f cur of
           Inl e' \<Rightarrow> Ret (Inl e')
         | Inr ob' \<Rightarrow> if keyOf ob' \<noteq> keyOf cur then Ret (Inl keyMoved)
             else if ob' = cur then Ret (Inr ()) else ask (ReqUpdate ob') asUnit))"

fun ref_retry :: "nat \<Rightarrow> (gerr \<Rightarrow> bool) \<Rightarrow> unit result prog \<Rightarrow> unit result prog" where
  "ref_retry 0 f p = p"
| "ref_retry (Suc n) f p = bind p (\<lambda>r. case r of
     Inl e \<Rightarrow> if f e then ref_retry n f p else Ret r | Inr _ \<Rightarrow> Ret r)"

fun ref_setStatusCondition :: "int \<Rightarrow> condition list \<Rightarrow> condition \<Rightarrow> condition list" where
  "ref_setStatusCondition now [] c =
     [c\<lparr>c_ltt := (case c_ltt c of None \<Rightarrow> Some now | t \<Rightarrow> t)\<rparr>]"
| "ref_setStatusCondition now (d # ds) c =
     (if c_type d = c_type c
      then c\<lparr>c_ltt := (if c_status d = c_status c then c_ltt d
                       else (case c_ltt c of None \<Rightarrow> Some now | t \<Rightarrow> t))\<rparr> # ds
      else d # ref_setStatusCondition now ds c)"

definition ref_controllerOf :: "ometa \<Rightarrow> ownerRef option" where
  "ref_controllerOf m = find or_controller (m_ownerRefs m)"

definition ref_isControlledBy :: "ometa \<Rightarrow> ometa \<Rightarrow> bool" where
  "ref_isControlledBy m owner = (case ref_controllerOf m of
     None \<Rightarrow> False | Some r \<Rightarrow> or_uid r = m_uid owner)"

definition ref_controllerRef :: "ometa \<Rightarrow> string \<Rightarrow> string \<Rightarrow> ownerRef" where
  "ref_controllerRef owner apiVersion k = \<lparr>or_apiVersion = apiVersion, or_kind = k,
     or_name = m_name owner, or_uid = m_uid owner, or_controller = True\<rparr>"

definition ref_setControllerReference :: "ometa \<Rightarrow> ometa \<Rightarrow> ometa result" where
  "ref_setControllerReference owner m = (case ref_controllerOf m of
     Some r \<Rightarrow> if or_uid r = m_uid owner then Inr m
               else Inl (Errorf ''Object is already owned by another controller'')
   | None \<Rightarrow> Inr (m\<lparr>m_ownerRefs := ref_controllerRef owner GroupVersion ''Workspace'' # m_ownerRefs m\<rparr>))"

definition ref_parseQuantity :: "string \<Rightarrow> quantity result" where
  "ref_parseQuantity s = (let digits = trimSuffix s ''Gi'' in
     if digits \<noteq> [] \<and> list_all (\<lambda>c. c \<in> set ''0123456789'') digits
     then Inr \<lparr>q_milli = (if digits = s then 1000 else 1073741824000) * foldl (\<lambda>n c. 10 * n + (of_char c - 48)) 0 digits,
       q_format = (if digits = s then ''DecimalSI'' else ''BinarySI'')\<rparr>
     else Inl (Errorf ''quantities must match the regular expression''))"

definition ref_isDNS1123Label :: "string \<Rightarrow> bool" where
  "ref_isDNS1123Label s \<longleftrightarrow> s \<noteq> [] \<and> length s \<le> 63
     \<and> list_all (\<lambda>c. c \<in> set ''abcdefghijklmnopqrstuvwxyz0123456789-'') s
     \<and> hd s \<noteq> CHR ''-'' \<and> last s \<noteq> CHR ''-''"

definition ref_lib :: lib where
  "ref_lib = \<lparr>
     l_createOrUpdate = ref_createOrUpdate,
     l_retryOnConflict = ref_retry 4 isConflict,
     l_retryOnError = ref_retry 4,
     l_setStatusCondition = ref_setStatusCondition,
     l_removeStatusCondition = (\<lambda>cs t. filter (\<lambda>c. c_type c \<noteq> t) cs),
     l_isStatusConditionTrue = (\<lambda>cs t. \<exists>c \<in> set cs. c_type c = t \<and> c_status c = ''True''),
     l_parseQuantity = ref_parseQuantity,
     l_bcryptCost = (\<lambda>s. if hasPrefix s ''$2a$12$'' then Inr 12 else Inl (Errorf ''crypto/bcrypt: hashedSecret too short'')),
     l_isControlledBy = ref_isControlledBy,
     l_controllerRef = ref_controllerRef,
     l_setControllerReference = ref_setControllerReference,
     l_sha256 = (\<lambda>s. take 32 (s @ replicate 32 CHR 0x00)),
     l_marshalTemplate = (\<lambda>t. concat (map ct_image (ps_containers (pt_spec t)))),
     l_templateDerivative = (\<lambda>d c. pt_spec d = pt_spec c),
     l_yamlToJSON = Inr,
     l_unmarshalObject = (\<lambda>s. Inl (Errorf s)),
     l_objectEqual = (=),
     l_isDNS1123Label = ref_isDNS1123Label,
     l_isDNS1123Subdomain = (\<lambda>s. list_all ref_isDNS1123Label (splitOn CHR ''.'' s)),
     l_isQualifiedName = (\<lambda>s. s \<noteq> []),
     l_isValidLabelValue = (\<lambda>s. length s \<le> 63),
     l_getControllerOf = ref_controllerOf,
     l_derivative = (=),
     l_yamlUnmarshal = (\<lambda>s. Inr (if hasSuffix s ''config'' then None else Some [])),
     l_yamlMarshal = (\<lambda>v. Inr ''{}''),
     l_quantityString = (\<lambda>q. showInt (q_milli q div 1000)),
     l_quantityValue = (\<lambda>q. (q_milli q + 999) div 1000),
     l_quantityAdd = (\<lambda>p q. p\<lparr>q_milli := q_milli p + q_milli q\<rparr>),
     l_jsonStrings = (\<lambda>m. Inr (concat (map (\<lambda>(k, v). k @ v) m))),
     l_jsonMarshal = (\<lambda>v. Inr ''{}''),
     l_jsonUnmarshal = (\<lambda>s. Inr (JObj [(''return'', JObj [(''pid'', JInt 1), (''exited'', JBool True), (''out-data'', JStr s)]), (''complete'', JBool True)])),
     l_parseDiagnostic = (\<lambda>s. Inr (''container-init'', 1, ''failed'', s)),
     l_encodeBootstrap = (\<lambda>d. Inr (bd_token d)),
     l_decodeBootstrap = (\<lambda>s. Inl (Errorf s)),
     l_parseSelector = (\<lambda>s. case splitOn CHR ''='' s of [k, v] \<Rightarrow> Inr [(k, v)]
       | _ \<Rightarrow> Inl (Errorf ''unable to parse requirement'')),
     l_urlParse = (\<lambda>s. if hasPrefix s ''https://'' then Inr \<lparr>url_scheme = ''https'', url_hostname = drop 8 s,
         url_hasUser = False, url_fragment = []\<rparr> else Inl (Errorf ''parse''))\<rparr>"

lemma ref_lib_sel [simp]:
  "l_createOrUpdate ref_lib = ref_createOrUpdate"
  "l_retryOnConflict ref_lib = ref_retry 4 isConflict"
  "l_retryOnError ref_lib = ref_retry 4"
  "l_setStatusCondition ref_lib = ref_setStatusCondition"
  "l_removeStatusCondition ref_lib = (\<lambda>cs t. filter (\<lambda>c. c_type c \<noteq> t) cs)"
  "l_parseQuantity ref_lib = ref_parseQuantity"
  "l_isControlledBy ref_lib = ref_isControlledBy"
  "l_controllerRef ref_lib = ref_controllerRef"
  "l_setControllerReference ref_lib = ref_setControllerReference"
  "l_sha256 ref_lib = (\<lambda>s. take 32 (s @ replicate 32 CHR 0x00))"
  "l_isDNS1123Label ref_lib = ref_isDNS1123Label"
  "l_getControllerOf ref_lib = ref_controllerOf"
  "l_derivative ref_lib = (=)"
  "l_templateDerivative ref_lib = (\<lambda>d c. pt_spec d = pt_spec c)"
  by (simp_all add: ref_lib_def)

lemma ref_createOrUpdate_doc: "createOrUpdate_doc ref_lib"
  unfolding createOrUpdate_doc_def
proof (intro allI impI)
  fix ob f tr r
  assume "runs (l_createOrUpdate ref_lib ob f) tr r"
  then obtain g t2 where tr: "tr = (ReqGet Cached (kindOf ob) (keyOf ob), g) # t2"
    and rest: "runs (case asObj Some g of
       Inl e \<Rightarrow> if \<not> isNotFound e then Ret (Inl e) else (case f ob of
           Inl e' \<Rightarrow> Ret (Inl e')
         | Inr ob' \<Rightarrow> if keyOf ob' \<noteq> keyOf ob then Ret (Inl keyMoved) else ask (ReqCreate ob') asUnit)
     | Inr cur \<Rightarrow> (case f cur of
           Inl e' \<Rightarrow> Ret (Inl e')
         | Inr ob' \<Rightarrow> if keyOf ob' \<noteq> keyOf cur then Ret (Inl keyMoved)
             else if ob' = cur then Ret (Inr ()) else ask (ReqUpdate ob') asUnit)) t2 r"
    by (auto simp: ref_createOrUpdate_def getP_def keyOf_def prog_inv)
  show "cou_trace ob f tr r"
  proof (cases "asObj Some g")
    case (Inl e)
    with rest tr show ?thesis
      by (auto simp: prog_inv split: if_splits sum.splits
            intro: get_failed create_refused create_moved created)
  next
    case (Inr cur)
    then have g: "g = RObj cur" by (auto simp: prog_inv)
    from rest Inr show ?thesis unfolding tr g
      by (simp add: prog_inv split: if_splits sum.splits)
        (auto intro: update_refused update_moved unchanged updated)
  qed
qed

lemma ref_retry_trace: "runs (ref_retry n f p) tr r \<Longrightarrow> retry_trace f p tr r"
proof (induction n arbitrary: tr)
  case 0
  then show ?case by (auto intro: last_attempt)
next
  case (Suc n)
  then obtain t1 x t2 where p: "runs p t1 x" and tr: "tr = t1 @ t2"
    and k: "runs (case x of Inl e \<Rightarrow> if f e then ref_retry n f p else Ret x | Inr _ \<Rightarrow> Ret x) t2 r"
    by (auto simp: runs_bind)
  show ?case
  proof (cases "\<exists>e. x = Inl e \<and> f e")
    case True
    then obtain e where x: "x = Inl e" and e: "f e" by blast
    with k have "retry_trace f p t2 r" by (auto intro: Suc.IH)
    with p x e tr show ?thesis by (auto intro: another_attempt)
  next
    case False
    with k have "t2 = []" and "r = x" by (auto simp: prog_inv split: sum.splits if_splits)
    with p tr show ?thesis by (auto intro: last_attempt)
  qed
qed

lemma ref_retryOnConflict_doc: "retryOnConflict_doc ref_lib"
  by (auto simp: retryOnConflict_doc_def intro: ref_retry_trace)

lemma ref_retryOnError_doc: "retryOnError_doc ref_lib"
  by (auto simp: retryOnError_doc_def intro: ref_retry_trace)

lemma ref_setStatusCondition_other:
  "t \<noteq> c_type c \<Longrightarrow> findCondition (ref_setStatusCondition now cs c) t = findCondition cs t"
  by (induction cs) (auto simp: findCondition_def)

lemma ref_setStatusCondition_same:
  "\<exists>d. findCondition (ref_setStatusCondition now cs c) (c_type c) = Some d \<and> sameVerdict d c
     \<and> (\<forall>old. findCondition cs (c_type c) = Some old \<longrightarrow> c_status old = c_status c \<longrightarrow> c_ltt d = c_ltt old)"
  by (induction cs) (auto simp: findCondition_def sameVerdict_def)

lemma ref_setStatusCondition_doc: "setStatusCondition_doc ref_lib"
  unfolding setStatusCondition_doc_def ref_lib_sel
  using ref_setStatusCondition_same ref_setStatusCondition_other by blast

lemma ref_removeStatusCondition_doc: "removeStatusCondition_doc ref_lib"
proof -
  have "find (\<lambda>c. c_type c = u) (filter (\<lambda>c. c_type c \<noteq> t) cs)
      = (if u = t then None else find (\<lambda>c. c_type c = u) cs)" for cs t u
    by (induction cs) auto
  then show ?thesis unfolding removeStatusCondition_doc_def findCondition_def ref_lib_sel by blast
qed

lemma ref_sha256_doc: "sha256_doc ref_lib"
  by (auto simp: sha256_doc_def)

end
