(* ===== verification/Common.thy ===== *)
theory Common
  imports Library
begin

text \<open>
  Constants and small helpers of the package controller that several controllers use, with the
  names they have in src/internal/controller.
\<close>

section \<open>Constants\<close>

abbreviation UserFinalizer :: string where "UserFinalizer \<equiv> ''kubeworkspaces.io/user-finalizer''"
abbreviation LabelManagedByUser :: string where "LabelManagedByUser \<equiv> ''kubeworkspaces.io/managed-by''"
abbreviation LabelUserName :: string where "LabelUserName \<equiv> ''kubeworkspaces.io/user''"
abbreviation LabelPersonalNamespace :: string where
  "LabelPersonalNamespace \<equiv> ''kubeworkspaces.io/personal-namespace''"
abbreviation AnnotationUserEmail :: string where "AnnotationUserEmail \<equiv> ''kubeworkspaces.io/user-email''"
abbreviation AnnotationUserUID :: string where "AnnotationUserUID \<equiv> ''kubeworkspaces.io/user-uid''"
abbreviation AnnotationNamespaceEnabled :: string where
  "AnnotationNamespaceEnabled \<equiv> ''kubeworkspaces.io/namespace-enabled''"
abbreviation ManagedByValue :: string where "ManagedByValue \<equiv> ''user-controller''"
abbreviation LabelValueTrue :: string where "LabelValueTrue \<equiv> ''true''"

text \<open>A \<^verbatim>\<open>ctrl.Result\<close> is its \<^verbatim>\<open>RequeueAfter\<close> duration in nanoseconds, 0 for none.\<close>

type_synonym ctrlResult = int

abbreviation seconds :: "int \<Rightarrow> int" where "seconds n \<equiv> n * 1000000000"

definition setCondition :: "lib \<Rightarrow> int \<Rightarrow> condition list \<Rightarrow> condition \<Rightarrow> condition list" where
  "setCondition L now conditions c = l_setStatusCondition L now conditions c"

text \<open>The verb \<^verbatim>\<open>%q\<close> on printable strings.\<close>

definition goQuote :: "string \<Rightarrow> string" where
  "goQuote s = [CHR 0x22] @ concat (map (\<lambda>c. if c = CHR 0x22 \<or> c = CHR 0x5C then [CHR 0x5C, c] else [c]) s) @ [CHR 0x22]"

text \<open>An error that is replaced by a fixed message.\<close>

definition replaceErr :: "string \<Rightarrow> 'a result prog \<Rightarrow> ('a \<Rightarrow> 'b result prog) \<Rightarrow> 'b result prog" where
  "replaceErr msg p k = bind p (\<lambda>r. case r of Inl e \<Rightarrow> Ret (Inl (Errorf msg)) | Inr x \<Rightarrow> k x)"

lemma replaceErr_calls [prog_frame]:
  "calls P p \<Longrightarrow> (\<And>x. calls P (k x)) \<Longrightarrow> calls P (replaceErr m p k)"
  unfolding replaceErr_def by (rule calls_bind) (auto split: sum.split)

lemma runs_replaceErr:
  "runs (replaceErr m p k) tr y \<longleftrightarrow> (\<exists>e. runs p tr (Inl e) \<and> y = Inl (Errorf m))
     \<or> (\<exists>t1 x t2. runs p t1 (Inr x) \<and> runs (k x) t2 y \<and> tr = t1 @ t2)"
  unfolding replaceErr_def runs_bind_sum runs_Ret_iff by auto

section \<open>Responses for examples\<close>

definition notFound :: resp where
  "notFound = RErr (ApiErr ReasonNotFound ''not found'')"

end
