(* ===== verification/User_Controller.thy ===== *)
theory User_Controller
  imports Common
begin

text \<open>
  The User controller (src/internal/controller/user_controller.go): personal namespaces, namespace
  RoleBindings, resource quotas, disablement and finalizer-guarded cleanup of User resources.
  The definitions follow the methods of \<^verbatim>\<open>UserReconciler\<close>; the lemmas show, for every behaviour of the
  API server, which objects the controller writes or deletes and under which conditions.
\<close>

section \<open>Helper functions\<close>

definition renderNamespaceTemplate :: "string \<Rightarrow> string \<Rightarrow> string" where
  "renderNamespaceTemplate template username =
     (if template = [] then username else replaceAll ''{{username}}'' username template)"

definition roleToClusterRole :: "string \<Rightarrow> string" where
  "roleToClusterRole role =
     (if role = UserRoleAdmin then ''workspace-admin-role''
      else if role = UserRoleViewer then ''workspace-viewer-role''
      else ''workspace-editor-role'')"

definition personalNamespaceMatches :: "namespace \<Rightarrow> user \<Rightarrow> bool \<Rightarrow> bool" where
  "personalNamespaceMatches ns user allowLegacy =
     (let m = ns_meta ns; uid = mget (m_annotations m) AnnotationUserUID in
      if m_uid (u_meta user) = [] \<or> m_deletion m \<noteq> None
         \<or> mget (m_labels m) LabelManagedByUser \<noteq> ManagedByValue
         \<or> mget (m_labels m) LabelUserName \<noteq> m_name (u_meta user)
         \<or> mget (m_labels m) LabelPersonalNamespace \<noteq> LabelValueTrue
      then False
      else if uid \<noteq> [] then uid = m_uid (u_meta user)
      else allowLegacy \<and> ut_personalNamespace (u_status user) = m_name m
           \<and> mget (m_annotations m) AnnotationUserEmail = us_email (u_spec user))"

section \<open>RoleBindings\<close>

definition managedLabels :: "user \<Rightarrow> strmap" where
  "managedLabels user =
     [(LabelManagedByUser, ManagedByValue), (LabelUserName, m_name (u_meta user))]"

definition clusterRoleRef :: "string \<Rightarrow> roleRef" where
  "clusterRoleRef clusterRole = \<lparr>rr_apiGroup = ''rbac.authorization.k8s.io'', rr_kind = ''ClusterRole'',
     rr_name = clusterRole\<rparr>"

definition emptyRoleBinding :: "string \<Rightarrow> string \<Rightarrow> roleBinding" where
  "emptyRoleBinding ns name = \<lparr>rb_meta = objectMeta ns name, rb_subjects = [],
     rb_roleRef = \<lparr>rr_apiGroup = [], rr_kind = [], rr_name = []\<rparr>\<rparr>"

text \<open>The callback of \<^verbatim>\<open>CreateOrUpdate\<close> in \<^verbatim>\<open>ensureRoleBinding\<close>.\<close>

definition mutateRoleBinding :: "user \<Rightarrow> string \<Rightarrow> kobj \<Rightarrow> kobj result" where
  "mutateRoleBinding user clusterRole ob = (case ob of
     ORoleBinding rb \<Rightarrow>
       let m = rb_meta rb;
           labels = mset (mset (m_labels m) LabelManagedByUser ManagedByValue)
                      LabelUserName (m_name (u_meta user));
           annotations = mset (m_annotations m) AnnotationUserEmail (us_email (u_spec user))
       in Inr (ORoleBinding (rb\<lparr>rb_meta := m\<lparr>m_labels := labels, m_annotations := annotations\<rparr>,
            rb_subjects := [\<lparr>sub_kind = ''User'', sub_name = us_email (u_spec user)\<rparr>],
            rb_roleRef := clusterRoleRef clusterRole\<rparr>))
   | _ \<Rightarrow> Inl badResponse)"

definition bindingName :: "user \<Rightarrow> string \<Rightarrow> string" where
  "bindingName user bindingType = m_name (u_meta user) @ ''-'' @ bindingType"

definition ensureRoleBinding ::
  "lib \<Rightarrow> user \<Rightarrow> string \<Rightarrow> string \<Rightarrow> string \<Rightarrow> unit result prog" where
  "ensureRoleBinding L user namespace clusterRole bindingType =
     (let rbName = bindingName user bindingType;
          finish = l_createOrUpdate L (ORoleBinding (emptyRoleBinding namespace rbName))
                     (mutateRoleBinding user clusterRole)
      in bind (getP Cached KRoleBinding toRoleBinding namespace rbName) (\<lambda>g. case g of
           Inl e \<Rightarrow> if \<not> isNotFound e then Ret (Inl e) else finish
         | Inr rb \<Rightarrow>
             if m_resourceVersion (rb_meta rb) \<noteq> [] \<and> rb_roleRef rb \<noteq> clusterRoleRef clusterRole
             then if mget (m_labels (rb_meta rb)) LabelManagedByUser \<noteq> ManagedByValue
                     \<or> mget (m_labels (rb_meta rb)) LabelUserName \<noteq> m_name (u_meta user)
                  then Ret (Inl (Errorf (''refusing to replace unmanaged RoleBinding '' @ namespace @ ''/'' @ rbName)))
                  else tryP (mapP ignoreNotFound (deleteP (ORoleBinding rb)
                         [PreUID (m_uid (rb_meta rb)), PreResourceVersion (m_resourceVersion (rb_meta rb))]))
                       (\<lambda>_. finish)
             else finish))"

definition desiredNamespaces :: "user \<Rightarrow> string list" where
  "desiredNamespaces user =
     (if us_disabled (u_spec user) then []
      else (if ut_personalNamespace (u_status user) \<noteq> [] then [ut_personalNamespace (u_status user)] else [])
           @ map na_namespace (us_namespaceAccess (u_spec user)))"

definition cleanupStaleRoleBindings :: "user \<Rightarrow> unit result prog" where
  "cleanupStaleRoleBindings user =
     tryP (listP Cached KRoleBinding toRoleBinding None (managedLabels user))
       (\<lambda>rbs. forE (\<lambda>rb.
          if m_namespace (rb_meta rb) \<notin> set (desiredNamespaces user)
          then mapP ignoreNotFound (deleteP (ORoleBinding rb)
                 [PreUID (m_uid (rb_meta rb)), PreResourceVersion (m_resourceVersion (rb_meta rb))])
          else Ret (Inr ())) rbs)"

definition reconcileNamespaceAccess :: "lib \<Rightarrow> user \<Rightarrow> unit result prog" where
  "reconcileNamespaceAccess L user =
     tryP (forE (\<lambda>access.
             wrapP (''failed to create RoleBinding in '' @ na_namespace access @ '': '')
               (ensureRoleBinding L user (na_namespace access) (roleToClusterRole (na_role access)) ''shared'')
               (\<lambda>_. Ret (Inr ())))
           (us_namespaceAccess (u_spec user)))
       (\<lambda>_. wrapP ''failed to cleanup stale RoleBindings: '' (cleanupStaleRoleBindings user)
               (\<lambda>_. Ret (Inr ())))"

section \<open>Resource quotas\<close>

fun parseQuotas :: "lib \<Rightarrow> strmap \<Rightarrow> resourceList result" where
  "parseQuotas L [] = Inr []"
| "parseQuotas L ((k, v) # quotaSpec) = (case l_parseQuantity L v of
     Inl e \<Rightarrow> Inl (Wrapf (''invalid resource quota '' @ goQuote k @ '' value '' @ goQuote v @ '': '') e)
   | Inr quantity \<Rightarrow> (case parseQuotas L quotaSpec of Inl e \<Rightarrow> Inl e | Inr hard \<Rightarrow> Inr ((k, quantity) # hard)))"

definition mutateResourceQuota :: "lib \<Rightarrow> user \<Rightarrow> strmap \<Rightarrow> kobj \<Rightarrow> kobj result" where
  "mutateResourceQuota L user quotaSpec ob = (case ob of
     OResourceQuota rq \<Rightarrow>
       let m = rq_meta rq;
           labels = mset (mset (m_labels m) LabelManagedByUser ManagedByValue)
                      LabelUserName (m_name (u_meta user))
       in (case parseQuotas L quotaSpec of
             Inl e \<Rightarrow> Inl e
           | Inr hard \<Rightarrow> Inr (OResourceQuota (rq\<lparr>rq_meta := m\<lparr>m_labels := labels\<rparr>, rq_hard := hard\<rparr>)))
   | _ \<Rightarrow> Inl badResponse)"

definition ensureResourceQuota :: "lib \<Rightarrow> user \<Rightarrow> string \<Rightarrow> strmap \<Rightarrow> unit result prog" where
  "ensureResourceQuota L user namespace quotaSpec =
     l_createOrUpdate L (OResourceQuota \<lparr>rq_meta = objectMeta namespace (m_name (u_meta user) @ ''-quota''), rq_hard = []\<rparr>)
       (mutateResourceQuota L user quotaSpec)"

section \<open>Personal namespaces\<close>

definition namespaceNotOwned :: "user \<Rightarrow> string \<Rightarrow> gerr" where
  "namespaceNotOwned user nsName = Errorf (''namespace '' @ nsName @ '' is not owned by User ''
     @ m_name (u_meta user) @ ''/'' @ m_uid (u_meta user) @ ''; explicit operator recovery is required'')"

text \<open>The callback of \<^verbatim>\<open>CreateOrUpdate\<close> in \<^verbatim>\<open>reconcilePersonalNamespace\<close>.\<close>

definition mutateNamespace :: "user \<Rightarrow> personalNamespaceConfig \<Rightarrow> string \<Rightarrow> kobj \<Rightarrow> kobj result" where
  "mutateNamespace user nsConfig nsName ob = (case ob of
     ONamespace ns \<Rightarrow>
       let m = ns_meta ns in
       if (m_creation m \<noteq> None \<or> m_resourceVersion m \<noteq> []) \<and> \<not> personalNamespaceMatches ns user True
       then Inl (namespaceNotOwned user nsName)
       else let labels = mset (mset (mset (mcopy (m_labels m) (pn_labels nsConfig))
                     LabelPersonalNamespace LabelValueTrue)
                     LabelUserName (m_name (u_meta user)))
                     LabelManagedByUser ManagedByValue;
                annotations = mset (mset (mcopy (mset (m_annotations m) AnnotationNamespaceEnabled LabelValueTrue)
                     (pn_annotations nsConfig))
                     AnnotationUserEmail (us_email (u_spec user)))
                     AnnotationUserUID (m_uid (u_meta user))
            in Inr (ONamespace (ns\<lparr>ns_meta := m\<lparr>m_labels := labels, m_annotations := annotations\<rparr>\<rparr>))
   | _ \<Rightarrow> Inl badResponse)"

definition personalNamespaceName :: "user \<Rightarrow> personalNamespaceConfig \<Rightarrow> string" where
  "personalNamespaceName user nsConfig =
     (if ut_personalNamespace (u_status user) \<noteq> [] then ut_personalNamespace (u_status user)
      else renderNamespaceTemplate (pn_template nsConfig) (m_name (u_meta user)))"

definition reconcilePersonalNamespace ::
  "lib \<Rightarrow> user \<Rightarrow> personalNamespaceConfig \<Rightarrow> string result prog" where
  "reconcilePersonalNamespace L user nsConfig =
     (let nsName = personalNamespaceName user nsConfig in
      wrapP (''failed to create/update namespace '' @ nsName @ '': '')
        (l_createOrUpdate L (ONamespace \<lparr>ns_meta = objectMeta [] nsName\<rparr>) (mutateNamespace user nsConfig nsName))
      (\<lambda>_. wrapP ''failed to create personal namespace RoleBinding: ''
        (ensureRoleBinding L user nsName ''workspace-editor-role'' ''personal'')
      (\<lambda>_. if pn_resourceQuota nsConfig \<noteq> []
            then wrapP ''failed to create ResourceQuota: ''
                   (ensureResourceQuota L user nsName (pn_resourceQuota nsConfig))
                   (\<lambda>_. Ret (Inr nsName))
            else Ret (Inr nsName))))"

section \<open>Cleanup of deleted users\<close>

text \<open>The two parts of \<^verbatim>\<open>cleanupUser\<close>, in their order.\<close>

definition deleteUserBindings :: "roleBinding list \<Rightarrow> unit result prog" where
  "deleteUserBindings rbs = forE (\<lambda>rb.
     wrapP (''failed to delete RoleBinding '' @ m_namespace (rb_meta rb) @ ''/'' @ m_name (rb_meta rb) @ '': '')
       (mapP ignoreNotFound (deleteP (ORoleBinding rb) [])) (\<lambda>_. Ret (Inr ()))) rbs"

definition deletePersonalNamespace :: "user \<Rightarrow> unit result prog" where
  "deletePersonalNamespace user =
     (if ut_personalNamespace (u_status user) \<noteq> []
      then bind (getP Cached KNamespace toNamespace [] (ut_personalNamespace (u_status user))) (\<lambda>g. case g of
             Inl e \<Rightarrow> Ret (if isNotFound e then Inr () else Inl e)
           | Inr ns \<Rightarrow>
               if \<not> personalNamespaceMatches ns user False then Ret (Inr ())
               else wrapP (''failed to delete personal namespace '' @ ut_personalNamespace (u_status user) @ '': '')
                      (mapP ignoreNotFound (deleteP (ONamespace ns)
                         [PreUID (m_uid (ns_meta ns)), PreResourceVersion (m_resourceVersion (ns_meta ns))]))
                      (\<lambda>_. Ret (Inr ())))
      else Ret (Inr ()))"

definition cleanupUser :: "user \<Rightarrow> unit result prog" where
  "cleanupUser user =
     tryP (listP Cached KRoleBinding toRoleBinding None (managedLabels user))
     (\<lambda>rbs. tryP (deleteUserBindings rbs) (\<lambda>_. deletePersonalNamespace user))"

section \<open>The reconciler\<close>

definition getAuthConfig :: "authConfig option result prog" where
  "getAuthConfig = bind (getP Cached KAuthConfig toAuthConfig [] ''default'') (\<lambda>g. Ret (case g of
     Inl e \<Rightarrow> if isNotFound e then Inr None else Inl e
   | Inr a \<Rightarrow> Inr (Some a)))"

definition containsFinalizer :: "user \<Rightarrow> string \<Rightarrow> bool" where
  "containsFinalizer user f \<longleftrightarrow> f \<in> set (m_finalizers (u_meta user))"

definition removeFinalizer :: "user \<Rightarrow> string \<Rightarrow> user" where
  "removeFinalizer user f =
     user\<lparr>u_meta := (u_meta user)\<lparr>m_finalizers := filter (\<lambda>g. g \<noteq> f) (m_finalizers (u_meta user))\<rparr>\<rparr>"

definition addFinalizer :: "user \<Rightarrow> string \<Rightarrow> user" where
  "addFinalizer user f = user\<lparr>u_meta := (u_meta user)\<lparr>m_finalizers := m_finalizers (u_meta user) @ [f]\<rparr>\<rparr>"

text \<open>Writing the status only when it changed.\<close>

definition writeUserStatus :: "user \<Rightarrow> user \<Rightarrow> unit result prog" where
  "writeUserStatus previous user =
     (if u_status previous \<noteq> u_status user
      then tryP (statusUpdateP toUser (OUser user)) (\<lambda>_. Ret (Inr ()))
      else Ret (Inr ()))"

definition withUserCondition :: "lib \<Rightarrow> int \<Rightarrow> user \<Rightarrow> condition \<Rightarrow> user" where
  "withUserCondition L now user c = user\<lparr>u_status := (u_status user)\<lparr>ut_conditions :=
     setCondition L now (ut_conditions (u_status user)) c\<rparr>\<rparr>"

definition disabledCondition :: condition where
  "disabledCondition = \<lparr>c_type = ''Ready'', c_status = ''False'', c_observedGeneration = 0, c_ltt = None,
     c_reason = ''Disabled'', c_message = ''User is disabled; managed namespace grants have been revoked''\<rparr>"

definition readyCondition :: "int \<Rightarrow> condition" where
  "readyCondition now = \<lparr>c_type = ''Ready'', c_status = ''True'', c_observedGeneration = 0, c_ltt = Some now,
     c_reason = ''Reconciled'', c_message = ''User resources are in sync''\<rparr>"

text \<open>The branch of \<^verbatim>\<open>Reconcile\<close> for a user with a deletion timestamp.\<close>

definition reconcileDeletedUser :: "user \<Rightarrow> ctrlResult result prog" where
  "reconcileDeletedUser user =
     (if containsFinalizer user UserFinalizer
      then tryP (cleanupUser user)
             (\<lambda>_. tryP (updateP toUser (OUser (removeFinalizer user UserFinalizer))) (\<lambda>_. Ret (Inr 0)))
      else Ret (Inr 0))"

text \<open>The branch for a disabled user.\<close>

definition reconcileDisabledUser :: "lib \<Rightarrow> user \<Rightarrow> ctrlResult result prog" where
  "reconcileDisabledUser L user =
     wrapP ''failed to revoke disabled user grants: '' (cleanupStaleRoleBindings user)
       (\<lambda>_. bind nowP (\<lambda>now.
          tryP (writeUserStatus user (withUserCondition L now user disabledCondition))
            (\<lambda>_. Ret (Inr (seconds 30)))))"

definition personalNamespacesEnabled :: "authConfig option \<Rightarrow> personalNamespaceConfig option" where
  "personalNamespacesEnabled authConfig = (case authConfig of
     None \<Rightarrow> None
   | Some a \<Rightarrow> (case ac_personalNamespaces (a_spec a) of
       None \<Rightarrow> None | Some pn \<Rightarrow> if pn_enabled pn then Some pn else None))"

definition warnOnError :: "string \<Rightarrow> 'a result prog \<Rightarrow> ('a \<Rightarrow> 'b result prog) \<Rightarrow> 'b result prog" where
  "warnOnError reason p k = bind p (\<lambda>r. case r of
     Inl e \<Rightarrow> bind (eventP ''Warning'' reason (errText e)) (\<lambda>_. Ret (Inl e))
   | Inr x \<Rightarrow> k x)"

text \<open>Creating the personal namespace and recording it in the status.\<close>

definition reconcileUserNamespace ::
  "lib \<Rightarrow> user \<Rightarrow> personalNamespaceConfig option \<Rightarrow> user result prog" where
  "reconcileUserNamespace L user enabled = (case enabled of
     None \<Rightarrow> Ret (Inr user)
   | Some pn \<Rightarrow>
       warnOnError ''NamespaceFailed'' (reconcilePersonalNamespace L user pn) (\<lambda>nsName.
         if ut_personalNamespace (u_status user) \<noteq> nsName
         then tryP (statusUpdateP toUser (OUser (user\<lparr>u_status := (u_status user)\<lparr>ut_personalNamespace := nsName\<rparr>\<rparr>)))
                (\<lambda>user'. bind (eventP ''Normal'' ''NamespaceCreated''
                   (''Personal namespace '' @ goQuote nsName @ '' created'')) (\<lambda>_. Ret (Inr user')))
         else Ret (Inr user)))"

text \<open>The rest of \<^verbatim>\<open>Reconcile\<close> for an enabled user.\<close>

definition reconcileActiveUser :: "lib \<Rightarrow> string \<Rightarrow> user \<Rightarrow> ctrlResult result prog" where
  "reconcileActiveUser L name user =
     bind getAuthConfig (\<lambda>ac. case ac of
       Inl e \<Rightarrow> Ret (Inr (seconds 30))
     | Inr authConfig \<Rightarrow>
         tryP (reconcileUserNamespace L user (personalNamespacesEnabled authConfig)) (\<lambda>user1.
         warnOnError ''RBACFailed'' (reconcileNamespaceAccess L user1) (\<lambda>_.
         tryP (getP Cached KUser toUser [] name) (\<lambda>fresh.
           let user2 = (case personalNamespacesEnabled authConfig of
                 Some pn \<Rightarrow> if ut_personalNamespace (u_status fresh) = []
                   then fresh\<lparr>u_status := (u_status fresh)\<lparr>ut_personalNamespace :=
                          renderNamespaceTemplate (pn_template pn) (m_name (u_meta fresh))\<rparr>\<rparr>
                   else fresh
               | None \<Rightarrow> fresh)
           in bind nowP (\<lambda>now.
              tryP (writeUserStatus user2 (withUserCondition L now user2 (readyCondition now)))
                (\<lambda>_. Ret (Inr 0)))))))"

definition reconcileUser :: "lib \<Rightarrow> string \<Rightarrow> ctrlResult result prog" where
  "reconcileUser L name =
     bind (getP Cached KUser toUser [] name) (\<lambda>g. case g of
       Inl e \<Rightarrow> Ret (if isNotFound e then Inr 0 else Inl e)
     | Inr user \<Rightarrow>
         if m_deletion (u_meta user) \<noteq> None then reconcileDeletedUser user
         else if \<not> containsFinalizer user UserFinalizer
         then tryP (updateP toUser (OUser (addFinalizer user UserFinalizer))) (\<lambda>_. Ret (Inr (seconds 1)))
         else if us_disabled (u_spec user) then reconcileDisabledUser L user
         else reconcileActiveUser L name user)"

section \<open>What the callbacks establish\<close>

definition managedBy :: "user \<Rightarrow> ometa \<Rightarrow> bool" where
  "managedBy user m \<longleftrightarrow> mget (m_labels m) LabelManagedByUser = ManagedByValue
     \<and> mget (m_labels m) LabelUserName = m_name (u_meta user)"

text \<open>A RoleBinding that grants one cluster role to one user and nothing else.\<close>

definition grantsOnly :: "user \<Rightarrow> string \<Rightarrow> kobj \<Rightarrow> bool" where
  "grantsOnly user clusterRole ob \<longleftrightarrow> (case ob of
     ORoleBinding rb \<Rightarrow> rb_subjects rb = [\<lparr>sub_kind = ''User'', sub_name = us_email (u_spec user)\<rparr>]
       \<and> rb_roleRef rb = clusterRoleRef clusterRole \<and> managedBy user (rb_meta rb)
   | _ \<Rightarrow> False)"

definition quotaOf :: "user \<Rightarrow> kobj \<Rightarrow> bool" where
  "quotaOf user ob \<longleftrightarrow> (case ob of OResourceQuota rq \<Rightarrow> managedBy user (rq_meta rq) | _ \<Rightarrow> False)"

text \<open>A namespace stamped for one User: the ownership labels and the UID annotation.\<close>

definition stampedFor :: "user \<Rightarrow> kobj \<Rightarrow> bool" where
  "stampedFor user ob \<longleftrightarrow> (case ob of
     ONamespace ns \<Rightarrow> managedBy user (ns_meta ns)
       \<and> mget (m_labels (ns_meta ns)) LabelPersonalNamespace = LabelValueTrue
       \<and> mget (m_annotations (ns_meta ns)) AnnotationUserUID = m_uid (u_meta user)
       \<and> mget (m_annotations (ns_meta ns)) AnnotationUserEmail = us_email (u_spec user)
   | _ \<Rightarrow> False)"

lemma mutateRoleBinding_cases:
  assumes "mutateRoleBinding user cr ob = Inr ob'"
  obtains rb where "ob = ORoleBinding rb" and "ob' = ORoleBinding (rb
    \<lparr>rb_meta := (rb_meta rb)\<lparr>
       m_labels := mset (mset (m_labels (rb_meta rb)) LabelManagedByUser ManagedByValue)
                     LabelUserName (m_name (u_meta user)),
       m_annotations := mset (m_annotations (rb_meta rb)) AnnotationUserEmail (us_email (u_spec user))\<rparr>,
     rb_subjects := [\<lparr>sub_kind = ''User'', sub_name = us_email (u_spec user)\<rparr>],
     rb_roleRef := clusterRoleRef cr\<rparr>)"
  using assms by (auto simp: mutateRoleBinding_def Let_def split: kobj.splits)

interpretation grant: mutator "mutateRoleBinding user clusterRole" "grantsOnly user clusterRole"
  for user clusterRole
proof
  fix ob ob' assume m: "mutateRoleBinding user clusterRole ob = Inr ob'"
  then show "kindOf ob' = kindOf ob \<and> keyOf ob' = keyOf ob
      \<and> m_uid (metaOf ob') = m_uid (metaOf ob)
      \<and> m_resourceVersion (metaOf ob') = m_resourceVersion (metaOf ob)"
    by (elim mutateRoleBinding_cases) (simp add: keyOf_def)
  show "grantsOnly user clusterRole ob'"
    using m by (elim mutateRoleBinding_cases) (simp add: grantsOnly_def managedBy_def)
  show "mutateRoleBinding user clusterRole ob' = Inr ob'"
    using m by (elim mutateRoleBinding_cases) (simp add: mutateRoleBinding_def mset_present_id)
qed

lemma mutateResourceQuota_cases:
  assumes "mutateResourceQuota L user spec ob = Inr ob'"
  obtains rq hard where "ob = OResourceQuota rq" and "parseQuotas L spec = Inr hard"
    and "ob' = OResourceQuota (rq\<lparr>rq_meta := (rq_meta rq)\<lparr>
       m_labels := mset (mset (m_labels (rq_meta rq)) LabelManagedByUser ManagedByValue)
                     LabelUserName (m_name (u_meta user))\<rparr>, rq_hard := hard\<rparr>)"
  using assms by (auto simp: mutateResourceQuota_def Let_def split: kobj.splits sum.splits)

interpretation quota: mutator "mutateResourceQuota L user spec" "quotaOf user"
  for L user spec
proof
  fix ob ob' assume m: "mutateResourceQuota L user spec ob = Inr ob'"
  then show "kindOf ob' = kindOf ob \<and> keyOf ob' = keyOf ob
      \<and> m_uid (metaOf ob') = m_uid (metaOf ob)
      \<and> m_resourceVersion (metaOf ob') = m_resourceVersion (metaOf ob)"
    by (elim mutateResourceQuota_cases) (simp add: keyOf_def)
  show "quotaOf user ob'"
    using m by (elim mutateResourceQuota_cases) (simp add: quotaOf_def managedBy_def)
  show "mutateResourceQuota L user spec ob' = Inr ob'"
    using m by (elim mutateResourceQuota_cases) (simp add: mutateResourceQuota_def mset_present_id)
qed

definition namespaceLabels :: "user \<Rightarrow> personalNamespaceConfig \<Rightarrow> strmap \<Rightarrow> strmap" where
  "namespaceLabels user nsConfig labels = mset (mset (mset (mcopy labels (pn_labels nsConfig))
     LabelPersonalNamespace LabelValueTrue) LabelUserName (m_name (u_meta user)))
     LabelManagedByUser ManagedByValue"

definition namespaceAnnotations :: "user \<Rightarrow> personalNamespaceConfig \<Rightarrow> strmap \<Rightarrow> strmap" where
  "namespaceAnnotations user nsConfig annotations =
     mset (mset (mcopy (mset annotations AnnotationNamespaceEnabled LabelValueTrue)
       (pn_annotations nsConfig)) AnnotationUserEmail (us_email (u_spec user)))
       AnnotationUserUID (m_uid (u_meta user))"

lemma namespaceLabels_idem:
  "wfmap m \<Longrightarrow> namespaceLabels user c (namespaceLabels user c m) = namespaceLabels user c m"
proof (rule wfmap_eqI)
  show "map fst (namespaceLabels user c (namespaceLabels user c m)) = map fst (namespaceLabels user c m)"
    by (simp add: namespaceLabels_def keys_mset_present keys_mcopy_present subset_insertI2)
qed (auto simp: namespaceLabels_def map_add_def fun_eq_iff split: option.splits)

lemma namespaceAnnotations_idem:
  "wfmap m \<Longrightarrow> namespaceAnnotations user c (namespaceAnnotations user c m) = namespaceAnnotations user c m"
proof (rule wfmap_eqI)
  show "map fst (namespaceAnnotations user c (namespaceAnnotations user c m)) = map fst (namespaceAnnotations user c m)"
    by (simp add: namespaceAnnotations_def keys_mset_present keys_mcopy_present subset_insertI2)
qed (auto simp: namespaceAnnotations_def map_add_def fun_eq_iff split: option.splits)

lemma mutateNamespace_cases:
  assumes "mutateNamespace user c name ob = Inr ob'"
  obtains ns where "ob = ONamespace ns"
    and "m_creation (ns_meta ns) = None \<and> m_resourceVersion (ns_meta ns) = []
         \<or> personalNamespaceMatches ns user True"
    and "ob' = ONamespace (ns\<lparr>ns_meta := (ns_meta ns)\<lparr>
       m_labels := namespaceLabels user c (m_labels (ns_meta ns)),
       m_annotations := namespaceAnnotations user c (m_annotations (ns_meta ns))\<rparr>\<rparr>)"
  using assms by (auto simp: mutateNamespace_def Let_def namespaceLabels_def namespaceAnnotations_def
    split: kobj.splits if_splits)

lemma namespace_stamped:
  "stampedFor user (ONamespace (ns\<lparr>ns_meta := m\<lparr>
       m_labels := namespaceLabels user c l, m_annotations := namespaceAnnotations user c a\<rparr>\<rparr>))"
  by (simp add: stampedFor_def managedBy_def namespaceLabels_def namespaceAnnotations_def)

lemma stamped_matches:
  assumes "personalNamespaceMatches ns user legacy"
  shows "personalNamespaceMatches (ns\<lparr>ns_meta := (ns_meta ns)\<lparr>
       m_labels := namespaceLabels user c l, m_annotations := namespaceAnnotations user c a\<rparr>\<rparr>) user legacy'"
  using assms by (auto simp: personalNamespaceMatches_def Let_def namespaceLabels_def
    namespaceAnnotations_def split: if_splits)

interpretation personal: mutator "mutateNamespace user c name" "stampedFor user"
  for user c name
proof
  fix ob ob' assume m: "mutateNamespace user c name ob = Inr ob'"
  then show "kindOf ob' = kindOf ob \<and> keyOf ob' = keyOf ob
      \<and> m_uid (metaOf ob') = m_uid (metaOf ob)
      \<and> m_resourceVersion (metaOf ob') = m_resourceVersion (metaOf ob)"
    by (elim mutateNamespace_cases) (simp add: keyOf_def)
  show "stampedFor user ob'"
    using m by (elim mutateNamespace_cases) (simp only: namespace_stamped)
  assume wf: "wfMeta (metaOf ob)"
  from m obtain ns where ob: "ob = ONamespace ns"
    and own: "m_creation (ns_meta ns) = None \<and> m_resourceVersion (ns_meta ns) = []
         \<or> personalNamespaceMatches ns user True"
    and ob': "ob' = ONamespace (ns\<lparr>ns_meta := (ns_meta ns)\<lparr>
       m_labels := namespaceLabels user c (m_labels (ns_meta ns)),
       m_annotations := namespaceAnnotations user c (m_annotations (ns_meta ns))\<rparr>\<rparr>)"
    by (elim mutateNamespace_cases)
  have "wfmap (m_labels (ns_meta ns))" "wfmap (m_annotations (ns_meta ns))"
    using wf ob by (auto simp: wfMeta_def)
  then show "mutateNamespace user c name ob' = Inr ob'"
    using own unfolding ob'
    by (auto simp: mutateNamespace_def Let_def namespaceLabels_idem namespaceAnnotations_idem
      stamped_matches simp flip: namespaceLabels_def namespaceAnnotations_def)
qed

section \<open>Requests of the operations\<close>

definition bindingPreconditions :: "ometa \<Rightarrow> delopt list" where
  "bindingPreconditions m = [PreUID (m_uid m), PreResourceVersion (m_resourceVersion m)]"

text \<open>The requests of \<^verbatim>\<open>ensureRoleBinding\<close>.\<close>

definition grantRequest :: "user \<Rightarrow> string \<Rightarrow> string \<Rightarrow> string \<Rightarrow> req \<Rightarrow> bool" where
  "grantRequest user namespace clusterRole bindingType q \<longleftrightarrow> (case q of
     ReqGet rd k key \<Rightarrow> rd = Cached \<and> k = KRoleBinding \<and> key = (namespace, bindingName user bindingType)
   | ReqDelete ob opts \<Rightarrow> (case ob of
       ORoleBinding rb \<Rightarrow> managedBy user (rb_meta rb) \<and> rb_roleRef rb \<noteq> clusterRoleRef clusterRole
         \<and> opts = bindingPreconditions (rb_meta rb)
     | _ \<Rightarrow> False)
   | ReqCreate ob \<Rightarrow> grantsOnly user clusterRole ob \<and> keyOf ob = (namespace, bindingName user bindingType)
   | ReqUpdate ob \<Rightarrow> grantsOnly user clusterRole ob
   | _ \<Rightarrow> False)"

lemma ensureRoleBinding_finish_calls:
  assumes "createOrUpdate_doc L"
  shows "calls (grantRequest user ns cr bt) (l_createOrUpdate L
    (ORoleBinding (emptyRoleBinding ns (bindingName user bt))) (mutateRoleBinding user cr))"
  using grant.establishes
  by (intro calls_createOrUpdate[OF assms])
    (auto simp: grantRequest_def keyOf_def emptyRoleBinding_def objectMeta_def)

lemma ensureRoleBinding_calls:
  assumes "createOrUpdate_doc L"
  shows "calls (grantRequest user ns cr bt) (ensureRoleBinding L user ns cr bt)"
  unfolding ensureRoleBinding_def Let_def client_defs
  by (intro calls_bind calls_tryP calls_mapP)
    (auto simp: grantRequest_def managedBy_def bindingPreconditions_def
      ensureRoleBinding_finish_calls[OF assms] split: sum.split intro!: calls_tryP calls_mapP)

text \<open>The only deletions of \<^verbatim>\<open>cleanupStaleRoleBindings\<close>: bindings of undesired namespaces.\<close>

definition staleRequest :: "user \<Rightarrow> req \<Rightarrow> bool" where
  "staleRequest user q \<longleftrightarrow> q = ReqList Cached KRoleBinding None (managedLabels user)
     \<or> (\<exists>rb. q = ReqDelete (ORoleBinding rb) (bindingPreconditions (rb_meta rb))
          \<and> m_namespace (rb_meta rb) \<notin> set (desiredNamespaces user))"

lemma cleanupStaleRoleBindings_calls: "calls (staleRequest user) (cleanupStaleRoleBindings user)"
  unfolding cleanupStaleRoleBindings_def client_defs
  by (intro calls_tryP calls_forE) (auto simp: staleRequest_def bindingPreconditions_def intro: calls_mapP)

section \<open>Properties\<close>

text \<open>The branches of \<^verbatim>\<open>Reconcile\<close> after the User has been read.\<close>

lemma reconcileUser_cases:
  assumes "runs (reconcileUser L name) tr r"
  obtains (unread) x where "tr = [(ReqGet Cached KUser ([], name), x)]"
  | (deleted) user t where "tr = (ReqGet Cached KUser ([], name), RObj (OUser user)) # t"
      and "m_deletion (u_meta user) \<noteq> None" and "runs (reconcileDeletedUser user) t r"
  | (unguarded) user x where "tr = [(ReqGet Cached KUser ([], name), RObj (OUser user)),
        (ReqUpdate (OUser (addFinalizer user UserFinalizer)), x)]"
      and "m_deletion (u_meta user) = None"
  | (disabled) user t where "tr = (ReqGet Cached KUser ([], name), RObj (OUser user)) # t"
      and "m_deletion (u_meta user) = None" and "us_disabled (u_spec user)"
      and "runs (reconcileDisabledUser L user) t r"
  | (active) user t where "tr = (ReqGet Cached KUser ([], name), RObj (OUser user)) # t"
      and "m_deletion (u_meta user) = None" and "\<not> us_disabled (u_spec user)"
      and "runs (reconcileActiveUser L name user) t r"
proof -
  from assms obtain x t where tr: "tr = (ReqGet Cached KUser ([], name), x) # t"
    and rest: "runs (case asObj toUser x of
       Inl e \<Rightarrow> Ret (if isNotFound e then Inr 0 else Inl e)
     | Inr user \<Rightarrow>
         if m_deletion (u_meta user) \<noteq> None then reconcileDeletedUser user
         else if \<not> containsFinalizer user UserFinalizer
         then tryP (updateP toUser (OUser (addFinalizer user UserFinalizer))) (\<lambda>_. Ret (Inr (seconds 1)))
         else if us_disabled (u_spec user) then reconcileDisabledUser L user
         else reconcileActiveUser L name user) t r"
    by (auto simp: reconcileUser_def getP_def prog_inv)
  show thesis
  proof (cases "asObj toUser x")
    case (Inl e)
    with rest tr have "tr = [(ReqGet Cached KUser ([], name), x)]" by (auto simp: prog_inv)
    then show ?thesis by (rule unread)
  next
    case (Inr user)
    then have x: "x = RObj (OUser user)" by (auto simp: prog_inv)
    show ?thesis
      using rest Inr tr x deleted unguarded disabled active
      by (auto simp: prog_inv updateP_def split: if_splits)
  qed
qed

text \<open>What a completed \<^verbatim>\<open>cleanupUser\<close> has done.\<close>

lemma deleteUserBindings_done:
  assumes "runs (deleteUserBindings rbs) tr (Inr ())" and "rb \<in> set rbs"
  shows "\<exists>x. (ReqDelete (ORoleBinding rb) [], x) \<in> set tr \<and> confirmed x"
  using assms(1) unfolding deleteUserBindings_def
  by (rule forE_done[where Q = "\<lambda>rb A. \<exists>x. (ReqDelete (ORoleBinding rb) [], x) \<in> A \<and> confirmed x"])
    (use assms(2) in \<open>auto simp: prog_inv\<close>)

lemma cleanupUser_done:
  assumes "runs (cleanupUser user) tr (Inr ())"
  shows "\<exists>obs. (ReqList Cached KRoleBinding None (managedLabels user), RList obs) \<in> set tr
    \<and> (\<forall>rb. ORoleBinding rb \<in> set obs \<longrightarrow>
         (\<exists>x. (ReqDelete (ORoleBinding rb) [], x) \<in> set tr \<and> confirmed x))"
proof -
  from assms obtain obs t1 t2 where tr: "tr = (ReqList Cached KRoleBinding None (managedLabels user), RList obs) # t1 @ t2"
    and loop: "runs (deleteUserBindings (List.map_filter toRoleBinding obs)) t1 (Inr ())"
    unfolding cleanupUser_def listP_def by (auto simp: runs_tryP runs_ask asList_Inr)
  have "\<exists>x. (ReqDelete (ORoleBinding rb) [], x) \<in> set t1 \<and> confirmed x"
    if "ORoleBinding rb \<in> set obs" for rb
    using that by (intro deleteUserBindings_done[OF loop])
      (force simp: List.map_filter_def image_iff)
  then show ?thesis unfolding tr by (intro exI[of _ obs]) auto
qed

text \<open>A namespace is deleted only by the cleanup of a deleted user that owns it.\<close>

definition namespaceDeletion :: "string \<Rightarrow> trace \<Rightarrow> req \<Rightarrow> bool" where
  "namespaceDeletion name h q \<longleftrightarrow> (\<forall>ns opts. q = ReqDelete (ONamespace ns) opts \<longrightarrow>
     (\<exists>user. (ReqGet Cached KUser ([], name), RObj (OUser user)) \<in> set h
        \<and> m_deletion (u_meta user) \<noteq> None \<and> containsFinalizer user UserFinalizer
        \<and> (ReqGet Cached KNamespace ([], ut_personalNamespace (u_status user)), RObj (ONamespace ns)) \<in> set h
        \<and> personalNamespaceMatches ns user False \<and> opts = bindingPreconditions (ns_meta ns)))"

lemma deletePersonalNamespace_guarded:
  assumes "(ReqGet Cached KUser ([], name), RObj (OUser user)) \<in> set h"
    and "m_deletion (u_meta user) \<noteq> None" and "containsFinalizer user UserFinalizer"
  shows "guarded (namespaceDeletion name) (deletePersonalNamespace user) h"
proof -
  have "namespaceDeletion name (h @ [(ReqGet Cached KNamespace ([], ut_personalNamespace (u_status user)),
      RObj (ONamespace ns))]) (ReqDelete (ONamespace ns) (bindingPreconditions (ns_meta ns)))"
    if "personalNamespaceMatches ns user False" for ns
    unfolding namespaceDeletion_def using assms that by (auto intro!: exI[of _ user])
  moreover have "namespaceDeletion name h (ReqGet rd k key)" for rd k key
    by (simp add: namespaceDeletion_def)
  ultimately show ?thesis
    unfolding deletePersonalNamespace_def bindingPreconditions_def
    by (auto simp: prog_inv split: sum.splits intro!: guarded_bind guarded_wrapP)
qed

text \<open>The requests of the disabled branch and of the active branch.\<close>

definition disabledRequest :: "user \<Rightarrow> req \<Rightarrow> bool" where
  "disabledRequest user q \<longleftrightarrow> staleRequest user q \<or> q = ReqNow
     \<or> (\<exists>u. q = ReqStatusUpdate (OUser u) \<and> u_spec u = u_spec user \<and> u_meta u = u_meta user)"

lemma reconcileDisabledUser_calls: "calls (disabledRequest user) (reconcileDisabledUser L user)"
proof -
  have "calls (disabledRequest user) (cleanupStaleRoleBindings user)"
    using cleanupStaleRoleBindings_calls[of user] by (auto simp: calls_iff disabledRequest_def)
  then show ?thesis
    unfolding reconcileDisabledUser_def writeUserStatus_def withUserCondition_def
    by (auto simp: disabledRequest_def intro!: calls_wrapP calls_bind calls_tryP)
qed

definition activeRequest :: "req \<Rightarrow> bool" where
  "activeRequest q \<longleftrightarrow> (case q of
     ReqCreate ob \<Rightarrow> kindOf ob \<in> {KNamespace, KRoleBinding, KResourceQuota}
   | ReqUpdate ob \<Rightarrow> kindOf ob \<in> {KNamespace, KRoleBinding, KResourceQuota}
   | ReqStatusUpdate ob \<Rightarrow> kindOf ob = KUser
   | ReqDelete ob opts \<Rightarrow> kindOf ob = KRoleBinding \<and> opts = bindingPreconditions (metaOf ob)
   | _ \<Rightarrow> True)"

lemma active_of_grant: "grantRequest u ns cr bt q \<Longrightarrow> activeRequest q"
  by (auto simp: grantRequest_def activeRequest_def grantsOnly_def split: req.splits kobj.splits)

lemma active_of_stale: "staleRequest u q \<Longrightarrow> activeRequest q"
  by (auto simp: staleRequest_def activeRequest_def)

lemma ensureResourceQuota_calls:
  assumes "createOrUpdate_doc L"
  shows "calls activeRequest (ensureResourceQuota L user ns spec)"
  unfolding ensureResourceQuota_def
  by (intro calls_createOrUpdate[OF assms]) (auto simp: activeRequest_def elim: mutateResourceQuota_cases)

lemma personalNamespace_calls:
  assumes "createOrUpdate_doc L"
  shows "calls activeRequest (reconcilePersonalNamespace L user pn)"
proof -
  have "calls activeRequest (l_createOrUpdate L ob (mutateNamespace user pn name))" for ob name
    by (intro calls_createOrUpdate[OF assms]) (auto simp: activeRequest_def elim: mutateNamespace_cases)
  moreover have "calls activeRequest (ensureRoleBinding L u ns cr bt)" for u ns cr bt
    by (rule calls_weaken[OF ensureRoleBinding_calls[OF assms] active_of_grant])
  ultimately show ?thesis
    unfolding reconcilePersonalNamespace_def Let_def
    by (auto intro!: calls_wrapP ensureResourceQuota_calls[OF assms])
qed

lemma reconcileNamespaceAccess_calls:
  assumes "createOrUpdate_doc L"
  shows "calls activeRequest (reconcileNamespaceAccess L user)"
  unfolding reconcileNamespaceAccess_def
  by (auto intro!: calls_tryP calls_forE calls_wrapP
      calls_weaken[OF ensureRoleBinding_calls[OF assms] active_of_grant]
      calls_weaken[OF cleanupStaleRoleBindings_calls active_of_stale])

lemma reconcileUserNamespace_calls:
  assumes "createOrUpdate_doc L"
  shows "calls activeRequest (reconcileUserNamespace L user e)"
  unfolding reconcileUserNamespace_def warnOnError_def
  by (auto simp: activeRequest_def[of "ReqEvent t a b" for t a b] activeRequest_def[of "ReqStatusUpdate ob" for ob]
      split: option.split sum.split intro!: calls_bind calls_tryP personalNamespace_calls[OF assms])

lemma reconcileActiveUser_calls:
  assumes "createOrUpdate_doc L"
  shows "calls activeRequest (reconcileActiveUser L name user)"
proof -
  have simple: "activeRequest (ReqGet rd k key)" "activeRequest (ReqEvent t a b)" "activeRequest ReqNow"
    "activeRequest (ReqStatusUpdate (OUser u))" for rd k key t a b u
    by (simp_all add: activeRequest_def)
  show ?thesis
    unfolding reconcileActiveUser_def warnOnError_def getAuthConfig_def writeUserStatus_def Let_def
    by (auto simp: simple split: option.split sum.split
        intro!: calls_bind calls_tryP reconcileUserNamespace_calls[OF assms] reconcileNamespaceAccess_calls[OF assms])
qed

subsection \<open>Deleting data\<close>

lemma cleanupUser_guarded:
  assumes "(ReqGet Cached KUser ([], name), RObj (OUser user)) \<in> set h"
    and "m_deletion (u_meta user) \<noteq> None" and "containsFinalizer user UserFinalizer"
  shows "guarded (namespaceDeletion name) (cleanupUser user) h"
proof -
  have "calls (\<lambda>q. \<exists>rb. q = ReqDelete (ORoleBinding rb) []) (deleteUserBindings rbs)" for rbs
    unfolding deleteUserBindings_def by (intro calls_forE calls_wrapP calls_mapP) auto
  then have "guarded (namespaceDeletion name) (deleteUserBindings rbs) h'" for rbs h'
    by (rule guarded_calls) (auto simp: namespaceDeletion_def)
  moreover have "namespaceDeletion name h (ReqList rd k sc sel)" for rd k sc sel
    by (simp add: namespaceDeletion_def)
  ultimately show ?thesis
    unfolding cleanupUser_def using assms
    by (intro guarded_tryP deletePersonalNamespace_guarded) auto
qed

lemma reconcileUser_namespaceDeletion:
  assumes "createOrUpdate_doc L"
  shows "guarded (namespaceDeletion name) (reconcileUser L name) []"
proof -
  have other: "namespaceDeletion name h q" if "\<And>ns opts. q \<noteq> ReqDelete (ONamespace ns) opts" for h q
    using that by (simp add: namespaceDeletion_def)
  have dis: "guarded (namespaceDeletion name) (reconcileDisabledUser L user) h" for user h
    by (rule guarded_calls[OF reconcileDisabledUser_calls])
      (auto simp: disabledRequest_def staleRequest_def intro!: other)
  have act: "guarded (namespaceDeletion name) (reconcileActiveUser L name user) h" for user h
    by (rule guarded_calls[OF reconcileActiveUser_calls[OF assms]])
      (auto simp: activeRequest_def intro!: other)
  have del: "guarded (namespaceDeletion name) (reconcileDeletedUser user) h"
    if "(ReqGet Cached KUser ([], name), RObj (OUser user)) \<in> set h" "m_deletion (u_meta user) \<noteq> None"
    for user h
    unfolding reconcileDeletedUser_def using that
    by (auto intro!: guarded_tryP cleanupUser_guarded other)
  show ?thesis
    unfolding reconcileUser_def using dis act
    by (auto simp: prog_inv split: sum.split intro!: guarded_bind guarded_tryP del other)
qed

text \<open>
  C7. A namespace, and with it a user's data, is deleted only when the User that was read is being
  deleted and carries the controller's finalizer, and the namespace read just before belongs to it:
  it has the ownership labels, its UID annotation is the UID of this very User (a legacy namespace
  without one is never deleted) and it is not being deleted already. The request carries the UID and
  the resource version that were read as preconditions.
\<close>

theorem namespace_deletion_safe:
  assumes "createOrUpdate_doc L" and "runs (reconcileUser L name) tr r"
    and "(ReqDelete (ONamespace ns) opts, x) \<in> set tr"
  shows "\<exists>user pre post. tr = pre @ (ReqDelete (ONamespace ns) opts, x) # post
    \<and> (ReqGet Cached KUser ([], name), RObj (OUser user)) \<in> set pre
    \<and> m_deletion (u_meta user) \<noteq> None \<and> UserFinalizer \<in> set (m_finalizers (u_meta user))
    \<and> (ReqGet Cached KNamespace ([], ut_personalNamespace (u_status user)), RObj (ONamespace ns)) \<in> set pre
    \<and> m_uid (u_meta user) \<noteq> []
    \<and> mget (m_annotations (ns_meta ns)) AnnotationUserUID = m_uid (u_meta user)
    \<and> mget (m_labels (ns_meta ns)) LabelManagedByUser = ManagedByValue
    \<and> mget (m_labels (ns_meta ns)) LabelUserName = m_name (u_meta user)
    \<and> mget (m_labels (ns_meta ns)) LabelPersonalNamespace = LabelValueTrue
    \<and> m_deletion (ns_meta ns) = None
    \<and> opts = [PreUID (m_uid (ns_meta ns)), PreResourceVersion (m_resourceVersion (ns_meta ns))]"
proof -
  obtain pre post where tr: "tr = pre @ (ReqDelete (ONamespace ns) opts, x) # post"
    and just: "namespaceDeletion name pre (ReqDelete (ONamespace ns) opts)"
    using guardedD_set[OF reconcileUser_namespaceDeletion[OF assms(1)] assms(2,3)] by blast
  then obtain user where "(ReqGet Cached KUser ([], name), RObj (OUser user)) \<in> set pre"
    "m_deletion (u_meta user) \<noteq> None" "containsFinalizer user UserFinalizer"
    "(ReqGet Cached KNamespace ([], ut_personalNamespace (u_status user)), RObj (ONamespace ns)) \<in> set pre"
    "personalNamespaceMatches ns user False" "opts = bindingPreconditions (ns_meta ns)"
    by (auto simp: namespaceDeletion_def)
  with tr show ?thesis
    by (intro exI[of _ user] exI[of _ pre] exI[of _ post])
      (auto simp: personalNamespaceMatches_def containsFinalizer_def bindingPreconditions_def Let_def split: if_splits)
qed

text \<open>A deleted user that owns its namespace, for the witnesses.\<close>

definition exSpec :: userSpec where
  "exSpec = \<lparr>us_email = ''a@x'', us_displayName = [], us_role = UserRoleEditor, us_disabled = False,
     us_groups = [], us_namespaceAccess = [\<lparr>na_namespace = ''team'', na_role = UserRoleAdmin\<rparr>],
     us_executionGrants = [], us_localAuth = None, us_externalIdentities = []\<rparr>"

definition exUser :: user where
  "exUser = \<lparr>u_meta = (objectMeta [] ''alice'')\<lparr>m_uid := ''u1'', m_resourceVersion := ''7'',
       m_finalizers := [UserFinalizer]\<rparr>,
     u_spec = exSpec,
     u_status = \<lparr>ut_personalNamespace = ''alice'', ut_avatarURL = [], ut_lastLogin = None,
       ut_loginCount = 0, ut_failedLoginAttempts = 0, ut_lockedUntil = None, ut_conditions = []\<rparr>\<rparr>"

definition exDeletedUser :: user where
  "exDeletedUser = exUser\<lparr>u_meta := (u_meta exUser)\<lparr>m_deletion := Some 5\<rparr>\<rparr>"

definition exNamespace :: namespace where
  "exNamespace = \<lparr>ns_meta = (objectMeta [] ''alice'')\<lparr>m_uid := ''n1'', m_resourceVersion := ''9'',
     m_creation := Some 1,
     m_labels := [(LabelManagedByUser, ManagedByValue), (LabelUserName, ''alice''), (LabelPersonalNamespace, LabelValueTrue)],
     m_annotations := [(AnnotationUserUID, ''u1''), (AnnotationUserEmail, ''a@x'')]\<rparr>\<rparr>"

definition exBinding :: "string \<Rightarrow> string \<Rightarrow> string \<Rightarrow> roleBinding" where
  "exBinding ns name cr = \<lparr>rb_meta = (objectMeta ns name)\<lparr>m_uid := ''b1'', m_resourceVersion := ''3'',
       m_labels := managedLabels exUser\<rparr>,
     rb_subjects = [\<lparr>sub_kind = ''User'', sub_name = ''a@x''\<rparr>], rb_roleRef = clusterRoleRef cr\<rparr>"

lemmas example_defs = exSpec_def exUser_def exDeletedUser_def exNamespace_def exBinding_def objectMeta_def
  managedLabels_def

lemma deletion_run:
  "runs (reconcileUser ref_lib ''alice'')
     [(ReqGet Cached KUser ([], ''alice''), RObj (OUser exDeletedUser)),
      (ReqList Cached KRoleBinding None (managedLabels exUser), RList [ORoleBinding (exBinding ''alice'' ''alice-personal'' ''workspace-editor-role'')]),
      (ReqDelete (ORoleBinding (exBinding ''alice'' ''alice-personal'' ''workspace-editor-role'')) [], ROk),
      (ReqGet Cached KNamespace ([], ''alice''), RObj (ONamespace exNamespace)),
      (ReqDelete (ONamespace exNamespace) [PreUID ''n1'', PreResourceVersion ''9''], ROk),
      (ReqUpdate (OUser (removeFinalizer exDeletedUser UserFinalizer)), RObj (OUser exDeletedUser))] (Inr 0)"
  by (rule exec_runs[where rs = "[RObj (OUser exDeletedUser),
        RList [ORoleBinding (exBinding ''alice'' ''alice-personal'' ''workspace-editor-role'')], ROk,
        RObj (ONamespace exNamespace), ROk, RObj (OUser exDeletedUser)]"], code_simp)

theorem namespace_deletion_safe_witness:
  "\<exists>user tr. runs (reconcileUser ref_lib ''alice'') tr (Inr 0)
     \<and> (\<exists>opts. (ReqDelete (ONamespace exNamespace) opts, ROk) \<in> set tr)
     \<and> (ReqGet Cached KUser ([], ''alice''), RObj (OUser user)) \<in> set tr
     \<and> mget (m_annotations (ns_meta exNamespace)) AnnotationUserUID = m_uid (u_meta user)"
proof -
  obtain tr where tr: "runs (reconcileUser ref_lib ''alice'') tr (Inr 0)"
    and del: "(ReqDelete (ONamespace exNamespace) [PreUID ''n1'', PreResourceVersion ''9''], ROk) \<in> set tr"
    using deletion_run by (meson list.set_intros)
  from namespace_deletion_safe[OF ref_createOrUpdate_doc this] obtain user pre post where
    "tr = pre @ (ReqDelete (ONamespace exNamespace) [PreUID ''n1'', PreResourceVersion ''9''], ROk) # post"
    "(ReqGet Cached KUser ([], ''alice''), RObj (OUser user)) \<in> set pre"
    "mget (m_annotations (ns_meta exNamespace)) AnnotationUserUID = m_uid (u_meta user)" by blast
  with tr del show ?thesis by (metis Un_iff set_append)
qed

subsection \<open>Ownership of namespaces and grants\<close>

definition seenUser :: "trace \<Rightarrow> user \<Rightarrow> bool" where
  "seenUser h u \<longleftrightarrow> (\<exists>q. (q, RObj (OUser u)) \<in> set h)"

lemma seenUser_append [simp]: "seenUser (h @ t) u \<longleftrightarrow> seenUser h u \<or> seenUser t u"
  by (auto simp: seenUser_def)

lemma seenUser_Cons [simp]: "seenUser ((q, x) # t) u \<longleftrightarrow> x = RObj (OUser u) \<or> seenUser t u"
  by (auto simp: seenUser_def)

text \<open>A namespace written for a user, and a RoleBinding written for one.\<close>

definition namespaceWrite :: "trace \<Rightarrow> req \<Rightarrow> bool" where
  "namespaceWrite h q \<longleftrightarrow>
     (\<forall>ns. q = ReqCreate (ONamespace ns) \<longrightarrow> (\<exists>u. seenUser h u \<and> stampedFor u (ONamespace ns)))
   \<and> (\<forall>ns. q = ReqUpdate (ONamespace ns) \<longrightarrow> (\<exists>u cur. seenUser h u \<and> stampedFor u (ONamespace ns)
        \<and> (\<exists>key. (ReqGet Cached KNamespace key, RObj (ONamespace cur)) \<in> set h)
        \<and> keyOf (ONamespace cur) = keyOf (ONamespace ns)
        \<and> (m_resourceVersion (ns_meta cur) \<noteq> [] \<longrightarrow> personalNamespaceMatches cur u True)))"

text \<open>
  What a User may be granted, read off the objects seen so far. The personal grant needs an AuthConfig that was read
  with personal namespaces enabled; its namespace is the one recorded in the User's status and only without
  a record the one of the template (\<open>personalFor\<close>), and that namespace is already the user's in this pass: the API server accepted it
  stamped for the user, or returned it so (\<open>claimed\<close>).
\<close>

definition seenAuthConfig :: "trace \<Rightarrow> authConfig \<Rightarrow> bool" where
  "seenAuthConfig h a \<longleftrightarrow> (ReqGet Cached KAuthConfig ([], ''default''), RObj (OAuthConfig a)) \<in> set h"

lemma seenAuthConfig_append [simp]: "seenAuthConfig (h @ t) a \<longleftrightarrow> seenAuthConfig h a \<or> seenAuthConfig t a"
  by (auto simp: seenAuthConfig_def)

definition personalFor :: "authConfig \<Rightarrow> user \<Rightarrow> string \<Rightarrow> bool" where
  "personalFor a u ns \<longleftrightarrow> (\<exists>pn. ac_personalNamespaces (a_spec a) = Some pn \<and> pn_enabled pn
     \<and> (if ut_personalNamespace (u_status u) \<noteq> [] then ns = ut_personalNamespace (u_status u)
        else if pn_template pn = [] then ns = m_name (u_meta u)
        else ns = replaceAll ''{{username}}'' (m_name (u_meta u)) (pn_template pn)))"

definition claimed :: "trace \<Rightarrow> user \<Rightarrow> string \<Rightarrow> bool" where
  "claimed h u ns \<longleftrightarrow> (\<exists>ob. stampedFor u (ONamespace ob) \<and>
     ((\<exists>x. asUnit x = Inr () \<and> (ReqCreate (ONamespace ob), x) \<in> set h \<and> keyOf (ONamespace ob) = ([], ns))
      \<or> (\<exists>cur. (ReqGet Cached KNamespace ([], ns), RObj (ONamespace cur)) \<in> set h
           \<and> (m_resourceVersion (ns_meta cur) \<noteq> [] \<longrightarrow> personalNamespaceMatches cur u True)
           \<and> (ob = cur \<or> keyOf (ONamespace ob) = keyOf (ONamespace cur)
                \<and> (\<exists>x. asUnit x = Inr () \<and> (ReqUpdate (ONamespace ob), x) \<in> set h)))))"

definition roleGrants :: "string \<Rightarrow> string \<Rightarrow> bool" where
  "roleGrants role cr \<longleftrightarrow> role = ''admin'' \<and> cr = ''workspace-admin-role'' \<or> role = ''viewer'' \<and> cr = ''workspace-viewer-role''
     \<or> role \<notin> {''admin'', ''viewer''} \<and> cr = ''workspace-editor-role''"

definition entitled :: "trace \<Rightarrow> user \<Rightarrow> string \<Rightarrow> string \<Rightarrow> string \<Rightarrow> bool" where
  "entitled h u ns cr bt \<longleftrightarrow>
     cr = ''workspace-editor-role'' \<and> bt = ''personal'' \<and> claimed h u ns \<and> (\<exists>a. seenAuthConfig h a \<and> personalFor a u ns)
   \<or> bt = ''shared'' \<and> (\<exists>a \<in> set (us_namespaceAccess (u_spec u)). ns = na_namespace a \<and> roleGrants (na_role a) cr)"

lemma roleGrants_roleToClusterRole: "roleGrants role (roleToClusterRole role)"
  by (simp add: roleGrants_def roleToClusterRole_def UserRoleAdmin_def UserRoleViewer_def)

lemma entitled_shared:
  "a \<in> set (us_namespaceAccess (u_spec u)) \<Longrightarrow> entitled h u (na_namespace a) (roleToClusterRole (na_role a)) ''shared''"
  using roleGrants_roleToClusterRole by (auto simp: entitled_def)

lemma claimed_mono: "claimed h u ns \<Longrightarrow> set h \<subseteq> set h' \<Longrightarrow> claimed h' u ns"
  unfolding claimed_def by blast

lemma entitled_mono: "entitled h u ns cr bt \<Longrightarrow> set h \<subseteq> set h' \<Longrightarrow> entitled h' u ns cr bt"
  unfolding entitled_def seenAuthConfig_def using claimed_mono by blast

lemma entitled_append: "entitled h u ns cr bt \<Longrightarrow> entitled (h @ t) u ns cr bt"
  by (rule entitled_mono) auto

lemma namespace_claimed:
  assumes "createOrUpdate_doc L"
    and "runs (l_createOrUpdate L (ONamespace \<lparr>ns_meta = objectMeta [] nsName\<rparr>) (mutateNamespace u pn nsName)) tr (Inr ())"
  shows "claimed tr u nsName"
proof -
  have key: "keyOf (ONamespace \<lparr>ns_meta = objectMeta [] nsName\<rparr>) = ([], nsName)" by (simp add: keyOf_def objectMeta_def)
  have stamped: "mutateNamespace u pn nsName ob = Inr ob' \<Longrightarrow> \<exists>ns ns'. ob = ONamespace ns \<and> ob' = ONamespace ns'
      \<and> stampedFor u (ONamespace ns') \<and> (m_resourceVersion (ns_meta ns) \<noteq> [] \<longrightarrow> personalNamespaceMatches ns u True)" for ob ob'
    by (elim mutateNamespace_cases) (simp add: namespace_stamped, blast)
  from createOrUpdate_runs[OF assms] show ?thesis
  proof cases
    case (created g e ob' x)
    from stamped[OF created(5)] obtain ns' where "ob' = ONamespace ns'" "stampedFor u (ONamespace ns')" by blast
    with created key show ?thesis unfolding claimed_def by (intro exI[of _ ns']) auto
  next
    case (unchanged cur)
    from stamped[OF unchanged(2)] unchanged(1) key show ?thesis unfolding claimed_def by fastforce
  next
    case (updated cur ob' x)
    from stamped[OF updated(3)] updated key show ?thesis unfolding claimed_def by fastforce
  qed
qed

definition bindingWrite :: "trace \<Rightarrow> req \<Rightarrow> bool" where
  "bindingWrite h q \<longleftrightarrow> (\<forall>rb. q = ReqCreate (ORoleBinding rb) \<or> q = ReqUpdate (ORoleBinding rb) \<longrightarrow>
     (\<exists>u ns cr bt. seenUser h u \<and> entitled h u ns cr bt \<and> grantsOnly u cr (ORoleBinding rb)
        \<and> (keyOf (ORoleBinding rb) = (ns, bindingName u bt)
           \<or> (\<exists>cur. (ReqGet Cached KRoleBinding (ns, bindingName u bt), RObj cur) \<in> set h
                \<and> keyOf cur = keyOf (ORoleBinding rb)))))"

lemma bindingWriteI:
  assumes "seenUser h u" and "entitled h u ns cr bt" and "grantsOnly u cr ob"
    and "keyOf ob = (ns, bindingName u bt)
      \<or> (\<exists>cur. (ReqGet Cached KRoleBinding (ns, bindingName u bt), RObj cur) \<in> set h \<and> keyOf cur = keyOf ob)"
  shows "bindingWrite h (ReqCreate ob)" and "bindingWrite h (ReqUpdate ob)"
  using assms unfolding bindingWrite_def by blast+

lemma ensureRoleBinding_writes:
  assumes "createOrUpdate_doc L" and "seenUser h u" and "entitled h u ns cr bt"
  shows "guarded bindingWrite (ensureRoleBinding L u ns cr bt) h"
proof -
  have other: "bindingWrite h q" if "\<And>ob. q \<noteq> ReqCreate ob" "\<And>ob. q \<noteq> ReqUpdate ob" for h q
    using that by (simp add: bindingWrite_def)
  have key: "keyOf (ORoleBinding (emptyRoleBinding ns (bindingName u bt))) = (ns, bindingName u bt)"
    by (simp add: keyOf_def emptyRoleBinding_def objectMeta_def)
  have fin: "guarded bindingWrite (l_createOrUpdate L
      (ORoleBinding (emptyRoleBinding ns (bindingName u bt))) (mutateRoleBinding u cr)) (h @ t)" for t
  proof (rule guarded_createOrUpdate[OF assms(1)])
    show "bindingWrite (h @ t) (ReqGet Cached k x)" for k x by (rule other) auto
  qed (use assms(2) in \<open>auto simp: key intro!: bindingWriteI entitled_append[OF assms(3)] intro: grant.establishes\<close>)
  show ?thesis
    unfolding ensureRoleBinding_def Let_def
    by (auto simp: prog_inv split: sum.splits intro!: guarded_bind guarded_tryP fin[of "[]", simplified] fin other)
qed

lemma bindingWrite_other: "(\<And>rb. q \<noteq> ReqCreate (ORoleBinding rb)) \<Longrightarrow>
    (\<And>rb. q \<noteq> ReqUpdate (ORoleBinding rb)) \<Longrightarrow> bindingWrite h q"
  by (simp add: bindingWrite_def)

lemma namespaceWrite_other: "(\<And>ns. q \<noteq> ReqCreate (ONamespace ns)) \<Longrightarrow>
    (\<And>ns. q \<noteq> ReqUpdate (ONamespace ns)) \<Longrightarrow> namespaceWrite h q"
  by (simp add: namespaceWrite_def)

lemmas write_other = bindingWrite_other namespaceWrite_other

text \<open>Both contracts together: what the active branch may write.\<close>

definition userWrite :: "trace \<Rightarrow> req \<Rightarrow> bool" where
  "userWrite h q \<longleftrightarrow> namespaceWrite h q \<and> bindingWrite h q"

lemma ensureRoleBinding_userWrite:
  assumes "createOrUpdate_doc L" and "seenUser h u" and "entitled h u ns cr bt"
  shows "guarded userWrite (ensureRoleBinding L u ns cr bt) h"
proof -
  have "guarded namespaceWrite (ensureRoleBinding L u ns cr bt) h"
    by (rule guarded_calls[OF ensureRoleBinding_calls[OF assms(1)]], rule namespaceWrite_other)
      (auto simp: grantRequest_def grantsOnly_def)
  from guarded_conj[OF this ensureRoleBinding_writes[OF assms]] show ?thesis
    by (simp add: userWrite_def[abs_def])
qed

lemma namespaceWriteI:
  assumes "seenUser h u" and "stampedFor u ob"
  shows "namespaceWrite h (ReqCreate ob)"
    and "(ReqGet Cached KNamespace key, RObj (ONamespace cur)) \<in> set h \<Longrightarrow> keyOf ob = keyOf (ONamespace cur) \<Longrightarrow>
      m_creation (ns_meta cur) = None \<and> m_resourceVersion (ns_meta cur) = [] \<or> personalNamespaceMatches cur u True \<Longrightarrow>
      namespaceWrite h (ReqUpdate ob)"
  using assms unfolding namespaceWrite_def by auto (metis surj_pair)+

lemma createNamespace_userWrite:
  assumes "createOrUpdate_doc L" and "seenUser h u"
  shows "guarded userWrite (l_createOrUpdate L (ONamespace \<lparr>ns_meta = objectMeta [] nsName\<rparr>)
    (mutateNamespace u pn nsName)) h"
proof (rule guarded_createOrUpdate[OF assms(1)])
  fix cur ob' assume m: "mutateNamespace u pn nsName cur = Inr ob'" and k: "keyOf ob' = keyOf cur"
  obtain ns ns' where ob: "cur = ONamespace ns" "ob' = ONamespace ns'"
    and own: "m_creation (ns_meta ns) = None \<and> m_resourceVersion (ns_meta ns) = []
         \<or> personalNamespaceMatches ns u True"
    using m by (elim mutateNamespace_cases) blast
  show "userWrite (h @ [(ReqGet Cached (kindOf (ONamespace \<lparr>ns_meta = objectMeta [] nsName\<rparr>))
      (keyOf (ONamespace \<lparr>ns_meta = objectMeta [] nsName\<rparr>)), RObj cur)]) (ReqUpdate ob')"
    using own k assms(2) personal.establishes[OF m]
    by (auto simp: ob userWrite_def bindingWrite_def intro!: namespaceWriteI)
next
  fix g ob' assume m: "mutateNamespace u pn nsName (ONamespace \<lparr>ns_meta = objectMeta [] nsName\<rparr>) = Inr ob'"
  then obtain ns' where "ob' = ONamespace ns'" by (elim mutateNamespace_cases) blast
  then show "userWrite (h @ [(ReqGet Cached (kindOf (ONamespace \<lparr>ns_meta = objectMeta [] nsName\<rparr>))
      (keyOf (ONamespace \<lparr>ns_meta = objectMeta [] nsName\<rparr>)), g)]) (ReqCreate ob')"
    using personal.establishes[OF m] assms(2)
    by (auto simp: userWrite_def bindingWrite_def intro!: namespaceWriteI)
qed (simp add: userWrite_def write_other)

lemma userWrite_of_calls:
  assumes "calls Q p" and "\<And>q. Q q \<Longrightarrow> case q of ReqCreate ob \<Rightarrow> kindOf ob \<notin> {KNamespace, KRoleBinding}
    | ReqUpdate ob \<Rightarrow> kindOf ob \<notin> {KNamespace, KRoleBinding} | _ \<Rightarrow> True"
  shows "guarded userWrite p h"
proof (rule guarded_calls[OF assms(1)])
  fix t q assume "Q q"
  from assms(2)[OF this] show "userWrite (h @ t) q"
    by (auto simp: userWrite_def namespaceWrite_def bindingWrite_def split: req.splits)
qed

lemma ensureResourceQuota_userWrite:
  assumes "createOrUpdate_doc L"
  shows "guarded userWrite (ensureResourceQuota L user ns spec) h"
proof -
  have "calls (\<lambda>q. case q of ReqCreate ob \<Rightarrow> kindOf ob = KResourceQuota
      | ReqUpdate ob \<Rightarrow> kindOf ob = KResourceQuota | _ \<Rightarrow> True) (ensureResourceQuota L user ns spec)"
    unfolding ensureResourceQuota_def
    by (intro calls_createOrUpdate[OF assms]) (auto elim: mutateResourceQuota_cases)
  then show ?thesis by (rule userWrite_of_calls) (auto split: req.splits)
qed

lemma personalNamespace_userWrite:
  assumes "createOrUpdate_doc L" and "seenUser h user" and "seenAuthConfig h a" and "personalNamespacesEnabled (Some a) = Some pn"
  shows "guarded userWrite (reconcilePersonalNamespace L user pn) h"
proof -
  have "personalFor a user (personalNamespaceName user pn)"
    using assms(4) by (auto simp: personalNamespacesEnabled_def personalFor_def personalNamespaceName_def renderNamespaceTemplate_def
        split: option.splits if_splits)
  then have "entitled (h @ t) user (personalNamespaceName user pn) ''workspace-editor-role'' ''personal''"
    if "runs (l_createOrUpdate L (ONamespace \<lparr>ns_meta = objectMeta [] (personalNamespaceName user pn)\<rparr>)
      (mutateNamespace user pn (personalNamespaceName user pn))) t (Inr ())" for t
    using assms(3) claimed_mono[OF namespace_claimed[OF assms(1) that], of "h @ t"] by (auto simp: entitled_def)
  then show ?thesis
    unfolding reconcilePersonalNamespace_def Let_def
    using assms(1,2) by (auto intro!: guarded_wrapP createNamespace_userWrite ensureRoleBinding_userWrite
        ensureResourceQuota_userWrite)
qed

lemma reconcileNamespaceAccess_userWrite:
  assumes "createOrUpdate_doc L" and "seenUser h user"
  shows "guarded userWrite (reconcileNamespaceAccess L user) h"
  unfolding reconcileNamespaceAccess_def using assms
  by (auto simp: staleRequest_def intro: entitled_shared intro!: guarded_tryP guarded_forE guarded_wrapP
      ensureRoleBinding_userWrite userWrite_of_calls[OF cleanupStaleRoleBindings_calls])

lemma userWrite_simple [simp]:
  "userWrite h (ReqGet rd k key)" "userWrite h (ReqEvent t a b)" "userWrite h ReqNow"
  "userWrite h (ReqStatusUpdate ob)" "userWrite h (ReqUpdate (OUser u))" "userWrite h (ReqDelete ob opts)"
  "userWrite h (ReqList rd k sc sel)"
  by (simp_all add: userWrite_def write_other)

text \<open>The user handed on after the namespace step is one the API server returned.\<close>

lemma runs_warnOnError_Inr:
  "runs (warnOnError reason p k) tr (Inr y) \<longleftrightarrow>
     (\<exists>t1 x t2. runs p t1 (Inr x) \<and> runs (k x) t2 (Inr y) \<and> tr = t1 @ t2)"
proof
  assume "runs (warnOnError reason p k) tr (Inr y)"
  then obtain t1 r t2 where *: "runs p t1 r" "tr = t1 @ t2"
    "runs (case r of Inl e \<Rightarrow> bind (eventP ''Warning'' reason (errText e)) (\<lambda>_. Ret (Inl e)) | Inr x \<Rightarrow> k x) t2 (Inr y)"
    by (auto simp: warnOnError_def runs_bind)
  then show "\<exists>t1 x t2. runs p t1 (Inr x) \<and> runs (k x) t2 (Inr y) \<and> tr = t1 @ t2"
    by (cases r) (auto simp: prog_inv)
next
  assume "\<exists>t1 x t2. runs p t1 (Inr x) \<and> runs (k x) t2 (Inr y) \<and> tr = t1 @ t2"
  then obtain t1 x t2 where *: "runs p t1 (Inr x)" "runs (k x) t2 (Inr y)" "tr = t1 @ t2" by blast
  show "runs (warnOnError reason p k) tr (Inr y)"
    unfolding warnOnError_def runs_bind
    by (rule exI[of _ t1], rule exI[of _ "Inr x"], rule exI[of _ t2]) (use * in simp)
qed

lemma reconcileUserNamespace_seen:
  assumes "runs (reconcileUserNamespace L user e) tr (Inr user1)"
  shows "user1 = user \<or> seenUser tr user1"
  using assms unfolding reconcileUserNamespace_def
  by (auto simp: runs_warnOnError_Inr prog_inv split: option.splits if_splits)

lemma reconcileUserNamespace_userWrite:
  assumes "createOrUpdate_doc L" and "seenUser h user" and "\<And>a. authConfig = Some a \<Longrightarrow> seenAuthConfig h a"
  shows "guarded userWrite (reconcileUserNamespace L user (personalNamespacesEnabled authConfig)) h"
proof (cases "personalNamespacesEnabled authConfig")
  case (Some pn)
  then obtain a where "authConfig = Some a" by (auto simp: personalNamespacesEnabled_def split: option.splits)
  with Some assms(3) have "seenAuthConfig h a" "personalNamespacesEnabled (Some a) = Some pn" by simp_all
  from personalNamespace_userWrite[OF assms(1,2) this] Some show ?thesis unfolding reconcileUserNamespace_def warnOnError_def
    by (auto split: sum.split intro!: guarded_bind guarded_tryP)
qed (simp add: reconcileUserNamespace_def)

lemma getAuthConfig_seen:
  assumes "runs getAuthConfig tr (Inr (Some a))"
  shows "seenAuthConfig tr a"
proof -
  from assms obtain g where "runs (getP Cached KAuthConfig toAuthConfig [] ''default'') tr g"
    and "(case g of Inl e \<Rightarrow> if isNotFound e then Inr None else Inl e | Inr a \<Rightarrow> Inr (Some a)) = Inr (Some a)"
    by (auto simp: getAuthConfig_def runs_bind runs_Ret_iff)
  then show ?thesis by (cases g) (auto simp: seenAuthConfig_def prog_inv split: if_splits)
qed

lemma reconcileActiveUser_userWrite:
  assumes "createOrUpdate_doc L" and "seenUser h user"
  shows "guarded userWrite (reconcileActiveUser L name user) h"
proof -
  have config: "guarded userWrite getAuthConfig h" unfolding getAuthConfig_def by (auto intro!: guarded_bind)
  have ns: "guarded userWrite (reconcileUserNamespace L user (personalNamespacesEnabled authConfig)) (h @ t)"
    if "runs getAuthConfig t (Inr authConfig)" for t authConfig
    using assms that by (intro reconcileUserNamespace_userWrite) (auto dest: getAuthConfig_seen)
  have access: "guarded userWrite (reconcileNamespaceAccess L user1) ((h @ t) @ t')"
    if "runs (reconcileUserNamespace L user e) t' (Inr user1)" for e t t' user1
    using reconcileUserNamespace_seen[OF that] assms by (intro reconcileNamespaceAccess_userWrite) auto
  show ?thesis
    unfolding reconcileActiveUser_def warnOnError_def writeUserStatus_def Let_def
    by (rule guarded_bind[OF config]) (auto split: option.split sum.split intro!: guarded_bind guarded_tryP ns access)
qed

lemma reconcileUser_userWrite:
  assumes "createOrUpdate_doc L"
  shows "guarded userWrite (reconcileUser L name) []"
proof -
  have dis: "guarded userWrite (reconcileDisabledUser L user) h" for user h
    by (rule userWrite_of_calls[OF reconcileDisabledUser_calls])
      (auto simp: disabledRequest_def staleRequest_def)
  have del: "guarded userWrite (reconcileDeletedUser user) h" for user h
    unfolding reconcileDeletedUser_def cleanupUser_def deleteUserBindings_def deletePersonalNamespace_def
    by (auto split: sum.split intro!: guarded_tryP guarded_bind guarded_wrapP guarded_forE)
  show ?thesis
    unfolding reconcileUser_def
    by (auto simp: prog_inv split: sum.split
        intro!: guarded_bind guarded_tryP del dis reconcileActiveUser_userWrite[OF assms])
qed

text \<open>
  C8. The controller takes over no namespace that is not the user's. A namespace it updates was read
  before and, unless it has never been stored, carried the ownership labels and either the UID of this
  User or (legacy) was recorded in the User's status with the same e-mail address. Every namespace
  it creates or updates is stamped with the ownership labels, the e-mail address and the UID of the
  User, whatever labels and annotations the AuthConfig asks for.
\<close>

theorem namespace_never_adopted:
  assumes "createOrUpdate_doc L" and "runs (reconcileUser L name) tr r"
    and "(q, x) \<in> set tr" and "q = ReqCreate (ONamespace ns) \<or> q = ReqUpdate (ONamespace ns)"
  shows "\<exists>u. seenUser tr u \<and> stampedFor u (ONamespace ns)
    \<and> (q = ReqUpdate (ONamespace ns) \<longrightarrow> (\<exists>cur key. (ReqGet Cached KNamespace key, RObj (ONamespace cur)) \<in> set tr
        \<and> m_name (ns_meta cur) = m_name (ns_meta ns)
        \<and> (m_resourceVersion (ns_meta cur) \<noteq> [] \<longrightarrow> personalNamespaceMatches cur u True)))"
proof -
  obtain pre post where tr: "tr = pre @ (q, x) # post" and w: "namespaceWrite pre q"
    using guardedD_set[OF reconcileUser_userWrite[OF assms(1)] assms(2,3)] by (auto simp: userWrite_def)
  show ?thesis
  proof (cases "q = ReqUpdate (ONamespace ns)")
    case True
    then obtain u cur key where "seenUser pre u" "stampedFor u (ONamespace ns)"
      "(ReqGet Cached KNamespace key, RObj (ONamespace cur)) \<in> set pre"
      "keyOf (ONamespace cur) = keyOf (ONamespace ns)"
      "m_resourceVersion (ns_meta cur) \<noteq> [] \<longrightarrow> personalNamespaceMatches cur u True"
      using w unfolding namespaceWrite_def by blast
    then show ?thesis unfolding tr
      by (intro exI[of _ u] conjI impI exI[of _ cur] exI[of _ key]) (simp_all add: keyOf_def)
  next
    case False
    with w assms(4) obtain u where "seenUser pre u" "stampedFor u (ONamespace ns)"
      unfolding namespaceWrite_def by blast
    with False show ?thesis unfolding tr by (intro exI[of _ u]) simp
  qed
qed

text \<open>
  C9. Every RoleBinding the controller creates or updates grants one cluster role to the e-mail
  address of a User the API server returned, and only a role the User is entitled to by what was read before: the cluster role that a
  \<^verbatim>\<open>namespaceAccess\<close> entry of the spec names, in the namespace of that entry; or the editor
  role in the personal namespace. That one needs an AuthConfig read with personal namespaces enabled, is the namespace
  recorded in the User's status, or without a record the user name put into the configured template, and was claimed before the grant: it was created, updated or found
  carrying the ownership labels and the UID of this User, and not taken from anybody else.
\<close>

theorem grants_are_entitled:
  assumes "createOrUpdate_doc L" and "runs (reconcileUser L name) tr r"
    and "(q, x) \<in> set tr" and "q = ReqCreate (ORoleBinding rb) \<or> q = ReqUpdate (ORoleBinding rb)"
  shows "\<exists>pre post u ns cr bt. tr = pre @ (q, x) # post \<and> seenUser pre u \<and> entitled pre u ns cr bt
    \<and> rb_subjects rb = [\<lparr>sub_kind = ''User'', sub_name = us_email (u_spec u)\<rparr>]
    \<and> rb_roleRef rb = clusterRoleRef cr \<and> managedBy u (rb_meta rb)
    \<and> (keyOf (ORoleBinding rb) = (ns, bindingName u bt)
       \<or> (\<exists>cur. (ReqGet Cached KRoleBinding (ns, bindingName u bt), RObj cur) \<in> set pre
            \<and> keyOf cur = keyOf (ORoleBinding rb)))"
proof -
  obtain pre post where tr: "tr = pre @ (q, x) # post" and w: "bindingWrite pre q"
    using guardedD_set[OF reconcileUser_userWrite[OF assms(1)] assms(2,3)] by (auto simp: userWrite_def)
  then obtain u ns cr bt where "seenUser pre u" "entitled pre u ns cr bt" "grantsOnly u cr (ORoleBinding rb)"
    "keyOf (ORoleBinding rb) = (ns, bindingName u bt)
       \<or> (\<exists>cur. (ReqGet Cached KRoleBinding (ns, bindingName u bt), RObj cur) \<in> set pre
            \<and> keyOf cur = keyOf (ORoleBinding rb))"
    using assms(4) unfolding bindingWrite_def by blast
  then show ?thesis using tr unfolding grantsOnly_def
    by (intro exI[of _ pre] exI[of _ post] exI[of _ u] exI[of _ ns] exI[of _ cr] exI[of _ bt]) auto
qed

text \<open>A run of the active branch: the namespace is stamped, one binding created, one replaced.\<close>

definition exPersonal :: personalNamespaceConfig where
  "exPersonal = \<lparr>pn_enabled = True, pn_template = [], pn_labels = [(LabelManagedByUser, ''evil'')],
     pn_annotations = [], pn_resourceQuota = []\<rparr>"

definition exAuthConfig :: authConfig where
  "exAuthConfig = \<lparr>a_meta = objectMeta [] ''default'',
     a_spec = \<lparr>ac_enabled = True, ac_oidc = None, ac_session = None,
       ac_personalNamespaces = Some exPersonal, ac_registration = None, ac_authorization = None,
       ac_adminEmails = [], ac_localAuth = None\<rparr>,
     a_status = \<lparr>at_enabled = False, at_issuerReachable = False, at_lastVerified = None, at_conditions = []\<rparr>\<rparr>"

definition activeResponses :: "resp list" where
  "activeResponses = [RObj (OUser exUser), RObj (OAuthConfig exAuthConfig),
     RObj (ONamespace exNamespace), ROk,
     notFound, notFound, ROk,
     RObj (ORoleBinding (exBinding ''team'' ''alice-shared'' ''workspace-editor-role'')), ROk, notFound, ROk,
     RList [], RObj (OUser exUser), RInt 11, RObj (OUser exUser)]"

definition activeTrace :: trace where
  "activeTrace = fst (exec (reconcileUser ref_lib ''alice'') activeResponses)"

definition stampedNamespace :: namespace where
  "stampedNamespace = exNamespace\<lparr>ns_meta := (ns_meta exNamespace)\<lparr>m_annotations :=
     [(AnnotationUserUID, ''u1''), (AnnotationUserEmail, ''a@x''), (AnnotationNamespaceEnabled, LabelValueTrue)]\<rparr>\<rparr>"

definition grantedBinding :: roleBinding where
  "grantedBinding = \<lparr>rb_meta = (objectMeta ''team'' ''alice-shared'')\<lparr>m_labels := managedLabels exUser,
       m_annotations := [(AnnotationUserEmail, ''a@x'')]\<rparr>,
     rb_subjects = [\<lparr>sub_kind = ''User'', sub_name = ''a@x''\<rparr>], rb_roleRef = clusterRoleRef ''workspace-admin-role''\<rparr>"

lemma active_exec: "snd (exec (reconcileUser ref_lib ''alice'') activeResponses) = Some (Inr 0)"
  by code_simp

lemma active_run: "runs (reconcileUser ref_lib ''alice'') activeTrace (Inr 0)"
  by (rule exec_runs[where rs = activeResponses]) (simp add: activeTrace_def prod_eq_iff active_exec)

lemma active_updates_namespace: "(ReqUpdate (ONamespace stampedNamespace), ROk) \<in> set activeTrace"
  by code_simp

definition personalBinding :: roleBinding where
  "personalBinding = \<lparr>rb_meta = (objectMeta ''alice'' ''alice-personal'')\<lparr>m_labels := managedLabels exUser,
       m_annotations := [(AnnotationUserEmail, ''a@x'')]\<rparr>,
     rb_subjects = [\<lparr>sub_kind = ''User'', sub_name = ''a@x''\<rparr>], rb_roleRef = clusterRoleRef ''workspace-editor-role''\<rparr>"

lemma active_grants: "(ReqCreate (ORoleBinding grantedBinding), ROk) \<in> set activeTrace"
  "(ReqCreate (ORoleBinding personalBinding), ROk) \<in> set activeTrace"
  by code_simp+

theorem namespace_never_adopted_witness:
  "\<exists>u. seenUser activeTrace u \<and> stampedFor u (ONamespace stampedNamespace)
    \<and> (\<exists>cur key. (ReqGet Cached KNamespace key, RObj (ONamespace cur)) \<in> set activeTrace
        \<and> m_name (ns_meta cur) = ''alice''
        \<and> (m_resourceVersion (ns_meta cur) \<noteq> [] \<longrightarrow> personalNamespaceMatches cur u True))"
  using namespace_never_adopted[OF ref_createOrUpdate_doc active_run active_updates_namespace, of stampedNamespace]
  by (simp add: stampedNamespace_def exNamespace_def objectMeta_def)

theorem grants_are_entitled_witness:
  "\<exists>pre post u ns cr bt. activeTrace = pre @ (ReqCreate (ORoleBinding personalBinding), ROk) # post \<and> seenUser pre u
    \<and> entitled pre u ns cr bt
    \<and> rb_subjects personalBinding = [\<lparr>sub_kind = ''User'', sub_name = us_email (u_spec u)\<rparr>]
    \<and> rb_roleRef personalBinding = clusterRoleRef cr"
  using grants_are_entitled[OF ref_createOrUpdate_doc active_run active_grants(2), of personalBinding] by blast

subsection \<open>Revocation\<close>

text \<open>
  C10. A changed role never leaves the old grant in force. When \<^verbatim>\<open>ensureRoleBinding\<close> reads a stored
  RoleBinding with another role reference, it refuses and writes nothing if the binding is not
  managed for this user; otherwise its next request deletes that binding with the UID and resource
  version read, a failed deletion (other than not found) is returned and ends the call, and every
  later write grants exactly the desired role.
\<close>

theorem role_change_revokes_first:
  assumes "createOrUpdate_doc L" and "runs (ensureRoleBinding L user ns cr bt) tr r"
    and "tr = (ReqGet Cached KRoleBinding (ns, bindingName user bt), RObj (ORoleBinding rb)) # rest"
    and "m_resourceVersion (rb_meta rb) \<noteq> []" and "rb_roleRef rb \<noteq> clusterRoleRef cr"
  shows "if managedBy user (rb_meta rb)
    then \<exists>x t. rest = (ReqDelete (ORoleBinding rb)
             [PreUID (m_uid (rb_meta rb)), PreResourceVersion (m_resourceVersion (rb_meta rb))], x) # t
         \<and> (\<forall>e. x = RErr e \<longrightarrow> \<not> isNotFound e \<longrightarrow> t = [] \<and> r = Inl e)
         \<and> (\<forall>q y. (q, y) \<in> set t \<longrightarrow> (\<exists>k key. q = ReqGet Cached k key)
              \<or> (\<exists>ob. (q = ReqCreate ob \<or> q = ReqUpdate ob) \<and> grantsOnly user cr ob))
    else rest = [] \<and> (\<exists>m. r = Inl (Errorf m))"
proof -
  let ?fin = "l_createOrUpdate L (ORoleBinding (emptyRoleBinding ns (bindingName user bt))) (mutateRoleBinding user cr)"
  let ?opts = "[PreUID (m_uid (rb_meta rb)), PreResourceVersion (m_resourceVersion (rb_meta rb))]"
  have fin: "(\<exists>k key. q = ReqGet Cached k key) \<or> (\<exists>ob. (q = ReqCreate ob \<or> q = ReqUpdate ob) \<and> grantsOnly user cr ob)"
    if "runs ?fin t z" "(q, y) \<in> set t" for t z q y
    using grant.writes[OF assms(1) that] by blast
  show ?thesis
  proof (cases "managedBy user (rb_meta rb)")
    case True
    then have "runs (tryP (mapP ignoreNotFound (deleteP (ORoleBinding rb) ?opts)) (\<lambda>_. ?fin)) rest r"
      using assms(2-5) by (auto simp: ensureRoleBinding_def Let_def managedBy_def runs_bind runs_client)
    then consider (failed) x where "rest = [(ReqDelete (ORoleBinding rb) ?opts, x)]" "\<exists>e. ignoreNotFound (asUnit x) = Inl e \<and> r = Inl e"
      | (deleted) x t where "rest = (ReqDelete (ORoleBinding rb) ?opts, x) # t" "confirmed x" "runs ?fin t r"
      by (auto simp: prog_inv)
    then show ?thesis
    proof cases
      case failed
      then show ?thesis using True
        by (intro if_P[THEN iffD2] exI[of _ x] exI[of _ "[]"]) (auto simp: ignoreNotFound_def split: if_splits)
    next
      case (deleted x t)
      then have "\<forall>q y. (q, y) \<in> set t \<longrightarrow> (\<exists>k key. q = ReqGet Cached k key)
          \<or> (\<exists>ob. (q = ReqCreate ob \<or> q = ReqUpdate ob) \<and> grantsOnly user cr ob)" using fin by blast
      with deleted(1,2) show ?thesis using True by (simp add: confirmed_iff)
    qed
  next
    case False
    then show ?thesis using assms(2-5)
      by (auto simp: ensureRoleBinding_def Let_def managedBy_def prog_inv)
  qed
qed

definition downgradeTrace :: trace where
  "downgradeTrace = fst (exec (ensureRoleBinding ref_lib exUser ''team'' ''workspace-viewer-role'' ''shared'')
     [RObj (ORoleBinding (exBinding ''team'' ''alice-shared'' ''workspace-admin-role'')), ROk, notFound, ROk])"

lemma downgrade_run:
  "runs (ensureRoleBinding ref_lib exUser ''team'' ''workspace-viewer-role'' ''shared'') downgradeTrace (Inr ())"
proof (rule exec_runs[where rs = "[RObj (ORoleBinding (exBinding ''team'' ''alice-shared'' ''workspace-admin-role'')),
    ROk, notFound, ROk]"])
  show "exec (ensureRoleBinding ref_lib exUser ''team'' ''workspace-viewer-role'' ''shared'')
      [RObj (ORoleBinding (exBinding ''team'' ''alice-shared'' ''workspace-admin-role'')), ROk, notFound, ROk]
    = (downgradeTrace, Some (Inr ()))" by code_simp
qed

theorem role_change_revokes_first_witness:
  "\<exists>x t. tl downgradeTrace = (ReqDelete (ORoleBinding (exBinding ''team'' ''alice-shared'' ''workspace-admin-role''))
         [PreUID ''b1'', PreResourceVersion ''3''], x) # t
     \<and> (\<forall>q y. (q, y) \<in> set t \<longrightarrow> (\<exists>k key. q = ReqGet Cached k key)
          \<or> (\<exists>ob. (q = ReqCreate ob \<or> q = ReqUpdate ob) \<and> grantsOnly exUser ''workspace-viewer-role'' ob))"
proof -
  let ?rb = "exBinding ''team'' ''alice-shared'' ''workspace-admin-role''"
  have hd: "downgradeTrace = (ReqGet Cached KRoleBinding (''team'', bindingName exUser ''shared''), RObj (ORoleBinding ?rb)) # tl downgradeTrace"
    by code_simp
  have "managedBy exUser (rb_meta ?rb)" "m_resourceVersion (rb_meta ?rb) \<noteq> []"
    "rb_roleRef ?rb \<noteq> clusterRoleRef ''workspace-viewer-role''"
    "m_uid (rb_meta ?rb) = ''b1''" "m_resourceVersion (rb_meta ?rb) = ''3''" by code_simp+
  with role_change_revokes_first[OF ref_createOrUpdate_doc downgrade_run hd] show ?thesis by auto
qed

text \<open>What a completed \<^verbatim>\<open>cleanupStaleRoleBindings\<close> has done.\<close>

lemma cleanupStaleRoleBindings_done:
  assumes "runs (cleanupStaleRoleBindings user) tr (Inr ())"
  shows "\<exists>obs. (ReqList Cached KRoleBinding None (managedLabels user), RList obs) \<in> set tr
    \<and> (\<forall>rb. ORoleBinding rb \<in> set obs \<longrightarrow> m_namespace (rb_meta rb) \<notin> set (desiredNamespaces user) \<longrightarrow>
         (\<exists>x. (ReqDelete (ORoleBinding rb) (bindingPreconditions (rb_meta rb)), x) \<in> set tr \<and> confirmed x))"
proof -
  let ?body = "\<lambda>rb. if m_namespace (rb_meta rb) \<notin> set (desiredNamespaces user)
          then mapP ignoreNotFound (deleteP (ORoleBinding rb)
                 [PreUID (m_uid (rb_meta rb)), PreResourceVersion (m_resourceVersion (rb_meta rb))])
          else Ret (Inr ())"
  from assms obtain obs t1 where tr: "tr = (ReqList Cached KRoleBinding None (managedLabels user), RList obs) # t1"
    and loop: "runs (forE ?body (List.map_filter toRoleBinding obs)) t1 (Inr ())"
    unfolding cleanupStaleRoleBindings_def by (auto simp: prog_inv)
  have "\<exists>x. (ReqDelete (ORoleBinding rb) (bindingPreconditions (rb_meta rb)), x) \<in> set t1 \<and> confirmed x"
    if "ORoleBinding rb \<in> set obs" and stale: "m_namespace (rb_meta rb) \<notin> set (desiredNamespaces user)" for rb
  proof (rule forE_done[OF loop, where Q = "\<lambda>rb A. \<exists>x. (ReqDelete (ORoleBinding rb) (bindingPreconditions (rb_meta rb)), x) \<in> A \<and> confirmed x"])
    show "rb \<in> set (List.map_filter toRoleBinding obs)"
      using that(1) by (force simp: List.map_filter_def image_iff)
  qed (use stale in \<open>auto simp: prog_inv bindingPreconditions_def\<close>)
  then show ?thesis unfolding tr by (intro exI[of _ obs]) auto
qed

text \<open>
  C11. Disabling a user revokes and destroys nothing else. The reconciliation of a disabled user that
  is not being deleted reads, lists and deletes RoleBindings, and writes the status of the User with
  its spec and metadata untouched; it creates and updates nothing. When it returns without error it
  asks to be run again after 30 seconds and every RoleBinding that the list of the user's managed
  bindings contained has been deleted, with its UID and resource version as preconditions, or was
  reported gone.
\<close>

theorem disabled_user_revoked:
  assumes "runs (reconcileUser L name) tr r"
    and "tr = (ReqGet Cached KUser ([], name), RObj (OUser user)) # rest"
    and "us_disabled (u_spec user)" and "m_deletion (u_meta user) = None"
    and "UserFinalizer \<in> set (m_finalizers (u_meta user))"
  shows "(\<forall>(q, x) \<in> set rest. q = ReqList Cached KRoleBinding None (managedLabels user) \<or> q = ReqNow
       \<or> (\<exists>rb. q = ReqDelete (ORoleBinding rb) [PreUID (m_uid (rb_meta rb)), PreResourceVersion (m_resourceVersion (rb_meta rb))])
       \<or> (\<exists>u. q = ReqStatusUpdate (OUser u) \<and> u_spec u = u_spec user \<and> u_meta u = u_meta user))
   \<and> (\<forall>v. r = Inr v \<longrightarrow> v = seconds 30 \<and> (\<exists>obs.
         (ReqList Cached KRoleBinding None (managedLabels user), RList obs) \<in> set rest
       \<and> (\<forall>rb. ORoleBinding rb \<in> set obs \<longrightarrow> (\<exists>x. (ReqDelete (ORoleBinding rb)
              [PreUID (m_uid (rb_meta rb)), PreResourceVersion (m_resourceVersion (rb_meta rb))], x) \<in> set rest
            \<and> (\<forall>e. x = RErr e \<longrightarrow> isNotFound e)))))"
proof -
  have dis: "runs (reconcileDisabledUser L user) rest r"
    using assms by (auto simp: reconcileUser_def containsFinalizer_def prog_inv)
  have "disabledRequest user q" if "(q, x) \<in> set rest" for q x
    using callsD[OF reconcileDisabledUser_calls dis that] .
  then have frame: "\<forall>(q, x) \<in> set rest. q = ReqList Cached KRoleBinding None (managedLabels user) \<or> q = ReqNow
       \<or> (\<exists>rb. q = ReqDelete (ORoleBinding rb) [PreUID (m_uid (rb_meta rb)), PreResourceVersion (m_resourceVersion (rb_meta rb))])
       \<or> (\<exists>u. q = ReqStatusUpdate (OUser u) \<and> u_spec u = u_spec user \<and> u_meta u = u_meta user)"
    unfolding disabledRequest_def staleRequest_def bindingPreconditions_def by blast
  show ?thesis
  proof (rule conjI[OF frame], intro allI impI)
    fix v assume "r = Inr v"
    with dis obtain t1 t2 where t: "runs (cleanupStaleRoleBindings user) t1 (Inr ())" "rest = t1 @ t2" "v = seconds 30"
      unfolding reconcileDisabledUser_def by (auto simp: prog_inv)
    have "desiredNamespaces user = []" using assms(3) by (simp add: desiredNamespaces_def)
    then show "v = seconds 30 \<and> (\<exists>obs.
         (ReqList Cached KRoleBinding None (managedLabels user), RList obs) \<in> set rest
       \<and> (\<forall>rb. ORoleBinding rb \<in> set obs \<longrightarrow> (\<exists>x. (ReqDelete (ORoleBinding rb)
              [PreUID (m_uid (rb_meta rb)), PreResourceVersion (m_resourceVersion (rb_meta rb))], x) \<in> set rest
            \<and> (\<forall>e. x = RErr e \<longrightarrow> isNotFound e))))"
      using cleanupStaleRoleBindings_done[OF t(1)] t(2,3)
      by (auto simp: bindingPreconditions_def confirmed_iff) blast+
  qed
qed

definition exDisabledUser :: user where
  "exDisabledUser = exUser\<lparr>u_spec := exSpec\<lparr>us_disabled := True\<rparr>\<rparr>"

definition disabledTrace :: trace where
  "disabledTrace = fst (exec (reconcileUser ref_lib ''alice'')
     [RObj (OUser exDisabledUser), RList [ORoleBinding (exBinding ''team'' ''alice-shared'' ''workspace-admin-role'')],
      ROk, RInt 3, RObj (OUser exDisabledUser)])"

theorem disabled_user_revoked_witness:
  "\<exists>obs. (ReqList Cached KRoleBinding None (managedLabels exDisabledUser), RList obs) \<in> set (tl disabledTrace)
     \<and> (\<forall>rb. ORoleBinding rb \<in> set obs \<longrightarrow> (\<exists>x. (ReqDelete (ORoleBinding rb)
            [PreUID (m_uid (rb_meta rb)), PreResourceVersion (m_resourceVersion (rb_meta rb))], x) \<in> set (tl disabledTrace)
          \<and> (\<forall>e. x = RErr e \<longrightarrow> isNotFound e)))"
proof -
  have run: "runs (reconcileUser ref_lib ''alice'') disabledTrace (Inr (seconds 30))"
  proof (rule exec_runs[where rs = "[RObj (OUser exDisabledUser),
      RList [ORoleBinding (exBinding ''team'' ''alice-shared'' ''workspace-admin-role'')], ROk, RInt 3, RObj (OUser exDisabledUser)]"])
    show "exec (reconcileUser ref_lib ''alice'') [RObj (OUser exDisabledUser),
        RList [ORoleBinding (exBinding ''team'' ''alice-shared'' ''workspace-admin-role'')], ROk, RInt 3, RObj (OUser exDisabledUser)]
      = (disabledTrace, Some (Inr (seconds 30)))" by code_simp
  qed
  have "disabledTrace = (ReqGet Cached KUser ([], ''alice''), RObj (OUser exDisabledUser)) # tl disabledTrace"
    "us_disabled (u_spec exDisabledUser)" "m_deletion (u_meta exDisabledUser) = None"
    "UserFinalizer \<in> set (m_finalizers (u_meta exDisabledUser))" by code_simp+
  from disabled_user_revoked[OF run this] show ?thesis by blast
qed

text \<open>
  C12. The finalizer is the last thing to go. The controller writes a User without its finalizer
  only after it has listed the RoleBindings managed for that user and the deletion of each of them
  was accepted or answered with not found; a failed list or deletion keeps the finalizer.
\<close>

theorem finalizer_removed_last:
  assumes "createOrUpdate_doc L" and "runs (reconcileUser L name) tr r"
    and "(ReqUpdate (OUser u), x) \<in> set tr" and "UserFinalizer \<notin> set (m_finalizers (u_meta u))"
  shows "\<exists>user pre obs. tr = pre @ [(ReqUpdate (OUser u), x)]
    \<and> (ReqGet Cached KUser ([], name), RObj (OUser user)) \<in> set pre
    \<and> m_deletion (u_meta user) \<noteq> None \<and> u = removeFinalizer user UserFinalizer
    \<and> (ReqList Cached KRoleBinding None (managedLabels user), RList obs) \<in> set pre
    \<and> (\<forall>rb. ORoleBinding rb \<in> set obs \<longrightarrow> (\<exists>y. (ReqDelete (ORoleBinding rb) [], y) \<in> set pre \<and> confirmed y))"
  using assms(2)
proof (cases rule: reconcileUser_cases)
  case (deleted user t)
  have no: "(ReqUpdate (OUser u), x) \<notin> set t1" if "runs (cleanupUser user) t1 y" for t1 y
  proof
    assume "(ReqUpdate (OUser u), x) \<in> set t1"
    moreover have "calls (\<lambda>q. \<forall>ob. q \<noteq> ReqUpdate ob) (cleanupUser user)"
      unfolding cleanupUser_def deleteUserBindings_def deletePersonalNamespace_def
      by (auto split: sum.split intro!: calls_tryP calls_forE calls_wrapP calls_mapP calls_bind)
    ultimately show False using callsD[OF _ that] by blast
  qed
  from deleted(3) assms(3) deleted(1) obtain t1 where t: "t = t1 @ [(ReqUpdate (OUser u), x)]"
    and cl: "runs (cleanupUser user) t1 (Inr ())" and u: "u = removeFinalizer user UserFinalizer"
    unfolding reconcileDeletedUser_def
    by (auto simp: runs_tryP runs_client runs_Ret_iff dest: no split: if_splits)
  from cleanupUser_done[OF cl] obtain obs where
    "(ReqList Cached KRoleBinding None (managedLabels user), RList obs) \<in> set t1"
    "\<forall>rb. ORoleBinding rb \<in> set obs \<longrightarrow> (\<exists>y. (ReqDelete (ORoleBinding rb) [], y) \<in> set t1 \<and> confirmed y)" by blast
  then show ?thesis using deleted(1,2) t u
    by (intro exI[of _ user] exI[of _ "(ReqGet Cached KUser ([], name), RObj (OUser user)) # t1"] exI[of _ obs]) auto
next
  case (disabled user t)
  then show ?thesis using assms(3) callsD[OF reconcileDisabledUser_calls disabled(4)]
    by (fastforce simp: disabledRequest_def staleRequest_def)
next
  case (active user t)
  then show ?thesis using assms(3) callsD[OF reconcileActiveUser_calls[OF assms(1)] active(4)]
    by (fastforce simp: activeRequest_def)
qed (use assms(3,4) in \<open>auto simp: addFinalizer_def\<close>)

theorem finalizer_removed_last_witness:
  "\<exists>tr user obs. runs (reconcileUser ref_lib ''alice'') tr (Inr 0)
    \<and> (ReqList Cached KRoleBinding None (managedLabels user), RList obs) \<in> set tr
    \<and> (\<forall>rb. ORoleBinding rb \<in> set obs \<longrightarrow> (\<exists>y. (ReqDelete (ORoleBinding rb) [], y) \<in> set tr \<and> confirmed y))"
proof -
  let ?u = "removeFinalizer exDeletedUser UserFinalizer"
  obtain tr where tr: "runs (reconcileUser ref_lib ''alice'') tr (Inr 0)"
    and up: "(ReqUpdate (OUser ?u), RObj (OUser exDeletedUser)) \<in> set tr"
    using deletion_run by (meson list.set_intros)
  have "UserFinalizer \<notin> set (m_finalizers (u_meta ?u))" by code_simp
  from finalizer_removed_last[OF ref_createOrUpdate_doc tr up this] obtain user pre obs where
    "tr = pre @ [(ReqUpdate (OUser ?u), RObj (OUser exDeletedUser))]"
    "(ReqList Cached KRoleBinding None (managedLabels user), RList obs) \<in> set pre"
    "\<forall>rb. ORoleBinding rb \<in> set obs \<longrightarrow> (\<exists>y. (ReqDelete (ORoleBinding rb) [], y) \<in> set pre \<and> confirmed y)" by blast
  with tr show ?thesis by (metis Un_iff set_append)
qed

text \<open>
  Reconciling the user's own namespace is stable: once the stored namespace is what the callback
  made of a namespace, later reconciliations send at most an update that leaves it unchanged.
\<close>

theorem personal_namespace_stable:
  assumes "createOrUpdate_doc L" and "wfMeta (ns_meta ns0)"
    and "mutateNamespace user pn nsName (ONamespace ns0) = Inr cur"
    and "runs (l_createOrUpdate L (ONamespace \<lparr>ns_meta = objectMeta [] nsName\<rparr>) (mutateNamespace user pn nsName)) tr r"
    and "(ReqGet Cached KNamespace ([], nsName), RObj cur) \<in> set tr" and "(q, x) \<in> set tr"
  shows "q = ReqGet Cached KNamespace ([], nsName) \<or> q = ReqUpdate cur"
  using personal.stable[OF assms(1) _ assms(3,4) _ assms(6)] assms(2,5)
  by (simp add: keyOf_def objectMeta_def)

theorem personal_namespace_stable_witness:
  "list_all (\<lambda>(q, x). q = ReqGet Cached KNamespace ([], ''alice'') \<or> q = ReqUpdate (ONamespace stampedNamespace))
     (fst (exec (l_createOrUpdate ref_lib (ONamespace \<lparr>ns_meta = objectMeta [] ''alice''\<rparr>)
       (mutateNamespace exUser exPersonal ''alice'')) [RObj (ONamespace stampedNamespace)]))"
proof -
  let ?p = "l_createOrUpdate ref_lib (ONamespace \<lparr>ns_meta = objectMeta [] ''alice''\<rparr>) (mutateNamespace exUser exPersonal ''alice'')"
  let ?tr = "fst (exec ?p [RObj (ONamespace stampedNamespace)])"
  have wf: "wfMeta (ns_meta exNamespace)" by code_simp
  have m: "mutateNamespace exUser exPersonal ''alice'' (ONamespace exNamespace) = Inr (ONamespace stampedNamespace)"
    by code_simp
  have "snd (exec ?p [RObj (ONamespace stampedNamespace)]) = Some (Inr ())" by code_simp
  then have run: "runs ?p ?tr (Inr ())" by (intro exec_runs[where rs = "[RObj (ONamespace stampedNamespace)]"]) (simp add: prod_eq_iff)
  have "(ReqGet Cached KNamespace ([], ''alice''), RObj (ONamespace stampedNamespace)) \<in> set ?tr" by code_simp
  from personal_namespace_stable[OF ref_createOrUpdate_doc wf m run this] show ?thesis
    unfolding list_all_iff by blast
qed

text \<open>
  A removed access entry for the personal namespace is not revoked. Whatever RoleBindings the
  list returns, \<^verbatim>\<open>cleanupStaleRoleBindings\<close> deletes none that lives in the personal namespace of an
  enabled user: the comparison is by namespace alone, so a stale \<^verbatim>\<open>-shared\<close> binding there, with
  whatever role it grants, survives although no entry of the spec asks for it.
\<close>

theorem stale_shared_binding_survives:
  assumes "\<not> us_disabled (u_spec user)" and "ut_personalNamespace (u_status user) \<noteq> []"
    and "runs (cleanupStaleRoleBindings user) tr r"
    and "m_namespace (rb_meta rb) = ut_personalNamespace (u_status user)"
  shows "(ReqDelete (ORoleBinding rb) opts, x) \<notin> set tr"
  using callsD[OF cleanupStaleRoleBindings_calls assms(3)] assms(1,2,4)
  by (fastforce simp: staleRequest_def desiredNamespaces_def)

definition staleTrace :: trace where
  "staleTrace = fst (exec (cleanupStaleRoleBindings (exUser\<lparr>u_spec := exSpec\<lparr>us_namespaceAccess := []\<rparr>\<rparr>))
     [RList [ORoleBinding (exBinding ''alice'' ''alice-shared'' ''workspace-admin-role'')]])"

theorem stale_shared_binding_survives_witness:
  "runs (cleanupStaleRoleBindings (exUser\<lparr>u_spec := exSpec\<lparr>us_namespaceAccess := []\<rparr>\<rparr>)) staleTrace (Inr ())
   \<and> (ReqList Cached KRoleBinding None (managedLabels exUser),
        RList [ORoleBinding (exBinding ''alice'' ''alice-shared'' ''workspace-admin-role'')]) \<in> set staleTrace
   \<and> (\<forall>opts x. (ReqDelete (ORoleBinding (exBinding ''alice'' ''alice-shared'' ''workspace-admin-role'')) opts, x) \<notin> set staleTrace)"
proof -
  let ?u = "exUser\<lparr>u_spec := exSpec\<lparr>us_namespaceAccess := []\<rparr>\<rparr>"
  let ?rs = "[RList [ORoleBinding (exBinding ''alice'' ''alice-shared'' ''workspace-admin-role'')]]"
  have "snd (exec (cleanupStaleRoleBindings ?u) ?rs) = Some (Inr ())" by code_simp
  then have run: "runs (cleanupStaleRoleBindings ?u) staleTrace (Inr ())"
    by (intro exec_runs[where rs = ?rs]) (simp add: staleTrace_def prod_eq_iff)
  have "\<not> us_disabled (u_spec ?u)" "ut_personalNamespace (u_status ?u) \<noteq> []" by code_simp+
  note survives = stale_shared_binding_survives[OF this run]
  have "m_namespace (rb_meta (exBinding ''alice'' ''alice-shared'' ''workspace-admin-role''))
      = ut_personalNamespace (u_status ?u)" by code_simp
  from survives[OF this] run show ?thesis by (intro conjI allI) (simp, code_simp, blast)
qed

end
