(* ===== verification/Runes.thy ===== *)
theory Runes
  imports Prelude
begin

text \<open>
  Go strings as sequences of code points: the decoding of UTF-8 that \<^verbatim>\<open>range\<close> and \<^verbatim>\<open>[]rune\<close> perform, and the comparison
  under simple case folding of the standard library.
\<close>

section \<open>Decoding\<close>

text \<open>
  \<^verbatim>\<open>[]rune(s)\<close> on the bytes of a string: \<open>follow\<close> is the number of continuation bytes of a well-formed sequence, 0 when there is none;
  a byte that starts no such sequence becomes U+FFFD.
\<close>

definition cont :: "nat \<Rightarrow> bool" where
  "cont b \<longleftrightarrow> 0x80 \<le> b \<and> b \<le> 0xBF"

definition second :: "nat \<Rightarrow> nat \<Rightarrow> bool" where
  "second b0 b \<longleftrightarrow> cont b \<and> (b0 = 0xE0 \<longrightarrow> 0xA0 \<le> b) \<and> (b0 = 0xED \<longrightarrow> b \<le> 0x9F) \<and> (b0 = 0xF0 \<longrightarrow> 0x90 \<le> b) \<and> (b0 = 0xF4 \<longrightarrow> b \<le> 0x8F)"

definition follow :: "nat \<Rightarrow> nat list \<Rightarrow> nat" where
  "follow b0 bs =
     (if 0xC2 \<le> b0 \<and> b0 \<le> 0xDF then (case bs of b1 # _ \<Rightarrow> if cont b1 then 1 else 0 | _ \<Rightarrow> 0)
      else if 0xE0 \<le> b0 \<and> b0 \<le> 0xEF then (case bs of b1 # b2 # _ \<Rightarrow> if second b0 b1 \<and> cont b2 then 2 else 0 | _ \<Rightarrow> 0)
      else if 0xF0 \<le> b0 \<and> b0 \<le> 0xF4 then (case bs of b1 # b2 # b3 # _ \<Rightarrow> if second b0 b1 \<and> cont b2 \<and> cont b3 then 3 else 0 | _ \<Rightarrow> 0)
      else 0)"

definition joinRune :: "nat \<Rightarrow> nat list \<Rightarrow> nat" where
  "joinRune b0 tail = foldl (\<lambda>acc b. acc * 64 + (b - 0x80)) (b0 mod 2 ^ (6 - length tail)) tail"

fun runesOf :: "nat list \<Rightarrow> nat list" where
  "runesOf [] = []"
| "runesOf (b # bs) = (if b < 0x80 then b # runesOf bs
     else (case follow b bs of 0 \<Rightarrow> 0xFFFD # runesOf bs
       | Suc n \<Rightarrow> joinRune b (take (Suc n) bs) # runesOf (drop (Suc n) bs)))"

definition runes :: "string \<Rightarrow> nat list" where
  "runes s = runesOf (map of_char s)"

section \<open>Case folding\<close>

text \<open>
  The simple case folding of Unicode 15, the version of Go 1.24, for the code points from 0x80 on. An entry (first, last, step, image) sends every
  \<open>step\<close>-th code point from the first to the last to the code point at the same distance from the image. Every
  class of code points that \<^verbatim>\<open>unicode.SimpleFold\<close> goes round has one image: its ASCII lower case letter, if it has one, and its
  least member otherwise. The dotted and the dotless i (U+0130, U+0131) fold to themselves only.
\<close>

definition caseFolds :: "(nat \<times> nat \<times> nat \<times> nat) list" where
  "caseFolds = [
    (0xE0, 0xF6, 1, 0xC0), (0xF8, 0xFE, 1, 0xD8), (0x101, 0x12F, 2, 0x100), (0x133, 0x137, 2, 0x132), (0x13A, 0x148, 2, 0x139),
    (0x14B, 0x177, 2, 0x14A), (0x178, 0x178, 1, 0xFF), (0x17A, 0x17E, 2, 0x179), (0x17F, 0x17F, 1, 0x73), (0x183, 0x185, 2, 0x182),
    (0x188, 0x188, 1, 0x187), (0x18C, 0x18C, 1, 0x18B), (0x192, 0x192, 1, 0x191), (0x199, 0x199, 1, 0x198), (0x1A1, 0x1A5, 2, 0x1A0),
    (0x1A8, 0x1A8, 1, 0x1A7), (0x1AD, 0x1AD, 1, 0x1AC), (0x1B0, 0x1B0, 1, 0x1AF), (0x1B4, 0x1B6, 2, 0x1B3), (0x1B9, 0x1B9, 1, 0x1B8),
    (0x1BD, 0x1BD, 1, 0x1BC), (0x1C5, 0x1C5, 1, 0x1C4), (0x1C6, 0x1C6, 1, 0x1C4), (0x1C8, 0x1C8, 1, 0x1C7), (0x1C9, 0x1C9, 1, 0x1C7),
    (0x1CB, 0x1CB, 1, 0x1CA), (0x1CC, 0x1CC, 1, 0x1CA), (0x1CE, 0x1DC, 2, 0x1CD), (0x1DD, 0x1DD, 1, 0x18E), (0x1DF, 0x1EF, 2, 0x1DE),
    (0x1F2, 0x1F2, 1, 0x1F1), (0x1F3, 0x1F3, 1, 0x1F1), (0x1F5, 0x1F5, 1, 0x1F4), (0x1F6, 0x1F6, 1, 0x195), (0x1F7, 0x1F7, 1, 0x1BF),
    (0x1F9, 0x21F, 2, 0x1F8), (0x220, 0x220, 1, 0x19E), (0x223, 0x233, 2, 0x222), (0x23C, 0x23C, 1, 0x23B), (0x23D, 0x23D, 1, 0x19A),
    (0x242, 0x242, 1, 0x241), (0x243, 0x243, 1, 0x180), (0x247, 0x24F, 2, 0x246), (0x253, 0x253, 1, 0x181), (0x254, 0x254, 1, 0x186),
    (0x256, 0x257, 1, 0x189), (0x259, 0x259, 1, 0x18F), (0x25B, 0x25B, 1, 0x190), (0x260, 0x260, 1, 0x193), (0x263, 0x263, 1, 0x194),
    (0x268, 0x268, 1, 0x197), (0x269, 0x269, 1, 0x196), (0x26F, 0x26F, 1, 0x19C), (0x272, 0x272, 1, 0x19D), (0x275, 0x275, 1, 0x19F),
    (0x280, 0x280, 1, 0x1A6), (0x283, 0x283, 1, 0x1A9), (0x288, 0x288, 1, 0x1AE), (0x289, 0x289, 1, 0x244), (0x28A, 0x28B, 1, 0x1B1),
    (0x28C, 0x28C, 1, 0x245), (0x292, 0x292, 1, 0x1B7), (0x371, 0x373, 2, 0x370), (0x377, 0x377, 1, 0x376), (0x399, 0x399, 1, 0x345),
    (0x39C, 0x39C, 1, 0xB5), (0x3AC, 0x3AC, 1, 0x386), (0x3AD, 0x3AF, 1, 0x388), (0x3B1, 0x3B8, 1, 0x391), (0x3B9, 0x3B9, 1, 0x345),
    (0x3BA, 0x3BB, 1, 0x39A), (0x3BC, 0x3BC, 1, 0xB5), (0x3BD, 0x3CB, 2, 0x39D), (0x3BE, 0x3C1, 1, 0x39E), (0x3C2, 0x3C2, 1, 0x3A3),
    (0x3C4, 0x3CB, 1, 0x3A4), (0x3CC, 0x3CC, 1, 0x38C), (0x3CD, 0x3CE, 1, 0x38E), (0x3D0, 0x3D0, 1, 0x392), (0x3D1, 0x3D1, 1, 0x398),
    (0x3D5, 0x3D5, 1, 0x3A6), (0x3D6, 0x3D6, 1, 0x3A0), (0x3D7, 0x3D7, 1, 0x3CF), (0x3D9, 0x3EF, 2, 0x3D8), (0x3F0, 0x3F0, 1, 0x39A),
    (0x3F1, 0x3F1, 1, 0x3A1), (0x3F3, 0x3F3, 1, 0x37F), (0x3F4, 0x3F4, 1, 0x398), (0x3F5, 0x3F5, 1, 0x395), (0x3F8, 0x3F8, 1, 0x3F7),
    (0x3F9, 0x3F9, 1, 0x3F2), (0x3FB, 0x3FB, 1, 0x3FA), (0x3FD, 0x3FF, 1, 0x37B), (0x430, 0x44F, 1, 0x410), (0x450, 0x45F, 1, 0x400),
    (0x461, 0x481, 2, 0x460), (0x48B, 0x4BF, 2, 0x48A), (0x4C2, 0x4CE, 2, 0x4C1), (0x4CF, 0x4CF, 1, 0x4C0), (0x4D1, 0x52F, 2, 0x4D0),
    (0x561, 0x586, 1, 0x531), (0x13F8, 0x13FD, 1, 0x13F0), (0x1C80, 0x1C80, 1, 0x412), (0x1C81, 0x1C81, 1, 0x414), (0x1C82, 0x1C82, 1, 0x41E),
    (0x1C83, 0x1C84, 1, 0x421), (0x1C85, 0x1C85, 1, 0x422), (0x1C86, 0x1C86, 1, 0x42A), (0x1C87, 0x1C87, 1, 0x462), (0x1C90, 0x1CBA, 1, 0x10D0),
    (0x1CBD, 0x1CBF, 1, 0x10FD), (0x1E01, 0x1E95, 2, 0x1E00), (0x1E9B, 0x1E9B, 1, 0x1E60), (0x1E9E, 0x1E9E, 1, 0xDF), (0x1EA1, 0x1EFF, 2, 0x1EA0),
    (0x1F08, 0x1F0F, 1, 0x1F00), (0x1F18, 0x1F1D, 1, 0x1F10), (0x1F28, 0x1F2F, 1, 0x1F20), (0x1F38, 0x1F3F, 1, 0x1F30), (0x1F48, 0x1F4D, 1, 0x1F40),
    (0x1F59, 0x1F5F, 2, 0x1F51), (0x1F68, 0x1F6F, 1, 0x1F60), (0x1F88, 0x1F8F, 1, 0x1F80), (0x1F98, 0x1F9F, 1, 0x1F90), (0x1FA8, 0x1FAF, 1, 0x1FA0),
    (0x1FB8, 0x1FB9, 1, 0x1FB0), (0x1FBA, 0x1FBB, 1, 0x1F70), (0x1FBC, 0x1FBC, 1, 0x1FB3), (0x1FBE, 0x1FBE, 1, 0x345), (0x1FC8, 0x1FCB, 1, 0x1F72),
    (0x1FCC, 0x1FCC, 1, 0x1FC3), (0x1FD8, 0x1FD9, 1, 0x1FD0), (0x1FDA, 0x1FDB, 1, 0x1F76), (0x1FE8, 0x1FE9, 1, 0x1FE0), (0x1FEA, 0x1FEB, 1, 0x1F7A),
    (0x1FEC, 0x1FEC, 1, 0x1FE5), (0x1FF8, 0x1FF9, 1, 0x1F78), (0x1FFA, 0x1FFB, 1, 0x1F7C), (0x1FFC, 0x1FFC, 1, 0x1FF3), (0x2126, 0x2126, 1, 0x3A9),
    (0x212A, 0x212A, 1, 0x6B), (0x212B, 0x212B, 1, 0xC5), (0x214E, 0x214E, 1, 0x2132), (0x2170, 0x217F, 1, 0x2160), (0x2184, 0x2184, 1, 0x2183),
    (0x24D0, 0x24E9, 1, 0x24B6), (0x2C30, 0x2C5F, 1, 0x2C00), (0x2C61, 0x2C61, 1, 0x2C60), (0x2C62, 0x2C62, 1, 0x26B), (0x2C63, 0x2C63, 1, 0x1D7D),
    (0x2C64, 0x2C64, 1, 0x27D), (0x2C65, 0x2C65, 1, 0x23A), (0x2C66, 0x2C66, 1, 0x23E), (0x2C68, 0x2C6C, 2, 0x2C67), (0x2C6D, 0x2C6D, 1, 0x251),
    (0x2C6E, 0x2C6E, 1, 0x271), (0x2C6F, 0x2C6F, 1, 0x250), (0x2C70, 0x2C70, 1, 0x252), (0x2C73, 0x2C73, 1, 0x2C72), (0x2C76, 0x2C76, 1, 0x2C75),
    (0x2C7E, 0x2C7F, 1, 0x23F), (0x2C81, 0x2CE3, 2, 0x2C80), (0x2CEC, 0x2CEE, 2, 0x2CEB), (0x2CF3, 0x2CF3, 1, 0x2CF2), (0x2D00, 0x2D25, 1, 0x10A0),
    (0x2D27, 0x2D27, 1, 0x10C7), (0x2D2D, 0x2D2D, 1, 0x10CD), (0xA641, 0xA649, 2, 0xA640), (0xA64A, 0xA64A, 1, 0x1C88), (0xA64B, 0xA64B, 1, 0x1C88),
    (0xA64D, 0xA66D, 2, 0xA64C), (0xA681, 0xA69B, 2, 0xA680), (0xA723, 0xA72F, 2, 0xA722), (0xA733, 0xA76F, 2, 0xA732), (0xA77A, 0xA77C, 2, 0xA779),
    (0xA77D, 0xA77D, 1, 0x1D79), (0xA77F, 0xA787, 2, 0xA77E), (0xA78C, 0xA78C, 1, 0xA78B), (0xA78D, 0xA78D, 1, 0x265), (0xA791, 0xA793, 2, 0xA790),
    (0xA797, 0xA7A9, 2, 0xA796), (0xA7AA, 0xA7AA, 1, 0x266), (0xA7AB, 0xA7AB, 1, 0x25C), (0xA7AC, 0xA7AC, 1, 0x261), (0xA7AD, 0xA7AD, 1, 0x26C),
    (0xA7AE, 0xA7AE, 1, 0x26A), (0xA7B0, 0xA7B0, 1, 0x29E), (0xA7B1, 0xA7B1, 1, 0x287), (0xA7B2, 0xA7B2, 1, 0x29D), (0xA7B5, 0xA7C3, 2, 0xA7B4),
    (0xA7C4, 0xA7C4, 1, 0xA794), (0xA7C5, 0xA7C5, 1, 0x282), (0xA7C6, 0xA7C6, 1, 0x1D8E), (0xA7C8, 0xA7CA, 2, 0xA7C7), (0xA7D1, 0xA7D1, 1, 0xA7D0),
    (0xA7D7, 0xA7D9, 2, 0xA7D6), (0xA7F6, 0xA7F6, 1, 0xA7F5), (0xAB53, 0xAB53, 1, 0xA7B3), (0xAB70, 0xABBF, 1, 0x13A0), (0xFF41, 0xFF5A, 1, 0xFF21),
    (0x10428, 0x1044F, 1, 0x10400), (0x104D8, 0x104FB, 1, 0x104B0), (0x10597, 0x105BB, 2, 0x10570), (0x10598, 0x105A1, 1, 0x10571),
    (0x105A4, 0x105B1, 1, 0x1057D), (0x105B4, 0x105B9, 1, 0x1058D), (0x105BC, 0x105BC, 1, 0x10595), (0x10CC0, 0x10CF2, 1, 0x10C80),
    (0x118C0, 0x118DF, 1, 0x118A0), (0x16E60, 0x16E7F, 1, 0x16E40), (0x1E922, 0x1E943, 1, 0x1E900)]"

fun foldIn :: "(nat \<times> nat \<times> nat \<times> nat) list \<Rightarrow> nat \<Rightarrow> nat" where
  "foldIn [] r = r"
| "foldIn ((lo, hi, step, to) # entries) r =
     (if lo \<le> r \<and> r \<le> hi \<and> (r - lo) mod step = 0 then to + (r - lo) else foldIn entries r)"

definition foldRune :: "nat \<Rightarrow> nat" where
  "foldRune r = (if r < 0x80 then (if 0x41 \<le> r \<and> r \<le> 0x5A then r + 0x20 else r) else foldIn caseFolds r)"

text \<open>
  \<^verbatim>\<open>strings.EqualFold\<close>: code point by code point, equal or of one class. A byte that is no UTF-8 decodes to U+FFFD, so two such
  bytes are equal here too.
\<close>

definition equalFold :: "string \<Rightarrow> string \<Rightarrow> bool" where
  "equalFold s t \<longleftrightarrow> map foldRune (runes s) = map foldRune (runes t)"

text \<open>On ASCII strings this is equality of the lower case.\<close>

lemma runes_of_ascii: "list_all (\<lambda>c. of_char c < (0x80 :: nat)) s \<Longrightarrow> runes s = map of_char s"
  by (induction s) (simp_all add: runes_def)

lemma foldRune_ascii: "of_char c < (0x80 :: nat) \<Longrightarrow> foldRune (of_char c) = of_char (lowerChar c)"
  by (auto simp: foldRune_def lowerChar_def less_eq_char_def)

lemma equalFold_ascii:
  assumes "list_all (\<lambda>c. of_char c < (0x80 :: nat)) s" and "list_all (\<lambda>c. of_char c < (0x80 :: nat)) t"
  shows "equalFold s t \<longleftrightarrow> map lowerChar s = map lowerChar t"
proof -
  have fold: "map foldRune (runes u) = map of_char (map lowerChar u)" if "list_all (\<lambda>c. of_char c < (0x80 :: nat)) u" for u
    using that by (auto simp: runes_of_ascii foldRune_ascii list_all_iff)
  have "inj (of_char :: char \<Rightarrow> nat)" by (rule inj_of_char)
  then show ?thesis unfolding equalFold_def fold[OF assms(1)] fold[OF assms(2)] by (rule inj_map_eq_map)
qed

text \<open>Latin, Greek and Cyrillic letters, the Kelvin sign and the three sigmas; the dotted capital I stays apart.\<close>

lemma equalFold_examples:
  "equalFold [CHR 0xC3, CHR 0x89, CHR ''K''] [CHR 0xC3, CHR 0xA9, CHR 0xE2, CHR 0x84, CHR 0xAA]"
  "equalFold [CHR 0xCE, CHR 0xA3, CHR 0xD0, CHR 0x96] [CHR 0xCF, CHR 0x82, CHR 0xD0, CHR 0xB6]"
  "\<not> equalFold [CHR 0xC4, CHR 0xB0] ''i''"
  by (simp_all add: equalFold_def runes_def follow_def second_def cont_def joinRune_def foldRune_def caseFolds_def)

end
