(* ===== verification/Local_Auth.thy ===== *)
theory Local_Auth
  imports Common Runes
begin

text \<open>
  Local authentication (src/internal/controller/localauth.go): generated passwords, their Secrets and
  the bootstrap administrator that the AuthConfig controller maintains. The lemmas show what a
  generated password and a slug look like, that no existing account or credential is taken over,
  and when a bootstrap run writes at all.
\<close>

section \<open>Constants\<close>

abbreviation LocalAuthSystemNamespace :: string where "LocalAuthSystemNamespace \<equiv> ''kube-workspaces-system''"
abbreviation bootstrapOwnerAnnotation :: string where
  "bootstrapOwnerAnnotation \<equiv> ''kubeworkspaces.io/bootstrap-authconfig-uid''"
abbreviation PasswordSecretHashKey :: string where "PasswordSecretHashKey \<equiv> ''passwordHash''"
abbreviation PasswordSecretPlaintextKey :: string where "PasswordSecretPlaintextKey \<equiv> ''password''"
abbreviation DefaultBootstrapAdminEmail :: string where "DefaultBootstrapAdminEmail \<equiv> ''admin@local''"
abbreviation bcryptCost :: nat where "bcryptCost \<equiv> 12"
abbreviation generatedPasswordLength :: nat where "generatedPasswordLength \<equiv> 20"

definition passwordCharset :: string where
  "passwordCharset = ''ABCDEFGHIJKLMNOPQRSTUVWXYZabcdefghijklmnopqrstuvwxyz0123456789''"

section \<open>Passwords and names\<close>

text \<open>One step of the loop of \<^verbatim>\<open>generatePassword\<close>, and the loop; indexing outside the charset panics.\<close>

definition randomChar :: "char result prog" where
  "randomChar = wrapP ''failed to generate random password: ''
     (ask (ReqRandInt (length passwordCharset)) asInt)
     (\<lambda>n. Ret (if 0 \<le> n \<and> nat n < length passwordCharset then Inr (passwordCharset ! nat n)
               else Inl (PanicErr ''index out of range'')))"

fun randomChars :: "nat \<Rightarrow> string result prog" where
  "randomChars 0 = Ret (Inr [])"
| "randomChars (Suc n) = tryP randomChar (\<lambda>c. tryP (randomChars n) (\<lambda>cs. Ret (Inr (c # cs))))"

definition generatePassword :: "string result prog" where
  "generatePassword = randomChars generatedPasswordLength"

definition hashPassword :: "string \<Rightarrow> string result prog" where
  "hashPassword password = wrapP ''failed to hash password: '' (ask (ReqBcrypt password bcryptCost) asStr)
     (\<lambda>hash. Ret (Inr hash))"

definition slugChar :: "char \<Rightarrow> bool" where
  "slugChar c \<longleftrightarrow> (CHR ''a'' \<le> c \<and> c \<le> CHR ''z'') \<or> (CHR ''0'' \<le> c \<and> c \<le> CHR ''9'') \<or> c = CHR ''-''"

definition slugifyEmail :: "string \<Rightarrow> string" where
  "slugifyEmail email =
     (let s1 = toLower email;
          s2 = replaceAll ''@'' ''-at-'' s1;
          s3 = replaceAll ''.'' ''-'' s2;
          s4 = replaceAll ''_'' ''-'' s3;
          s5 = trim (filter slugChar s4) ''-''
      in if length s5 > 63 then take 63 s5 else s5)"

definition localAuthSecretName :: "lib \<Rightarrow> string \<Rightarrow> string" where
  "localAuthSecretName L uid = ''kw-password-'' @ hexBytes (take 24 (l_sha256 L uid))"

section \<open>The password Secret\<close>

definition localAuthRef :: "lib \<Rightarrow> user \<Rightarrow> secretKeyRef" where
  "localAuthRef L user = \<lparr>skr_name = localAuthSecretName L (m_uid (u_meta user)), skr_key = PasswordSecretHashKey\<rparr>"

definition showBool :: "bool \<Rightarrow> string" where
  "showBool b = (if b then ''true'' else ''false'')"

definition newLocalAuthSecret :: "lib \<Rightarrow> user \<Rightarrow> string \<Rightarrow> string \<Rightarrow> bool \<Rightarrow> secret" where
  "newLocalAuthSecret L user hash plaintextPassword mustChange =
     \<lparr>sec_meta = (objectMeta LocalAuthSystemNamespace (localAuthSecretName L (m_uid (u_meta user))))
        \<lparr>m_labels := [(LabelManagedByUser, ManagedByValue), (LabelUserName, m_name (u_meta user))],
         m_annotations := [(AnnotationUserUID, m_uid (u_meta user))],
         m_ownerRefs := [l_controllerRef L (u_meta user) GroupVersion ''User'']\<rparr>,
      sec_type = ''Opaque'', sec_immutable = None, sec_data = [],
      sec_stringData = [(PasswordSecretHashKey, hash), (PasswordSecretPlaintextKey, plaintextPassword),
        (''mustChangePassword'', showBool mustChange)]\<rparr>"

definition ownedCredential :: "lib \<Rightarrow> user \<Rightarrow> secret \<Rightarrow> bool" where
  "ownedCredential L user s \<longleftrightarrow>
     mget (m_annotations (sec_meta s)) AnnotationUserUID = m_uid (u_meta user)
   \<and> l_isControlledBy L (sec_meta s) (u_meta user)
   \<and> m_deletion (sec_meta s) = None
   \<and> (case l_bcryptCost L (mget (sec_data s) PasswordSecretHashKey) of Inl e \<Rightarrow> False | Inr n \<Rightarrow> True)"

definition createLocalAuthSecret :: "lib \<Rightarrow> user \<Rightarrow> string \<Rightarrow> bool \<Rightarrow> secretKeyRef result prog" where
  "createLocalAuthSecret L user plaintextPassword mustChange =
     (let name = localAuthSecretName L (m_uid (u_meta user)); ref = localAuthRef L user in
      if m_uid (u_meta user) = []
      then Ret (Inl (Errorf ''persisted User UID is required for bootstrap credentials''))
      else bind (getP Cached KSecret toSecret LocalAuthSystemNamespace name) (\<lambda>g. case g of
        Inr existing \<Rightarrow>
          if \<not> ownedCredential L user existing
          then Ret (Inl (Errorf (''bootstrap password Secret '' @ name @ '' ownership or credential mismatch; refusing adoption'')))
          else Ret (Inr ref)
      | Inl e \<Rightarrow>
          if \<not> isNotFound e then Ret (Inl e)
          else tryP (hashPassword plaintextPassword) (\<lambda>hash.
                 wrapP (''failed to create local-auth secret '' @ LocalAuthSystemNamespace @ ''/'' @ name @ '': '')
                   (createP toSecret (OSecret (newLocalAuthSecret L user hash plaintextPassword mustChange)))
                   (\<lambda>_. Ret (Inr ref)))))"

section \<open>Usable administrators\<close>

definition localAdminCandidate :: "user \<Rightarrow> authConfig \<Rightarrow> bool" where
  "localAdminCandidate user cfg \<longleftrightarrow>
     \<not> us_disabled (u_spec user) \<and> m_deletion (u_meta user) = None
   \<and> (case us_localAuth (u_spec user) of None \<Rightarrow> False | Some la \<Rightarrow> las_enabled la)
   \<and> (us_role (u_spec user) = UserRoleAdmin
      \<or> list_ex (\<lambda>email. equalFold email (us_email (u_spec user))) (ac_adminEmails (a_spec cfg)))"

definition ownerMismatch :: "user \<Rightarrow> ownerRef \<Rightarrow> bool" where
  "ownerMismatch user owner \<longleftrightarrow> or_kind owner = ''User''
     \<and> (or_uid owner \<noteq> m_uid (u_meta user) \<or> or_name owner \<noteq> m_name (u_meta user)
        \<or> or_apiVersion owner \<noteq> GroupVersion)"

definition usableCredential :: "lib \<Rightarrow> user \<Rightarrow> secretKeyRef \<Rightarrow> secret \<Rightarrow> bool" where
  "usableCredential L user ref s =
     (let uid = mget (m_annotations (sec_meta s)) AnnotationUserUID;
          key = (if skr_key ref = [] then PasswordSecretHashKey else skr_key ref) in
      m_deletion (sec_meta s) = None
      \<and> (uid = [] \<or> uid = m_uid (u_meta user))
      \<and> \<not> list_ex (ownerMismatch user) (m_ownerRefs (sec_meta s))
      \<and> (case l_bcryptCost L (mget (sec_data s) key) of Inl e \<Rightarrow> False | Inr n \<Rightarrow> True))"

definition checkCredential :: "lib \<Rightarrow> user \<Rightarrow> secretKeyRef \<Rightarrow> bool prog" where
  "checkCredential L user ref =
     (if skr_name ref = [] then Ret False
      else bind (getP Cached KSecret toSecret LocalAuthSystemNamespace (skr_name ref))
             (\<lambda>g. Ret (case g of Inl e \<Rightarrow> False | Inr s \<Rightarrow> usableCredential L user ref s)))"

definition usableLocalAdmin :: "lib \<Rightarrow> user \<Rightarrow> authConfig \<Rightarrow> bool prog" where
  "usableLocalAdmin L user cfg =
     (case us_localAuth (u_spec user) of
        None \<Rightarrow> Ret False
      | Some la \<Rightarrow>
          if \<not> localAdminCandidate user cfg then Ret False
          else (case ut_lockedUntil (u_status user) of
                  None \<Rightarrow> checkCredential L user (las_passwordSecretRef la)
                | Some t \<Rightarrow> bind nowP (\<lambda>now. if t > now then Ret False
                                             else checkCredential L user (las_passwordSecretRef la))))"

fun anyUsableAdmin :: "lib \<Rightarrow> authConfig \<Rightarrow> user list \<Rightarrow> bool prog" where
  "anyUsableAdmin L cfg [] = Ret False"
| "anyUsableAdmin L cfg (u # us) =
     bind (usableLocalAdmin L u cfg) (\<lambda>b. if b then Ret True else anyUsableAdmin L cfg us)"

section \<open>The bootstrap administrator\<close>

definition bootstrapEmail :: "localAuthConfig \<Rightarrow> string" where
  "bootstrapEmail localAuth = (case lac_bootstrapAdmin localAuth of
     None \<Rightarrow> DefaultBootstrapAdminEmail
   | Some ba \<Rightarrow> if ba_email ba \<noteq> [] then ba_email ba else DefaultBootstrapAdminEmail)"

definition bootstrapMustChange :: "localAuthConfig \<Rightarrow> bool" where
  "bootstrapMustChange localAuth = (case lac_bootstrapAdmin localAuth of
     None \<Rightarrow> True
   | Some ba \<Rightarrow> (case ba_mustChangePassword ba of None \<Rightarrow> True | Some b \<Rightarrow> b))"

definition bootstrapSkipped :: "localAuthConfig \<Rightarrow> bool" where
  "bootstrapSkipped localAuth = (case lac_bootstrapAdmin localAuth of None \<Rightarrow> False | Some ba \<Rightarrow> ba_skip ba)"

definition resumable :: "authConfig \<Rightarrow> string \<Rightarrow> user \<Rightarrow> bool" where
  "resumable cfg email existing \<longleftrightarrow> \<not> (m_uid (a_meta cfg) = []
     \<or> mget (m_annotations (u_meta existing)) bootstrapOwnerAnnotation \<noteq> m_uid (a_meta cfg)
     \<or> us_email (u_spec existing) \<noteq> email \<or> us_role (u_spec existing) \<noteq> UserRoleAdmin
     \<or> us_disabled (u_spec existing) \<or> m_deletion (u_meta existing) \<noteq> None
     \<or> us_localAuth (u_spec existing) \<noteq> None)"

definition newBootstrapUser :: "authConfig \<Rightarrow> string \<Rightarrow> user" where
  "newBootstrapUser cfg email =
     \<lparr>u_meta = (objectMeta [] (slugifyEmail email))
        \<lparr>m_annotations := [(bootstrapOwnerAnnotation, m_uid (a_meta cfg))],
         m_labels := [(''kubeworkspaces.io/role'', UserRoleAdmin)]\<rparr>,
      u_spec = \<lparr>us_email = email, us_displayName = ''Administrator'', us_role = UserRoleAdmin,
        us_disabled = False, us_groups = [], us_namespaceAccess = [], us_executionGrants = [],
        us_localAuth = None, us_externalIdentities = []\<rparr>,
      u_status = \<lparr>ut_personalNamespace = [], ut_avatarURL = [], ut_lastLogin = None, ut_loginCount = 0,
        ut_failedLoginAttempts = 0, ut_lockedUntil = None, ut_conditions = []\<rparr>\<rparr>"

text \<open>The user to complete: a resumed one, or one created after the absence checks.\<close>

definition bootstrapUser :: "authConfig \<Rightarrow> string \<Rightarrow> user result prog" where
  "bootstrapUser cfg email =
     (let slug = slugifyEmail email in
      bind (getP Cached KUser toUser [] slug) (\<lambda>g. case g of
        Inr existing \<Rightarrow>
          if \<not> resumable cfg email existing
          then Ret (Inl (Errorf (''bootstrap User '' @ slug @ '' already exists but is not a usable local administrator; recover the existing account in place'')))
          else Ret (Inr existing)
      | Inl e \<Rightarrow>
          if \<not> isNotFound e then Ret (Inl e)
          else bind (getP Cached KSecret toSecret LocalAuthSystemNamespace (''kw-user-'' @ slug @ ''-local-auth''))
            (\<lambda>l. case l of
               Inr legacy \<Rightarrow> Ret (Inl (Errorf ''retained legacy bootstrap credential exists; recover the original account in place''))
             | Inl e' \<Rightarrow>
                 if \<not> isNotFound e' then Ret (Inl e')
                 else wrapP ''failed to create bootstrap admin user: ''
                        (createP toUser (OUser (newBootstrapUser cfg email))) (\<lambda>u. Ret (Inr u)))))"

definition withLocalAuth :: "user \<Rightarrow> secretKeyRef \<Rightarrow> bool \<Rightarrow> user" where
  "withLocalAuth user ref mustChange = user
     \<lparr>u_spec := (u_spec user)\<lparr>us_localAuth := Some \<lparr>las_enabled = True, las_passwordSecretRef = ref,
        las_mustChangePassword = mustChange\<rparr>\<rparr>,
      u_meta := (u_meta user)\<lparr>m_annotations := mdel (m_annotations (u_meta user)) bootstrapOwnerAnnotation\<rparr>\<rparr>"

definition completeBootstrap :: "lib \<Rightarrow> string \<Rightarrow> bool \<Rightarrow> user \<Rightarrow> unit result prog" where
  "completeBootstrap L email mustChange user =
     tryP generatePassword (\<lambda>password.
     tryP (createLocalAuthSecret L user password mustChange) (\<lambda>ref.
     wrapP ''failed to enable bootstrap administrator: ''
       (updateP toUser (OUser (withLocalAuth user ref mustChange))) (\<lambda>_.
     bind (eventP ''Normal'' ''BootstrapAdminCreated''
            (''Created default local admin user '' @ goQuote email @ ''; retrieve the generated password from secret ''
             @ LocalAuthSystemNamespace @ ''/'' @ skr_name ref))
       (\<lambda>_. Ret (Inr ())))))"

definition reconcileBootstrapAdmin :: "lib \<Rightarrow> authConfig \<Rightarrow> unit result prog" where
  "reconcileBootstrapAdmin L cfg = (case ac_localAuth (a_spec cfg) of
     None \<Rightarrow> Ret (Inr ())
   | Some localAuth \<Rightarrow>
       if \<not> lac_enabled localAuth then Ret (Inr ())
       else wrapP ''failed to list users: '' (listP Cached KUser toUser None []) (\<lambda>users.
         bind (anyUsableAdmin L cfg users) (\<lambda>usable.
           if usable then Ret (Inr ())
           else if bootstrapSkipped localAuth
           then Ret (Inl (Errorf ''bootstrap is skipped and no usable local administrator exists''))
           else tryP (bootstrapUser cfg (bootstrapEmail localAuth))
                  (completeBootstrap L (bootstrapEmail localAuth) (bootstrapMustChange localAuth)))))"

section \<open>Properties of passwords and names\<close>

lemma randomChar_Inr:
  "runs randomChar tr (Inr c) \<longleftrightarrow> (\<exists>n. tr = [(ReqRandInt (length passwordCharset), RInt n)]
     \<and> 0 \<le> n \<and> nat n < length passwordCharset \<and> c = passwordCharset ! nat n)"
  by (auto simp: randomChar_def prog_inv split: if_splits)

lemma randomChars_Inr:
  "runs (randomChars n) tr (Inr cs) \<Longrightarrow>
     length cs = n \<and> set cs \<subseteq> set passwordCharset \<and> length tr = n
     \<and> (\<forall>e \<in> set tr. fst e = ReqRandInt (length passwordCharset))"
proof (induction n arbitrary: tr cs)
  case 0
  then show ?case by (simp add: prog_inv)
next
  case (Suc n)
  then obtain t1 c t2 cs' where "runs randomChar t1 (Inr c)" "runs (randomChars n) t2 (Inr cs')"
    "tr = t1 @ t2" "cs = c # cs'" by (auto simp: runs_tryP runs_Ret_iff)
  with Suc.IH[of t2 cs'] show ?case by (auto simp: randomChar_Inr)
qed

lemma randomChars_exec:
  "\<forall>i \<in> set is. i < length passwordCharset \<Longrightarrow>
     exec (randomChars (length is)) (map (\<lambda>i. RInt (int i)) is)
     = (map (\<lambda>i. (ReqRandInt (length passwordCharset), RInt (int i))) is,
        Some (Inr (map (\<lambda>i. passwordCharset ! i) is)))"
proof (induction "is")
  case (Cons i js)
  have "exec (randomChars (Suc n)) (RInt (int i) # rs)
      = ((ReqRandInt (length passwordCharset), RInt (int i)) # fst (exec (randomChars n) rs),
         map_option (\<lambda>r. case r of Inl e \<Rightarrow> Inl e | Inr cs \<Rightarrow> Inr (passwordCharset ! i # cs)) (snd (exec (randomChars n) rs)))" for n rs
    using Cons.prems
    by (simp add: randomChar_def wrapP_def tryP_map) (simp add: tryP_def ask_def asInt_def exec_map)
  with Cons show ?case by simp
qed simp

lemma distinct_passwordCharset: "distinct passwordCharset"
  by code_simp

lemma length_passwordCharset: "length passwordCharset = 62"
  by code_simp

text \<open>
  A generated password has 20 characters of the 62-character set, each chosen by one draw from
  the secure random source with bound 62. Every sequence of 20 in-range draws succeeds and gives the
  characters at the drawn positions, so different draws give different passwords: nothing of the
  source's entropy is lost.
\<close>

theorem generatePassword_correct:
  "(runs generatePassword tr (Inr pw) \<longrightarrow> length pw = 20 \<and> set pw \<subseteq> set passwordCharset
      \<and> length tr = 20 \<and> (\<forall>e \<in> set tr. fst e = ReqRandInt 62))
   \<and> (length is = 20 \<longrightarrow> (\<forall>i \<in> set is. i < 62) \<longrightarrow>
        snd (exec generatePassword (map (\<lambda>i. RInt (int i)) is)) = Some (Inr (map (\<lambda>i. passwordCharset ! i) is)))
   \<and> (length is = 20 \<longrightarrow> length js = 20 \<longrightarrow> (\<forall>i \<in> set is \<union> set js. i < 62) \<longrightarrow>
        map (\<lambda>i. passwordCharset ! i) is = map (\<lambda>i. passwordCharset ! i) js \<longrightarrow> is = js)"
proof (intro conjI impI)
  assume "runs generatePassword tr (Inr pw)"
  then show "length pw = 20" "set pw \<subseteq> set passwordCharset" "length tr = 20" "\<forall>e \<in> set tr. fst e = ReqRandInt 62"
    using randomChars_Inr[of 20 tr pw] by (simp_all add: generatePassword_def length_passwordCharset)
next
  assume "length is = 20" and "\<forall>i \<in> set is. i < 62"
  then show "snd (exec generatePassword (map (\<lambda>i. RInt (int i)) is)) = Some (Inr (map (\<lambda>i. passwordCharset ! i) is))"
    using randomChars_exec[of "is"] by (simp add: generatePassword_def length_passwordCharset)
next
  assume l: "length is = 20" "length js = 20" and b: "\<forall>i \<in> set is \<union> set js. i < 62"
    and eq: "map (\<lambda>i. passwordCharset ! i) is = map (\<lambda>i. passwordCharset ! i) js"
  have "inj_on (\<lambda>i. passwordCharset ! i) (set is \<union> set js)"
    using b by (intro inj_on_nth distinct_passwordCharset) (auto simp: length_passwordCharset)
  then show "is = js" using eq by (rule map_inj_on[rotated])
qed

theorem generatePassword_correct_witness:
  "snd (exec generatePassword (map (\<lambda>i. RInt (int i)) [0..<20])) = Some (Inr ''ABCDEFGHIJKLMNOPQRST'')"
proof -
  have "map (\<lambda>i. passwordCharset ! i) [0..<20] = ''ABCDEFGHIJKLMNOPQRST''" by code_simp
  then show ?thesis using generatePassword_correct[of _ _ "[0..<20]"] by simp
qed

lemma slugChar_slugify: "list_all slugChar (slugifyEmail email)"
proof -
  have "list_all slugChar (trim (filter slugChar s) ''-'')" for s
    using set_trim[of "filter slugChar s" "''-''"] by (auto simp: list_all_iff)
  then have "list_all slugChar (take 63 (trim (filter slugChar s) ''-''))" for s
    by (auto simp: list_all_iff dest: in_set_takeD)
  with \<open>\<And>s. list_all slugChar (trim (filter slugChar s) ''-'')\<close> show ?thesis
    by (simp add: slugifyEmail_def Let_def)
qed

text \<open>
  A slug has at most 63 characters, all of them lower-case letters, digits or dashes, and does
  not begin with a dash; a slug of fewer than 63 characters does not end with one either.
\<close>

theorem slugifyEmail_shape:
  "length (slugifyEmail email) \<le> 63 \<and> list_all slugChar (slugifyEmail email)
   \<and> (slugifyEmail email \<noteq> [] \<longrightarrow> hd (slugifyEmail email) \<noteq> CHR ''-'')
   \<and> (slugifyEmail email \<noteq> [] \<longrightarrow> length (slugifyEmail email) < 63 \<longrightarrow> last (slugifyEmail email) \<noteq> CHR ''-'')"
proof -
  define s where "s = filter slugChar (replaceAll ''_'' ''-'' (replaceAll ''.'' ''-'' (replaceAll ''@'' ''-at-'' (toLower email))))"
  have slug: "slugifyEmail email = take 63 (trim s ''-'')"
    by (simp add: slugifyEmail_def Let_def s_def)
  have "hd (slugifyEmail email) \<noteq> CHR ''-''" if "slugifyEmail email \<noteq> []"
    using that trim_ends(1)[of s "''-''"] unfolding slug by (cases "trim s ''-''") auto
  moreover have "last (slugifyEmail email) \<noteq> CHR ''-''" if "slugifyEmail email \<noteq> []" "length (slugifyEmail email) < 63"
    using that trim_ends(2)[of s "''-''"] unfolding slug by (auto simp: min_def split: if_splits)
  ultimately show ?thesis using slugChar_slugify[of email] by (auto simp: slug)
qed

theorem slugifyEmail_shape_witness:
  "slugifyEmail ''Jane.Doe@Example.org'' = ''jane-doe-at-example-org''
   \<and> hd (slugifyEmail ''Jane.Doe@Example.org'') \<noteq> CHR ''-'' \<and> last (slugifyEmail ''Jane.Doe@Example.org'') \<noteq> CHR ''-''"
proof -
  have s: "slugifyEmail ''Jane.Doe@Example.org'' = ''jane-doe-at-example-org''" by code_simp
  then show ?thesis using slugifyEmail_shape[of "''Jane.Doe@Example.org''"] by simp
qed

text \<open>
  The cut at 63 characters comes after the trimming of dashes, so a long address can yield a slug
  that ends with a dash, which is no valid object name.
\<close>

theorem slugifyEmail_trailing_dash:
  "slugifyEmail (replicate 62 CHR ''a'' @ ''@b'') = replicate 62 CHR ''a'' @ ''-''
   \<and> \<not> ref_isDNS1123Label (slugifyEmail (replicate 62 CHR ''a'' @ ''@b''))"
proof -
  have s: "slugifyEmail (replicate 62 CHR ''a'' @ ''@b'') = replicate 62 CHR ''a'' @ ''-''" by code_simp
  show ?thesis unfolding s by (simp add: ref_isDNS1123Label_def)
qed

section \<open>Properties of the bootstrap\<close>

text \<open>
  C12. The password Secret of another account is never adopted or overwritten. \<^verbatim>\<open>createLocalAuthSecret\<close>
  only reads the Secret derived from the User's UID, hashes and creates; it creates only after the
  read answered not found, and it accepts an existing Secret only when it carries this User's UID,
  is controlled by this User, is not being deleted and holds a bcrypt hash.
\<close>

theorem createLocalAuthSecret_no_adoption:
  assumes "runs (createLocalAuthSecret L user pw mustChange) tr r" and "(q, x) \<in> set tr"
  shows "(\<exists>g. fst (hd tr) = ReqGet Cached KSecret (LocalAuthSystemNamespace, localAuthSecretName L (m_uid (u_meta user)))
        \<and> snd (hd tr) = g
        \<and> (r = Inr ref \<longrightarrow> ref = localAuthRef L user
             \<and> (tl tr = [] \<longrightarrow> (\<exists>s. g = RObj (OSecret s) \<and> ownedCredential L user s)))
        \<and> (tl tr \<noteq> [] \<longrightarrow> (\<exists>e. asObj toSecret g = Inl e \<and> isNotFound e)))
    \<and> (q = ReqGet Cached KSecret (LocalAuthSystemNamespace, localAuthSecretName L (m_uid (u_meta user)))
       \<or> q = ReqBcrypt pw 12
       \<or> (\<exists>hash. q = ReqCreate (OSecret (newLocalAuthSecret L user hash pw mustChange)) \<and> (ReqBcrypt pw 12, RStr hash) \<in> set tr))"
proof -
  from assms have uid: "m_uid (u_meta user) \<noteq> []"
    by (auto simp: createLocalAuthSecret_def prog_inv split: if_splits)
  with assms(1) obtain g t where tr: "tr = (ReqGet Cached KSecret (LocalAuthSystemNamespace, localAuthSecretName L (m_uid (u_meta user))), g) # t"
    and rest: "runs (case asObj toSecret g of
        Inr existing \<Rightarrow>
          if \<not> ownedCredential L user existing
          then Ret (Inl (Errorf (''bootstrap password Secret '' @ localAuthSecretName L (m_uid (u_meta user)) @ '' ownership or credential mismatch; refusing adoption'')))
          else Ret (Inr (localAuthRef L user))
      | Inl e \<Rightarrow>
          if \<not> isNotFound e then Ret (Inl e)
          else tryP (hashPassword pw) (\<lambda>hash.
                 wrapP (''failed to create local-auth secret '' @ LocalAuthSystemNamespace @ ''/'' @ localAuthSecretName L (m_uid (u_meta user)) @ '': '')
                   (createP toSecret (OSecret (newLocalAuthSecret L user hash pw mustChange)))
                   (\<lambda>_. Ret (Inr (localAuthRef L user))))) t r"
    unfolding createLocalAuthSecret_def Let_def by (auto simp: runs_bind runs_client)
  show ?thesis
  proof (cases "asObj toSecret g")
    case (Inr s)
    with rest tr assms(2) show ?thesis by (auto simp: prog_inv split: if_splits)
  next
    case (Inl e)
    show ?thesis
    proof (cases "isNotFound e")
      case True
      with rest Inl have "runs (tryP (hashPassword pw) (\<lambda>hash.
                 wrapP (''failed to create local-auth secret '' @ LocalAuthSystemNamespace @ ''/'' @ localAuthSecretName L (m_uid (u_meta user)) @ '': '')
                   (createP toSecret (OSecret (newLocalAuthSecret L user hash pw mustChange)))
                   (\<lambda>_. Ret (Inr (localAuthRef L user))))) t r" by simp
      then show ?thesis using tr assms(2) Inl True
        by (auto simp: hashPassword_def prog_inv)
    next
      case False
      with rest tr assms(2) Inl show ?thesis by (auto simp: prog_inv)
    qed
  qed
qed

text \<open>A single check, as a condition on what was read.\<close>

lemma runs_checkCredential:
  "runs (checkCredential L user ref) t c \<longleftrightarrow>
     (if skr_name ref = [] then t = [] \<and> \<not> c
      else \<exists>r. t = [(ReqGet Cached KSecret (LocalAuthSystemNamespace, skr_name ref), r)]
         \<and> c = (\<exists>s. r = RObj (OSecret s) \<and> usableCredential L user ref s))"
proof -
  have "(case asObj toSecret r of Inl e \<Rightarrow> False | Inr s \<Rightarrow> usableCredential L user ref s)
      = (\<exists>s. r = RObj (OSecret s) \<and> usableCredential L user ref s)" for r
    by (cases "asObj toSecret r") (auto simp: asObj_Inr)
  then show ?thesis by (auto simp: checkCredential_def prog_inv)
qed

text \<open>
  \<^verbatim>\<open>usableLocalAdmin\<close> holds exactly for an enabled local administrator (by role, or by an e-mail
  address listed in the AuthConfig up to case) that is not being deleted, is not locked at the time
  read, and whose password Secret could be read, is not being deleted, does not name another User as
  its owner and holds a bcrypt hash.
\<close>

theorem usableLocalAdmin_exact:
  assumes "runs (usableLocalAdmin L user cfg) tr b"
  shows "b \<longleftrightarrow> localAdminCandidate user cfg
     \<and> (\<forall>t. ut_lockedUntil (u_status user) = Some t \<longrightarrow>
          (\<exists>x. (ReqNow, x) \<in> set tr \<and> t \<le> (case x of RInt now \<Rightarrow> now | _ \<Rightarrow> 0)))
     \<and> (\<exists>la s. us_localAuth (u_spec user) = Some la \<and> skr_name (las_passwordSecretRef la) \<noteq> []
          \<and> (ReqGet Cached KSecret (LocalAuthSystemNamespace, skr_name (las_passwordSecretRef la)), RObj (OSecret s)) \<in> set tr
          \<and> usableCredential L user (las_passwordSecretRef la) s)"
proof (cases "us_localAuth (u_spec user)")
  case None
  then show ?thesis using assms by (simp add: usableLocalAdmin_def prog_inv)
next
  case (Some la)
  show ?thesis
  proof (cases "localAdminCandidate user cfg")
    case True
    then show ?thesis using assms Some
      by (auto simp: usableLocalAdmin_def runs_bind nowP_def runs_ask runs_checkCredential runs_Ret_iff
          split: option.splits if_splits)
  next
    case False
    with assms Some show ?thesis by (simp add: usableLocalAdmin_def prog_inv)
  qed
qed

lemma anyUsableAdmin_False:
  "runs (anyUsableAdmin L cfg us) tr False \<Longrightarrow> u \<in> set us \<Longrightarrow>
     \<exists>a t b. tr = a @ t @ b \<and> runs (usableLocalAdmin L u cfg) t False"
proof (induction us arbitrary: tr)
  case (Cons v vs)
  then obtain t1 t2 where t: "runs (usableLocalAdmin L v cfg) t1 False"
    "runs (anyUsableAdmin L cfg vs) t2 False" "tr = t1 @ t2"
    by (auto simp: runs_bind runs_Ret_iff split: if_splits)
  show ?case
  proof (cases "u = v")
    case True
    with t have "tr = [] @ t1 @ t2 \<and> runs (usableLocalAdmin L u cfg) t1 False" by simp
    then show ?thesis by blast
  next
    case False
    with Cons.IH[OF t(2)] Cons.prems(2) obtain a t' b where "t2 = a @ t' @ b" "runs (usableLocalAdmin L u cfg) t' False"
      by auto
    with t(3) have "tr = (t1 @ a) @ t' @ b \<and> runs (usableLocalAdmin L u cfg) t' False" by simp
    then show ?thesis by blast
  qed
qed simp

lemma anyUsableAdmin_calls: "calls (\<lambda>q. \<not> isWrite q) (anyUsableAdmin L cfg us)"
proof (induction us)
  case (Cons u us)
  have "calls (\<lambda>q. \<not> isWrite q) (usableLocalAdmin L u cfg)"
    unfolding usableLocalAdmin_def checkCredential_def
    by (auto split: option.split intro!: calls_bind)
  with Cons show ?case by (auto intro!: calls_bind)
qed simp

text \<open>How a run of \<^verbatim>\<open>reconcileBootstrapAdmin\<close> that gets past the checks proceeds.\<close>

lemma reconcileBootstrapAdmin_writes:
  assumes "runs (reconcileBootstrapAdmin L cfg) tr r" and "(q, x) \<in> set tr" and "isWrite q"
  obtains la obs t1 t2 where "ac_localAuth (a_spec cfg) = Some la" and "lac_enabled la"
    and "\<not> bootstrapSkipped la" and "tr = (ReqList Cached KUser None [], RList obs) # t1 @ t2"
    and "runs (anyUsableAdmin L cfg (List.map_filter toUser obs)) t1 False"
    and "runs (tryP (bootstrapUser cfg (bootstrapEmail la))
           (completeBootstrap L (bootstrapEmail la) (bootstrapMustChange la))) t2 r"
    and "(q, x) \<in> set t2"
proof -
  from assms obtain la where la: "ac_localAuth (a_spec cfg) = Some la" "lac_enabled la"
    by (auto simp: reconcileBootstrapAdmin_def prog_inv split: option.splits if_splits)
  with assms obtain obs t where tr: "tr = (ReqList Cached KUser None [], RList obs) # t" "(q, x) \<in> set t"
    and rest: "runs (bind (anyUsableAdmin L cfg (List.map_filter toUser obs)) (\<lambda>usable.
           if usable then Ret (Inr ())
           else if bootstrapSkipped la
           then Ret (Inl (Errorf ''bootstrap is skipped and no usable local administrator exists''))
           else tryP (bootstrapUser cfg (bootstrapEmail la))
                  (completeBootstrap L (bootstrapEmail la) (bootstrapMustChange la)))) t r"
    by (auto simp: reconcileBootstrapAdmin_def runs_wrapP runs_client asList_Inr)
  from rest obtain t1 b t2 where t: "runs (anyUsableAdmin L cfg (List.map_filter toUser obs)) t1 b" "t = t1 @ t2"
    and k: "runs (if b then Ret (Inr ())
           else if bootstrapSkipped la
           then Ret (Inl (Errorf ''bootstrap is skipped and no usable local administrator exists''))
           else tryP (bootstrapUser cfg (bootstrapEmail la))
                  (completeBootstrap L (bootstrapEmail la) (bootstrapMustChange la))) t2 r"
    by (auto simp: runs_bind)
  have "(q, x) \<notin> set t1" using callsD[OF anyUsableAdmin_calls t(1)] assms(3) by blast
  with tr t have q: "(q, x) \<in> set t2" by simp
  with k have "\<not> b" "\<not> bootstrapSkipped la" by (auto simp: runs_Ret_iff split: if_splits)
  with k t(1) have "runs (anyUsableAdmin L cfg (List.map_filter toUser obs)) t1 False"
    and "runs (tryP (bootstrapUser cfg (bootstrapEmail la))
           (completeBootstrap L (bootstrapEmail la) (bootstrapMustChange la))) t2 r" by auto
  with that la tr t q \<open>\<not> bootstrapSkipped la\<close> show thesis by simp
qed

text \<open>
  C13. The bootstrap writes only when it is needed. If a run creates or updates anything then local
  authentication is enabled, the bootstrap is not skipped, and every User the API server listed was
  checked and found not to be a usable local administrator.
\<close>

theorem bootstrap_only_when_needed:
  assumes "runs (reconcileBootstrapAdmin L cfg) tr r" and "(q, x) \<in> set tr" and "isWrite q"
  shows "\<exists>la obs rest. ac_localAuth (a_spec cfg) = Some la \<and> lac_enabled la \<and> \<not> bootstrapSkipped la
    \<and> tr = (ReqList Cached KUser None [], RList obs) # rest
    \<and> (\<forall>u. OUser u \<in> set obs \<longrightarrow>
         (\<exists>a t b. rest = a @ t @ b \<and> runs (usableLocalAdmin L u cfg) t False))"
  using assms
proof (cases rule: reconcileBootstrapAdmin_writes)
  case (1 la obs t1 t2)
  have "\<exists>a t b. t1 @ t2 = a @ t @ b \<and> runs (usableLocalAdmin L u cfg) t False" if "OUser u \<in> set obs" for u
  proof -
    have "u \<in> set (List.map_filter toUser obs)" using that by (force simp: List.map_filter_def image_iff)
    from anyUsableAdmin_False[OF 1(5) this] obtain a t b where "t1 = a @ t @ b" "runs (usableLocalAdmin L u cfg) t False"
      by blast
    then have "t1 @ t2 = a @ t @ (b @ t2) \<and> runs (usableLocalAdmin L u cfg) t False" by simp
    then show ?thesis by blast
  qed
  with 1 show ?thesis by blast
qed

text \<open>Which requests the completing part issues, given what was observed before.\<close>

definition bootstrapWrite :: "lib \<Rightarrow> authConfig \<Rightarrow> string \<Rightarrow> trace \<Rightarrow> req \<Rightarrow> bool" where
  "bootstrapWrite L cfg email h q \<longleftrightarrow> (isWrite q \<longrightarrow>
     (q = ReqCreate (OUser (newBootstrapUser cfg email))
        \<and> (\<exists>e. (ReqGet Cached KUser ([], slugifyEmail email), RErr e) \<in> set h \<and> isNotFound e)
        \<and> (\<exists>e. (ReqGet Cached KSecret (LocalAuthSystemNamespace, ''kw-user-'' @ slugifyEmail email @ ''-local-auth''), RErr e) \<in> set h \<and> isNotFound e))
   \<or> (\<exists>u hash pw mc. q = ReqCreate (OSecret (newLocalAuthSecret L u hash pw mc)) \<and> m_uid (u_meta u) \<noteq> []
        \<and> (\<exists>e. (ReqGet Cached KSecret (LocalAuthSystemNamespace, localAuthSecretName L (m_uid (u_meta u))), RErr e) \<in> set h \<and> isNotFound e))
   \<or> (\<exists>u ref mc. q = ReqUpdate (OUser (withLocalAuth u ref mc))
        \<and> ((ReqCreate (OUser (newBootstrapUser cfg email)), RObj (OUser u)) \<in> set h
           \<or> (ReqGet Cached KUser ([], slugifyEmail email), RObj (OUser u)) \<in> set h \<and> resumable cfg email u)))"


lemma generatePassword_calls: "calls (\<lambda>q. \<not> isWrite q) generatePassword"
proof -
  have "calls (\<lambda>q. \<not> isWrite q) (randomChars n)" for n
    by (induction n) (auto simp: randomChar_def intro!: calls_tryP calls_wrapP)
  then show ?thesis by (simp add: generatePassword_def)
qed

lemma bootstrapWrite_other: "\<not> isWrite q \<Longrightarrow> bootstrapWrite L cfg email h q"
  by (simp add: bootstrapWrite_def)

lemma createLocalAuthSecret_guarded:
  "guarded (bootstrapWrite L cfg email) (createLocalAuthSecret L user pw mc) h"
proof (cases "m_uid (u_meta user) = []")
  case True
  then show ?thesis by (simp add: createLocalAuthSecret_def)
next
  case False
  let ?get = "ReqGet Cached KSecret (LocalAuthSystemNamespace, localAuthSecretName L (m_uid (u_meta user)))"
  have "bootstrapWrite L cfg email (h @ (?get, RErr e) # t)
      (ReqCreate (OSecret (newLocalAuthSecret L user hash pw mc)))" if "isNotFound e" for e t hash
    unfolding bootstrapWrite_def using that False by auto
  with False show ?thesis
    unfolding createLocalAuthSecret_def Let_def hashPassword_def
    by (auto simp: prog_inv bootstrapWrite_other split: sum.split intro!: guarded_bind guarded_tryP guarded_wrapP)
qed

lemma completeBootstrap_guarded:
  assumes "(ReqCreate (OUser (newBootstrapUser cfg email)), RObj (OUser u)) \<in> set h
    \<or> (ReqGet Cached KUser ([], slugifyEmail email), RObj (OUser u)) \<in> set h \<and> resumable cfg email u"
  shows "guarded (bootstrapWrite L cfg email) (completeBootstrap L email mc u) h"
proof -
  have up: "bootstrapWrite L cfg email (h @ t) (ReqUpdate (OUser (withLocalAuth u ref mc)))" for t ref
    unfolding bootstrapWrite_def using assms by auto
  have gen: "guarded (bootstrapWrite L cfg email) generatePassword h"
    by (rule guarded_calls[OF generatePassword_calls]) (rule bootstrapWrite_other)
  show ?thesis
    unfolding completeBootstrap_def using gen
    by (auto simp: bootstrapWrite_other intro!: guarded_tryP guarded_wrapP guarded_bind
        createLocalAuthSecret_guarded up)
qed

lemma bootstrapUser_guarded: "guarded (bootstrapWrite L cfg email) (bootstrapUser cfg email) h"
proof -
  have "bootstrapWrite L cfg email ((h @ [(ReqGet Cached KUser ([], slugifyEmail email), RErr e)])
        @ [(ReqGet Cached KSecret (LocalAuthSystemNamespace, ''kw-user-'' @ slugifyEmail email @ ''-local-auth''), RErr e')])
      (ReqCreate (OUser (newBootstrapUser cfg email)))" if "isNotFound e" "isNotFound e'" for e e'
    unfolding bootstrapWrite_def using that by auto
  then show ?thesis
    unfolding bootstrapUser_def Let_def
    by (auto simp: prog_inv bootstrapWrite_other split: sum.split intro!: guarded_bind guarded_wrapP)
qed

lemma bootstrapUser_result:
  assumes "runs (bootstrapUser cfg email) tr (Inr u)"
  shows "(ReqCreate (OUser (newBootstrapUser cfg email)), RObj (OUser u)) \<in> set tr
    \<or> (ReqGet Cached KUser ([], slugifyEmail email), RObj (OUser u)) \<in> set tr \<and> resumable cfg email u"
proof -
  from assms obtain g t where tr: "tr = (ReqGet Cached KUser ([], slugifyEmail email), g) # t"
    by (auto simp: bootstrapUser_def Let_def runs_bind runs_client)
  show ?thesis
  proof (cases "asObj toUser g")
    case (Inr v)
    with assms tr show ?thesis by (auto simp: bootstrapUser_def Let_def prog_inv split: if_splits)
  next
    case (Inl e)
    with assms tr obtain l t' where t: "t = (ReqGet Cached KSecret (LocalAuthSystemNamespace,
        ''kw-user-'' @ slugifyEmail email @ ''-local-auth''), l) # t'"
      by (auto simp: bootstrapUser_def Let_def runs_bind runs_client runs_Ret_iff split: if_splits)
    with assms tr Inl show ?thesis
      by (cases "asObj toSecret l") (auto simp: bootstrapUser_def Let_def prog_inv split: if_splits)
  qed
qed

text \<open>
  C14. The bootstrap takes over no existing account. A User is created only after both the User and
  the retained legacy credential of that name were reported absent; a Secret is created only
  after it was reported absent; the only object ever updated is a User that this run created or that
  carries the unfinished bootstrap of this AuthConfig (same UID, address and role, enabled, without
  local authentication), and the update sets its local authentication and clears the marker, nothing
  else. Nothing is deleted.
\<close>

theorem bootstrap_takes_over_nothing:
  assumes "runs (reconcileBootstrapAdmin L cfg) tr r" and "(q, x) \<in> set tr" and "isWrite q"
  shows "\<exists>la pre post. ac_localAuth (a_spec cfg) = Some la \<and> tr = pre @ (q, x) # post
    \<and> bootstrapWrite L cfg (bootstrapEmail la) pre q"
  using assms
proof (cases rule: reconcileBootstrapAdmin_writes)
  case (1 la obs t1 t2)
  let ?h = "(ReqList Cached KUser None [], RList obs) # t1"
  have "guarded (bootstrapWrite L cfg (bootstrapEmail la)) (tryP (bootstrapUser cfg (bootstrapEmail la))
      (completeBootstrap L (bootstrapEmail la) (bootstrapMustChange la))) ?h"
    using bootstrapUser_result
    by (intro guarded_tryP bootstrapUser_guarded completeBootstrap_guarded) fastforce
  moreover obtain a b where "t2 = a @ (q, x) # b" using 1(7) by (meson split_list)
  ultimately have "bootstrapWrite L cfg (bootstrapEmail la) (?h @ a) q" using guardedD[OF 1(6)] by blast
  moreover have "tr = (?h @ a) @ (q, x) # b" using 1(4) \<open>t2 = a @ (q, x) # b\<close> by simp
  ultimately show ?thesis using 1(1) by blast
qed

section \<open>A bootstrap run\<close>

definition exLocalConfig :: authConfig where
  "exLocalConfig = \<lparr>a_meta = (objectMeta [] ''default'')\<lparr>m_uid := ''ac1''\<rparr>,
     a_spec = \<lparr>ac_enabled = True, ac_oidc = None, ac_session = None, ac_personalNamespaces = None,
       ac_registration = None, ac_authorization = None, ac_adminEmails = [''Root@x''],
       ac_localAuth = Some \<lparr>lac_enabled = True, lac_bootstrapAdmin = None\<rparr>\<rparr>,
     a_status = \<lparr>at_enabled = False, at_issuerReachable = False, at_lastVerified = None, at_conditions = []\<rparr>\<rparr>"

definition exCreated :: user where
  "exCreated = (newBootstrapUser exLocalConfig ''admin@local'')
     \<lparr>u_meta := (u_meta (newBootstrapUser exLocalConfig ''admin@local''))\<lparr>m_uid := ''u9'', m_resourceVersion := ''1''\<rparr>\<rparr>"

definition exSecret :: secret where
  "exSecret = newLocalAuthSecret ref_lib exCreated ''$2a$12$x'' ''AAAAAAAAAAAAAAAAAAAA'' True"

definition exAdmin :: user where
  "exAdmin = (withLocalAuth exCreated \<lparr>skr_name = ''pw'', skr_key = []\<rparr> False)
     \<lparr>u_status := (u_status exCreated)\<lparr>ut_lockedUntil := Some 50\<rparr>\<rparr>"

definition bootstrapResponses :: "resp list" where
  "bootstrapResponses = [RList [OUser exAdmin], RInt 40, notFound, notFound, RObj (OUser exCreated)]
     @ replicate 20 (RInt 0) @ [notFound, RStr ''$2a$12$x'', RObj (OSecret exSecret), RObj (OUser exCreated), ROk]"

definition bootstrapTrace :: trace where
  "bootstrapTrace = fst (exec (reconcileBootstrapAdmin ref_lib exLocalConfig) bootstrapResponses)"

lemma bootstrap_exec: "snd (exec (reconcileBootstrapAdmin ref_lib exLocalConfig) bootstrapResponses) = Some (Inr ())"
  by code_simp

lemma bootstrap_run: "runs (reconcileBootstrapAdmin ref_lib exLocalConfig) bootstrapTrace (Inr ())"
  by (rule exec_runs[where rs = bootstrapResponses]) (simp add: bootstrapTrace_def prod_eq_iff bootstrap_exec)

lemma bootstrap_updates:
  "(ReqUpdate (OUser (withLocalAuth exCreated (localAuthRef ref_lib exCreated) True)), RObj (OUser exCreated)) \<in> set bootstrapTrace"
  by code_simp

lemma bootstrap_creates: "(ReqCreate (OUser (newBootstrapUser exLocalConfig ''admin@local'')), RObj (OUser exCreated)) \<in> set bootstrapTrace"
  by code_simp

theorem bootstrap_only_when_needed_witness:
  "\<exists>la obs rest. ac_localAuth (a_spec exLocalConfig) = Some la \<and> lac_enabled la \<and> \<not> bootstrapSkipped la
    \<and> bootstrapTrace = (ReqList Cached KUser None [], RList obs) # rest
    \<and> (\<forall>u. OUser u \<in> set obs \<longrightarrow>
         (\<exists>a t b. rest = a @ t @ b \<and> runs (usableLocalAdmin ref_lib u exLocalConfig) t False))"
  by (rule bootstrap_only_when_needed[OF bootstrap_run bootstrap_creates]) simp

theorem bootstrap_takes_over_nothing_witness:
  "\<exists>la pre post. ac_localAuth (a_spec exLocalConfig) = Some la
    \<and> bootstrapTrace = pre @ (ReqUpdate (OUser (withLocalAuth exCreated (localAuthRef ref_lib exCreated) True)), RObj (OUser exCreated)) # post
    \<and> bootstrapWrite ref_lib exLocalConfig (bootstrapEmail la) pre
        (ReqUpdate (OUser (withLocalAuth exCreated (localAuthRef ref_lib exCreated) True)))"
  by (rule bootstrap_takes_over_nothing[OF bootstrap_run bootstrap_updates]) simp

theorem usableLocalAdmin_exact_witness:
  "\<exists>tr. runs (usableLocalAdmin ref_lib exAdmin exLocalConfig) tr True
     \<and> (ReqNow, RInt 60) \<in> set tr \<and> localAdminCandidate exAdmin exLocalConfig"
proof -
  let ?rs = "[RInt 60, RObj (OSecret (exSecret\<lparr>sec_data := [(PasswordSecretHashKey, ''$2a$12$x'')]\<rparr>))]"
  let ?tr = "fst (exec (usableLocalAdmin ref_lib exAdmin exLocalConfig) ?rs)"
  have "snd (exec (usableLocalAdmin ref_lib exAdmin exLocalConfig) ?rs) = Some True" by code_simp
  then have run: "runs (usableLocalAdmin ref_lib exAdmin exLocalConfig) ?tr True"
    by (intro exec_runs[where rs = ?rs]) (simp add: prod_eq_iff)
  have "(ReqNow, RInt 60) \<in> set ?tr" by code_simp
  with run usableLocalAdmin_exact[OF run] show ?thesis by blast
qed

theorem createLocalAuthSecret_no_adoption_witness:
  "\<exists>tr. runs (createLocalAuthSecret ref_lib exCreated ''pw'' True) tr (Inr (localAuthRef ref_lib exCreated))
     \<and> (\<exists>hash. (ReqBcrypt ''pw'' 12, RStr hash) \<in> set tr)"
proof -
  let ?rs = "[notFound, RStr ''$2a$12$x'', RObj (OSecret exSecret)]"
  let ?p = "createLocalAuthSecret ref_lib exCreated ''pw'' True"
  let ?tr = "fst (exec ?p ?rs)"
  let ?q = "ReqCreate (OSecret (newLocalAuthSecret ref_lib exCreated ''$2a$12$x'' ''pw'' True))"
  have "snd (exec ?p ?rs) = Some (Inr (localAuthRef ref_lib exCreated))" by code_simp
  then have run: "runs ?p ?tr (Inr (localAuthRef ref_lib exCreated))"
    by (intro exec_runs[where rs = ?rs]) (simp add: prod_eq_iff)
  have "(?q, RObj (OSecret exSecret)) \<in> set ?tr" by code_simp
  from createLocalAuthSecret_no_adoption[OF run this, of "localAuthRef ref_lib exCreated"] run show ?thesis by blast
qed

end
