(* ===== verification/Auth_Config.thy ===== *)
theory Auth_Config
  imports Local_Auth
begin

text \<open>
  The AuthConfig controller (src/internal/controller/authconfig_controller.go): it maintains the
  bootstrap administrator, verifies the OIDC issuer and reports what it found in the status of the
  AuthConfig named default. The lemmas compare the reported conditions with a decision table.
\<close>

section \<open>The reconciler\<close>

definition authCondition :: "string \<Rightarrow> bool \<Rightarrow> int \<Rightarrow> int option \<Rightarrow> string \<Rightarrow> string \<Rightarrow> condition" where
  "authCondition ty ok gen ltt reason msg = \<lparr>c_type = ty, c_status = (if ok then ''True'' else ''False''),
     c_observedGeneration = gen, c_ltt = ltt, c_reason = reason, c_message = msg\<rparr>"

definition updateAuthStatus :: "authConfig \<Rightarrow> (authConfigStatus \<Rightarrow> authConfigStatus) \<Rightarrow> authConfig" where
  "updateAuthStatus cfg f = cfg\<lparr>a_status := f (a_status cfg)\<rparr>"

text \<open>\<^verbatim>\<open>setCondition(&authConfig.Status.Conditions, ...)\<close> at a given time.\<close>

definition setAuthCondition :: "lib \<Rightarrow> int \<Rightarrow> condition \<Rightarrow> authConfig \<Rightarrow> authConfig" where
  "setAuthCondition L now c cfg = updateAuthStatus cfg (\<lambda>st. st\<lparr>at_conditions := setCondition L now (at_conditions st) c\<rparr>)"

definition removeAuthCondition :: "lib \<Rightarrow> string \<Rightarrow> authConfig \<Rightarrow> authConfig" where
  "removeAuthCondition L t cfg = updateAuthStatus cfg (\<lambda>st. st\<lparr>at_conditions := l_removeStatusCondition L (at_conditions st) t\<rparr>)"

definition issuerUnverified :: "authConfig \<Rightarrow> authConfig" where
  "issuerUnverified cfg = updateAuthStatus cfg (\<lambda>st. st\<lparr>at_issuerReachable := False, at_lastVerified := None\<rparr>)"

text \<open>The closure \<^verbatim>\<open>updateStatus\<close>: the status is written only when it changed.\<close>

definition writeAuthStatus :: "authConfigStatus \<Rightarrow> authConfig \<Rightarrow> ctrlResult \<Rightarrow> ctrlResult result prog" where
  "writeAuthStatus previousStatus cfg v =
     (if previousStatus = a_status cfg then Ret (Inr v)
      else tryP (statusUpdateP toAuthConfig (OAuthConfig cfg)) (\<lambda>_. Ret (Inr v)))"

definition hasOIDC :: "authConfig \<Rightarrow> bool" where
  "hasOIDC cfg = (case ac_oidc (a_spec cfg) of None \<Rightarrow> False | Some oc \<Rightarrow> oc_issuerURL oc \<noteq> [])"

definition hasLocalAuth :: "authConfig \<Rightarrow> bool" where
  "hasLocalAuth cfg = (case ac_localAuth (a_spec cfg) of None \<Rightarrow> False | Some la \<Rightarrow> lac_enabled la)"

definition issuerURL :: "authConfig \<Rightarrow> string" where
  "issuerURL cfg = (case ac_oidc (a_spec cfg) of None \<Rightarrow> [] | Some oc \<Rightarrow> oc_issuerURL oc)"

definition wellKnownURL :: "string \<Rightarrow> string" where
  "wellKnownURL url = trimRight url ''/'' @ ''/.well-known/openid-configuration''"

definition verifyIssuer :: "string \<Rightarrow> bool prog" where
  "verifyIssuer url = ask (ReqHTTPGet (wellKnownURL url)) (\<lambda>r. r = RInt 200)"

definition localMethodCondition :: "authConfig \<Rightarrow> gerr option \<Rightarrow> condition" where
  "localMethodCondition cfg localErr =
     (let gen = m_generation (a_meta cfg) in
      if hasLocalAuth cfg
      then (case localErr of
              None \<Rightarrow> authCondition ''LocalAuthReady'' True gen None ''UsableAdministrator''
                ''Local authentication has a usable recovery administrator (temporary passwords require change)''
            | Some e \<Rightarrow> authCondition ''LocalAuthReady'' False gen None ''BootstrapAdminUnavailable'' (errText e))
      else authCondition ''LocalAuthReady'' False gen None ''NotConfigured'' ''Local authentication is not configured'')"

definition oidcMethodCondition :: "authConfig \<Rightarrow> condition" where
  "oidcMethodCondition cfg =
     (let gen = m_generation (a_meta cfg) in
      if hasOIDC cfg
      then if at_issuerReachable (a_status cfg)
           then authCondition ''OIDCReady'' True gen None ''IssuerVerified'' ''OIDC issuer is reachable; this does not prove a provider sign-in''
           else authCondition ''OIDCReady'' False gen None ''IssuerUnreachable'' ''OIDC issuer is not reachable''
      else authCondition ''OIDCReady'' False gen None ''NotConfigured'' ''OIDC is not configured'')"

definition methodConditions :: "lib \<Rightarrow> authConfig \<Rightarrow> gerr option \<Rightarrow> authConfig prog" where
  "methodConditions L cfg localErr =
     bind nowP (\<lambda>t1. let cfg1 = setAuthCondition L t1 (localMethodCondition cfg localErr) cfg in
     bind nowP (\<lambda>t2. Ret (setAuthCondition L t2 (oidcMethodCondition cfg1) cfg1)))"

definition withoutMethodConditions :: "lib \<Rightarrow> authConfig \<Rightarrow> authConfig" where
  "withoutMethodConditions L cfg = removeAuthCondition L ''OIDCReady'' (removeAuthCondition L ''LocalAuthReady'' cfg)"

text \<open>The branches of \<^verbatim>\<open>Reconcile\<close>; \<open>previousStatus\<close> is the status as it was read.\<close>

definition reconcileAuthDisabled :: "lib \<Rightarrow> authConfigStatus \<Rightarrow> authConfig \<Rightarrow> ctrlResult result prog" where
  "reconcileAuthDisabled L previousStatus cfg =
     bind nowP (\<lambda>now. writeAuthStatus previousStatus
       (setAuthCondition L now (authCondition ''Ready'' True 0 (Some now) ''Disabled'' ''Authentication is disabled'')
         (withoutMethodConditions L (issuerUnverified cfg))) 0)"

definition reconcileAuthMissing :: "lib \<Rightarrow> authConfigStatus \<Rightarrow> authConfig \<Rightarrow> ctrlResult result prog" where
  "reconcileAuthMissing L previousStatus cfg =
     bind nowP (\<lambda>now. writeAuthStatus previousStatus
       (setAuthCondition L now (authCondition ''Ready'' False 0 (Some now) ''MissingAuthMethod''
          ''Either OIDC or localAuth must be configured when auth is enabled'')
         (withoutMethodConditions L (issuerUnverified cfg))) (seconds 30))"

definition reconcileLocal :: "lib \<Rightarrow> authConfig \<Rightarrow> gerr option prog" where
  "reconcileLocal L cfg =
     (if hasLocalAuth cfg
      then bind (reconcileBootstrapAdmin L cfg) (\<lambda>r. case r of
             Inl e \<Rightarrow> bind (eventP ''Warning'' ''BootstrapAdminFailed'' (errText e)) (\<lambda>_. Ret (Some e))
           | Inr u \<Rightarrow> Ret None)
      else Ret None)"

definition reconcileLocalOnly :: "lib \<Rightarrow> authConfigStatus \<Rightarrow> authConfig \<Rightarrow> gerr option \<Rightarrow> ctrlResult result prog" where
  "reconcileLocalOnly L previousStatus cfg localErr =
     bind nowP (\<lambda>now. bind (methodConditions L
         (setAuthCondition L now (case localErr of
             None \<Rightarrow> authCondition ''Ready'' True 0 (Some now) ''LocalAuthOnly''
               ''Authentication is enabled via local auth (no OIDC configured)''
           | Some e \<Rightarrow> authCondition ''Ready'' False 0 (Some now) ''BootstrapAdminUnavailable'' (errText e))
           (issuerUnverified cfg)) localErr)
       (\<lambda>cfg'. writeAuthStatus previousStatus cfg' (if localErr \<noteq> None then seconds 30 else seconds 300)))"

definition reconcileOIDC :: "lib \<Rightarrow> authConfigStatus \<Rightarrow> authConfig \<Rightarrow> gerr option \<Rightarrow> ctrlResult result prog" where
  "reconcileOIDC L previousStatus cfg localErr =
     bind (verifyIssuer (issuerURL cfg)) (\<lambda>reachable.
     bind nowP (\<lambda>now.
       let cfg1 = updateAuthStatus cfg (\<lambda>st. st\<lparr>at_issuerReachable := reachable, at_lastVerified := Some now\<rparr>);
           cfg2 = setAuthCondition L now
             (if reachable
              then authCondition ''Ready'' True 0 (Some now) ''IssuerVerified'' (''OIDC issuer '' @ issuerURL cfg @ '' is reachable'')
              else authCondition ''Ready'' False 0 (Some now) ''IssuerUnreachable'' (''OIDC issuer '' @ issuerURL cfg @ '' is not reachable'')) cfg1
       in bind (if \<not> reachable \<and> hasLocalAuth cfg \<and> localErr = None
                then bind nowP (\<lambda>t. Ret (setAuthCondition L t (authCondition ''Ready'' True (m_generation (a_meta cfg)) None
                       ''LocalRecoveryAvailable'' ''OIDC is unavailable; local recovery administrator is usable'') cfg2))
                else Ret cfg2) (\<lambda>cfg3.
          bind (methodConditions L cfg3 localErr) (\<lambda>cfg4. writeAuthStatus previousStatus cfg4 (seconds 300)))))"

definition reconcileAuthConfig :: "lib \<Rightarrow> string \<Rightarrow> ctrlResult result prog" where
  "reconcileAuthConfig L reqName =
     (if reqName \<noteq> ''default'' then Ret (Inr 0)
      else bind (getP Cached KAuthConfig toAuthConfig [] ''default'') (\<lambda>g. case g of
        Inl e \<Rightarrow> Ret (if isNotFound e then Inr 0 else Inl e)
      | Inr cfg0 \<Rightarrow>
          let previousStatus = a_status cfg0;
              cfg = updateAuthStatus cfg0 (\<lambda>st. st\<lparr>at_enabled := ac_enabled (a_spec cfg0)\<rparr>) in
          if \<not> ac_enabled (a_spec cfg) then reconcileAuthDisabled L previousStatus cfg
          else if \<not> hasOIDC cfg \<and> \<not> hasLocalAuth cfg then reconcileAuthMissing L previousStatus cfg
          else bind (reconcileLocal L cfg) (\<lambda>localErr.
                 if \<not> hasOIDC cfg then reconcileLocalOnly L previousStatus cfg localErr
                 else reconcileOIDC L previousStatus cfg localErr)))"

section \<open>The reported conditions\<close>

text \<open>Status and reason of the condition of a type, as an AuthConfig reports it.\<close>

definition verdict :: "authConfig \<Rightarrow> string \<Rightarrow> (string \<times> string) option" where
  "verdict cfg t = map_option (\<lambda>d. (c_status d, c_reason d)) (findCondition (at_conditions (a_status cfg)) t)"

lemma verdict_set:
  assumes "setStatusCondition_doc L"
  shows "verdict (setAuthCondition L now c cfg) t
    = (if t = c_type c then Some (c_status c, c_reason c) else verdict cfg t)"
proof -
  from assms obtain d where d: "findCondition (l_setStatusCondition L now (at_conditions (a_status cfg)) c) (c_type c) = Some d"
    "sameVerdict d c" unfolding setStatusCondition_doc_def by blast
  have "findCondition (l_setStatusCondition L now (at_conditions (a_status cfg)) c) t
      = findCondition (at_conditions (a_status cfg)) t" if "t \<noteq> c_type c"
    using assms that unfolding setStatusCondition_doc_def by blast
  with d show ?thesis
    by (auto simp: verdict_def setAuthCondition_def updateAuthStatus_def setCondition_def sameVerdict_def)
qed

lemma verdict_remove:
  assumes "removeStatusCondition_doc L"
  shows "verdict (removeAuthCondition L u cfg) t = (if t = u then None else verdict cfg t)"
  using assms by (simp add: verdict_def removeAuthCondition_def updateAuthStatus_def removeStatusCondition_doc_def)

lemma auth_frame [simp]:
  "a_spec (setAuthCondition L now c cfg) = a_spec cfg" "a_meta (setAuthCondition L now c cfg) = a_meta cfg"
  "a_spec (removeAuthCondition L u cfg) = a_spec cfg" "a_meta (removeAuthCondition L u cfg) = a_meta cfg"
  "a_spec (updateAuthStatus cfg f) = a_spec cfg" "a_meta (updateAuthStatus cfg f) = a_meta cfg"
  "a_spec (issuerUnverified cfg) = a_spec cfg" "a_meta (issuerUnverified cfg) = a_meta cfg"
  "a_status (updateAuthStatus cfg f) = f (a_status cfg)"
  "at_issuerReachable (a_status (setAuthCondition L now c cfg)) = at_issuerReachable (a_status cfg)"
  "at_lastVerified (a_status (setAuthCondition L now c cfg)) = at_lastVerified (a_status cfg)"
  "at_enabled (a_status (setAuthCondition L now c cfg)) = at_enabled (a_status cfg)"
  "at_issuerReachable (a_status (removeAuthCondition L u cfg)) = at_issuerReachable (a_status cfg)"
  "at_lastVerified (a_status (removeAuthCondition L u cfg)) = at_lastVerified (a_status cfg)"
  "at_enabled (a_status (removeAuthCondition L u cfg)) = at_enabled (a_status cfg)"
  "at_issuerReachable (a_status (issuerUnverified cfg)) = False"
  "at_enabled (a_status (issuerUnverified cfg)) = at_enabled (a_status cfg)"
  by (simp_all add: setAuthCondition_def removeAuthCondition_def updateAuthStatus_def issuerUnverified_def)

lemma hasOIDC_frame: "a_spec c = a_spec c' \<Longrightarrow> hasOIDC c = hasOIDC c'"
  by (simp add: hasOIDC_def)

lemma hasLocalAuth_frame: "a_spec c = a_spec c' \<Longrightarrow> hasLocalAuth c = hasLocalAuth c'"
  by (simp add: hasLocalAuth_def)

lemma authCondition_sel [simp]:
  "c_type (authCondition t ok g l rs ms) = t" "c_reason (authCondition t ok g l rs ms) = rs"
  "c_status (authCondition t ok g l rs ms) = (if ok then ''True'' else ''False'')"
  by (simp_all add: authCondition_def)

text \<open>The decision table the status is meant to follow.\<close>

definition readyTable :: "authConfig \<Rightarrow> bool \<Rightarrow> bool \<Rightarrow> string \<times> string" where
  "readyTable cfg localOk reachable =
     (if \<not> ac_enabled (a_spec cfg) then (''True'', ''Disabled'')
      else if hasOIDC cfg then
        (if reachable then (''True'', ''IssuerVerified'')
         else if hasLocalAuth cfg \<and> localOk then (''True'', ''LocalRecoveryAvailable'')
         else (''False'', ''IssuerUnreachable''))
      else if hasLocalAuth cfg then
        (if localOk then (''True'', ''LocalAuthOnly'') else (''False'', ''BootstrapAdminUnavailable''))
      else (''False'', ''MissingAuthMethod''))"

definition localTable :: "authConfig \<Rightarrow> bool \<Rightarrow> (string \<times> string) option" where
  "localTable cfg localOk =
     (if \<not> ac_enabled (a_spec cfg) \<or> \<not> hasOIDC cfg \<and> \<not> hasLocalAuth cfg then None
      else Some (if \<not> hasLocalAuth cfg then (''False'', ''NotConfigured'')
        else if localOk then (''True'', ''UsableAdministrator'') else (''False'', ''BootstrapAdminUnavailable'')))"

definition oidcTable :: "authConfig \<Rightarrow> bool \<Rightarrow> (string \<times> string) option" where
  "oidcTable cfg reachable =
     (if \<not> ac_enabled (a_spec cfg) \<or> \<not> hasOIDC cfg \<and> \<not> hasLocalAuth cfg then None
      else Some (if \<not> hasOIDC cfg then (''False'', ''NotConfigured'')
        else if reachable then (''True'', ''IssuerVerified'') else (''False'', ''IssuerUnreachable'')))"

definition reports :: "authConfig \<Rightarrow> authConfig \<Rightarrow> bool \<Rightarrow> bool \<Rightarrow> bool" where
  "reports cfg a localOk reachable \<longleftrightarrow> a_spec a = a_spec cfg \<and> a_meta a = a_meta cfg
     \<and> at_enabled (a_status a) = ac_enabled (a_spec cfg)
     \<and> at_issuerReachable (a_status a) = (ac_enabled (a_spec cfg) \<and> hasOIDC cfg \<and> reachable)
     \<and> verdict a ''Ready'' = Some (readyTable cfg localOk reachable)
     \<and> verdict a ''LocalAuthReady'' = localTable cfg localOk
     \<and> verdict a ''OIDCReady'' = oidcTable cfg reachable"

lemma runs_nowP_bind: "runs (bind nowP f) tr y \<longleftrightarrow> (\<exists>x t. tr = (ReqNow, x) # t \<and> runs (f (case x of RInt n \<Rightarrow> n | _ \<Rightarrow> 0)) t y)"
  by (auto simp: nowP_def ask_def runs_Call_iff)

lemma runs_nowP: "runs nowP tr y \<longleftrightarrow> (\<exists>r. tr = [(ReqNow, r)] \<and> (case r of RInt n \<Rightarrow> n | _ \<Rightarrow> 0) = y)"
  by (simp add: nowP_def runs_ask)

lemma runs_writeAuthStatus:
  "runs (writeAuthStatus previous cfg v) tr r \<Longrightarrow> (ReqStatusUpdate (OAuthConfig a), x) \<in> set tr \<Longrightarrow> a = cfg"
  by (auto simp: writeAuthStatus_def prog_inv split: if_splits)

definition status_docs :: "lib \<Rightarrow> bool" where
  "status_docs L \<longleftrightarrow> setStatusCondition_doc L \<and> removeStatusCondition_doc L"

lemma verdicts:
  assumes "status_docs L"
  shows "verdict (setAuthCondition L now c cfg) t
      = (if t = c_type c then Some (c_status c, c_reason c) else verdict cfg t)"
    and "verdict (removeAuthCondition L u cfg) t = (if t = u then None else verdict cfg t)"
  using assms by (auto simp: status_docs_def verdict_set verdict_remove)

lemma methodConditions_result:
  assumes L: "status_docs L" and run: "runs (methodConditions L cfg localErr) tr cfg'"
  shows "a_spec cfg' = a_spec cfg \<and> a_meta cfg' = a_meta cfg \<and> at_enabled (a_status cfg') = at_enabled (a_status cfg)
    \<and> at_issuerReachable (a_status cfg') = at_issuerReachable (a_status cfg)
    \<and> verdict cfg' ''Ready'' = verdict cfg ''Ready''
    \<and> verdict cfg' ''LocalAuthReady'' = Some (c_status (localMethodCondition cfg localErr), c_reason (localMethodCondition cfg localErr))
    \<and> verdict cfg' ''OIDCReady'' = Some (c_status (oidcMethodCondition cfg), c_reason (oidcMethodCondition cfg))
    \<and> (\<forall>e \<in> set tr. fst e = ReqNow)"
proof -
  have ty: "c_type (localMethodCondition cfg localErr) = ''LocalAuthReady''" "c_type (oidcMethodCondition c) = ''OIDCReady''" for c
    by (auto simp: localMethodCondition_def oidcMethodCondition_def Let_def split: option.split)
  have oidc: "oidcMethodCondition (setAuthCondition L t c cfg) = oidcMethodCondition cfg" for t c
    by (simp add: oidcMethodCondition_def Let_def hasOIDC_def)
  show ?thesis using run
    by (auto simp: methodConditions_def Let_def runs_nowP_bind runs_Ret_iff verdicts[OF L] ty oidc)
qed

text \<open>Each branch reports what the table says.\<close>

lemma disabled_reports:
  assumes "status_docs L" and "runs (reconcileAuthDisabled L prev cfg) tr r"
    and "(ReqStatusUpdate (OAuthConfig a), x) \<in> set tr"
    and "\<not> ac_enabled (a_spec cfg)" and "at_enabled (a_status cfg) = ac_enabled (a_spec cfg)"
  shows "reports cfg a localOk reachable"
proof -
  from assms(2,3) obtain now where "a = setAuthCondition L now (authCondition ''Ready'' True 0 (Some now) ''Disabled'' ''Authentication is disabled'')
         (withoutMethodConditions L (issuerUnverified cfg))"
    unfolding reconcileAuthDisabled_def by (auto simp: runs_nowP_bind dest!: runs_writeAuthStatus)
  then show ?thesis using assms(4,5)
    by (simp add: reports_def withoutMethodConditions_def verdicts[OF assms(1)] readyTable_def localTable_def oidcTable_def)
qed

lemma missing_reports:
  assumes "status_docs L" and "runs (reconcileAuthMissing L prev cfg) tr r"
    and "(ReqStatusUpdate (OAuthConfig a), x) \<in> set tr"
    and "ac_enabled (a_spec cfg)" and "\<not> hasOIDC cfg" and "\<not> hasLocalAuth cfg"
    and "at_enabled (a_status cfg) = ac_enabled (a_spec cfg)"
  shows "reports cfg a localOk reachable"
proof -
  from assms(2,3) obtain now where "a = setAuthCondition L now (authCondition ''Ready'' False 0 (Some now) ''MissingAuthMethod''
          ''Either OIDC or localAuth must be configured when auth is enabled'')
         (withoutMethodConditions L (issuerUnverified cfg))"
    unfolding reconcileAuthMissing_def by (auto simp: runs_nowP_bind dest!: runs_writeAuthStatus)
  then show ?thesis using assms(4-7)
    by (simp add: reports_def withoutMethodConditions_def verdicts[OF assms(1)] readyTable_def localTable_def oidcTable_def)
qed

lemma localOnly_reports:
  assumes "status_docs L" and "runs (reconcileLocalOnly L prev cfg localErr) tr r"
    and "(ReqStatusUpdate (OAuthConfig a), x) \<in> set tr"
    and "ac_enabled (a_spec cfg)" and "\<not> hasOIDC cfg" and "hasLocalAuth cfg"
    and "at_enabled (a_status cfg) = ac_enabled (a_spec cfg)"
  shows "reports cfg a (localErr = None) reachable"
proof -
  from assms(2) obtain now t1 cfg1 cfg2 t2 where c1: "cfg1 = setAuthCondition L now (case localErr of
             None \<Rightarrow> authCondition ''Ready'' True 0 (Some now) ''LocalAuthOnly''
               ''Authentication is enabled via local auth (no OIDC configured)''
           | Some e \<Rightarrow> authCondition ''Ready'' False 0 (Some now) ''BootstrapAdminUnavailable'' (errText e))
           (issuerUnverified cfg)"
    and c2: "runs (methodConditions L cfg1 localErr) t1 cfg2"
    and w: "runs (writeAuthStatus prev cfg2 (if localErr \<noteq> None then seconds 30 else seconds 300)) t2 r"
    and tr: "\<exists>y. tr = (ReqNow, y) # t1 @ t2"
    unfolding reconcileLocalOnly_def by (auto simp: runs_bind runs_nowP)
  note m = methodConditions_result[OF assms(1) c2]
  from assms(3) tr m have "(ReqStatusUpdate (OAuthConfig a), x) \<in> set t2" by fastforce
  with w have "a = cfg2" by (rule runs_writeAuthStatus)
  then show ?thesis using m assms(4-7) c1
    by (auto simp: reports_def verdicts[OF assms(1)] readyTable_def localTable_def oidcTable_def
        localMethodCondition_def oidcMethodCondition_def Let_def hasOIDC_def hasLocalAuth_def split: option.splits)
qed

lemma verifyIssuer_result:
  "runs (verifyIssuer url) tr b \<Longrightarrow> \<exists>y. tr = [(ReqHTTPGet (wellKnownURL url), y)] \<and> b = (y = RInt 200)"
  by (auto simp: verifyIssuer_def runs_ask)

lemma oidc_reports:
  assumes "status_docs L" and "runs (reconcileOIDC L prev cfg localErr) tr r"
    and "(ReqStatusUpdate (OAuthConfig a), x) \<in> set tr"
    and "ac_enabled (a_spec cfg)" and "hasOIDC cfg"
    and "at_enabled (a_status cfg) = ac_enabled (a_spec cfg)"
  shows "\<exists>y. (ReqHTTPGet (wellKnownURL (issuerURL cfg)), y) \<in> set tr \<and> reports cfg a (localErr = None) (y = RInt 200)"
proof -
  let ?c1 = "\<lambda>b now. updateAuthStatus cfg (\<lambda>st. st\<lparr>at_issuerReachable := b, at_lastVerified := Some now\<rparr>)"
  let ?c2 = "\<lambda>b now. setAuthCondition L now
             (if b
              then authCondition ''Ready'' True 0 (Some now) ''IssuerVerified'' (''OIDC issuer '' @ issuerURL cfg @ '' is reachable'')
              else authCondition ''Ready'' False 0 (Some now) ''IssuerUnreachable'' (''OIDC issuer '' @ issuerURL cfg @ '' is not reachable'')) (?c1 b now)"
  let ?p3 = "\<lambda>b now. if \<not> b \<and> hasLocalAuth cfg \<and> localErr = None
                then bind nowP (\<lambda>t. Ret (setAuthCondition L t (authCondition ''Ready'' True (m_generation (a_meta cfg)) None
                       ''LocalRecoveryAvailable'' ''OIDC is unavailable; local recovery administrator is usable'') (?c2 b now)))
                else Ret (?c2 b now)"
  from assms(2) obtain y b n now t3 c3 t4 c4 t5 where b: "b = (y = RInt 200)"
    and c3: "runs (?p3 b now) t3 c3" and c4: "runs (methodConditions L c3 localErr) t4 c4"
    and w: "runs (writeAuthStatus prev c4 (seconds 300)) t5 r"
    and tr: "tr = (ReqHTTPGet (wellKnownURL (issuerURL cfg)), y) # (ReqNow, n) # t3 @ t4 @ t5"
    unfolding reconcileOIDC_def Let_def runs_bind runs_nowP
    by (auto dest!: verifyIssuer_result)
  have t3: "\<forall>e \<in> set t3. fst e = ReqNow" and c3': "a_spec c3 = a_spec cfg \<and> a_meta c3 = a_meta cfg
      \<and> at_enabled (a_status c3) = at_enabled (a_status cfg) \<and> at_issuerReachable (a_status c3) = b
      \<and> verdict c3 ''Ready'' = Some (readyTable cfg (localErr = None) b)"
    using c3 assms(4,5) by (auto simp: runs_nowP_bind runs_Ret_iff verdicts[OF assms(1)] readyTable_def split: if_splits)
  note m = methodConditions_result[OF assms(1) c4]
  from assms(3) tr t3 m have "(ReqStatusUpdate (OAuthConfig a), x) \<in> set t5" by fastforce
  with w have "a = c4" by (rule runs_writeAuthStatus)
  then have "reports cfg a (localErr = None) b" using m assms(4-6) c3'
    by (auto simp: reports_def localTable_def oidcTable_def
        localMethodCondition_def oidcMethodCondition_def Let_def hasOIDC_def hasLocalAuth_def split: option.splits)
  with b tr show ?thesis by auto
qed

lemma bootstrap_no_status: "calls (\<lambda>q. \<forall>ob. q \<noteq> ReqStatusUpdate ob) (reconcileBootstrapAdmin L cfg)"
proof -
  let ?P = "\<lambda>q. \<forall>ob. q \<noteq> ReqStatusUpdate ob"
  have "calls ?P (anyUsableAdmin L cfg us)" for us
    by (rule calls_weaken[OF anyUsableAdmin_calls]) auto
  moreover have "calls ?P generatePassword" by (rule calls_weaken[OF generatePassword_calls]) auto
  moreover have "calls ?P (createLocalAuthSecret L u pw mc)" for u pw mc
    unfolding createLocalAuthSecret_def hashPassword_def Let_def
    by (auto split: sum.split intro!: calls_bind calls_tryP calls_wrapP)
  ultimately show ?thesis
    unfolding reconcileBootstrapAdmin_def bootstrapUser_def completeBootstrap_def Let_def
    by (auto split: option.split sum.split intro!: calls_bind calls_tryP calls_wrapP)
qed

lemma reconcileLocal_cases:
  assumes "runs (reconcileLocal L cfg) tr localErr" and "hasLocalAuth cfg"
  shows "(\<exists>t. runs (reconcileBootstrapAdmin L cfg) t (case localErr of None \<Rightarrow> Inr () | Some e \<Rightarrow> Inl e) \<and> set t \<subseteq> set tr)
    \<and> (\<forall>ob x. (ReqStatusUpdate ob, x) \<notin> set tr)"
proof -
  from assms obtain t1 b t2 where b: "runs (reconcileBootstrapAdmin L cfg) t1 b" and tr: "tr = t1 @ t2"
    and k: "runs (case b of Inl e \<Rightarrow> bind (eventP ''Warning'' ''BootstrapAdminFailed'' (errText e)) (\<lambda>_. Ret (Some e))
           | Inr u \<Rightarrow> Ret None) t2 localErr"
    unfolding reconcileLocal_def by (auto simp: runs_bind)
  have "(ReqStatusUpdate ob, x) \<notin> set t1" for ob x using callsD[OF bootstrap_no_status b] by blast
  moreover have "(ReqStatusUpdate ob, x) \<notin> set t2" "b = (case localErr of None \<Rightarrow> Inr () | Some e \<Rightarrow> Inl e)" for ob x
    using k by (auto simp: eventP_def prog_inv split: sum.splits)
  ultimately show ?thesis using b tr by auto
qed

definition authStatusOnly :: "req \<Rightarrow> bool" where
  "authStatusOnly q \<longleftrightarrow> (\<forall>ob. q = ReqStatusUpdate ob \<longrightarrow> (\<exists>a. ob = OAuthConfig a))"

lemma branch_status_kind:
  "calls authStatusOnly (reconcileAuthDisabled L prev cfg)"
  "calls authStatusOnly (reconcileAuthMissing L prev cfg)"
  "calls authStatusOnly (reconcileLocalOnly L prev cfg e)"
  "calls authStatusOnly (reconcileOIDC L prev cfg e)"
  unfolding reconcileAuthDisabled_def reconcileAuthMissing_def reconcileLocalOnly_def reconcileOIDC_def
    methodConditions_def writeAuthStatus_def verifyIssuer_def Let_def
  by (auto simp: authStatusOnly_def intro!: calls_bind calls_tryP)

text \<open>What a status write says about the bootstrap run and the issuer, for a configuration \<open>cfg\<close>.\<close>

definition authOutcome :: "lib \<Rightarrow> authConfig \<Rightarrow> trace \<Rightarrow> kobj \<Rightarrow> bool" where
  "authOutcome L cfg tr ob \<longleftrightarrow> (\<exists>a localErr reachable. ob = OAuthConfig a
    \<and> reports cfg a (localErr = None) reachable
    \<and> (ac_enabled (a_spec cfg) \<longrightarrow> hasOIDC cfg \<longrightarrow>
         (\<exists>y. (ReqHTTPGet (wellKnownURL (issuerURL cfg)), y) \<in> set tr \<and> reachable = (y = RInt 200)))
    \<and> (ac_enabled (a_spec cfg) \<longrightarrow> hasLocalAuth cfg \<longrightarrow>
         (\<exists>t. runs (reconcileBootstrapAdmin L cfg) t (case localErr of None \<Rightarrow> Inr () | Some e \<Rightarrow> Inl e)
            \<and> set t \<subseteq> set tr)))"

lemma authOutcomeI:
  assumes "ob = OAuthConfig a" and "reports cfg a (localErr = None) reachable"
    and "ac_enabled (a_spec cfg) \<Longrightarrow> hasOIDC cfg \<Longrightarrow>
      (ReqHTTPGet (wellKnownURL (issuerURL cfg)), y) \<in> set tr \<and> reachable = (y = RInt 200)"
    and "ac_enabled (a_spec cfg) \<Longrightarrow> hasLocalAuth cfg \<Longrightarrow>
      \<exists>t. runs (reconcileBootstrapAdmin L cfg) t (case localErr of None \<Rightarrow> Inr () | Some e \<Rightarrow> Inl e) \<and> set t \<subseteq> set tr"
  shows "authOutcome L cfg tr ob"
  using assms unfolding authOutcome_def by blast

lemma disabled_outcome:
  assumes "status_docs L" and "runs (reconcileAuthDisabled L prev cfg) t r" and "(ReqStatusUpdate ob, x) \<in> set t"
    and "\<not> ac_enabled (a_spec cfg)" and "at_enabled (a_status cfg) = ac_enabled (a_spec cfg)"
  shows "authOutcome L cfg t ob"
proof -
  obtain a where ob: "ob = OAuthConfig a"
    using callsD[OF branch_status_kind(1) assms(2,3)] by (auto simp: authStatusOnly_def)
  then show ?thesis using disabled_reports[OF assms(1,2) assms(3)[unfolded ob] assms(4,5)] assms(4)
    by (intro authOutcomeI[where a = a and localErr = None]) auto
qed

lemma missing_outcome:
  assumes "status_docs L" and "runs (reconcileAuthMissing L prev cfg) t r" and "(ReqStatusUpdate ob, x) \<in> set t"
    and "ac_enabled (a_spec cfg)" and "\<not> hasOIDC cfg" and "\<not> hasLocalAuth cfg"
    and "at_enabled (a_status cfg) = ac_enabled (a_spec cfg)"
  shows "authOutcome L cfg t ob"
proof -
  obtain a where ob: "ob = OAuthConfig a"
    using callsD[OF branch_status_kind(2) assms(2,3)] by (auto simp: authStatusOnly_def)
  then show ?thesis using missing_reports[OF assms(1,2) assms(3)[unfolded ob] assms(4-7)] assms(5,6)
    by (intro authOutcomeI[where a = a and localErr = None]) auto
qed

lemma reconcileLocal_no_status: "runs (reconcileLocal L cfg) t e \<Longrightarrow> (ReqStatusUpdate ob, x) \<notin> set t"
  using reconcileLocal_cases[of L cfg t e] by (cases "hasLocalAuth cfg") (auto simp: reconcileLocal_def runs_Ret_iff)

lemma localOnly_outcome:
  assumes "status_docs L" and "runs (reconcileLocal L cfg) t1 e" and "runs (reconcileLocalOnly L prev cfg e) t2 r"
    and "(ReqStatusUpdate ob, x) \<in> set (t1 @ t2)"
    and "ac_enabled (a_spec cfg)" and "\<not> hasOIDC cfg" and "hasLocalAuth cfg"
    and "at_enabled (a_status cfg) = ac_enabled (a_spec cfg)"
  shows "authOutcome L cfg (t1 @ t2) ob"
proof -
  have st: "(ReqStatusUpdate ob, x) \<in> set t2" using reconcileLocal_no_status[OF assms(2)] assms(4) by auto
  obtain a where ob: "ob = OAuthConfig a"
    using callsD[OF branch_status_kind(3) assms(3) st] by (auto simp: authStatusOnly_def)
  then show ?thesis
    using localOnly_reports[OF assms(1,3) st[unfolded ob] assms(5-8)] reconcileLocal_cases[OF assms(2,7)] assms(6)
    by (intro authOutcomeI[where a = a and localErr = e]) auto
qed

lemma oidc_outcome:
  assumes "status_docs L" and "runs (reconcileLocal L cfg) t1 e" and "runs (reconcileOIDC L prev cfg e) t2 r"
    and "(ReqStatusUpdate ob, x) \<in> set (t1 @ t2)"
    and "ac_enabled (a_spec cfg)" and "hasOIDC cfg"
    and "at_enabled (a_status cfg) = ac_enabled (a_spec cfg)"
  shows "authOutcome L cfg (t1 @ t2) ob"
proof -
  have st: "(ReqStatusUpdate ob, x) \<in> set t2" using reconcileLocal_no_status[OF assms(2)] assms(4) by auto
  obtain a where ob: "ob = OAuthConfig a"
    using callsD[OF branch_status_kind(4) assms(3) st] by (auto simp: authStatusOnly_def)
  obtain y where y: "(ReqHTTPGet (wellKnownURL (issuerURL cfg)), y) \<in> set t2" "reports cfg a (e = None) (y = RInt 200)"
    using oidc_reports[OF assms(1,3) st[unfolded ob] assms(5-7)] by blast
  show ?thesis
    using y reconcileLocal_cases[OF assms(2)] ob by (intro authOutcomeI[where a = a and localErr = e and y = y]) auto
qed

text \<open>Whichever of the four branches runs, what it writes is an outcome of the table.\<close>

lemma branches_outcome:
  assumes "status_docs L"
    and "runs (if \<not> ac_enabled (a_spec cfg) then reconcileAuthDisabled L st0 cfg
          else if \<not> hasOIDC cfg \<and> \<not> hasLocalAuth cfg then reconcileAuthMissing L st0 cfg
          else bind (reconcileLocal L cfg) (\<lambda>localErr.
                 if \<not> hasOIDC cfg then reconcileLocalOnly L st0 cfg localErr
                 else reconcileOIDC L st0 cfg localErr)) t r"
    and "(ReqStatusUpdate ob, x) \<in> set t" and "at_enabled (a_status cfg) = ac_enabled (a_spec cfg)"
  shows "authOutcome L cfg t ob"
proof -
  consider (disabled) "\<not> ac_enabled (a_spec cfg)" "runs (reconcileAuthDisabled L st0 cfg) t r"
    | (missing) "ac_enabled (a_spec cfg)" "\<not> hasOIDC cfg" "\<not> hasLocalAuth cfg" "runs (reconcileAuthMissing L st0 cfg) t r"
    | (local_only) e t1 t2 where "ac_enabled (a_spec cfg)" "\<not> hasOIDC cfg" "hasLocalAuth cfg" "t = t1 @ t2"
        "runs (reconcileLocal L cfg) t1 e" "runs (reconcileLocalOnly L st0 cfg e) t2 r"
    | (oidc) e t1 t2 where "ac_enabled (a_spec cfg)" "hasOIDC cfg" "t = t1 @ t2"
        "runs (reconcileLocal L cfg) t1 e" "runs (reconcileOIDC L st0 cfg e) t2 r"
    using assms(2) by (cases "hasOIDC cfg") (auto simp: runs_bind split: if_splits)
  then show ?thesis
  proof cases
    case disabled
    then show ?thesis by (intro disabled_outcome[OF assms(1) _ assms(3) _ assms(4)])
  next
    case missing
    then show ?thesis by (intro missing_outcome[OF assms(1) _ assms(3) _ _ _ assms(4)])
  next
    case local_only
    then show ?thesis using localOnly_outcome[OF assms(1) local_only(5,6) _ _ _ _ assms(4)] assms(3) by simp
  next
    case oidc
    then show ?thesis using oidc_outcome[OF assms(1) oidc(4,5) _ _ _ assms(4)] assms(3) by simp
  qed
qed

text \<open>
  C15. What the controller reports about authentication follows the decision table. A status is
  written only for the AuthConfig named default, as it was read, with its spec and metadata
  untouched. Its Ready, LocalAuthReady and OIDCReady conditions, its enabled flag and its reachability
  flag are those of the table for the outcome of the bootstrap run and of the request to the
  issuer's discovery document: an unreachable issuer leaves the installation Ready exactly when the
  local administrator is usable.
\<close>

theorem auth_status_follows_table:
  assumes "status_docs L" and "runs (reconcileAuthConfig L name) tr r" and "(ReqStatusUpdate ob, x) \<in> set tr"
  shows "name = ''default'' \<and> (\<exists>cfg0 cfg a localErr reachable. ob = OAuthConfig a
    \<and> (ReqGet Cached KAuthConfig ([], ''default''), RObj (OAuthConfig cfg0)) \<in> set tr
    \<and> a_spec cfg = a_spec cfg0 \<and> a_meta cfg = a_meta cfg0
    \<and> reports cfg a (localErr = None) reachable
    \<and> (ac_enabled (a_spec cfg) \<longrightarrow> hasOIDC cfg \<longrightarrow>
         (\<exists>y. (ReqHTTPGet (wellKnownURL (issuerURL cfg)), y) \<in> set tr \<and> reachable = (y = RInt 200)))
    \<and> (ac_enabled (a_spec cfg) \<longrightarrow> hasLocalAuth cfg \<longrightarrow>
         (\<exists>t. runs (reconcileBootstrapAdmin L cfg) t (case localErr of None \<Rightarrow> Inr () | Some e \<Rightarrow> Inl e)
            \<and> set t \<subseteq> set tr)))"
proof -
  from assms(2,3) have name: "name = ''default''"
    by (auto simp: reconcileAuthConfig_def prog_inv split: if_splits)
  with assms(2,3) obtain cfg0 cfg t where tr: "tr = (ReqGet Cached KAuthConfig ([], ''default''), RObj (OAuthConfig cfg0)) # t"
    and st: "(ReqStatusUpdate ob, x) \<in> set t"
    and cfg: "cfg = updateAuthStatus cfg0 (\<lambda>st. st\<lparr>at_enabled := ac_enabled (a_spec cfg0)\<rparr>)"
    and rest: "runs (if \<not> ac_enabled (a_spec cfg) then reconcileAuthDisabled L (a_status cfg0) cfg
          else if \<not> hasOIDC cfg \<and> \<not> hasLocalAuth cfg then reconcileAuthMissing L (a_status cfg0) cfg
          else bind (reconcileLocal L cfg) (\<lambda>localErr.
                 if \<not> hasOIDC cfg then reconcileLocalOnly L (a_status cfg0) cfg localErr
                 else reconcileOIDC L (a_status cfg0) cfg localErr)) t r"
    by (auto simp: reconcileAuthConfig_def runs_bind_sum runs_client runs_Ret_iff asObj_Inr Let_def)
  have en: "at_enabled (a_status cfg) = ac_enabled (a_spec cfg)" by (simp add: cfg)
  have "authOutcome L cfg t ob" by (rule branches_outcome[OF assms(1) rest st en])
  then obtain a e b where "ob = OAuthConfig a" "reports cfg a (e = None) b"
    "ac_enabled (a_spec cfg) \<longrightarrow> hasOIDC cfg \<longrightarrow>
       (\<exists>y. (ReqHTTPGet (wellKnownURL (issuerURL cfg)), y) \<in> set tr \<and> b = (y = RInt 200))"
    "ac_enabled (a_spec cfg) \<longrightarrow> hasLocalAuth cfg \<longrightarrow>
       (\<exists>t. runs (reconcileBootstrapAdmin L cfg) t (case e of None \<Rightarrow> Inr () | Some e \<Rightarrow> Inl e) \<and> set t \<subseteq> set tr)"
    unfolding authOutcome_def tr by fastforce
  moreover have "(ReqGet Cached KAuthConfig ([], ''default''), RObj (OAuthConfig cfg0)) \<in> set tr"
    "a_spec cfg = a_spec cfg0" "a_meta cfg = a_meta cfg0" by (simp_all add: tr cfg)
  ultimately show ?thesis using name by blast
qed

text \<open>An outage of the issuer with a usable local administrator.\<close>

definition exOutageConfig :: authConfig where
  "exOutageConfig = exLocalConfig\<lparr>a_spec := (a_spec exLocalConfig)\<lparr>ac_oidc := Some
     \<lparr>oc_issuerURL = ''https://idp/'', oc_clientID = ''c'', oc_clientSecret = \<lparr>skr_name = ''s'', skr_key = ''k''\<rparr>,
      oc_scopes = [], oc_usernameClaim = [], oc_groupsClaim = []\<rparr>\<rparr>\<rparr>"

definition exReported :: authConfig where
  "exReported = exOutageConfig\<lparr>a_status := \<lparr>at_enabled = True, at_issuerReachable = False, at_lastVerified = Some 70,
     at_conditions = [
       authCondition ''Ready'' True 0 (Some 71) ''LocalRecoveryAvailable'' ''OIDC is unavailable; local recovery administrator is usable'',
       authCondition ''LocalAuthReady'' True 0 (Some 72) ''UsableAdministrator''
         ''Local authentication has a usable recovery administrator (temporary passwords require change)'',
       authCondition ''OIDCReady'' False 0 (Some 73) ''IssuerUnreachable'' ''OIDC issuer is not reachable'']\<rparr>\<rparr>"

definition outageResponses :: "resp list" where
  "outageResponses = [RObj (OAuthConfig exOutageConfig), RList [OUser exAdmin], RInt 60,
     RObj (OSecret (exSecret\<lparr>sec_data := [(PasswordSecretHashKey, ''$2a$12$x'')]\<rparr>)),
     RInt 503, RInt 70, RInt 71, RInt 72, RInt 73, RObj (OAuthConfig exReported)]"

lemma outage_exec:
  "case exec (reconcileAuthConfig ref_lib ''default'') outageResponses of
     (tr, r) \<Rightarrow> r = Some (Inr (seconds 300)) \<and> (ReqStatusUpdate (OAuthConfig exReported), RObj (OAuthConfig exReported)) \<in> set tr"
  by code_simp

theorem auth_status_follows_table_witness:
  "\<exists>tr cfg (localErr :: gerr option) reachable. runs (reconcileAuthConfig ref_lib ''default'') tr (Inr (seconds 300))
     \<and> reports cfg exReported (localErr = None) reachable"
proof -
  obtain tr where run: "runs (reconcileAuthConfig ref_lib ''default'') tr (Inr (seconds 300))"
    and st: "(ReqStatusUpdate (OAuthConfig exReported), RObj (OAuthConfig exReported)) \<in> set tr"
    using outage_exec by (auto split: prod.splits dest: exec_runs)
  have "status_docs ref_lib" by (simp add: status_docs_def ref_setStatusCondition_doc ref_removeStatusCondition_doc)
  from auth_status_follows_table[OF this run st] obtain cfg a and localErr :: "gerr option" and reachable
    where "OAuthConfig exReported = OAuthConfig a" "reports cfg a (localErr = None) reachable" by blast
  then have "reports cfg exReported (localErr = None) reachable" by simp
  with run show ?thesis by blast
qed

end
