(* ===== verification/Filepath.thy ===== *)
theory Filepath
  imports Prelude
begin

text \<open>
  The lexical part of Go's package path/filepath on Unix, as far as the image repository controller
  uses it: cleaning, joining and relating slash-separated paths. A cleaned path is determined by
  whether it is rooted and by its list of components; the lemmas show that a relative path leaves
  its base exactly when the base is no prefix of the target.
\<close>

definition rooted :: "string \<Rightarrow> bool" where
  "rooted s \<longleftrightarrow> hasPrefix s ''/''"

text \<open>The components that \<^verbatim>\<open>filepath.Clean\<close> keeps; the accumulator is the reversed result so far.\<close>

fun cleanComps :: "bool \<Rightarrow> string list \<Rightarrow> string list \<Rightarrow> string list" where
  "cleanComps r acc [] = rev acc"
| "cleanComps r acc (p # ps) =
     (if p = [] \<or> p = ''.'' then cleanComps r acc ps
      else if p = ''..'' then
        (case acc of
           [] \<Rightarrow> cleanComps r (if r then [] else [''..'']) ps
         | q # qs \<Rightarrow> if q = ''..'' then cleanComps r (''..'' # acc) ps else cleanComps r qs ps)
      else cleanComps r (p # acc) ps)"

definition comps :: "string \<Rightarrow> string list" where
  "comps s = cleanComps (rooted s) [] (splitOn CHR ''/'' s)"

definition clean :: "string \<Rightarrow> string" where
  "clean s = (if rooted s then ''/'' @ join ''/'' (comps s)
     else if comps s = [] then ''.'' else join ''/'' (comps s))"

definition joinPath :: "string \<Rightarrow> string \<Rightarrow> string" where
  "joinPath a b = (if a = [] then (if b = [] then [] else clean b)
     else if b = [] then clean a else clean (a @ ''/'' @ b))"

fun dropCommon :: "string list \<Rightarrow> string list \<Rightarrow> string list \<times> string list" where
  "dropCommon (x # xs) (y # ys) = (if x = y then dropCommon xs ys else (x # xs, y # ys))"
| "dropCommon xs ys = (xs, ys)"

text \<open>\<^verbatim>\<open>filepath.Rel\<close>, \<open>None\<close> for its error.\<close>

definition rel :: "string \<Rightarrow> string \<Rightarrow> string option" where
  "rel base targ =
     (if clean base = clean targ then Some ''.''
      else if rooted base \<noteq> rooted targ then None
      else (case dropCommon (comps base) (comps targ) of (bs, ts) \<Rightarrow>
        if bs \<noteq> [] \<and> hd bs = ''..'' then None
        else Some (join ''/'' (replicate (length bs) ''..'' @ ts))))"

section \<open>Facts\<close>

text \<open>A proper component of a cleaned rooted path.\<close>

definition proper :: "string \<Rightarrow> bool" where
  "proper p \<longleftrightarrow> p \<noteq> ''..'' \<and> p \<noteq> [] \<and> CHR ''/'' \<notin> set p"

lemma not_proper_dotdot: "\<not> proper ''..''"
  by (simp add: proper_def)

lemma cleanComps_rooted:
  "list_all proper acc \<Longrightarrow> list_all (\<lambda>p. CHR ''/'' \<notin> set p) ps \<Longrightarrow> list_all proper (cleanComps True acc ps)"
proof (induction ps arbitrary: acc)
  case Nil
  then show ?case by (simp add: list_all_iff)
next
  case (Cons p ps)
  consider (skip) "p = [] \<or> p = ''.''" | (up) "p = ''..''" | (push) "p \<noteq> []" "p \<noteq> ''.''" "p \<noteq> ''..''" by blast
  then show ?case
  proof cases
    case skip
    with Cons show ?thesis by auto
  next
    case up
    show ?thesis
    proof (cases acc)
      case Nil
      with Cons up show ?thesis by simp
    next
      case (Cons q qs)
      with \<open>list_all proper acc\<close> have "q \<noteq> ''..''" "list_all proper qs" using not_proper_dotdot by auto
      with Cons.IH[of qs] Cons.prems(2) up Cons show ?thesis by simp
    qed
  next
    case push
    then have "proper p" using Cons.prems(2) by (simp add: proper_def)
    then have "list_all proper (p # acc)" using Cons.prems(1) by simp
    with Cons.IH[of "p # acc"] Cons.prems(2) push show ?thesis by simp
  qed
qed

lemma splitOn_no_sep: "p \<in> set (splitOn c s) \<Longrightarrow> c \<notin> set p"
  by (induction s arbitrary: p) (auto split: if_splits list.splits)

lemma comps_rooted:
  assumes "rooted s" and "p \<in> set (comps s)"
  shows "proper p"
proof -
  have "list_all (\<lambda>p. CHR ''/'' \<notin> set p) (splitOn CHR ''/'' s)"
    using splitOn_no_sep by (auto simp: list_all_iff)
  then have "list_all proper (comps s)"
    using cleanComps_rooted[of "[]" "splitOn CHR ''/'' s"] assms(1) by (simp add: comps_def)
  with assms(2) show ?thesis by (simp add: list_all_iff)
qed

lemma dropCommon_spec: "dropCommon xs ys = (bs, ts) \<Longrightarrow> \<exists>zs. xs = zs @ bs \<and> ys = zs @ ts"
proof (induction xs ys arbitrary: bs ts rule: dropCommon.induct)
  case (1 x xs y ys)
  show ?case
  proof (cases "x = y")
    case True
    with 1 obtain zs where "xs = zs @ bs" "ys = zs @ ts" by auto
    with True have "x # xs = (y # zs) @ bs \<and> y # ys = (y # zs) @ ts" by simp
    then show ?thesis by blast
  qed (use 1 in auto)
qed auto

lemma dropCommon_prefix: "dropCommon (zs @ []) (zs @ ts) = ([], ts)"
  by (induction zs) auto

lemma join_takeWhile:
  assumes "CHR ''/'' \<notin> set p"
  shows "takeWhile (\<lambda>c. c \<noteq> CHR ''/'') (join ''/'' (p # ps)) = p"
proof -
  have all: "\<forall>c \<in> set p. c \<noteq> CHR ''/''" using assms by blast
  show ?thesis
  proof (cases ps)
    case Nil
    then show ?thesis using all by (simp add: takeWhile_eq_all_conv)
  next
    case (Cons q qs)
    then show ?thesis using all by (simp add: takeWhile_append2)
  qed
qed

lemma join_inj_hd:
  assumes "join ''/'' (p # ps) = ''../'' @ t" and "CHR ''/'' \<notin> set p"
  shows "p = ''..''"
  using join_takeWhile[OF assms(2), of ps] unfolding assms(1) by simp

lemma join_inj:
  "list_all proper ps \<Longrightarrow> list_all proper qs \<Longrightarrow> join ''/'' ps = join ''/'' qs \<Longrightarrow> ps = qs"
proof (induction ps arbitrary: qs)
  case Nil
  show ?case
  proof (cases qs)
    case (Cons q qs')
    with Nil.prems have "q \<noteq> []" "join ''/'' (q # qs') = []" by (simp_all add: proper_def)
    then have False by (cases qs') simp_all
    then show ?thesis ..
  qed simp
next
  case (Cons p ps)
  have p: "p \<noteq> []" "CHR ''/'' \<notin> set p" using Cons.prems(1) by (simp_all add: proper_def)
  then have "join ''/'' qs \<noteq> []" using Cons.prems(3) by (cases ps) auto
  then obtain q qs' where qs: "qs = q # qs'" by (cases qs) auto
  have q: "q \<noteq> []" "CHR ''/'' \<notin> set q" using Cons.prems(2) qs by (simp_all add: proper_def)
  have pq: "p = q" using join_takeWhile[OF p(2), of ps] join_takeWhile[OF q(2), of qs'] Cons.prems(3) qs by simp
  have "join ''/'' ps = join ''/'' qs'" using Cons.prems(3) qs pq by (cases ps; cases qs') simp_all
  moreover have "list_all proper ps" "list_all proper qs'" using Cons.prems(1,2) qs by simp_all
  ultimately have "ps = qs'" by (rule Cons.IH[rotated -1])
  with pq qs show ?case by simp
qed

text \<open>Whether a relative path leads out of its base.\<close>

definition escapes :: "string \<Rightarrow> bool" where
  "escapes r \<longleftrightarrow> r = ''..'' \<or> hasPrefix r ''../''"

lemma escapes_dotdot: "escapes (join ''/'' (''..'' # ps))"
  by (cases ps) (auto simp: escapes_def hasPrefix_def)

lemma rel_contained:
  assumes "rooted base" and "rooted targ"
  shows "(\<exists>r. rel base targ = Some r \<and> \<not> escapes r) \<longleftrightarrow> (\<exists>zs. comps targ = comps base @ zs)"
proof -
  obtain bs ts where d: "dropCommon (comps base) (comps targ) = (bs, ts)" by fastforce
  then obtain zs where z: "comps base = zs @ bs" "comps targ = zs @ ts" using dropCommon_spec by blast
  have nb: "bs \<noteq> [] \<Longrightarrow> hd bs \<noteq> ''..''" using comps_rooted[OF assms(1), of "hd bs"] z not_proper_dotdot by (cases bs) auto
  show ?thesis
  proof (cases "bs = []")
    case True
    have "\<not> escapes (join ''/'' ts)"
    proof (cases ts)
      case Nil
      then show ?thesis by (simp add: escapes_def hasPrefix_def)
    next
      case (Cons p ps)
      have p: "p \<noteq> ''..''" "p \<noteq> []" "CHR ''/'' \<notin> set p"
        using comps_rooted[OF assms(2), of p] z Cons by (auto simp: proper_def)
      have "join ''/'' (p # ps) \<noteq> ''..''"
      proof (cases ps)
        case (Cons q qs)
        then have "CHR ''/'' \<in> set (join ''/'' (p # ps))" by simp
        then show ?thesis by auto
      qed (use p in simp)
      moreover have "\<not> hasPrefix (join ''/'' (p # ps)) ''../''"
        using join_inj_hd[of p ps] p by (auto simp: hasPrefix_iff)
      ultimately show ?thesis using Cons by (simp add: escapes_def)
    qed
    moreover have "\<not> escapes ''.''" by (simp add: escapes_def hasPrefix_def)
    ultimately show ?thesis using True d z assms by (auto simp: rel_def)
  next
    case False
    have "\<not> (\<exists>zs'. comps targ = comps base @ zs')"
    proof
      assume "\<exists>zs'. comps targ = comps base @ zs'"
      then obtain zs' where "comps targ = comps base @ zs'" by blast
      then have "dropCommon (comps base) (comps targ) = ([], zs')" using dropCommon_prefix[of "comps base" zs'] by simp
      with d False show False by simp
    qed
    moreover have "clean base \<noteq> clean targ"
    proof
      assume "clean base = clean targ"
      then have "join ''/'' (comps base) = join ''/'' (comps targ)" using assms by (simp add: clean_def)
      then have "comps base = comps targ"
        using comps_rooted[OF assms(1)] comps_rooted[OF assms(2)] by (intro join_inj) (auto simp: list_all_iff)
      with calculation show False by simp
    qed
    moreover have "escapes (join ''/'' (replicate (length bs) ''..'' @ ts))"
      using False escapes_dotdot[of "replicate (length bs - 1) ''..'' @ ts"] by (cases bs) auto
    ultimately show ?thesis using d assms nb False by (simp add: rel_def)
  qed
qed

end
