(* ===== verification/Image_Repository.thy ===== *)
theory Image_Repository
  imports Common Filepath
begin

text \<open>
  The ImageRepository controller (src/internal/controller/imagerepository_controller.go): it clones a
  git repository, imports the Image manifests it finds there and prunes the Images that are gone.
  The git client, the file system and the clock are requests of the environment; decoding a manifest
  is a parameter of the library record. The lemmas show which files are read, what adoption keeps of
  an existing Image, and when an Image may be pruned.
\<close>

section \<open>Constants\<close>

abbreviation imageRepositoryLabelKey :: string where "imageRepositoryLabelKey \<equiv> ''kubeworkspaces.io/image-repository''"
abbreviation imageRepositoryManagedBy :: string where "imageRepositoryManagedBy \<equiv> ''kubeworkspaces.io/managed-by''"
abbreviation imageRepositoryManagedVal :: string where "imageRepositoryManagedVal \<equiv> ''imagerepository-controller''"
abbreviation imageRepositorySyncAnno :: string where "imageRepositorySyncAnno \<equiv> ''kubeworkspaces.io/sync''"
abbreviation imageRepositorySourceURL :: string where "imageRepositorySourceURL \<equiv> ''kubeworkspaces.io/source-url''"
abbreviation imageRepositorySourceRef :: string where "imageRepositorySourceRef \<equiv> ''kubeworkspaces.io/source-ref''"
abbreviation imageRepositorySourceSHA :: string where "imageRepositorySourceSHA \<equiv> ''kubeworkspaces.io/source-commit''"
abbreviation imageRepositorySourcePath :: string where "imageRepositorySourcePath \<equiv> ''kubeworkspaces.io/source-path''"
abbreviation defaultSyncInterval :: int where "defaultSyncInterval \<equiv> seconds 600"

section \<open>Finding the manifests\<close>

definition containedImageRepositoryPath :: "string \<Rightarrow> string \<Rightarrow> string result prog" where
  "containedImageRepositoryPath root path =
     wrapP ''resolve image repository path: '' (ask (ReqEvalSymlinks path) asStr) (\<lambda>resolved.
     tryP (ask (ReqEvalSymlinks root) asStr) (\<lambda>resolvedRoot.
       Ret (case rel resolvedRoot resolved of
              None \<Rightarrow> Inl (Errorf ''image path escapes the repository'')
            | Some r \<Rightarrow> if r = ''..'' \<or> hasPrefix r ''../''
                then Inl (Errorf ''image path escapes the repository'') else Inr path)))"

definition asDir :: "resp \<Rightarrow> (string \<times> bool) list result" where
  "asDir r = (case r of RErr e \<Rightarrow> Inl e | RDir es \<Rightarrow> Inr es | _ \<Rightarrow> Inl badResponse)"

definition isManifestEntry :: "string \<times> bool \<Rightarrow> bool" where
  "isManifestEntry entry \<longleftrightarrow>
     \<not> (snd entry \<or> (\<not> hasSuffix (fst entry) ''.yaml'' \<and> \<not> hasSuffix (fst entry) ''.yml''))"

text \<open>The inner loop over the entries of one directory; \<open>files\<close> is also the set of paths seen.\<close>

fun scanEntries :: "string \<Rightarrow> string \<Rightarrow> (string \<times> bool) list \<Rightarrow> string list \<Rightarrow> string list result prog" where
  "scanEntries root fullPath [] files = Ret (Inr files)"
| "scanEntries root fullPath (entry # entries) files =
     (if \<not> isManifestEntry entry then scanEntries root fullPath entries files
      else let path = joinPath fullPath (fst entry) in
        tryP (containedImageRepositoryPath root path) (\<lambda>_.
          scanEntries root fullPath entries (if path \<in> set files then files else files @ [path])))"

fun scanPaths :: "string \<Rightarrow> string list \<Rightarrow> string list \<Rightarrow> string list result prog" where
  "scanPaths root [] files = Ret (Inr files)"
| "scanPaths root (p # paths) files =
     (let scanPath = trimSpace p in
      if scanPath = [] \<or> rooted scanPath
      then Ret (Inl (Errorf ''image directory must be relative to the repository''))
      else tryP (containedImageRepositoryPath root (joinPath root scanPath)) (\<lambda>fullPath.
        wrapP (''read image directory '' @ goQuote scanPath @ '': '') (ask (ReqReadDir fullPath) asDir) (\<lambda>entries.
          tryP (scanEntries root fullPath entries files) (\<lambda>files'. scanPaths root paths files'))))"

definition imageRepositoryFiles :: "string \<Rightarrow> string list \<Rightarrow> string list result prog" where
  "imageRepositoryFiles root paths = scanPaths root paths []"

section \<open>Importing one manifest\<close>

text \<open>The checks on a decoded document: \<open>Inr None\<close> for a document that is no Image.\<close>

definition checkManifest :: "unstructured \<Rightarrow> unit option result" where
  "checkManifest obj =
     (if un_kind obj \<noteq> ''Image'' then Inr None
      else if un_apiVersion obj \<noteq> GroupVersion then Inl (InvalidManifest (Errorf ''unsupported Image apiVersion''))
      else if m_name (un_meta obj) = [] then Inl (InvalidManifest (Errorf ''image name is required''))
      else (case map_of (un_object obj) ''spec'' of
              Some (JObj fs) \<Rightarrow> Inr (Some ())
            | _ \<Rightarrow> Inl (InvalidManifest (Errorf (''image '' @ m_name (un_meta obj) @ '' is missing a spec object'')))))"

definition decodeManifest :: "lib \<Rightarrow> string \<Rightarrow> unstructured result" where
  "decodeManifest L text = (case l_yamlToJSON L text of
     Inl e \<Rightarrow> Inl (InvalidManifest e)
   | Inr js \<Rightarrow> (case l_unmarshalObject L js of
       Inl e \<Rightarrow> Inl (InvalidManifest e) | Inr obj \<Rightarrow> Inr obj))"

definition stampManifest :: "imageRepository \<Rightarrow> string \<Rightarrow> string \<Rightarrow> string \<Rightarrow> unstructured \<Rightarrow> unstructured" where
  "stampManifest repo commit root path obj =
     (let meta = un_meta obj;
          labels = mset (mset (m_labels meta) imageRepositoryLabelKey (m_name (ir_meta repo)))
                     imageRepositoryManagedBy imageRepositoryManagedVal;
          ann = mset (mset (mset (mset (m_annotations meta) imageRepositorySourceURL (irs_url (ir_spec repo)))
                  imageRepositorySourceRef (irs_ref (ir_spec repo)))
                  imageRepositorySourceSHA commit)
                  imageRepositorySourcePath (trimPrefix path (root @ ''/''))
      in obj\<lparr>un_meta := meta\<lparr>m_labels := labels, m_annotations := ann\<rparr>\<rparr>)"

definition mergeImage :: "unstructured \<Rightarrow> unstructured \<Rightarrow> unstructured" where
  "mergeImage existing obj =
     existing\<lparr>un_object := (case map_of (un_object obj) ''spec'' of
          Some spec \<Rightarrow> mset (un_object existing) ''spec'' spec
        | None \<Rightarrow> mset (un_object existing) ''spec'' JNull),
      un_meta := (un_meta existing)\<lparr>
        m_labels := mcopy (m_labels (un_meta existing)) (m_labels (un_meta obj)),
        m_annotations := mcopy (m_annotations (un_meta existing)) (m_annotations (un_meta obj))\<rparr>\<rparr>"

definition retriableImport :: "gerr \<Rightarrow> bool" where
  "retriableImport e \<longleftrightarrow> isConflict e \<or> isAlreadyExists e"

definition importImage :: "lib \<Rightarrow> unstructured \<Rightarrow> unit result prog" where
  "importImage L obj =
     bind (getP Cached (KUnstructured (un_apiVersion obj) (un_kind obj)) toUnstructured [] (m_name (un_meta obj)))
       (\<lambda>g. case g of
          Inl e \<Rightarrow> if isNotFound e then ask (ReqCreate (OUnstructured obj)) asUnit else Ret (Inl e)
        | Inr existing \<Rightarrow>
            let updated = mergeImage existing obj in
            if l_objectEqual L existing updated then Ret (Inr ())
            else ask (ReqUpdate (OUnstructured updated)) asUnit)"

definition syncImageFile :: "lib \<Rightarrow> imageRepository \<Rightarrow> string \<Rightarrow> string \<Rightarrow> string \<Rightarrow> string result prog" where
  "syncImageFile L repo commit root path =
     tryP (ask (ReqReadFile path) asStr) (\<lambda>text.
       case decodeManifest L text of
         Inl e \<Rightarrow> Ret (Inl e)
       | Inr obj \<Rightarrow> (case checkManifest obj of
           Inl e \<Rightarrow> Ret (Inl e)
         | Inr None \<Rightarrow> Ret (Inr [])
         | Inr (Some u) \<Rightarrow>
             tryP (l_retryOnError L retriableImport (importImage L (stampManifest repo commit root path obj)))
               (\<lambda>_. Ret (Inr (m_name (un_meta obj))))))"

section \<open>Synchronising a repository\<close>

definition imageRepositoryAuth :: "imageRepository \<Rightarrow> (string \<times> string) option result prog" where
  "imageRepositoryAuth repo = (case irs_auth (ir_spec repo) of
     None \<Rightarrow> Ret (Inr None)
   | Some auth \<Rightarrow>
       if ira_type auth \<noteq> [] \<and> ira_type auth \<noteq> ''basic'' \<and> ira_type auth \<noteq> ''https-basic''
       then Ret (Inl (Errorf ''unsupported authentication type; use HTTPS basic authentication''))
       else (case ira_secretRef auth of
         None \<Rightarrow> Ret (Inr None)
       | Some name \<Rightarrow>
           let credentials = (\<lambda>secret.
                 let username = mget (sec_data secret) ''username'';
                     password = mget (sec_data secret) ''password''
                 in Inr (Some (if username = [] then ''git'' else username,
                               if password = [] then mget (sec_data secret) ''token'' else password)))
           in bind (getP Cached KSecret toSecret ''kube-workspaces-system'' name) (\<lambda>g. case g of
                Inr secret \<Rightarrow> Ret (credentials secret)
              | Inl err \<Rightarrow> bind (getP Cached KSecret toSecret ''default'' name) (\<lambda>g2. Ret (case g2 of
                    Inl err2 \<Rightarrow> Inl (Wrapf ''failed to get auth secret: '' err)
                  | Inr secret \<Rightarrow> credentials secret)))))"

definition checkoutImageRepositoryRef :: "string \<Rightarrow> unit result prog" where
  "checkoutImageRepositoryRef ref =
     replaceErr ''requested git ref could not be resolved''
       (bind (ask (ReqGitResolve ref) asStr) (\<lambda>h. case h of
          Inl e \<Rightarrow> ask (ReqGitResolve (''refs/remotes/origin/'' @ ref)) asStr
        | Inr hash \<Rightarrow> Ret (Inr hash)))
     (\<lambda>hash. replaceErr ''failed to open repository worktree'' (ask ReqGitWorktree asUnit)
     (\<lambda>_. replaceErr ''failed to check out requested git ref'' (ask (ReqGitCheckout hash) asUnit)
     (\<lambda>_. Ret (Inr ()))))"

definition skippable :: "gerr \<Rightarrow> bool" where
  "skippable e \<longleftrightarrow> isInvalidManifest e \<or> isInvalid e \<or> isBadRequest e"

text \<open>The loop over the files: the imported names and the invalid files, in order.\<close>

fun syncFiles :: "lib \<Rightarrow> imageRepository \<Rightarrow> string \<Rightarrow> string \<Rightarrow> string list
    \<Rightarrow> string list \<times> string list \<Rightarrow> (string list \<times> string list) result prog" where
  "syncFiles L repo commit root [] acc = Ret (Inr acc)"
| "syncFiles L repo commit root (p # files) (imported, invalid) =
     bind (syncImageFile L repo commit root p) (\<lambda>r. case r of
       Inl e \<Rightarrow> if skippable e
                then syncFiles L repo commit root files (imported, invalid @ [trimPrefix p (root @ ''/'')])
                else Ret (Inl (Wrapf (''sync '' @ trimPrefix p (root @ ''/'') @ '': '') e))
     | Inr name \<Rightarrow> syncFiles L repo commit root files
                    (if name \<noteq> [] then imported @ [name] else imported, invalid))"

definition pruneImages :: "string list \<Rightarrow> string list \<Rightarrow> unstructured list \<Rightarrow> unit result prog" where
  "pruneImages imported invalid images =
     (if invalid \<noteq> [] then Ret (Inr ())
      else forE (\<lambda>image.
        if m_name (un_meta image) \<in> set imported then Ret (Inr ())
        else wrapP (''prune image '' @ m_name (un_meta image) @ '': '')
               (mapP ignoreNotFound (deleteP (OUnstructured image)
                  [PreUID (m_uid (un_meta image)), PreResourceVersion (m_resourceVersion (un_meta image))]))
               (\<lambda>_. Ret (Inr ()))) images)"

fun dedupe :: "string list \<Rightarrow> string list \<Rightarrow> string list" where
  "dedupe seen [] = []"
| "dedupe seen (v # vs) = (if v \<in> set seen then dedupe seen vs else v # dedupe (v # seen) vs)"

record syncResult =
  sr_commit :: string
  sr_imported :: "string list"
  sr_invalid :: "string list"

definition imageSelector :: "imageRepository \<Rightarrow> strmap" where
  "imageSelector repo = [(imageRepositoryLabelKey, m_name (ir_meta repo))]"

text \<open>The part of \<^verbatim>\<open>syncRepo\<close> after the clone, in the temporary directory.\<close>

definition syncWorktree :: "lib \<Rightarrow> imageRepository \<Rightarrow> string \<Rightarrow> syncResult result prog" where
  "syncWorktree L repo tmpDir =
     tryP (if irs_ref (ir_spec repo) \<noteq> [] then checkoutImageRepositoryRef (irs_ref (ir_spec repo)) else Ret (Inr ())) (\<lambda>_.
     tryP (ask ReqGitHead asStr) (\<lambda>commit.
     tryP (imageRepositoryFiles tmpDir (if irs_paths (ir_spec repo) = [] then [''images''] else irs_paths (ir_spec repo))) (\<lambda>files.
     tryP (syncFiles L repo commit tmpDir files ([], [])) (\<lambda>(imported, invalid).
     wrapP ''list images for pruning: ''
       (listP Cached (KUnstructured GroupVersion ''ImageList'') toUnstructured None (imageSelector repo)) (\<lambda>images.
     tryP (pruneImages imported invalid images) (\<lambda>_.
     Ret (Inr \<lparr>sr_commit = commit, sr_imported = dedupe [] imported, sr_invalid = invalid\<rparr>)))))))"

definition syncClone :: "lib \<Rightarrow> imageRepository \<Rightarrow> string \<Rightarrow> syncResult result prog" where
  "syncClone L repo tmpDir =
     tryP (imageRepositoryAuth repo) (\<lambda>auth.
     replaceErr ''failed to clone repository; check URL and credentials''
       (ask (ReqGitClone (irs_url (ir_spec repo)) (if irs_ref (ir_spec repo) \<noteq> [] then 0 else 1) auth tmpDir) asUnit)
     (\<lambda>_. syncWorktree L repo tmpDir))"

definition syncRepo :: "lib \<Rightarrow> imageRepository \<Rightarrow> syncResult result prog" where
  "syncRepo L repo =
     tryP (ask ReqMkdirTemp asStr) (\<lambda>tmpDir.
       bind (syncClone L repo tmpDir) (\<lambda>r.
         bind (ask (ReqRemoveAll tmpDir) asUnit) (\<lambda>_. Ret r)))"

section \<open>The reconciler\<close>

definition repoCondition :: "bool \<Rightarrow> string \<Rightarrow> string \<Rightarrow> int \<Rightarrow> condition" where
  "repoCondition ok reason msg now = \<lparr>c_type = ''Ready'', c_status = (if ok then ''True'' else ''False''),
     c_observedGeneration = 0, c_ltt = Some now, c_reason = reason, c_message = msg\<rparr>"

definition setRepoCondition :: "lib \<Rightarrow> int \<Rightarrow> condition \<Rightarrow> imageRepository \<Rightarrow> imageRepository" where
  "setRepoCondition L now c repo = repo\<lparr>ir_status := (ir_status repo)\<lparr>irt_conditions :=
     l_setStatusCondition L now (irt_conditions (ir_status repo)) c\<rparr>\<rparr>"

definition syncInterval :: "imageRepository \<Rightarrow> int" where
  "syncInterval repo = (case irs_syncInterval (ir_spec repo) of
     None \<Rightarrow> defaultSyncInterval | Some d \<Rightarrow> if d > 0 then d else defaultSyncInterval)"

definition forceSync :: "imageRepository \<Rightarrow> bool" where
  "forceSync repo = mhas (m_annotations (ir_meta repo)) imageRepositorySyncAnno"

definition reconcileSuspended :: "lib \<Rightarrow> imageRepository \<Rightarrow> ctrlResult result prog" where
  "reconcileSuspended L repo = bind nowP (\<lambda>now.
     bind (statusUpdateP toImageRepository (OImageRepository
       (setRepoCondition L now (repoCondition False ''Suspended'' ''Syncing is suspended'' now) repo)))
       (\<lambda>_. Ret (Inr 0)))"

definition reconcileSyncFailed :: "lib \<Rightarrow> imageRepository \<Rightarrow> gerr \<Rightarrow> ctrlResult result prog" where
  "reconcileSyncFailed L repo err = bind nowP (\<lambda>now.
     let repo1 = setRepoCondition L now (repoCondition False ''SyncFailed'' (errText err) now) repo;
         repo2 = repo1\<lparr>ir_status := (ir_status repo1)\<lparr>irt_observedGeneration := m_generation (ir_meta repo1)\<rparr>\<rparr>
     in bind (statusUpdateP toImageRepository (OImageRepository repo2)) (\<lambda>_. Ret (Inl err)))"

text \<open>Clearing the trigger annotation: a failed update is only logged, the object stays as changed.\<close>

definition clearSyncAnnotation :: "imageRepository \<Rightarrow> imageRepository prog" where
  "clearSyncAnnotation repo =
     (if forceSync repo
      then let repo1 = repo\<lparr>ir_meta := (ir_meta repo)\<lparr>m_annotations :=
                 mdel (m_annotations (ir_meta repo)) imageRepositorySyncAnno\<rparr>\<rparr>
           in bind (updateP toImageRepository (OImageRepository repo1)) (\<lambda>r.
                Ret (case r of Inl e \<Rightarrow> repo1 | Inr stored \<Rightarrow> stored))
      else Ret repo)"

definition invalidMessage :: "string list \<Rightarrow> string" where
  "invalidMessage invalid = ''Skipped '' @ showInt (int (length invalid))
     @ '' invalid manifest(s); pruning withheld. First invalid file: '' @ takeRunes 200 (hd invalid)"

definition reconcileSynced :: "lib \<Rightarrow> int \<Rightarrow> imageRepository \<Rightarrow> syncResult \<Rightarrow> ctrlResult result prog" where
  "reconcileSynced L interval repo0 result =
     bind (clearSyncAnnotation repo0) (\<lambda>repo.
     bind nowP (\<lambda>t1. bind nowP (\<lambda>t2.
       let repo1 = repo\<lparr>ir_status := (ir_status repo)\<lparr>irt_lastSyncTime := Some t1, irt_lastSyncCommit := sr_commit result,
             irt_importedImages := sr_imported result, irt_observedGeneration := m_generation (ir_meta repo)\<rparr>\<rparr>;
           repo2 = setRepoCondition L t2 (repoCondition True ''Synced''
             (''Synced '' @ showInt (int (length (sr_imported result))) @ '' image(s)'') t2) repo1
       in bind (if sr_invalid result \<noteq> []
                then bind nowP (\<lambda>t3. Ret (setRepoCondition L t3
                       (repoCondition False ''InvalidManifests'' (invalidMessage (sr_invalid result)) t3) repo2))
                else Ret repo2) (\<lambda>repo3.
          tryP (statusUpdateP toImageRepository (OImageRepository repo3)) (\<lambda>_.
            ask (ReqJitter interval) (\<lambda>r. Inr (case r of RInt d \<Rightarrow> d | _ \<Rightarrow> 0)))))))"

definition syncDue :: "lib \<Rightarrow> imageRepository \<Rightarrow> int option prog" where
  "syncDue L repo =
     (if \<not> forceSync repo \<and> irt_observedGeneration (ir_status repo) = m_generation (ir_meta repo)
      then (case irt_lastSyncTime (ir_status repo) of
              None \<Rightarrow> Ret None
            | Some lastSync \<Rightarrow> bind nowP (\<lambda>now.
                let since = now - lastSync in
                Ret (if since < syncInterval repo \<and> l_isStatusConditionTrue L (irt_conditions (ir_status repo)) ''Ready''
                     then Some (syncInterval repo - since) else None)))
      else Ret None)"

definition reconcileImageRepository :: "lib \<Rightarrow> string \<Rightarrow> string \<Rightarrow> ctrlResult result prog" where
  "reconcileImageRepository L ns name =
     bind (getP Cached KImageRepository toImageRepository ns name) (\<lambda>g. case g of
       Inl e \<Rightarrow> Ret (if isNotFound e then Inr 0 else Inl e)
     | Inr repo \<Rightarrow>
         if irs_suspend (ir_spec repo) then reconcileSuspended L repo
         else bind (syncDue L repo) (\<lambda>wait. case wait of
           Some d \<Rightarrow> Ret (Inr d)
         | None \<Rightarrow> bind (syncRepo L repo) (\<lambda>r. case r of
             Inl err \<Rightarrow> reconcileSyncFailed L repo err
           | Inr result \<Rightarrow> reconcileSynced L (syncInterval repo) repo result)))"

text \<open>The event filter: spec changes, and a new value of the trigger annotation.\<close>

definition imageRepositoryPredicate :: "ometa \<Rightarrow> ometa \<Rightarrow> bool" where
  "imageRepositoryPredicate old new \<longleftrightarrow> m_generation old \<noteq> m_generation new
     \<or> (mget (m_annotations new) imageRepositorySyncAnno \<noteq> []
        \<and> mget (m_annotations old) imageRepositorySyncAnno \<noteq> mget (m_annotations new) imageRepositorySyncAnno)"

section \<open>Which files are imported\<close>

lemma asDir_Inr: "asDir r = Inr es \<longleftrightarrow> r = RDir es"
  by (auto simp: asDir_def split: resp.splits)

lemma contained_Inr:
  assumes "runs (containedImageRepositoryPath root path) tr (Inr p)"
  shows "p = path \<and> (\<exists>res rroot r. tr = [(ReqEvalSymlinks path, RStr res), (ReqEvalSymlinks root, RStr rroot)]
    \<and> rel rroot res = Some r \<and> \<not> escapes r)"
  using assms
  by (auto simp: containedImageRepositoryPath_def prog_inv escapes_def split: option.splits if_splits)

definition admitted :: "string \<Rightarrow> trace \<Rightarrow> string \<Rightarrow> bool" where
  "admitted root tr f \<longleftrightarrow> (\<exists>res rroot r dir es name.
     (ReqEvalSymlinks f, RStr res) \<in> set tr \<and> (ReqEvalSymlinks root, RStr rroot) \<in> set tr
   \<and> rel rroot res = Some r \<and> \<not> escapes r
   \<and> (ReqReadDir dir, RDir es) \<in> set tr \<and> (name, False) \<in> set es \<and> f = joinPath dir name
   \<and> (hasSuffix name ''.yaml'' \<or> hasSuffix name ''.yml''))"

lemma admitted_mono: "admitted root t f \<Longrightarrow> set t \<subseteq> set t' \<Longrightarrow> admitted root t' f"
  unfolding admitted_def by blast

lemma scanEntries_Inr:
  assumes "runs (scanEntries root dir es files) tr (Inr files')" and "distinct files"
    and "(ReqReadDir dir, RDir es0) \<in> set h" and "set es \<subseteq> set es0"
  shows "distinct files' \<and> (\<forall>f \<in> set files'. f \<in> set files \<or> admitted root (h @ tr) f)"
  using assms
proof (induction es arbitrary: files tr h)
  case Nil
  then show ?case by (simp add: runs_Ret_iff)
next
  case (Cons entry es)
  show ?case
  proof (cases "isManifestEntry entry")
    case False
    with Cons.prems(1) have "runs (scanEntries root dir es files) tr (Inr files')" by simp
    from Cons.IH[OF this Cons.prems(2,3)] Cons.prems(4) show ?thesis by simp
  next
    case True
    let ?p = "joinPath dir (fst entry)"
    from True Cons.prems(1) obtain t1 u t2 where c: "runs (containedImageRepositoryPath root ?p) t1 (Inr u)"
      and k: "runs (scanEntries root dir es (if ?p \<in> set files then files else files @ [?p])) t2 (Inr files')"
      and tr: "tr = t1 @ t2"
      by (auto simp: runs_tryP Let_def)
    obtain res rroot r where t1: "t1 = [(ReqEvalSymlinks ?p, RStr res), (ReqEvalSymlinks root, RStr rroot)]"
      "rel rroot res = Some r" "\<not> escapes r" using contained_Inr[OF c] by blast
    have "(fst entry, False) \<in> set es0" using True Cons.prems(4) by (cases entry) (auto simp: isManifestEntry_def)
    then have adm: "admitted root (h @ t1) ?p"
      using True t1 Cons.prems(3) unfolding admitted_def isManifestEntry_def by fastforce
    have "distinct files' \<and> (\<forall>f \<in> set files'. f \<in> set (if ?p \<in> set files then files else files @ [?p]) \<or> admitted root ((h @ t1) @ t2) f)"
      using Cons.IH[OF k, of "h @ t1"] Cons.prems(2-4) by simp
    moreover have "admitted root ((h @ t1) @ t2) ?p" using adm by (rule admitted_mono) auto
    ultimately show ?thesis using tr by (auto split: if_splits)
  qed
qed

lemma scanPaths_Inr:
  assumes "runs (scanPaths root paths files) tr (Inr files')" and "distinct files"
    and "\<forall>f \<in> set files. admitted root h f"
  shows "distinct files' \<and> (\<forall>f \<in> set files'. admitted root (h @ tr) f)"
  using assms
proof (induction paths arbitrary: files tr h)
  case Nil
  then show ?case by (simp add: runs_Ret_iff)
next
  case (Cons p paths)
  from Cons.prems(1) obtain dir t1 es t2 fs t3 where c: "runs (containedImageRepositoryPath root (joinPath root (trimSpace p))) t1 (Inr dir)"
    and e: "runs (scanEntries root dir es files) t2 (Inr fs)" and k: "runs (scanPaths root paths fs) t3 (Inr files')"
    and tr: "tr = t1 @ (ReqReadDir dir, RDir es) # t2 @ t3"
    by (auto simp: runs_tryP runs_wrapP runs_ask runs_Ret_iff Let_def asDir_Inr split: if_splits)
  let ?h = "h @ t1 @ [(ReqReadDir dir, RDir es)]"
  have "distinct fs" and fs: "\<forall>f \<in> set fs. f \<in> set files \<or> admitted root (?h @ t2) f"
    using scanEntries_Inr[OF e Cons.prems(2), of es ?h] by auto
  moreover have "\<forall>f \<in> set fs. admitted root (?h @ t2) f"
    using fs Cons.prems(3) admitted_mono[of root h _ "?h @ t2"] by auto
  ultimately have "distinct files' \<and> (\<forall>f \<in> set files'. admitted root ((?h @ t2) @ t3) f)"
    using Cons.IH[OF k] by blast
  then show ?case using tr by simp
qed

text \<open>
  C16. Only manifests inside the clone are imported. Every file that \<^verbatim>\<open>imageRepositoryFiles\<close> returns is
  a non-directory entry ending in .yaml or .yml of a directory that was read, and with symbolic links
  resolved it lies under the resolved clone directory: the components of the clone's path are a prefix
  of the components of the file's path. No file is listed twice.
\<close>

theorem imported_files_contained:
  assumes "runs (imageRepositoryFiles root paths) tr (Inr files)"
  shows "distinct files \<and> (\<forall>f \<in> set files.
     (\<exists>dir es name. (ReqReadDir dir, RDir es) \<in> set tr \<and> (name, False) \<in> set es \<and> f = joinPath dir name
        \<and> (hasSuffix name ''.yaml'' \<or> hasSuffix name ''.yml''))
   \<and> (\<exists>res rroot. (ReqEvalSymlinks f, RStr res) \<in> set tr \<and> (ReqEvalSymlinks root, RStr rroot) \<in> set tr
        \<and> (rooted rroot \<longrightarrow> rooted res \<longrightarrow> (\<exists>zs. comps res = comps rroot @ zs))))"
proof -
  have "distinct files \<and> (\<forall>f \<in> set files. admitted root ([] @ tr) f)"
    using assms unfolding imageRepositoryFiles_def by (rule scanPaths_Inr) auto
  moreover have "(\<exists>dir es name. (ReqReadDir dir, RDir es) \<in> set tr \<and> (name, False) \<in> set es \<and> f = joinPath dir name
        \<and> (hasSuffix name ''.yaml'' \<or> hasSuffix name ''.yml''))
   \<and> (\<exists>res rroot. (ReqEvalSymlinks f, RStr res) \<in> set tr \<and> (ReqEvalSymlinks root, RStr rroot) \<in> set tr
        \<and> (rooted rroot \<longrightarrow> rooted res \<longrightarrow> (\<exists>zs. comps res = comps rroot @ zs)))"
    if "admitted root ([] @ tr) f" for f
  proof -
    from that obtain res rroot r dir es name where a: "(ReqEvalSymlinks f, RStr res) \<in> set tr"
      "(ReqEvalSymlinks root, RStr rroot) \<in> set tr" "rel rroot res = Some r" "\<not> escapes r"
      and d: "(ReqReadDir dir, RDir es) \<in> set tr" "(name, False) \<in> set es" "f = joinPath dir name"
      "hasSuffix name ''.yaml'' \<or> hasSuffix name ''.yml''" unfolding admitted_def append_Nil by blast
    have "\<exists>zs. comps res = comps rroot @ zs" if "rooted rroot" "rooted res"
      using rel_contained[OF that] a(3,4) by blast
    with a(1,2) d show ?thesis by blast
  qed
  ultimately show ?thesis by blast
qed

definition exFilesResponses :: "resp list" where
  "exFilesResponses = [RStr ''/real/repo/images'', RStr ''/real/repo'',
     RDir [(''a.yaml'', False), (''sub'', True), (''b.txt'', False)],
     RStr ''/real/repo/images/a.yaml'', RStr ''/real/repo'']"

theorem imported_files_contained_witness:
  "\<exists>tr. runs (imageRepositoryFiles ''/tmp/r'' ['' images/ '']) tr (Inr [''/tmp/r/images/a.yaml''])
     \<and> (\<exists>res rroot. (ReqEvalSymlinks ''/tmp/r/images/a.yaml'', RStr res) \<in> set tr
          \<and> (ReqEvalSymlinks ''/tmp/r'', RStr rroot) \<in> set tr)"
proof -
  have "snd (exec (imageRepositoryFiles ''/tmp/r'' ['' images/ '']) exFilesResponses) = Some (Inr [''/tmp/r/images/a.yaml''])"
    by code_simp
  then obtain tr where run: "runs (imageRepositoryFiles ''/tmp/r'' ['' images/ '']) tr (Inr [''/tmp/r/images/a.yaml''])"
    by (metis exec_runs prod.collapse)
  have "''/tmp/r/images/a.yaml'' \<in> set [''/tmp/r/images/a.yaml'']" by simp
  with imported_files_contained[OF run] obtain res rroot where
    "(ReqEvalSymlinks ''/tmp/r/images/a.yaml'', RStr res) \<in> set tr" "(ReqEvalSymlinks ''/tmp/r'', RStr rroot) \<in> set tr" by blast
  with run show ?thesis by blast
qed

section \<open>Adoption\<close>

definition adoptImage :: "unstructured \<Rightarrow> kobj \<Rightarrow> kobj result" where
  "adoptImage obj ob = (case ob of OUnstructured existing \<Rightarrow> Inr (OUnstructured (mergeImage existing obj)) | _ \<Rightarrow> Inl badResponse)"

definition carriesSpec :: "unstructured \<Rightarrow> kobj \<Rightarrow> bool" where
  "carriesSpec obj ob \<longleftrightarrow> (case ob of
     OUnstructured u \<Rightarrow> map_of (un_object u) ''spec'' = Some (case map_of (un_object obj) ''spec'' of None \<Rightarrow> JNull | Some v \<Rightarrow> v)
       \<and> (\<forall>k v. map_of (m_labels (un_meta obj)) k = Some v \<longrightarrow> mget (m_labels (un_meta u)) k = v)
   | _ \<Rightarrow> False)"

lemma mcopy_idem: "wfmap m \<Longrightarrow> mcopy (mcopy m n) n = mcopy m n"
  by (rule wfmap_eqI) (auto simp: keys_mcopy_present map_add_def fun_eq_iff split: option.splits)

lemma mergeImage_idem:
  "wfMeta (un_meta e) \<Longrightarrow> mergeImage (mergeImage e obj) obj = mergeImage e obj"
  by (auto simp: mergeImage_def wfMeta_def mcopy_idem mset_present_id split: option.split)

interpretation adopt: mutator "adoptImage obj" "carriesSpec obj" for obj
proof
  fix ob ob' assume m: "adoptImage obj ob = Inr ob'"
  then obtain e where e: "ob = OUnstructured e" "ob' = OUnstructured (mergeImage e obj)"
    by (auto simp: adoptImage_def split: kobj.splits)
  then show "kindOf ob' = kindOf ob \<and> keyOf ob' = keyOf ob
      \<and> m_uid (metaOf ob') = m_uid (metaOf ob)
      \<and> m_resourceVersion (metaOf ob') = m_resourceVersion (metaOf ob)"
    by (simp add: mergeImage_def keyOf_def)
  show "carriesSpec obj ob'"
    using e by (auto simp: carriesSpec_def mergeImage_def mget_def split: option.split)
  assume "wfMeta (metaOf ob)"
  with e show "adoptImage obj ob' = Inr ob'" by (simp add: adoptImage_def mergeImage_idem)
qed

abbreviation imageGet :: "string \<Rightarrow> req" where
  "imageGet name \<equiv> ReqGet Cached (KUnstructured GroupVersion ''Image'') ([], name)"

text \<open>
  The labels and annotations an import asks for: those of the manifest, overridden by the repository's two labels and the
  four annotations on the source.
\<close>

definition askedLabel :: "imageRepository \<Rightarrow> unstructured \<Rightarrow> string \<Rightarrow> string option" where
  "askedLabel repo obj k = (if k = ''kubeworkspaces.io/managed-by'' then Some ''imagerepository-controller''
     else if k = ''kubeworkspaces.io/image-repository'' then Some (m_name (ir_meta repo))
     else map_of (m_labels (un_meta obj)) k)"

definition askedAnnotation :: "imageRepository \<Rightarrow> string \<Rightarrow> string \<Rightarrow> unstructured \<Rightarrow> string \<Rightarrow> string option" where
  "askedAnnotation repo commit file obj k = (if k = ''kubeworkspaces.io/source-path'' then Some file
     else if k = ''kubeworkspaces.io/source-commit'' then Some commit
     else if k = ''kubeworkspaces.io/source-ref'' then Some (irs_ref (ir_spec repo))
     else if k = ''kubeworkspaces.io/source-url'' then Some (irs_url (ir_spec repo))
     else map_of (m_annotations (un_meta obj)) k)"

text \<open>An Image created from a manifest, and one updated from it: every field is accounted for.\<close>

definition createdFrom :: "imageRepository \<Rightarrow> string \<Rightarrow> string \<Rightarrow> unstructured \<Rightarrow> unstructured \<Rightarrow> bool" where
  "createdFrom repo commit file obj u \<longleftrightarrow> un_apiVersion u = un_apiVersion obj \<and> un_kind u = un_kind obj \<and> un_object u = un_object obj
     \<and> (un_meta u)\<lparr>m_labels := [], m_annotations := []\<rparr> = (un_meta obj)\<lparr>m_labels := [], m_annotations := []\<rparr>
     \<and> (\<forall>k. map_of (m_labels (un_meta u)) k = askedLabel repo obj k)
     \<and> (\<forall>k. map_of (m_annotations (un_meta u)) k = askedAnnotation repo commit file obj k)"

definition importedFrom :: "imageRepository \<Rightarrow> string \<Rightarrow> string \<Rightarrow> unstructured \<Rightarrow> unstructured \<Rightarrow> unstructured \<Rightarrow> bool" where
  "importedFrom repo commit file obj existing u \<longleftrightarrow> un_apiVersion u = un_apiVersion existing \<and> un_kind u = un_kind existing
     \<and> (un_meta u)\<lparr>m_labels := [], m_annotations := []\<rparr> = (un_meta existing)\<lparr>m_labels := [], m_annotations := []\<rparr>
     \<and> (\<forall>k. map_of (un_object u) k = (if k = ''spec'' then map_of (un_object obj) k else map_of (un_object existing) k))
     \<and> (\<forall>k. map_of (m_labels (un_meta u)) k
          = (case askedLabel repo obj k of None \<Rightarrow> map_of (m_labels (un_meta existing)) k | Some v \<Rightarrow> Some v))
     \<and> (\<forall>k. map_of (m_annotations (un_meta u)) k
          = (case askedAnnotation repo commit file obj k of None \<Rightarrow> map_of (m_annotations (un_meta existing)) k | Some v \<Rightarrow> Some v))"

definition imageManifest :: "unstructured \<Rightarrow> bool" where
  "imageManifest obj \<longleftrightarrow> un_kind obj = ''Image'' \<and> un_apiVersion obj = GroupVersion \<and> m_name (un_meta obj) \<noteq> []
     \<and> (\<exists>fs. map_of (un_object obj) ''spec'' = Some (JObj fs))"

lemma stamped_asked:
  "map_of (m_labels (un_meta (stampManifest repo commit root path obj))) k = askedLabel repo obj k"
  "map_of (m_annotations (un_meta (stampManifest repo commit root path obj))) k = askedAnnotation repo commit (trimPrefix path (root @ ''/'')) obj k"
  by (simp_all add: stampManifest_def askedLabel_def askedAnnotation_def Let_def)

lemma stampManifest_created: "createdFrom repo commit (trimPrefix path (root @ ''/'')) obj (stampManifest repo commit root path obj)"
  unfolding createdFrom_def stamped_asked by (simp add: stampManifest_def Let_def)

lemma mergeImage_imported:
  assumes "imageManifest obj"
  shows "importedFrom repo commit (trimPrefix path (root @ ''/'')) obj existing (mergeImage existing (stampManifest repo commit root path obj))"
proof -
  let ?s = "stampManifest repo commit root path obj"
  have ob: "un_object ?s = un_object obj" by (simp add: stampManifest_def Let_def)
  from assms obtain fs where "map_of (un_object obj) ''spec'' = Some (JObj fs)" by (auto simp: imageManifest_def)
  then show ?thesis unfolding importedFrom_def
    by (simp add: mergeImage_def ob stamped_asked[where root = root and path = path] map_add_def)
qed

lemma checkManifest_Image: "checkManifest obj = Inr (Some ()) \<Longrightarrow> imageManifest obj"
  by (auto simp: checkManifest_def imageManifest_def split: if_splits option.splits json.splits)

lemma checkManifest_other: "checkManifest obj = Inr None \<Longrightarrow> un_kind obj \<noteq> ''Image''"
  by (auto simp: checkManifest_def split: if_splits option.splits json.splits)

text \<open>An import is a read and at most one write.\<close>

lemma importImage_trace:
  assumes "imageManifest obj" and "runs (importImage L (stampManifest repo commit root path obj)) tr r"
  obtains g where "tr = [(imageGet (m_name (un_meta obj)), g)]" and "r = Inr () \<Longrightarrow> \<exists>existing. g = RObj (OUnstructured existing)
        \<and> l_objectEqual L existing (mergeImage existing (stampManifest repo commit root path obj))"
  | e x where "tr = [(imageGet (m_name (un_meta obj)), RErr e), (ReqCreate (OUnstructured (stampManifest repo commit root path obj)), x)]"
      and "isNotFound e" and "r = asUnit x"
  | existing x where "tr = [(imageGet (m_name (un_meta obj)), RObj (OUnstructured existing)),
        (ReqUpdate (OUnstructured (mergeImage existing (stampManifest repo commit root path obj))), x)]" and "r = asUnit x"
proof -
  let ?s = "stampManifest repo commit root path obj"
  have st: "un_kind ?s = ''Image''" "un_apiVersion ?s = GroupVersion" "m_name (un_meta ?s) = m_name (un_meta obj)"
    using assms(1) by (simp_all add: stampManifest_def Let_def imageManifest_def)
  from assms(2) obtain g t where tr: "tr = (imageGet (m_name (un_meta obj)), g) # t"
    and k: "runs (case asObj toUnstructured g of
          Inl e \<Rightarrow> if isNotFound e then ask (ReqCreate (OUnstructured ?s)) asUnit else Ret (Inl e)
        | Inr existing \<Rightarrow> if l_objectEqual L existing (mergeImage existing ?s) then Ret (Inr ())
            else ask (ReqUpdate (OUnstructured (mergeImage existing ?s))) asUnit) t r"
    unfolding importImage_def st Let_def by (auto simp: runs_bind runs_client)
  show thesis
  proof (cases "asObj toUnstructured g")
    case (Inl e)
    with k tr show ?thesis by (cases "isNotFound e") (auto simp: runs_ask runs_Ret_iff asObj_notFound intro: that)
  next
    case (Inr existing)
    with k tr show ?thesis by (auto simp: runs_ask runs_Ret_iff asObj_Inr split: if_splits intro: that)
  qed
qed

text \<open>What a file brings, by what \<^verbatim>\<open>syncImageFile\<close> read from it.\<close>

lemma syncImageFile_runs:
  assumes "retryOnError_doc L" and "runs (syncImageFile L repo commit root path) tr r"
  obtains x where "tr = [(ReqReadFile path, x)]" and "\<exists>e. r = Inl e"
  | src obj where "tr = [(ReqReadFile path, RStr src)]" and "decodeManifest L src = Inr obj" and "un_kind obj \<noteq> ''Image''" and "r = Inr []"
  | src obj t y where "tr = (ReqReadFile path, RStr src) # t" and "decodeManifest L src = Inr obj" and "imageManifest obj"
      and "retry_trace retriableImport (importImage L (stampManifest repo commit root path obj)) t y"
      and "r = (case y of Inl e \<Rightarrow> Inl e | Inr u \<Rightarrow> Inr (m_name (un_meta obj)))"
proof -
  from assms(2) obtain x t where tr: "tr = (ReqReadFile path, x) # t"
    and k: "runs (case asStr x of Inl e \<Rightarrow> Ret (Inl e) | Inr src \<Rightarrow> (case decodeManifest L src of
         Inl e \<Rightarrow> Ret (Inl e)
       | Inr obj \<Rightarrow> (case checkManifest obj of
           Inl e \<Rightarrow> Ret (Inl e)
         | Inr None \<Rightarrow> Ret (Inr [])
         | Inr (Some u) \<Rightarrow>
             tryP (l_retryOnError L retriableImport (importImage L (stampManifest repo commit root path obj)))
               (\<lambda>_. Ret (Inr (m_name (un_meta obj))))))) t r"
    unfolding syncImageFile_def tryP_def by (auto simp: runs_bind runs_ask)
  show thesis
  proof (cases "asStr x")
    case (Inr src)
    then have x: "x = RStr src" by (simp add: asStr_Inr)
    show ?thesis
    proof (cases "decodeManifest L src")
      case dec: (Inr obj)
      show ?thesis
      proof (cases "checkManifest obj")
        case chk: (Inr v)
        show ?thesis
        proof (cases v)
          case None
          with k tr x Inr dec chk that(2) checkManifest_other[of obj] show ?thesis by (simp add: runs_Ret_iff)
        next
          case (Some u)
          with k Inr dec chk obtain y where "runs (l_retryOnError L retriableImport (importImage L (stampManifest repo commit root path obj))) t y"
            "r = (case y of Inl e \<Rightarrow> Inl e | Inr u \<Rightarrow> Inr (m_name (un_meta obj)))"
            by (simp add: tryP_def runs_bind_sum runs_Ret_iff) (metis (no_types) append_Nil2 sum.case)
          then show ?thesis using tr x dec chk Some assms(1) unfolding retryOnError_doc_def
            by (intro that(3)[of src t obj y]) (simp_all add: checkManifest_Image)
        qed
      qed (use k tr Inr dec that(1) in \<open>simp add: runs_Ret_iff\<close>)
    qed (use k tr Inr that(1) in \<open>simp add: runs_Ret_iff\<close>)
  qed (use k tr that(1) in \<open>simp add: runs_Ret_iff\<close>)
qed

text \<open>
  C17. Importing a manifest replaces the spec of an existing Image and otherwise only sets the labels and annotations asked for. Whatever
  the API server answers, and however often the import is retried, each write of \<^verbatim>\<open>syncImageFile\<close> follows at once on a read of
  the Image of the manifest's name, and the manifest is an Image of this API version with a name and a spec object. If that read
  reported the Image absent, the object created is the manifest with its
  labels and annotations, the two labels of this repository and the four annotations on URL, ref, commit and file.
  Otherwise the object just read is updated: identity,
  resource version, finalizers, owners and every field besides the spec stay; the spec is the one of the manifest; labels and annotations
  take the values of the manifest and of the repository, and those that neither mentions keep their values. It
  deletes nothing and writes no other kind of object.
\<close>

theorem import_replaces_spec_only:
  assumes "retryOnError_doc L" and "runs (syncImageFile L repo commit root path) tr r"
    and "(q, x) \<in> set tr" and "isWrite q"
  shows "\<exists>pre g post src obj. tr = pre @ (imageGet (m_name (un_meta obj)), g) # (q, x) # post
    \<and> (ReqReadFile path, RStr src) \<in> set pre \<and> decodeManifest L src = Inr obj
    \<and> un_kind obj = ''Image'' \<and> un_apiVersion obj = GroupVersion \<and> m_name (un_meta obj) \<noteq> []
    \<and> (\<exists>fs. map_of (un_object obj) ''spec'' = Some (JObj fs))
    \<and> ((\<exists>e u. g = RErr e \<and> isNotFound e \<and> q = ReqCreate (OUnstructured u) \<and> createdFrom repo commit (trimPrefix path (root @ ''/'')) obj u)
     \<or> (\<exists>existing u. g = RObj (OUnstructured existing) \<and> q = ReqUpdate (OUnstructured u)
          \<and> importedFrom repo commit (trimPrefix path (root @ ''/'')) obj existing u))"
  using assms(1,2)
proof (cases rule: syncImageFile_runs)
  case (3 src obj t y)
  from 3(1) assms(3,4) have "(q, x) \<in> set t" by auto
  from retry_trace_segment[OF 3(4) this] obtain l pre post l' y' where t: "t = l @ pre @ (q, x) # post @ l'"
    and run: "runs (importImage L (stampManifest repo commit root path obj)) (pre @ (q, x) # post) y'" by blast
  from 3(3) run obtain g where pre: "pre = [(imageGet (m_name (un_meta obj)), g)]" and
    g: "(\<exists>e. g = RErr e \<and> isNotFound e \<and> q = ReqCreate (OUnstructured (stampManifest repo commit root path obj)))
     \<or> (\<exists>existing. g = RObj (OUnstructured existing) \<and> q = ReqUpdate (OUnstructured (mergeImage existing (stampManifest repo commit root path obj))))"
    by (cases rule: importImage_trace) (use assms(4) in \<open>auto simp: Cons_eq_append_conv append_eq_Cons_conv\<close>)
  have tr: "tr = ((ReqReadFile path, RStr src) # l) @ (imageGet (m_name (un_meta obj)), g) # (q, x) # post @ l'"
    using 3(1) t pre by simp
  have "(\<exists>e u. g = RErr e \<and> isNotFound e \<and> q = ReqCreate (OUnstructured u) \<and> createdFrom repo commit (trimPrefix path (root @ ''/'')) obj u)
     \<or> (\<exists>existing u. g = RObj (OUnstructured existing) \<and> q = ReqUpdate (OUnstructured u)
          \<and> importedFrom repo commit (trimPrefix path (root @ ''/'')) obj existing u)"
    using g stampManifest_created mergeImage_imported[OF 3(3)] by blast
  with tr 3(2,3) show ?thesis unfolding imageManifest_def
    by (intro exI[of _ "(ReqReadFile path, RStr src) # l"] exI[of _ g] exI[of _ "post @ l'"] exI[of _ src] exI[of _ obj]) simp
qed (use assms(3,4) in auto)

definition imageLib :: lib where
  "imageLib = ref_lib\<lparr>l_unmarshalObject := (\<lambda>s. Inr \<lparr>un_apiVersion = GroupVersion, un_kind = ''Image'',
     un_meta = objectMeta [] s, un_object = [(''spec'', JObj [(''image'', JStr ''registry/base'')])]\<rparr>)\<rparr>"

definition exRepo :: imageRepository where
  "exRepo = \<lparr>ir_meta = (objectMeta [] ''catalog'')\<lparr>m_generation := 2\<rparr>,
     ir_spec = \<lparr>irs_url = ''https://git/x'', irs_ref = [], irs_paths = [], irs_auth = None,
       irs_syncInterval = None, irs_suspend = False\<rparr>,
     ir_status = \<lparr>irt_conditions = [], irt_lastSyncTime = None, irt_lastSyncCommit = [],
       irt_importedImages = [], irt_observedGeneration = 1\<rparr>\<rparr>"

lemma imageLib_retry: "retryOnError_doc imageLib"
  using ref_retryOnError_doc by (simp add: retryOnError_doc_def imageLib_def)

theorem import_replaces_spec_only_witness:
  "\<exists>tr q x pre g post src obj. runs (syncImageFile imageLib exRepo ''c0ffee'' ''/t'' ''/t/images/a.yaml'') tr (Inr ''demo'')
     \<and> isWrite q \<and> tr = pre @ (imageGet (m_name (un_meta obj)), g) # (q, x) # post
     \<and> (ReqReadFile ''/t/images/a.yaml'', RStr src) \<in> set pre \<and> decodeManifest imageLib src = Inr obj
     \<and> un_kind obj = ''Image''"
proof -
  let ?p = "syncImageFile imageLib exRepo ''c0ffee'' ''/t'' ''/t/images/a.yaml''"
  let ?e = "exec ?p [RStr ''demo'', notFound, ROk]"
  have "snd ?e = Some (Inr ''demo'')" by code_simp
  then have run: "runs ?p (fst ?e) (Inr ''demo'')" by (metis exec_runs prod.collapse)
  have "list_ex (isWrite \<circ> fst) (fst ?e)" by code_simp
  then obtain q x where q: "(q, x) \<in> set (fst ?e)" "isWrite q" by (auto simp: list_ex_iff)
  from import_replaces_spec_only[OF imageLib_retry run q] obtain pre g post src obj where
    "fst ?e = pre @ (imageGet (m_name (un_meta obj)), g) # (q, x) # post"
    "(ReqReadFile ''/t/images/a.yaml'', RStr src) \<in> set pre" "decodeManifest imageLib src = Inr obj" "un_kind obj = ''Image''" by blast
  with run q(2) show ?thesis
    by (intro exI[of _ "fst ?e"] exI[of _ q] exI[of _ x] exI[of _ pre] exI[of _ g] exI[of _ post] exI[of _ src] exI[of _ obj]) blast
qed

section \<open>Pruning\<close>

lemma imageRepositoryFiles_calls: "calls (\<lambda>q. \<not> isWrite q) (imageRepositoryFiles root paths)"
proof -
  have contained: "calls (\<lambda>q. \<not> isWrite q) (containedImageRepositoryPath root p)" for p
    unfolding containedImageRepositoryPath_def by (auto intro!: calls_wrapP calls_tryP)
  have "calls (\<lambda>q. \<not> isWrite q) (scanEntries root d es fs)" for d es fs
    by (induction es arbitrary: fs) (auto simp: Let_def contained intro!: calls_tryP)
  then have "calls (\<lambda>q. \<not> isWrite q) (scanPaths root paths fs)" for fs
    by (induction paths arbitrary: fs) (auto simp: Let_def contained intro!: calls_tryP calls_wrapP)
  then show ?thesis by (simp add: imageRepositoryFiles_def)
qed

lemma syncImageFile_calls:
  assumes "retryOnError_doc L"
  shows "calls noDelete (syncImageFile L repo commit root p)"
proof -
  have "calls noDelete (importImage L obj)" for obj
    unfolding importImage_def Let_def by (auto split: sum.split intro!: calls_bind)
  then show ?thesis
    unfolding syncImageFile_def
    by (auto split: sum.split option.split intro!: calls_tryP calls_retryOnError[OF assms])
qed

lemma syncFiles_calls:
  assumes "retryOnError_doc L"
  shows "calls noDelete (syncFiles L repo commit root files acc)"
proof (induction files arbitrary: acc)
  case (Cons p files)
  then show ?case
    by (cases acc) (auto split: sum.split intro!: calls_bind syncImageFile_calls[OF assms])
qed simp

text \<open>
  What pruning may rest on. A manifest file is accounted for, with respect to the Image to be deleted, if it was read, decodes, and either
  is no Image or is a complete Image of another name that was stored before: created, updated, or found equal to what the update would be.
\<close>

definition storedFrom :: "lib \<Rightarrow> imageRepository \<Rightarrow> string \<Rightarrow> string \<Rightarrow> unstructured \<Rightarrow> trace \<Rightarrow> bool" where
  "storedFrom L repo commit file obj h \<longleftrightarrow>
     (\<exists>u x. (ReqCreate (OUnstructured u), x) \<in> set h \<and> asUnit x = Inr () \<and> createdFrom repo commit file obj u)
   \<or> (\<exists>existing u. (imageGet (m_name (un_meta obj)), RObj (OUnstructured existing)) \<in> set h \<and> importedFrom repo commit file obj existing u
        \<and> (l_objectEqual L existing u \<or> (\<exists>x. (ReqUpdate (OUnstructured u), x) \<in> set h \<and> asUnit x = Inr ())))"

definition manifestIn :: "lib \<Rightarrow> imageRepository \<Rightarrow> string \<Rightarrow> string \<Rightarrow> trace \<Rightarrow> (string \<Rightarrow> bool) \<Rightarrow> string \<Rightarrow> bool" where
  "manifestIn L repo commit dir h N p \<longleftrightarrow> (\<exists>src obj. (ReqReadFile p, RStr src) \<in> set h \<and> decodeManifest L src = Inr obj
     \<and> (un_kind obj \<noteq> ''Image''
        \<or> imageManifest obj \<and> N (m_name (un_meta obj)) \<and> storedFrom L repo commit (trimPrefix p (dir @ ''/'')) obj h))"

definition directoryIn :: "lib \<Rightarrow> imageRepository \<Rightarrow> string \<Rightarrow> string \<Rightarrow> trace \<Rightarrow> (string \<Rightarrow> bool) \<Rightarrow> string \<Rightarrow> bool" where
  "directoryIn L repo commit dir h N p \<longleftrightarrow> (\<exists>es. (ReqReadDir (joinPath dir (trimSpace p)), RDir es) \<in> set h
     \<and> (\<forall>name. (name, False) \<in> set es \<longrightarrow> hasSuffix name ''.yaml'' \<or> hasSuffix name ''.yml''
          \<longrightarrow> manifestIn L repo commit dir h N (joinPath (joinPath dir (trimSpace p)) name)))"

definition pruned :: "lib \<Rightarrow> imageRepository \<Rightarrow> string \<Rightarrow> trace \<Rightarrow> kobj \<Rightarrow> delopt list \<Rightarrow> bool" where
  "pruned L repo dir h ob opts \<longleftrightarrow> (\<exists>commit obs image.
     (ReqList Cached (KUnstructured GroupVersion ''ImageList'') None [(''kubeworkspaces.io/image-repository'', m_name (ir_meta repo))], RList obs) \<in> set h
   \<and> ob = OUnstructured image \<and> ob \<in> set obs
   \<and> opts = [PreUID (m_uid (un_meta image)), PreResourceVersion (m_resourceVersion (un_meta image))]
   \<and> (ReqGitHead, RStr commit) \<in> set h
   \<and> (\<forall>p \<in> set (if irs_paths (ir_spec repo) = [] then [''images''] else irs_paths (ir_spec repo)).
        directoryIn L repo commit dir h (\<lambda>n. n \<noteq> m_name (un_meta image)) p))"

lemma storedFrom_mono: "storedFrom L repo commit file obj h \<Longrightarrow> set h \<subseteq> set h' \<Longrightarrow> storedFrom L repo commit file obj h'"
  unfolding storedFrom_def by blast

lemma manifestIn_mono:
  "manifestIn L repo commit dir h N p \<Longrightarrow> set h \<subseteq> set h' \<Longrightarrow> (\<And>n. N n \<Longrightarrow> N' n) \<Longrightarrow> manifestIn L repo commit dir h' N' p"
  unfolding manifestIn_def using storedFrom_mono[of L repo commit _ _ h h'] by (meson subsetD)

lemma directoryIn_mono:
  assumes "directoryIn L repo commit dir h N p" and "set h \<subseteq> set h'"
  shows "directoryIn L repo commit dir h' N p"
proof -
  from assms(1) obtain es where es: "(ReqReadDir (joinPath dir (trimSpace p)), RDir es) \<in> set h"
    and m: "\<And>name. (name, False) \<in> set es \<Longrightarrow> hasSuffix name ''.yaml'' \<or> hasSuffix name ''.yml''
      \<Longrightarrow> manifestIn L repo commit dir h N (joinPath (joinPath dir (trimSpace p)) name)" unfolding directoryIn_def by blast
  from manifestIn_mono[OF m assms(2)] es assms(2) show ?thesis unfolding directoryIn_def by blast
qed

lemma pruned_mono:
  assumes "pruned L repo dir h ob opts" and sub: "set h \<subseteq> set h'"
  shows "pruned L repo dir h' ob opts"
proof -
  from assms(1) obtain commit obs image where
    c: "(ReqList Cached (KUnstructured GroupVersion ''ImageList'') None [(''kubeworkspaces.io/image-repository'', m_name (ir_meta repo))], RList obs) \<in> set h"
      "ob = OUnstructured image" "ob \<in> set obs" "opts = [PreUID (m_uid (un_meta image)), PreResourceVersion (m_resourceVersion (un_meta image))]"
      "(ReqGitHead, RStr commit) \<in> set h"
    and d: "\<forall>p \<in> set (if irs_paths (ir_spec repo) = [] then [''images''] else irs_paths (ir_spec repo)).
        directoryIn L repo commit dir h (\<lambda>n. n \<noteq> m_name (un_meta image)) p" by (clarsimp simp only: pruned_def)
  from d have "\<forall>p \<in> set (if irs_paths (ir_spec repo) = [] then [''images''] else irs_paths (ir_spec repo)).
        directoryIn L repo commit dir h' (\<lambda>n. n \<noteq> m_name (un_meta image)) p" using directoryIn_mono[OF _ sub] by blast
  with c sub show ?thesis unfolding pruned_def by blast
qed

text \<open>Every manifest of a directory read is in the list of files.\<close>

lemma scanEntries_complete:
  "runs (scanEntries root dir es fs) tr (Inr files) \<Longrightarrow>
     set fs \<subseteq> set files \<and> (\<forall>e \<in> set es. isManifestEntry e \<longrightarrow> joinPath dir (fst e) \<in> set files)"
proof (induction es arbitrary: fs tr)
  case (Cons e es)
  show ?case
  proof (cases "isManifestEntry e")
    case True
    with Cons.prems obtain t where "runs (scanEntries root dir es (if joinPath dir (fst e) \<in> set fs then fs else fs @ [joinPath dir (fst e)])) t (Inr files)"
      by (auto simp: runs_tryP Let_def)
    from Cons.IH[OF this] show ?thesis by (auto split: if_splits)
  qed (use Cons in auto)
qed (simp add: runs_Ret_iff)

lemma scanPaths_complete:
  "runs (scanPaths root paths fs) tr (Inr files) \<Longrightarrow> set fs \<subseteq> set files \<and> (\<forall>p \<in> set paths.
     \<exists>es. (ReqReadDir (joinPath root (trimSpace p)), RDir es) \<in> set tr
       \<and> (\<forall>e \<in> set es. isManifestEntry e \<longrightarrow> joinPath (joinPath root (trimSpace p)) (fst e) \<in> set files))"
proof (induction paths arbitrary: fs tr)
  case (Cons p paths)
  let ?dir = "joinPath root (trimSpace p)"
  from Cons.prems obtain t1 es t2 fs' t3 where e: "runs (scanEntries root ?dir es fs) t2 (Inr fs')"
    and k: "runs (scanPaths root paths fs') t3 (Inr files)" and tr: "tr = t1 @ (ReqReadDir ?dir, RDir es) # t2 @ t3"
    by (auto simp: runs_tryP runs_wrapP runs_ask runs_Ret_iff Let_def asDir_Inr split: if_splits dest!: contained_Inr)
  from scanEntries_complete[OF e] Cons.IH[OF k] show ?case unfolding tr by fastforce
qed (simp add: runs_Ret_iff)

text \<open>A file that \<^verbatim>\<open>syncImageFile\<close> accepts is accounted for, and so are all of them when no file was recorded as invalid.\<close>

lemma retry_succeeds: "retry_trace f p tr r \<Longrightarrow> r = Inr () \<Longrightarrow> \<exists>t. runs p t (Inr ()) \<and> set t \<subseteq> set tr"
  using retry_trace_result by blast

lemma importImage_stored:
  assumes "imageManifest obj" and "runs (importImage L (stampManifest repo commit root path obj)) tr (Inr ())"
  shows "storedFrom L repo commit (trimPrefix path (root @ ''/'')) obj tr"
  using assms
proof (cases rule: importImage_trace)
  case (1 g)
  then show ?thesis unfolding storedFrom_def using mergeImage_imported[OF assms(1)] by fastforce
next
  case (2 e x)
  then show ?thesis unfolding storedFrom_def using stampManifest_created by fastforce
next
  case (3 existing x)
  then show ?thesis unfolding storedFrom_def using mergeImage_imported[OF assms(1)] by fastforce
qed

lemma syncImageFile_accounted:
  assumes "retryOnError_doc L" and "runs (syncImageFile L repo commit root p) tr (Inr name)"
  shows "manifestIn L repo commit root tr (\<lambda>n. n = name \<and> n \<noteq> []) p"
  using assms
proof (cases rule: syncImageFile_runs)
  case (3 src obj t y)
  then have "y = Inr ()" and name: "name = m_name (un_meta obj)" by (auto split: sum.splits)
  from retry_succeeds[OF 3(4) this(1)] obtain t' where t': "runs (importImage L (stampManifest repo commit root p obj)) t' (Inr ())" "set t' \<subseteq> set t" by blast
  have "storedFrom L repo commit (trimPrefix p (root @ ''/'')) obj tr"
    by (rule storedFrom_mono[OF importImage_stored[OF 3(3) t'(1)]]) (use t'(2) 3(1) in auto)
  with 3(1-3) name show ?thesis unfolding manifestIn_def
    by (intro exI[of _ src] exI[of _ obj]) (simp add: imageManifest_def)
qed (auto simp: manifestIn_def)

lemma syncFiles_accounted:
  assumes "retryOnError_doc L" and "runs (syncFiles L repo commit root files (imported, invalid)) tr (Inr (imported', invalid'))"
  shows "set imported \<subseteq> set imported' \<and> (invalid' = [] \<longrightarrow> invalid = []
     \<and> (\<forall>p \<in> set files. manifestIn L repo commit root tr (\<lambda>n. n \<in> set imported') p))"
  using assms(2)
proof (induction files arbitrary: imported invalid tr)
  case (Cons p files)
  from Cons.prems obtain t1 r t2 where tr: "tr = t1 @ t2" and f: "runs (syncImageFile L repo commit root p) t1 r"
    and k: "runs (case r of
       Inl e \<Rightarrow> if skippable e
                then syncFiles L repo commit root files (imported, invalid @ [trimPrefix p (root @ ''/'')])
                else Ret (Inl (Wrapf (''sync '' @ trimPrefix p (root @ ''/'') @ '': '') e))
     | Inr name \<Rightarrow> syncFiles L repo commit root files
                    (if name \<noteq> [] then imported @ [name] else imported, invalid)) t2 (Inr (imported', invalid'))"
    by (auto simp: runs_bind)
  show ?case
  proof (cases r)
    case (Inl e)
    with k have "runs (syncFiles L repo commit root files (imported, invalid @ [trimPrefix p (root @ ''/'')])) t2 (Inr (imported', invalid'))"
      by (simp add: runs_Ret_iff split: if_splits)
    from Cons.IH[OF this] show ?thesis by auto
  next
    case (Inr name)
    with k have "runs (syncFiles L repo commit root files (if name \<noteq> [] then imported @ [name] else imported, invalid)) t2 (Inr (imported', invalid'))"
      by simp
    note rest = Cons.IH[OF this]
    have "manifestIn L repo commit root tr (\<lambda>n. n \<in> set imported') p"
      by (rule manifestIn_mono[OF syncImageFile_accounted[OF assms(1) f[unfolded Inr]]]) (use rest tr in auto)
    moreover have "manifestIn L repo commit root tr (\<lambda>n. n \<in> set imported') p'" if "manifestIn L repo commit root t2 (\<lambda>n. n \<in> set imported') p'" for p'
      by (rule manifestIn_mono[OF that]) (use tr in auto)
    ultimately show ?thesis using rest by (auto split: if_splits)
  qed
qed (auto simp: runs_Ret_iff)

lemma pruneImages_delete:
  assumes "runs (pruneImages imported invalid images) tr r" and "(ReqDelete ob opts, x) \<in> set tr"
  shows "invalid = [] \<and> (\<exists>image \<in> set images. ob = OUnstructured image \<and> m_name (un_meta image) \<notin> set imported
    \<and> opts = [PreUID (m_uid (un_meta image)), PreResourceVersion (m_resourceVersion (un_meta image))])"
proof (cases "invalid = []")
  case True
  have "calls (\<lambda>q. \<forall>ob opts. q = ReqDelete ob opts \<longrightarrow> (\<exists>image \<in> set images. ob = OUnstructured image \<and> m_name (un_meta image) \<notin> set imported
    \<and> opts = [PreUID (m_uid (un_meta image)), PreResourceVersion (m_resourceVersion (un_meta image))])) (pruneImages imported invalid images)"
    unfolding pruneImages_def using True by (auto intro!: calls_forE calls_wrapP calls_mapP)
  from callsD[OF this assms] True show ?thesis by blast
qed (use assms in \<open>simp add: pruneImages_def runs_Ret_iff\<close>)

lemma syncWorktree_delete:
  assumes "retryOnError_doc L" and "runs (syncWorktree L repo dir) tr r" and "(ReqDelete ob opts, x) \<in> set tr"
  shows "\<exists>pre post. tr = pre @ (ReqDelete ob opts, x) # post \<and> pruned L repo dir pre ob opts"
proof -
  let ?paths = "if irs_paths (ir_spec repo) = [] then [''images''] else irs_paths (ir_spec repo)"
  let ?co = "if irs_ref (ir_spec repo) \<noteq> [] then checkoutImageRepositoryRef (irs_ref (ir_spec repo)) else Ret (Inr ())"
  have co: "calls noDelete ?co"
    unfolding checkoutImageRepositoryRef_def by (auto split: sum.split intro!: replaceErr_calls calls_bind)
  have fl: "calls noDelete (imageRepositoryFiles dir ?paths)"
    by (rule calls_weaken[OF imageRepositoryFiles_calls]) auto
  note no = no_deletes[OF co] no_deletes[OF fl] no_deletes[OF syncFiles_calls[OF assms(1)]]
  from assms(2,3) obtain t1 u commit t3 files t4 imported invalid obs t5 r' where
    co': "runs ?co t1 u" and fs: "runs (imageRepositoryFiles dir ?paths) t3 (Inr files)"
    and sy: "runs (syncFiles L repo commit dir files ([], [])) t4 (Inr (imported, invalid))"
    and pr: "runs (pruneImages imported invalid (List.map_filter toUnstructured obs)) t5 r'"
    and tr: "tr = t1 @ (ReqGitHead, RStr commit) # t3 @ t4 @ (ReqList Cached (KUnstructured GroupVersion ''ImageList'') None (imageSelector repo), RList obs) # t5"
    unfolding syncWorktree_def
    by (auto simp: runs_tryP runs_wrapP runs_ask runs_client runs_Ret_iff asStr_Inr asList_Inr no)
  have d: "(ReqDelete ob opts, x) \<in> set t5" using assms(3) no(1)[OF co'] no(2)[OF fs] no(3)[OF sy] unfolding tr by auto
  then obtain t6 post where t5: "t5 = t6 @ (ReqDelete ob opts, x) # post" by (meson split_list)
  let ?pre = "t1 @ (ReqGitHead, RStr commit) # t3 @ t4 @ (ReqList Cached (KUnstructured GroupVersion ''ImageList'') None (imageSelector repo), RList obs) # t6"
  from pruneImages_delete[OF pr d] obtain image where inv: "invalid = []"
    and im: "image \<in> set (List.map_filter toUnstructured obs)" "ob = OUnstructured image" "m_name (un_meta image) \<notin> set imported"
      "opts = [PreUID (m_uid (un_meta image)), PreResourceVersion (m_resourceVersion (un_meta image))]" by blast
  have ob: "ob \<in> set obs" using im(1,2) by (auto simp: map_filter_mem)
  have "manifestIn L repo commit dir ?pre (\<lambda>n. n \<noteq> m_name (un_meta image)) f" if "f \<in> set files" for f
  proof -
    have "manifestIn L repo commit dir t4 (\<lambda>n. n \<in> set imported) f"
      using syncFiles_accounted[OF assms(1) sy] inv that by blast
    then show ?thesis by (rule manifestIn_mono) (use im(3) in auto)
  qed
  moreover have "directoryIn L repo commit dir ?pre (\<lambda>n. n \<noteq> m_name (un_meta image)) p" if "p \<in> set ?paths"
    and files: "\<And>f. f \<in> set files \<Longrightarrow> manifestIn L repo commit dir ?pre (\<lambda>n. n \<noteq> m_name (un_meta image)) f" for p
  proof -
    from scanPaths_complete[OF fs[unfolded imageRepositoryFiles_def]] that obtain es where
      es: "(ReqReadDir (joinPath dir (trimSpace p)), RDir es) \<in> set t3"
      "\<forall>e \<in> set es. isManifestEntry e \<longrightarrow> joinPath (joinPath dir (trimSpace p)) (fst e) \<in> set files" by blast
    have "manifestIn L repo commit dir ?pre (\<lambda>n. n \<noteq> m_name (un_meta image)) (joinPath (joinPath dir (trimSpace p)) name)"
      if "(name, False) \<in> set es" "hasSuffix name ''.yaml'' \<or> hasSuffix name ''.yml''" for name
      using es(2) that by (intro files) (fastforce simp: isManifestEntry_def)
    with es(1) show ?thesis unfolding directoryIn_def by (intro exI[of _ es]) auto
  qed
  ultimately have "\<forall>p \<in> set ?paths. directoryIn L repo commit dir ?pre (\<lambda>n. n \<noteq> m_name (un_meta image)) p" by blast
  with im(2,4) ob have "pruned L repo dir ?pre ob opts" unfolding pruned_def
    by (intro exI[of _ commit] exI[of _ obs] exI[of _ image]) (simp add: imageSelector_def)
  moreover have "tr = ?pre @ (ReqDelete ob opts, x) # post" using tr t5 by simp
  ultimately show ?thesis by blast
qed

lemma imageRepositoryAuth_calls: "calls (\<lambda>q. \<not> isWrite q) (imageRepositoryAuth repo)"
  unfolding imageRepositoryAuth_def Let_def by (auto split: option.split sum.split intro!: calls_bind)

lemma syncRepo_delete:
  assumes "retryOnError_doc L" and "runs (syncRepo L repo) tr r" and "(ReqDelete ob opts, x) \<in> set tr"
  shows "\<exists>pre post dir depth auth y. tr = pre @ (ReqDelete ob opts, x) # post \<and> pruned L repo dir pre ob opts
     \<and> (ReqGitClone (irs_url (ir_spec repo)) depth auth dir, y) \<in> set pre \<and> asUnit y = Inr ()"
proof -
  from assms(2,3) obtain dir depth auth y t1 t t2 r' where w: "runs (syncWorktree L repo dir) t r'" "(ReqDelete ob opts, x) \<in> set t"
    and tr: "tr = (t1 @ [(ReqGitClone (irs_url (ir_spec repo)) depth auth dir, y)]) @ t @ t2" and y: "asUnit y = Inr ()"
    unfolding syncRepo_def syncClone_def
    by (auto simp: runs_tryP runs_bind runs_ask runs_Ret_iff runs_replaceErr no_writes[OF imageRepositoryAuth_calls]) (metis append.assoc append_Cons append_Nil)+
  from syncWorktree_delete[OF assms(1) w] obtain pre post where t: "t = pre @ (ReqDelete ob opts, x) # post" and p: "pruned L repo dir pre ob opts" by blast
  from pruned_mono[OF p, of "(t1 @ [(ReqGitClone (irs_url (ir_spec repo)) depth auth dir, y)]) @ pre"]
  show ?thesis unfolding tr t using y
    by (intro exI[of _ "(t1 @ [(ReqGitClone (irs_url (ir_spec repo)) depth auth dir, y)]) @ pre"] exI[of _ "post @ t2"]) auto
qed

lemma reconcile_tail_calls:
  "calls noDelete (reconcileSuspended L repo)" "calls noDelete (syncDue L repo)"
  "calls noDelete (reconcileSyncFailed L repo e)" "calls noDelete (reconcileSynced L d repo res)"
  unfolding reconcileSuspended_def syncDue_def reconcileSyncFailed_def reconcileSynced_def clearSyncAnnotation_def Let_def
  by (auto split: option.split sum.split intro!: calls_bind calls_tryP)

text \<open>How a reconciliation that is neither suspended nor early proceeds.\<close>

lemma reconcileImageRepository_cases:
  assumes "runs (reconcileImageRepository L ns name) tr r"
  obtains (unread) x where "tr = [(ReqGet Cached KImageRepository (ns, name), x)]"
  | (suspended) repo t where "tr = (ReqGet Cached KImageRepository (ns, name), RObj (OImageRepository repo)) # t"
      and "irs_suspend (ir_spec repo)" and "runs (reconcileSuspended L repo) t r"
  | (early) repo t d where "tr = (ReqGet Cached KImageRepository (ns, name), RObj (OImageRepository repo)) # t"
      and "\<not> irs_suspend (ir_spec repo)" and "runs (syncDue L repo) t (Some d)" and "r = Inr d"
  | (failed) repo t1 t2 t3 e where "tr = (ReqGet Cached KImageRepository (ns, name), RObj (OImageRepository repo)) # t1 @ t2 @ t3"
      and "\<not> irs_suspend (ir_spec repo)" and "runs (syncDue L repo) t1 None" and "runs (syncRepo L repo) t2 (Inl e)"
      and "runs (reconcileSyncFailed L repo e) t3 r"
  | (synced) repo t1 t2 t3 res where "tr = (ReqGet Cached KImageRepository (ns, name), RObj (OImageRepository repo)) # t1 @ t2 @ t3"
      and "\<not> irs_suspend (ir_spec repo)" and "runs (syncDue L repo) t1 None" and "runs (syncRepo L repo) t2 (Inr res)"
      and "runs (reconcileSynced L (syncInterval repo) repo res) t3 r"
proof -
  from assms consider (no) x where "tr = [(ReqGet Cached KImageRepository (ns, name), x)]"
    | (yes) repo t where "tr = (ReqGet Cached KImageRepository (ns, name), RObj (OImageRepository repo)) # t"
        "runs (if irs_suspend (ir_spec repo) then reconcileSuspended L repo
         else bind (syncDue L repo) (\<lambda>wait. case wait of
           Some d \<Rightarrow> Ret (Inr d)
         | None \<Rightarrow> bind (syncRepo L repo) (\<lambda>r. case r of
             Inl err \<Rightarrow> reconcileSyncFailed L repo err
           | Inr result \<Rightarrow> reconcileSynced L (syncInterval repo) repo result))) t r"
    unfolding reconcileImageRepository_def by (auto simp: runs_bind_sum runs_client runs_Ret_iff asObj_Inr)
  then show thesis
  proof cases
    case no
    then show ?thesis by (rule unread)
  next
    case yes
    show ?thesis
    proof (cases "irs_suspend (ir_spec repo)")
      case True
      with yes suspended show ?thesis by simp
    next
      case False
      with yes obtain t1 w t2 where w: "runs (syncDue L repo) t1 w" "t = t1 @ t2"
        and k: "runs (case w of Some d \<Rightarrow> Ret (Inr d) | None \<Rightarrow> bind (syncRepo L repo) (\<lambda>r. case r of
             Inl err \<Rightarrow> reconcileSyncFailed L repo err
           | Inr result \<Rightarrow> reconcileSynced L (syncInterval repo) repo result)) t2 r"
        by (auto simp: runs_bind)
      show ?thesis
      proof (cases w)
        case (Some d)
        with k w yes(1) False early show ?thesis by (simp add: runs_Ret_iff)
      next
        case None
        with k w yes(1) False failed synced show ?thesis by (auto simp: runs_bind_sum)
      qed
    qed
  qed
qed

lemma prune_after_sync:
  assumes "retryOnError_doc L" and "runs (syncRepo L repo) t2 y" and "(ReqDelete ob opts, x) \<in> set t2"
    and "tr = (ReqGet Cached KImageRepository (ns, name), RObj (OImageRepository repo)) # t1 @ t2 @ t3"
  shows "\<exists>pre post dir depth auth y. tr = pre @ (ReqDelete ob opts, x) # post
    \<and> (ReqGet Cached KImageRepository (ns, name), RObj (OImageRepository repo)) \<in> set pre
    \<and> (ReqGitClone (irs_url (ir_spec repo)) depth auth dir, y) \<in> set pre \<and> asUnit y = Inr () \<and> pruned L repo dir pre ob opts"
proof -
  from syncRepo_delete[OF assms(1-3)] obtain pre post dir depth auth y where t2: "t2 = pre @ (ReqDelete ob opts, x) # post"
    and p: "pruned L repo dir pre ob opts" and cl: "(ReqGitClone (irs_url (ir_spec repo)) depth auth dir, y) \<in> set pre" "asUnit y = Inr ()" by blast
  let ?pre = "(ReqGet Cached KImageRepository (ns, name), RObj (OImageRepository repo)) # t1 @ pre"
  have "pruned L repo dir ?pre ob opts" by (rule pruned_mono[OF p]) auto
  with cl show ?thesis unfolding assms(4) t2
    by (intro exI[of _ ?pre] exI[of _ "post @ t3"] exI[of _ dir] exI[of _ depth] exI[of _ auth] exI[of _ y]) simp
qed

text \<open>
  C18. An Image is pruned only on the strength of a complete inventory. A deletion issued while
  reconciling an ImageRepository concerns an Image that the list of this repository's label returned,
  carries its UID and resource version as preconditions, and happens only when the repository is not
  suspended and was cloned. Before it, every configured directory of the clone was read, and every YAML file listed there
  was read too and decodes; it is either no Image, or a complete Image manifest whose name is not that of the deleted Image
  and that was stored first (created, updated, or found up to date). One invalid manifest, or one that
  could not be imported, and nothing is deleted.
\<close>

theorem prune_needs_complete_inventory:
  assumes "retryOnError_doc L" and "runs (reconcileImageRepository L ns name) tr r"
    and "(ReqDelete ob opts, x) \<in> set tr"
  shows "\<exists>pre post repo dir depth auth y. tr = pre @ (ReqDelete ob opts, x) # post
    \<and> (ReqGet Cached KImageRepository (ns, name), RObj (OImageRepository repo)) \<in> set pre \<and> \<not> irs_suspend (ir_spec repo)
    \<and> (ReqGitClone (irs_url (ir_spec repo)) depth auth dir, y) \<in> set pre \<and> asUnit y = Inr () \<and> pruned L repo dir pre ob opts"
  using assms(2)
proof (cases rule: reconcileImageRepository_cases)
  case (failed repo t1 t2 t3 e)
  have "(ReqDelete ob opts, x) \<in> set t2"
    using assms(3) failed(1) no_deletes[OF reconcile_tail_calls(2) failed(3)] no_deletes[OF reconcile_tail_calls(3) failed(5)] by auto
  from prune_after_sync[OF assms(1) failed(4) this failed(1)] failed(2) show ?thesis by blast
next
  case (synced repo t1 t2 t3 res)
  have "(ReqDelete ob opts, x) \<in> set t2"
    using assms(3) synced(1) no_deletes[OF reconcile_tail_calls(2) synced(3)] no_deletes[OF reconcile_tail_calls(4) synced(5)] by auto
  from prune_after_sync[OF assms(1) synced(4) this synced(1)] synced(2) show ?thesis by blast
next
  case (suspended repo t)
  then show ?thesis using assms(3) no_deletes[OF reconcile_tail_calls(1) suspended(3)] by auto
next
  case (early repo t d)
  then show ?thesis using assms(3) no_deletes[OF reconcile_tail_calls(2) early(3)] by auto
qed (use assms(3) in auto)

definition exStaleImage :: unstructured where
  "exStaleImage = \<lparr>un_apiVersion = GroupVersion, un_kind = ''Image'', un_meta = objectMeta [] ''old'', un_object = []\<rparr>"

text \<open>The clone holds one manifest, which is created; then the Image that is in no manifest is deleted.\<close>

definition exPruneResponses :: "resp list" where
  "exPruneResponses = [RObj (OImageRepository exRepo), RStr ''/t'', ROk, RStr ''c0ffee'',
     RStr ''/t/images'', RStr ''/t'', RDir [(''a.yaml'', False)], RStr ''/t/images/a.yaml'', RStr ''/t'',
     RStr ''demo'', notFound, ROk, RList [OUnstructured exStaleImage], ROk, ROk,
     RInt 5, RInt 5, RObj (OImageRepository exRepo), RInt 700]"

theorem prune_needs_complete_inventory_witness:
  "\<exists>tr ob opts x pre post repo dir. runs (reconcileImageRepository imageLib [] ''catalog'') tr (Inr 700)
     \<and> tr = pre @ (ReqDelete ob opts, x) # post
     \<and> (ReqGet Cached KImageRepository ([], ''catalog''), RObj (OImageRepository repo)) \<in> set pre
     \<and> \<not> irs_suspend (ir_spec repo) \<and> pruned imageLib repo dir pre ob opts"
proof -
  let ?e = "exec (reconcileImageRepository imageLib [] ''catalog'') exPruneResponses"
  have "snd ?e = Some (Inr 700)" by code_simp
  then have run: "runs (reconcileImageRepository imageLib [] ''catalog'') (fst ?e) (Inr 700)"
    by (metis exec_runs prod.collapse)
  have "list_ex (\<lambda>(q, x). case q of ReqDelete ob opts \<Rightarrow> True | _ \<Rightarrow> False) (fst ?e)" by code_simp
  then obtain ob opts x where d: "(ReqDelete ob opts, x) \<in> set (fst ?e)"
    by (auto simp: list_ex_iff split: req.splits)
  from prune_needs_complete_inventory[OF imageLib_retry run d] run show ?thesis by blast
qed

end
