(* ===== verification/Naming.thy ===== *)
theory Naming
  imports Common
begin

text \<open>
  Names derived from a workspace: the root disk, the Secrets that carry SSH keys, cloud-init and
  container-init data, the virtio serial of a data disk and the MAC address of the guest
  (src/internal/controller/workspace_controller.go, container_init.go, vm_disks.go). The lemmas bound
  their length and show which of them are distinct for distinct workspaces.
\<close>

section \<open>Object names\<close>

definition rootDiskDataVolumeName :: "lib \<Rightarrow> string \<Rightarrow> string" where
  "rootDiskDataVolumeName L name =
     (if length name \<le> 244 then name @ ''-rootdisk''
      else trimRight (take 227 name) ''.-'' @ ''-'' @ hexBytes (take 8 (l_sha256 L name)) @ ''-rootdisk'')"

definition sshKeySecretName :: "lib \<Rightarrow> string \<Rightarrow> string" where
  "sshKeySecretName L workspaceName =
     trimSuffix (rootDiskDataVolumeName L workspaceName) ''-rootdisk'' @ ''-sshkeys''"

definition cloudInitSecretName :: "string \<Rightarrow> string" where
  "cloudInitSecretName workspaceName = workspaceName @ ''-cloudinit''"

definition containerInitSecretName :: "lib \<Rightarrow> string \<Rightarrow> string" where
  "containerInitSecretName L name =
     (if length name > 230
      then trimRight (take 210 name) ''-.'' @ ''-'' @ hexBytes (take 8 (l_sha256 L name))
      else name) @ ''-container-init''"

definition vmDiskSerial :: "lib \<Rightarrow> string \<Rightarrow> string" where
  "vmDiskSerial L name = ''kw'' @ hexBytes (take 9 (l_sha256 L name))"

section \<open>The MAC address\<close>

unbundle bit_operations_syntax

text \<open>FNV-1a with 64 bits (\<^verbatim>\<open>fnv.New64a\<close>): the arithmetic wraps around.\<close>

definition fnv64a :: "string \<Rightarrow> 64 word" where
  "fnv64a s = foldl (\<lambda>h c. (h XOR word_of_int (of_char c)) * 1099511628211) 14695981039346656037 s"

definition byteAt :: "nat \<Rightarrow> 64 word \<Rightarrow> 8 word" where
  "byteAt n v = ucast (drop_bit n v)"

definition byteChar :: "8 word \<Rightarrow> char" where
  "byteChar b = char_of (uint b)"

definition macAddressForWorkspace :: "string \<Rightarrow> string" where
  "macAddressForWorkspace name =
     (let v = fnv64a name;
          b = [(byteAt 40 v AND 0xFE) OR 0x02, byteAt 32 v, byteAt 24 v, byteAt 16 v, byteAt 8 v, byteAt 0 v]
      in join '':'' (map (\<lambda>x. hexByte (byteChar x)) b))"

section \<open>Lengths\<close>

lemma rootDisk_stem_length:
  assumes "sha256_doc L" and "244 < length name"
  shows "length (trimRight (take 227 name) ''.-'' @ ''-'' @ hexBytes (take 8 (l_sha256 L name))) \<le> 244"
  using length_trimRight[of "take 227 name" "''.-''"] assms by (simp add: sha256_doc_def)

lemma rootDiskDataVolumeName_length:
  assumes "sha256_doc L"
  shows "length (rootDiskDataVolumeName L name) \<le> 253"
  using rootDisk_stem_length[OF assms, of name] by (simp add: rootDiskDataVolumeName_def)

lemma trimSuffix_append [simp]: "trimSuffix (s @ t) t = s"
  by (simp add: trimSuffix_def hasSuffix_def)

lemma sshKeySecretName_eq:
  "sshKeySecretName L name = (if length name \<le> 244 then name
     else trimRight (take 227 name) ''.-'' @ ''-'' @ hexBytes (take 8 (l_sha256 L name))) @ ''-sshkeys''"
proof (cases "length name \<le> 244")
  case True
  then show ?thesis using trimSuffix_append[of name "''-rootdisk''"]
    by (simp add: sshKeySecretName_def rootDiskDataVolumeName_def)
next
  case False
  then show ?thesis
    using trimSuffix_append[of "trimRight (take 227 name) ''.-'' @ ''-'' @ hexBytes (take 8 (l_sha256 L name))" "''-rootdisk''"]
    by (simp add: sshKeySecretName_def rootDiskDataVolumeName_def)
qed

lemma sshKeySecretName_length:
  assumes "sha256_doc L"
  shows "length (sshKeySecretName L name) \<le> 252"
  using rootDisk_stem_length[OF assms, of name] by (simp add: sshKeySecretName_eq)

lemma containerInitSecretName_length:
  assumes "sha256_doc L"
  shows "length (containerInitSecretName L name) \<le> 245"
  using length_trimRight[of "take 210 name" "''-.''"] assms
  by (simp add: containerInitSecretName_def sha256_doc_def)

text \<open>
  Derived names fit. With a digest of 32 bytes the root disk, the SSH key Secret and the
  container-init Secret of any workspace, however long its name, have names of at most 253 bytes, the
  limit of the API server, and the virtio serial of a disk has exactly 20 characters, the most virtio
  admits.
\<close>

theorem derived_names_fit:
  assumes "sha256_doc L"
  shows "length (rootDiskDataVolumeName L name) \<le> 253 \<and> length (sshKeySecretName L name) \<le> 253
    \<and> length (containerInitSecretName L name) \<le> 253 \<and> length (vmDiskSerial L name) = 20"
  using rootDiskDataVolumeName_length[OF assms, of name] sshKeySecretName_length[OF assms, of name]
    containerInitSecretName_length[OF assms, of name] assms
  by (simp add: vmDiskSerial_def sha256_doc_def)

theorem derived_names_fit_witness:
  "sha256_doc ref_lib \<and> length (rootDiskDataVolumeName ref_lib (replicate 300 CHR ''a'')) \<le> 253
    \<and> length (vmDiskSerial ref_lib ''disk'') = 20"
  using derived_names_fit[OF ref_sha256_doc] ref_sha256_doc by blast

section \<open>Distinct workspaces\<close>

text \<open>
  Whose root disk. Workspaces whose names have at most 244 bytes never share a root disk name. A
  longer name, however, always shares it with the workspace whose name is its own cut and hashed
  form, which has at most 244 bytes: the name then no longer identifies the disk of one workspace.
\<close>

theorem rootDisk_identity:
  assumes "sha256_doc L"
  shows "(length a \<le> 244 \<and> length b \<le> 244 \<longrightarrow>
      rootDiskDataVolumeName L a = rootDiskDataVolumeName L b \<longrightarrow> a = b)
    \<and> (244 < length a \<longrightarrow> (\<exists>b. length b \<le> 244 \<and> b \<noteq> a
         \<and> rootDiskDataVolumeName L b = rootDiskDataVolumeName L a))"
proof (intro conjI impI)
  assume "length a \<le> 244 \<and> length b \<le> 244" and "rootDiskDataVolumeName L a = rootDiskDataVolumeName L b"
  then show "a = b" by (simp add: rootDiskDataVolumeName_def)
next
  assume long: "244 < length a"
  let ?b = "trimRight (take 227 a) ''.-'' @ ''-'' @ hexBytes (take 8 (l_sha256 L a))"
  have short: "length ?b \<le> 244" using rootDisk_stem_length[OF assms long] .
  then have "?b \<noteq> a" using long by (metis linorder_not_less)
  moreover have "rootDiskDataVolumeName L ?b = rootDiskDataVolumeName L a"
    using long short by (simp add: rootDiskDataVolumeName_def)
  ultimately show "\<exists>b. length b \<le> 244 \<and> b \<noteq> a \<and> rootDiskDataVolumeName L b = rootDiskDataVolumeName L a"
    using short by blast
qed

theorem rootDisk_identity_witness:
  "\<exists>b. length b \<le> 244 \<and> b \<noteq> replicate 250 CHR ''w''
     \<and> rootDiskDataVolumeName ref_lib b = rootDiskDataVolumeName ref_lib (replicate 250 CHR ''w'')"
  using rootDisk_identity[OF ref_sha256_doc, of "replicate 250 CHR ''w''"] by simp

section \<open>The MAC address is well formed\<close>

lemma byteChar_digits:
  "digit0 (byteChar b) = bit b 0" "digit1 (byteChar b) = bit b 1"
  using bit_uint_iff[of b 0] bit_uint_iff[of b 1] by (simp_all add: byteChar_def char_of_def bit_0)

lemma hexNibble_hex: "hexNibble b3 b2 b1 b0 \<in> set ''0123456789abcdef''"
  by (simp add: hexNibble_def)

lemma hexNibble_local: "hexNibble b3 b2 True False \<in> set ''26ae''"
  by (simp add: hexNibble_def)

text \<open>
  The MAC address of a guest is well formed for every workspace name: six octets of two
  hexadecimal digits separated by colons, the first of them that of a locally administered
  unicast address (its second digit is 2, 6, a or e), so it collides with no vendor address and is
  never a multicast address.
\<close>

theorem mac_locally_administered:
  "\<exists>o0 o1 o2 o3 o4 o5. macAddressForWorkspace name =
      o0 @ '':'' @ o1 @ '':'' @ o2 @ '':'' @ o3 @ '':'' @ o4 @ '':'' @ o5
    \<and> list_all (\<lambda>oct. length oct = 2 \<and> set oct \<subseteq> set ''0123456789abcdef'') [o0, o1, o2, o3, o4, o5]
    \<and> o0 ! 1 \<in> set ''26ae''"
proof -
  let ?v = "fnv64a name"
  let ?b = "(byteAt 40 ?v AND 0xFE) OR 0x02"
  have oct: "length (hexByte c) = 2 \<and> set (hexByte c) \<subseteq> set ''0123456789abcdef''" for c
    unfolding hexByte_def by (simp only: list.size set_simps insert_subset empty_subsetI) (simp add: hexNibble_def)
  have "bit ?b 1" and "\<not> bit ?b 0" by (simp_all add: bit_or_iff bit_and_iff bit_numeral_rec)
  then have "hexByte (byteChar ?b) ! 1 \<in> set ''26ae''"
    using hexNibble_local by (simp add: hexByte_def byteChar_digits del: set_simps)
  moreover have "macAddressForWorkspace name = hexByte (byteChar ?b) @ '':'' @ hexByte (byteChar (byteAt 32 ?v))
      @ '':'' @ hexByte (byteChar (byteAt 24 ?v)) @ '':'' @ hexByte (byteChar (byteAt 16 ?v))
      @ '':'' @ hexByte (byteChar (byteAt 8 ?v)) @ '':'' @ hexByte (byteChar (byteAt 0 ?v))"
    by (simp add: macAddressForWorkspace_def Let_def)
  ultimately show ?thesis using oct by (intro exI conjI) (assumption | simp del: set_simps)+
qed

end
