(* ===== verification/Workload_Objects.thy ===== *)
theory Workload_Objects
  imports Naming
begin

text \<open>
  The objects a Workspace is turned into (src/internal/controller/workspace_controller.go): the
  StatefulSet of a container workspace, the Deployment of a scratch workspace and the Service in front
  of every workspace, with the tests that decide whether a live object has to be updated. The locale
  \<open>managed\<close> states what these tests and the way live objects are changed promise each other; the
  program \<open>ensureObject\<close> is the get-create-or-update step that all three share.
\<close>

section \<open>Constants\<close>

abbreviation DefaultContainerPort :: int where "DefaultContainerPort \<equiv> 8080"
abbreviation DefaultServingPort :: int where "DefaultServingPort \<equiv> 80"
abbreviation DefaultGuestMemory :: string where "DefaultGuestMemory \<equiv> ''2Gi''"
abbreviation AnnotationStopped :: string where "AnnotationStopped \<equiv> ''kubeworkspaces.io/stopped''"
abbreviation AnnotationPodTemplateHash :: string where
  "AnnotationPodTemplateHash \<equiv> ''kubeworkspaces.io/pod-template-hash''"
abbreviation AnnotationReset :: string where "AnnotationReset \<equiv> ''kubeworkspaces.io/reset''"
abbreviation AnnotationLegacyRootDisk :: string where "AnnotationLegacyRootDisk \<equiv> ''kubeworkspaces.io/legacy-root-disk''"
abbreviation AnnotationSSHKeyPropagation :: string where
  "AnnotationSSHKeyPropagation \<equiv> ''kubeworkspaces.io/ssh-key-propagation''"
abbreviation LabelWorkspaceName :: string where "LabelWorkspaceName \<equiv> ''workspace-name''"
abbreviation LabelKubevirtVM :: string where "LabelKubevirtVM \<equiv> ''vm.kubevirt.io/name''"
abbreviation WorkspaceTypeContainer :: string where "WorkspaceTypeContainer \<equiv> ''container''"
abbreviation WorkspaceTypeVM :: string where "WorkspaceTypeVM \<equiv> ''vm''"
abbreviation WorkspaceTypeScratch :: string where "WorkspaceTypeScratch \<equiv> ''scratch''"

section \<open>Reading a Workspace\<close>

abbreviation annotationsOf :: "workspace \<Rightarrow> strmap" where "annotationsOf ws \<equiv> m_annotations (w_meta ws)"
abbreviation nameOf :: "workspace \<Rightarrow> string" where "nameOf ws \<equiv> m_name (w_meta ws)"
abbreviation namespaceOf :: "workspace \<Rightarrow> string" where "namespaceOf ws \<equiv> m_namespace (w_meta ws)"
abbreviation containersOf :: "workspace \<Rightarrow> container list" where
  "containersOf ws \<equiv> ps_containers (wss_template (w_spec ws))"

definition workspaceTypeOf :: "workspace \<Rightarrow> string" where
  "workspaceTypeOf ws = (if wss_type (w_spec ws) = [] then WorkspaceTypeContainer else wss_type (w_spec ws))"

definition windowsWorkspace :: "workspace \<Rightarrow> bool" where
  "windowsWorkspace inst \<longleftrightarrow> (case wss_vmProfile (w_spec inst) of
     None \<Rightarrow> False | Some p \<Rightarrow> vp_id p = Windows11AMD64V1)"

definition stopped :: "workspace \<Rightarrow> bool" where
  "stopped ws \<longleftrightarrow> mhas (annotationsOf ws) AnnotationStopped"

section \<open>Pod templates and their fingerprint\<close>

definition templateHash :: "lib \<Rightarrow> podTemplate \<Rightarrow> string" where
  "templateHash L template = hexBytes (l_sha256 L (l_marshalTemplate L template))"

definition setPodTemplateHash :: "lib \<Rightarrow> podTemplate \<Rightarrow> ometa \<Rightarrow> ometa" where
  "setPodTemplateHash L template m =
     m\<lparr>m_annotations := mset (m_annotations m) AnnotationPodTemplateHash (templateHash L template)\<rparr>"

definition workspacePort :: containerPort where
  "workspacePort = \<lparr>cp_name = ''workspace-port'', cp_containerPort = DefaultContainerPort, cp_protocol = ''TCP''\<rparr>"

definition withDefaultPort :: "podSpec \<Rightarrow> podSpec" where
  "withDefaultPort ps = (case ps_containers ps of
     [] \<Rightarrow> ps
   | c # cs \<Rightarrow> if ct_ports c = [] \<or> cp_containerPort (hd (ct_ports c)) = 0
              then ps\<lparr>ps_containers := c\<lparr>ct_ports := [workspacePort]\<rparr> # cs\<rparr> else ps)"

text \<open>The pod template both generators build; \<open>key\<close> is the label their selector uses.\<close>

definition workspaceTemplate :: "string \<Rightarrow> workspace \<Rightarrow> podTemplate" where
  "workspaceTemplate key inst = \<lparr>
     pt_labels = mcopy [(key, nameOf inst), (LabelWorkspaceName, nameOf inst)] (m_labels (w_meta inst)),
     pt_annotations = mcopy [] (filter (\<lambda>(k, v). k \<noteq> AnnotationStopped) (annotationsOf inst)),
     pt_spec = withDefaultPort (wss_template (w_spec inst))\<rparr>"

definition generateWorkload :: "string \<Rightarrow> lib \<Rightarrow> workspace \<Rightarrow> workload" where
  "generateWorkload key L inst = (let template = workspaceTemplate key inst in \<lparr>
     wl_meta = setPodTemplateHash L template (objectMeta (namespaceOf inst) (nameOf inst)),
     wl_replicas = (if stopped inst then 0 else 1),
     wl_selector = [(key, nameOf inst)],
     wl_template = template,
     wl_readyReplicas = 0\<rparr>)"

definition generateStatefulSet :: "lib \<Rightarrow> workspace \<Rightarrow> workload" where
  "generateStatefulSet L inst = generateWorkload ''statefulset'' L inst"

definition generateDeployment :: "lib \<Rightarrow> workspace \<Rightarrow> workload" where
  "generateDeployment L inst = generateWorkload ''deployment'' L inst"

definition podTemplateNeedsUpdate :: "lib \<Rightarrow> ometa \<Rightarrow> ometa \<Rightarrow> podTemplate \<Rightarrow> podTemplate \<Rightarrow> bool" where
  "podTemplateNeedsUpdate L desired current desiredTemplate currentTemplate \<longleftrightarrow>
     mget (m_annotations desired) AnnotationPodTemplateHash \<noteq> mget (m_annotations current) AnnotationPodTemplateHash
     \<or> \<not> l_templateDerivative L desiredTemplate currentTemplate"

definition statefulSetNeedsUpdate :: "lib \<Rightarrow> workload \<Rightarrow> workload \<Rightarrow> bool" where
  "statefulSetNeedsUpdate L desired current \<longleftrightarrow>
     (if wl_replicas desired \<noteq> wl_replicas current then True
      else podTemplateNeedsUpdate L (wl_meta desired) (wl_meta current) (wl_template desired) (wl_template current))"

definition deploymentNeedsUpdate :: "lib \<Rightarrow> workload \<Rightarrow> workload \<Rightarrow> bool" where
  "deploymentNeedsUpdate L desired current \<longleftrightarrow>
     (if wl_replicas desired \<noteq> wl_replicas current then True
      else podTemplateNeedsUpdate L (wl_meta desired) (wl_meta current) (wl_template desired) (wl_template current))"

text \<open>What the reconciler changes of a live workload before it updates it.\<close>

definition applyWorkload :: "lib \<Rightarrow> workload \<Rightarrow> workload \<Rightarrow> workload" where
  "applyWorkload L desired found = found\<lparr>wl_replicas := wl_replicas desired, wl_template := wl_template desired,
     wl_meta := setPodTemplateHash L (wl_template desired) (wl_meta found)\<rparr>"

section \<open>Services\<close>

definition servicePort :: "string \<Rightarrow> int \<Rightarrow> int \<Rightarrow> servicePort" where
  "servicePort name port target = \<lparr>sp_name = name, sp_port = port, sp_targetPort = target, sp_protocol = ''TCP''\<rparr>"

definition extraPort :: "containerPort \<Rightarrow> servicePort" where
  "extraPort cp = servicePort (if cp_name cp = [] then ''port-'' @ showInt (cp_containerPort cp) else cp_name cp)
     (cp_containerPort cp) (cp_containerPort cp)"

text \<open>The ports declared by the first container, when the first of them is usable.\<close>

definition declaredPorts :: "workspace \<Rightarrow> containerPort list" where
  "declaredPorts inst = (case containersOf inst of
     [] \<Rightarrow> []
   | c # cs \<Rightarrow> (case ct_ports c of [] \<Rightarrow> [] | p # ps \<Rightarrow> if cp_containerPort p > 0 then p # ps else []))"

definition containerServicePorts :: "workspace \<Rightarrow> servicePort list" where
  "containerServicePorts inst = (case declaredPorts inst of
     [] \<Rightarrow> []
   | p # ps \<Rightarrow> servicePort ''http'' DefaultServingPort (cp_containerPort p) # map extraPort ps)"

definition servicePorts :: "workspace \<Rightarrow> int \<Rightarrow> servicePort list" where
  "servicePorts inst agentPort =
     (let ports = containerServicePorts inst;
          present = map cp_containerPort (declaredPorts inst);
          ports2 = (if agentPort > 0 \<and> agentPort \<notin> set present
                    then ports @ [servicePort ''agent'' agentPort agentPort] else ports)
      in if ports2 = [] then [servicePort ''http'' DefaultServingPort DefaultContainerPort] else ports2)"

definition generateService :: "workspace \<Rightarrow> string \<Rightarrow> int \<Rightarrow> service" where
  "generateService inst wsType agentPort = \<lparr>
     svc_meta = objectMeta (namespaceOf inst) (nameOf inst),
     svc_type = ''ClusterIP'',
     svc_selector = (if wsType = WorkspaceTypeVM \<or> wsType = WorkspaceTypeScratch
                     then [(LabelWorkspaceName, nameOf inst)] else [(''statefulset'', nameOf inst)]),
     svc_ports = servicePorts inst agentPort\<rparr>"

definition serviceNeedsUpdate :: "service \<Rightarrow> service \<Rightarrow> bool" where
  "serviceNeedsUpdate desired current \<longleftrightarrow>
     (if svc_ports desired \<noteq> svc_ports current then True
      else \<not> mequal (svc_selector desired) (svc_selector current))"

definition applyService :: "service \<Rightarrow> service \<Rightarrow> service" where
  "applyService desired found = found\<lparr>svc_ports := svc_ports desired, svc_selector := svc_selector desired\<rparr>"

section \<open>Keeping a live object in step\<close>

text \<open>
  The step that \<^verbatim>\<open>reconcileStatefulSet\<close>, \<^verbatim>\<open>reconcileDeployment\<close> and \<^verbatim>\<open>reconcileService\<close> share: read the object,
  create it when it is absent, otherwise update it when it differs. It returns the variable \<^verbatim>\<open>found\<close>,
  which is still the empty object after a creation.
\<close>

definition ensureObject ::
  "('a \<Rightarrow> kobj) \<Rightarrow> (kobj \<Rightarrow> 'a option) \<Rightarrow> ('a \<Rightarrow> 'a \<Rightarrow> bool) \<Rightarrow> ('a \<Rightarrow> 'a \<Rightarrow> 'a) \<Rightarrow> 'a \<Rightarrow> 'a \<Rightarrow> 'a result prog" where
  "ensureObject wrap proj needsUpdate change blank desired =
     (let m = metaOf (wrap desired) in
      bind (getP Cached (kindOf (wrap desired)) proj (m_namespace m) (m_name m)) (\<lambda>g. case g of
        Inl e \<Rightarrow> if isNotFound e then tryP (createP proj (wrap desired)) (\<lambda>_. Ret (Inr blank)) else Ret (Inl e)
      | Inr found \<Rightarrow> if needsUpdate desired found then updateP proj (wrap (change desired found)) else Ret (Inr found)))"

text \<open>A write is accepted when the server does not answer with an error.\<close>

definition accepted :: "resp \<Rightarrow> bool" where
  "accepted x \<longleftrightarrow> (\<forall>e. x \<noteq> RErr e)"

lemma asObj_accepted: "asObj proj x = Inr u \<Longrightarrow> accepted x"
  by (auto simp: accepted_def)

abbreviation readReq :: "kobj \<Rightarrow> req" where
  "readReq ob \<equiv> ReqGet Cached (kindOf ob) (keyOf ob)"

locale managed =
  fixes wrap :: "'a \<Rightarrow> kobj" and proj :: "kobj \<Rightarrow> 'a option"
    and needsUpdate :: "'a \<Rightarrow> 'a \<Rightarrow> bool" and change :: "'a \<Rightarrow> 'a \<Rightarrow> 'a"
    and wellFormed :: "'a \<Rightarrow> bool"
  assumes proj_iff: "proj ob = Some x \<longleftrightarrow> ob = wrap x"
    and identity: "keyOf (wrap (change d c)) = keyOf (wrap c) \<and> kindOf (wrap (change d c)) = kindOf (wrap c)
      \<and> m_uid (metaOf (wrap (change d c))) = m_uid (metaOf (wrap c))
      \<and> m_resourceVersion (metaOf (wrap (change d c))) = m_resourceVersion (metaOf (wrap c))
      \<and> m_ownerRefs (metaOf (wrap (change d c))) = m_ownerRefs (metaOf (wrap c))"
    and settled: "wellFormed d \<Longrightarrow> \<not> needsUpdate d (change d c)"
    and fresh: "wellFormed d \<Longrightarrow> \<not> needsUpdate d d"
begin

lemma ensure_cases:
  assumes "runs (ensureObject wrap proj needsUpdate change z d) tr r"
  obtains (failed) x e where "tr = [(readReq (wrap d), x)]" and "r = Inl e" and "asObj proj x = Inl e"
  | (created) e x where "tr = [(readReq (wrap d), RErr e), (ReqCreate (wrap d), x)]" and "isNotFound e"
      and "\<And>u. r = Inr u \<Longrightarrow> accepted x"
  | (updated) c x where "tr = [(readReq (wrap d), RObj (wrap c)), (ReqUpdate (wrap (change d c)), x)]" and "needsUpdate d c"
      and "\<And>u. r = Inr u \<Longrightarrow> accepted x"
  | (kept) c where "tr = [(readReq (wrap d), RObj (wrap c))]" and "\<not> needsUpdate d c" and "r = Inr c"
proof -
  from assms obtain g t where tr: "tr = (readReq (wrap d), g) # t"
    and k: "runs (case asObj proj g of
        Inl e \<Rightarrow> if isNotFound e then tryP (createP proj (wrap d)) (\<lambda>_. Ret (Inr z)) else Ret (Inl e)
      | Inr found \<Rightarrow> if needsUpdate d found then updateP proj (wrap (change d found)) else Ret (Inr found)) t r"
    unfolding ensureObject_def Let_def by (auto simp: runs_bind runs_client keyOf_def)
  show thesis
  proof (cases "asObj proj g")
    case (Inr c)
    then have "g = RObj (wrap c)" by (auto simp: asObj_Inr proj_iff)
    note tr' = tr[unfolded this]
    show ?thesis
    proof (cases "needsUpdate d c")
      case True
      with k Inr obtain x where x: "t = [(ReqUpdate (wrap (change d c)), x)]" "r = asObj proj x" by (auto simp: runs_client)
      show ?thesis by (rule updated[of c x]) (use tr' x True asObj_accepted[of proj x] in simp_all)
    next
      case False
      with k Inr tr' kept[of c] show ?thesis by (simp add: runs_Ret_iff)
    qed
  next
    case (Inl e)
    show ?thesis
    proof (cases "isNotFound e")
      case True
      with Inl have g: "g = RErr e" by (simp add: asObj_notFound)
      from k Inl True obtain x where x: "t = [(ReqCreate (wrap d), x)]" "\<And>u. r = Inr u \<Longrightarrow> \<exists>v. asObj proj x = Inr v"
        by (auto simp: runs_tryP runs_client runs_Ret_iff)
      show ?thesis by (rule created[of e x]) (use tr g x True asObj_accepted[of proj x] in auto)
    next
      case False
      with k Inl tr failed show ?thesis by (auto simp: runs_Ret_iff)
    qed
  qed
qed

text \<open>Every write is the creation of an absent object or the change of the object just read.\<close>

lemma writes:
  assumes "runs (ensureObject wrap proj needsUpdate change z d) tr r" and "(q, x) \<in> set tr" and "isWrite q"
  shows "(q = ReqCreate (wrap d) \<and> (\<exists>e. (readReq (wrap d), RErr e) \<in> set tr \<and> isNotFound e))
    \<or> (\<exists>c. q = ReqUpdate (wrap (change d c)) \<and> (readReq (wrap d), RObj (wrap c)) \<in> set tr \<and> needsUpdate d c)"
  using assms by (elim ensure_cases) auto

text \<open>An object that was brought into shape and is read back unchanged is not written again.\<close>

lemma converged:
  assumes "runs (ensureObject wrap proj needsUpdate change z d) tr r" and "wellFormed d"
    and "(readReq (wrap d), RObj (wrap (change d c))) \<in> set tr"
  shows "tr = [(readReq (wrap d), RObj (wrap (change d c)))] \<and> r = Inr (change d c)"
proof -
  have inj: "wrap x = wrap y \<longleftrightarrow> x = y" for x y using proj_iff by (metis option.inject)
  note quiet = settled[OF assms(2), of c]
  show ?thesis using assms(1)
  proof (cases rule: ensure_cases)
    case (failed x e)
    with assms(3) have "asObj proj (RObj (wrap (change d c))) = Inl e" by auto
    moreover have "proj (wrap (change d c)) = Some (change d c)" by (simp add: proj_iff)
    ultimately show ?thesis by simp
  next
    case (updated c' x)
    with assms(3) quiet show ?thesis by (auto simp: inj)
  next
    case (kept c')
    with assms(3) show ?thesis by (auto simp: inj)
  qed (use assms(3) in auto)
qed

text \<open>A step that reports success leaves an object that needs no update.\<close>

lemma reached:
  assumes "runs (ensureObject wrap proj needsUpdate change z d) tr (Inr r)" and "wellFormed d"
  shows "\<exists>w. \<not> needsUpdate d w \<and> ((\<exists>x. accepted x \<and> ((ReqCreate (wrap w), x) \<in> set tr \<and> w = d
      \<or> (ReqUpdate (wrap w), x) \<in> set tr \<and> (\<exists>c. w = change d c))) \<or> (readReq (wrap d), RObj (wrap w)) \<in> set tr)"
  using assms(1)
proof (cases rule: ensure_cases)
  case (created e x)
  then show ?thesis using fresh[OF assms(2)] by (intro exI[of _ d]) auto
next
  case (updated c x)
  then show ?thesis using settled[OF assms(2)] by (intro exI[of _ "change d c"]) auto
next
  case (kept c)
  then show ?thesis by (intro exI[of _ c]) auto
qed simp

end

text \<open>The laws for the workloads and for Services.\<close>

definition fingerprinted :: "lib \<Rightarrow> workload \<Rightarrow> bool" where
  "fingerprinted L d \<longleftrightarrow> mget (m_annotations (wl_meta d)) AnnotationPodTemplateHash = templateHash L (wl_template d)
     \<and> l_templateDerivative L (wl_template d) (wl_template d)"

lemma applyWorkload_settled:
  "fingerprinted L d \<Longrightarrow> wl_replicas d = wl_replicas (applyWorkload L d c)
     \<and> \<not> podTemplateNeedsUpdate L (wl_meta d) (wl_meta (applyWorkload L d c)) (wl_template d) (wl_template (applyWorkload L d c))"
  by (simp add: fingerprinted_def applyWorkload_def podTemplateNeedsUpdate_def setPodTemplateHash_def)

interpretation sts: managed OStatefulSet toStatefulSet "statefulSetNeedsUpdate L" "applyWorkload L" "fingerprinted L" for L
proof
  fix d c show "fingerprinted L d \<Longrightarrow> \<not> statefulSetNeedsUpdate L d (applyWorkload L d c)"
    using applyWorkload_settled[of L d c] by (simp add: statefulSetNeedsUpdate_def)
qed (auto simp: keyOf_def applyWorkload_def setPodTemplateHash_def statefulSetNeedsUpdate_def fingerprinted_def podTemplateNeedsUpdate_def)

interpretation dep: managed ODeployment toDeployment "deploymentNeedsUpdate L" "applyWorkload L" "fingerprinted L" for L
proof
  fix d c show "fingerprinted L d \<Longrightarrow> \<not> deploymentNeedsUpdate L d (applyWorkload L d c)"
    using applyWorkload_settled[of L d c] by (simp add: deploymentNeedsUpdate_def)
qed (auto simp: keyOf_def applyWorkload_def setPodTemplateHash_def deploymentNeedsUpdate_def fingerprinted_def podTemplateNeedsUpdate_def)

interpretation svc: managed OService toService serviceNeedsUpdate applyService "\<lambda>_. True"
  by unfold_locales (auto simp: keyOf_def applyService_def serviceNeedsUpdate_def)

section \<open>Stopping and starting\<close>

definition withStopped :: "string \<Rightarrow> workspace \<Rightarrow> workspace" where
  "withStopped v ws = ws\<lparr>w_meta := (w_meta ws)\<lparr>m_annotations := mset (annotationsOf ws) AnnotationStopped v\<rparr>\<rparr>"

definition withoutStopped :: "workspace \<Rightarrow> workspace" where
  "withoutStopped ws = ws\<lparr>w_meta := (w_meta ws)\<lparr>m_annotations := mdel (annotationsOf ws) AnnotationStopped\<rparr>\<rparr>"

lemma filter_mset_key: "filter (\<lambda>(k, v). k \<noteq> a) (mset m a x) = filter (\<lambda>(k, v). k \<noteq> a) m"
  unfolding mset_def by (induction m) auto

lemma filter_mdel_key: "filter (\<lambda>(k, v). k \<noteq> a) (mdel m a) = filter (\<lambda>(k, v). k \<noteq> a) m"
  unfolding mdel_def by (induction m) auto

lemma workspaceTemplate_stop:
  "workspaceTemplate key (withStopped v ws) = workspaceTemplate key ws"
  "workspaceTemplate key (withoutStopped ws) = workspaceTemplate key ws"
  by (simp_all add: workspaceTemplate_def withStopped_def withoutStopped_def filter_mset_key filter_mdel_key)

lemma generateWorkload_stop:
  "generateWorkload key L (withStopped v ws) = (generateWorkload key L ws)\<lparr>wl_replicas := 0\<rparr>"
  "generateWorkload key L (withoutStopped ws) = (generateWorkload key L ws)\<lparr>wl_replicas := 1\<rparr>"
  by (simp_all add: generateWorkload_def workspaceTemplate_stop Let_def stopped_def)
    (simp_all add: withStopped_def withoutStopped_def)

text \<open>
  C19. Stopping a workspace only scales it. Setting the stop annotation, with whatever value, changes
  the StatefulSet of a container workspace and the Deployment of a scratch workspace in nothing but
  the replica count, which becomes 0; removing it gives the same object with one replica. In
  particular the pod template and its fingerprint stay the same.
\<close>

theorem stop_only_scales:
  "generateStatefulSet L (withStopped v ws) = (generateStatefulSet L ws)\<lparr>wl_replicas := 0\<rparr>
   \<and> generateStatefulSet L (withoutStopped ws) = (generateStatefulSet L ws)\<lparr>wl_replicas := 1\<rparr>
   \<and> generateDeployment L (withStopped v ws) = (generateDeployment L ws)\<lparr>wl_replicas := 0\<rparr>
   \<and> generateDeployment L (withoutStopped ws) = (generateDeployment L ws)\<lparr>wl_replicas := 1\<rparr>"
  by (simp add: generateStatefulSet_def generateDeployment_def generateWorkload_stop)

section \<open>Selectors\<close>

definition selects :: "strmap \<Rightarrow> strmap \<Rightarrow> bool" where
  "selects selector labels \<longleftrightarrow> list_all (\<lambda>(k, v). map_of labels k = Some v) selector"

definition leavesLabel :: "workspace \<Rightarrow> string \<Rightarrow> bool" where
  "leavesLabel ws k \<longleftrightarrow> (case map_of (m_labels (w_meta ws)) k of None \<Rightarrow> True | Some v \<Rightarrow> v = nameOf ws)"

lemma workspaceTemplate_labels:
  "map_of (pt_labels (workspaceTemplate key ws)) k = (case map_of (m_labels (w_meta ws)) k of
     Some v \<Rightarrow> Some v | None \<Rightarrow> if k = key \<or> k = LabelWorkspaceName then Some (nameOf ws) else None)"
  by (auto simp: workspaceTemplate_def map_add_def split: option.split)

text \<open>
  When selectors find their pods. The selector of the generated StatefulSet or Deployment, and the
  selector of the Service in front of it, match the labels of the pod template exactly when the
  Workspace does not itself carry the label in question with another value: its own labels are
  copied over the generated ones. A Workspace with such a label gets a workload that the API
  server rejects, or a Service without endpoints.
\<close>

theorem selectors_match_iff:
  "(selects (wl_selector (generateStatefulSet L ws)) (pt_labels (wl_template (generateStatefulSet L ws)))
      \<longleftrightarrow> leavesLabel ws ''statefulset'')
   \<and> (selects (wl_selector (generateDeployment L ws)) (pt_labels (wl_template (generateDeployment L ws)))
      \<longleftrightarrow> leavesLabel ws ''deployment'')
   \<and> (selects (svc_selector (generateService ws WorkspaceTypeContainer agentPort)) (pt_labels (wl_template (generateStatefulSet L ws)))
      \<longleftrightarrow> leavesLabel ws ''statefulset'')
   \<and> (selects (svc_selector (generateService ws WorkspaceTypeScratch agentPort)) (pt_labels (wl_template (generateDeployment L ws)))
      \<longleftrightarrow> leavesLabel ws LabelWorkspaceName)"
  by (auto simp: generateStatefulSet_def generateDeployment_def generateWorkload_def generateService_def
      Let_def selects_def leavesLabel_def workspaceTemplate_labels split: option.split)

section \<open>Service ports\<close>

lemma containerServicePorts_simps:
  "sp_port (servicePort n p t) = p" "sp_targetPort (servicePort n p t) = t"
  "sp_port (extraPort cp) = cp_containerPort cp" "sp_targetPort (extraPort cp) = cp_containerPort cp"
  by (simp_all add: servicePort_def extraPort_def)

text \<open>
  The Service reaches exactly what the workspace serves. It always has a port; its target ports
  are the ports the first container declares, together with the agent port when one is given,
  and the default port 8080 when there is neither. The first declared port is served on port 80.
\<close>

theorem service_targets:
  "sp_targetPort ` set (svc_ports (generateService ws t agentPort)) =
     (if declaredPorts ws = [] \<and> agentPort \<le> 0 then {DefaultContainerPort}
      else set (map cp_containerPort (declaredPorts ws)) \<union> (if agentPort > 0 then {agentPort} else {}))
   \<and> svc_ports (generateService ws t agentPort) \<noteq> []
   \<and> (case declaredPorts ws of [] \<Rightarrow> True
      | p # ps \<Rightarrow> hd (svc_ports (generateService ws t agentPort)) = servicePort ''http'' 80 (cp_containerPort p))"
  by (cases "declaredPorts ws")
    (auto simp: generateService_def servicePorts_def containerServicePorts_def containerServicePorts_simps Let_def image_iff)

definition servesHTTP :: "servicePort list \<Rightarrow> bool" where
  "servesHTTP ports \<longleftrightarrow> length (filter (\<lambda>sp. sp_port sp = DefaultServingPort) ports) = 1"

text \<open>
  When the Service has one port 80. This is the case exactly when ports are declared and neither a
  further declared port nor an undeclared agent port is itself 80, or when no port is declared and
  no agent port (other than 80) is given. So an image with an agent port and a template without
  ports loses port 80, and a second declared port 80 produces two.
\<close>

theorem service_port_80:
  "servesHTTP (svc_ports (generateService ws t agentPort)) \<longleftrightarrow>
     (case declaredPorts ws of
        [] \<Rightarrow> agentPort \<le> 0 \<or> agentPort = 80
      | p # ps \<Rightarrow> 80 \<notin> set (map cp_containerPort ps) \<and> \<not> (agentPort = 80 \<and> cp_containerPort p \<noteq> 80))"
proof (cases "declaredPorts ws")
  case Nil
  then show ?thesis
    by (auto simp: generateService_def servicePorts_def containerServicePorts_def containerServicePorts_simps servesHTTP_def Let_def)
next
  case (Cons p ps)
  then show ?thesis
    by (auto simp: generateService_def servicePorts_def containerServicePorts_def containerServicePorts_simps
        servesHTTP_def Let_def filter_map comp_def filter_empty_conv)
qed

section \<open>An example workspace\<close>

definition exContainer :: container where
  "exContainer = \<lparr>ct_name = ''main'', ct_image = ''registry/base'', ct_command = [''run''], ct_args = [''--fast''],
     ct_ports = [], ct_limits = [], ct_requests = [], ct_volumeMounts = [], ct_terminationMessagePath = [],
     ct_terminationMessagePolicy = [], ct_imagePullPolicy = [], ct_runAsUser = None,
     ct_readOnlyRootFilesystem = None, ct_other = JNull\<rparr>"

definition exPodSpec :: podSpec where
  "exPodSpec = \<lparr>ps_containers = [exContainer], ps_initContainers = [], ps_volumes = [], ps_nodeSelector = [],
     ps_tolerations = [], ps_other = JNull\<rparr>"

definition exState :: containerState where
  "exState = \<lparr>cs_waiting = None, cs_running = None, cs_terminated = None\<rparr>"

definition exWorkspace :: "string \<Rightarrow> workspace" where
  "exWorkspace t = \<lparr>w_meta = (objectMeta ''team'' ''ws'')\<lparr>m_uid := ''u-1''\<rparr>,
     w_spec = \<lparr>wss_containerInit = None, wss_executionRevocationEpoch = 0, wss_vmProfile = None, wss_type = t,
       wss_template = exPodSpec\<rparr>,
     w_status = \<lparr>wst_managementExecution = None, wst_conditions = None, wst_readyReplicas = 0, wst_containerState = exState\<rparr>\<rparr>"

end
