(* ===== verification/Container_Init.thy ===== *)
theory Container_Init
  imports Workload_Objects
begin

text \<open>
  Container initialization (src/internal/controller/container_init.go): the checks on the requested
  configuration, the Secret that carries the user data, the rewriting of the generated pod template,
  and the condition derived from a failed run. The regular expressions of the source are written out
  as recursive matchers.
\<close>

section \<open>Constants\<close>

abbreviation containerInitDisabled :: string where "containerInitDisabled \<equiv> ''disabled''"
abbreviation containerInitInjected :: string where "containerInitInjected \<equiv> ''injected''"
abbreviation containerInitBakedIn :: string where "containerInitBakedIn \<equiv> ''baked-in''"
abbreviation containerInitBinVolume :: string where "containerInitBinVolume \<equiv> ''kw-container-init-bin''"
abbreviation containerInitDataVolume :: string where "containerInitDataVolume \<equiv> ''kw-container-init-data''"
abbreviation containerInitInstaller :: string where "containerInitInstaller \<equiv> ''container-init-install''"
abbreviation containerInitBinPath :: string where "containerInitBinPath \<equiv> ''/opt/container-init''"
abbreviation containerInitDataPath :: string where "containerInitDataPath \<equiv> ''/run/container-init''"
abbreviation containerInitDataKey :: string where "containerInitDataKey \<equiv> ''user-data''"
abbreviation containerInitMaxData :: int where "containerInitMaxData \<equiv> 262144"
abbreviation containerInitHash :: string where "containerInitHash \<equiv> ''kubeworkspaces.io/container-init-data-hash''"

section \<open>Validation\<close>

text \<open>\<^verbatim>\<open>^[a-z_][a-z0-9_-]{0,31}$\<close>\<close>

definition nameStart :: "char \<Rightarrow> bool" where
  "nameStart c \<longleftrightarrow> (CHR ''a'' \<le> c \<and> c \<le> CHR ''z'') \<or> c = CHR ''_''"

definition nameChar :: "char \<Rightarrow> bool" where
  "nameChar c \<longleftrightarrow> nameStart c \<or> (CHR ''0'' \<le> c \<and> c \<le> CHR ''9'') \<or> c = CHR ''-''"

definition containerInitAccountName :: "string \<Rightarrow> bool" where
  "containerInitAccountName s \<longleftrightarrow> (case s of [] \<Rightarrow> False
     | c # cs \<Rightarrow> nameStart c \<and> list_all nameChar cs \<and> length cs \<le> 31)"

definition validateContainerInitIdentity :: "containerInitSpec \<Rightarrow> unit result" where
  "validateContainerInitIdentity cfg =
     (if (ci_defaultUser cfg \<noteq> [] \<or> ci_runAsUser cfg \<noteq> []) \<and> ci_mode cfg \<noteq> containerInitInjected
      then Inl (Errorf ''container initialization identity options require injected mode'')
      else if list_ex (\<lambda>name. name \<noteq> [] \<and> \<not> containerInitAccountName name) [ci_defaultUser cfg, ci_runAsUser cfg]
      then Inl (Errorf ''container initialization identity must be a valid account name'')
      else if ci_runAsUser cfg = ''root''
      then Inl (Errorf ''container initialization runAsUser must be non-root'')
      else Inr ())"

text \<open>\<^verbatim>\<open>image[strings.LastIndex(image, "/")+1:]\<close> is the part after the last slash.\<close>

definition containerInitPullPolicy :: "string \<Rightarrow> string" where
  "containerInitPullPolicy img =
     (let name = last (splitOn CHR ''/'' img) in
      if \<not> contains img ''@'' \<and> (hasSuffix name '':latest'' \<or> \<not> contains name '':'') then ''Always'' else ''IfNotPresent'')"

section \<open>The user data Secret\<close>

definition removeContainerInitSecret :: "lib \<Rightarrow> workspace \<Rightarrow> unit result prog" where
  "removeContainerInitSecret L ws =
     bind (getP Cached KSecret toSecret (namespaceOf ws) (containerInitSecretName L (nameOf ws))) (\<lambda>g. case g of
       Inl e \<Rightarrow> Ret (if isNotFound e then Inr () else Inl e)
     | Inr secret \<Rightarrow> if \<not> l_isControlledBy L (sec_meta secret) (w_meta ws) then Ret (Inr ())
                      else mapP ignoreNotFound (deleteP (OSecret secret) []))"

definition newInitSecret :: "lib \<Rightarrow> workspace \<Rightarrow> string \<Rightarrow> secret" where
  "newInitSecret L ws data = \<lparr>sec_meta = objectMeta (namespaceOf ws) (containerInitSecretName L (nameOf ws)),
     sec_type = ''Opaque'', sec_immutable = None, sec_data = [(containerInitDataKey, data)], sec_stringData = []\<rparr>"

text \<open>\<^verbatim>\<open>containerInitData\<close> for inline user data: the owned Secret is created or brought up to date.\<close>

definition inlineInitData :: "lib \<Rightarrow> workspace \<Rightarrow> string \<Rightarrow> (string \<times> string) result prog" where
  "inlineInitData L ws data =
     (let name = containerInitSecretName L (nameOf ws) in
      bind (getP Cached KSecret toSecret (namespaceOf ws) name) (\<lambda>g. case g of
        Inl e \<Rightarrow>
          if \<not> isNotFound e then Ret (Inl e)
          else (let secret = newInitSecret L ws data in
            case l_setControllerReference L (w_meta ws) (sec_meta secret) of
              Inl e' \<Rightarrow> Ret (Inl e')
            | Inr m \<Rightarrow> tryP (createP toSecret (OSecret (secret\<lparr>sec_meta := m\<rparr>))) (\<lambda>_. Ret (Inr (name, data))))
      | Inr secret \<Rightarrow>
          if \<not> l_isControlledBy L (sec_meta secret) (w_meta ws)
          then Ret (Inl (Errorf ''container initialization Secret name is already in use by another owner''))
          else if \<not> mequal (sec_data secret) [(containerInitDataKey, data)]
          then tryP (updateP toSecret (OSecret (secret\<lparr>sec_data := [(containerInitDataKey, data)]\<rparr>))) (\<lambda>_. Ret (Inr (name, data)))
          else Ret (Inr (name, data))))"

text \<open>For a reference to an independently managed Secret.\<close>

definition referencedInitData :: "lib \<Rightarrow> workspace \<Rightarrow> containerInitSpec \<Rightarrow> string \<Rightarrow> (string \<times> string) result prog" where
  "referencedInitData L ws cfg ref =
     (if ci_userData cfg \<noteq> [] \<or> ref = [] \<or> ref = containerInitSecretName L (nameOf ws)
      then Ret (Inl (Errorf ''choose inline userData or an independently managed named userDataSecretRef''))
      else wrapP ''cannot read container initialization Secret: '' (getP Cached KSecret toSecret (namespaceOf ws) ref) (\<lambda>secret.
        let data = mget (sec_data secret) containerInitDataKey in
        if data = [] \<or> int (length data) > containerInitMaxData
        then Ret (Inl (Errorf ''container initialization Secret needs a nonempty user-data key of at most 256 KiB''))
        else tryP (removeContainerInitSecret L ws) (\<lambda>_. Ret (Inr (m_name (sec_meta secret), data)))))"

definition containerInitData :: "lib \<Rightarrow> workspace \<Rightarrow> containerInitSpec \<Rightarrow> (string \<times> string) result prog" where
  "containerInitData L ws cfg = (case ci_userDataSecretRef cfg of
     Some ref \<Rightarrow> referencedInitData L ws cfg ref
   | None \<Rightarrow>
       if ci_userData cfg = [] \<or> int (length (ci_userData cfg)) > containerInitMaxData
       then Ret (Inl (Errorf ''container initialization userData must contain 1 to 262144 bytes''))
       else inlineInitData L ws (ci_userData cfg))"

section \<open>The pod template\<close>

definition reservedPath :: "string \<Rightarrow> bool" where
  "reservedPath p \<longleftrightarrow> p = containerInitBinPath \<or> p = containerInitDataPath
     \<or> hasPrefix p (containerInitBinPath @ ''/'') \<or> hasPrefix p (containerInitDataPath @ ''/'')"

text \<open>The checks on the template, in their order.\<close>

definition checkInitTemplate :: "string \<Rightarrow> workspace \<Rightarrow> containerInitSpec \<Rightarrow> podSpec \<Rightarrow> unit result" where
  "checkInitTemplate initImage ws cfg ps =
     (if ci_mode cfg \<noteq> containerInitInjected \<and> ci_mode cfg \<noteq> containerInitBakedIn
      then Inl (Errorf ''unsupported container initialization mode'')
      else case validateContainerInitIdentity cfg of
        Inl e \<Rightarrow> Inl e
      | Inr _ \<Rightarrow>
        if workspaceTypeOf ws = WorkspaceTypeVM then Inl (Errorf ''container initialization cannot be used for a VM'')
        else case ps_containers ps of
          [] \<Rightarrow> Inl (Errorf ''container initialization requires a main container'')
        | main # rest \<Rightarrow>
          if ci_mode cfg = containerInitInjected \<and> trimSpace initImage = []
          then Inl (Errorf (''injected initialization requires the operator'' @ [CHR 0x27] @ ''s container-init-image setting''))
          else if ci_mode cfg = containerInitInjected \<and> (ct_command main = [] \<or> hd (ct_command main) = [])
          then Inl (Errorf ''injected initialization requires an explicit application command'')
          else if list_ex (\<lambda>v. vol_name v = containerInitBinVolume \<or> vol_name v = containerInitDataVolume) (ps_volumes ps)
          then Inl (Errorf ''workspace volume conflicts with a reserved container-init volume name'')
          else if list_ex (\<lambda>c. ct_name c = containerInitInstaller) (ps_initContainers ps)
          then Inl (Errorf ''workspace init container conflicts with the container-init installer name'')
          else if list_ex (\<lambda>m. reservedPath (vm_mountPath m)) (ct_volumeMounts main)
          then Inl (Errorf ''workspace mount conflicts with a reserved container-init path'')
          else Inr ())"

definition installerContainer :: "string \<Rightarrow> container" where
  "installerContainer initImage = \<lparr>ct_name = containerInitInstaller, ct_image = initImage,
     ct_command = [''/bin/sh'', ''-c'', ''cp /usr/local/bin/container-init /install/container-init && chmod 0755 /install/container-init''],
     ct_args = [], ct_ports = [], ct_limits = [], ct_requests = [],
     ct_volumeMounts = [\<lparr>vm_name = containerInitBinVolume, vm_mountPath = ''/install'', vm_readOnly = False\<rparr>],
     ct_terminationMessagePath = [], ct_terminationMessagePolicy = [],
     ct_imagePullPolicy = containerInitPullPolicy initImage,
     ct_runAsUser = Some 0, ct_readOnlyRootFilesystem = Some True, ct_other = JNull\<rparr>"

text \<open>The data volume, its mount and the digest annotation, in both modes.\<close>

definition attachInitData :: "lib \<Rightarrow> string \<Rightarrow> string \<Rightarrow> podTemplate \<Rightarrow> podTemplate" where
  "attachInitData L name data pod = (case ps_containers (pt_spec pod) of
     [] \<Rightarrow> pod
   | main # rest \<Rightarrow> pod\<lparr>pt_spec := (pt_spec pod)\<lparr>
       ps_volumes := ps_volumes (pt_spec pod) @
         [\<lparr>vol_name = containerInitDataVolume, vol_source = VolSecret name 292 [(containerInitDataKey, containerInitDataKey)]\<rparr>],
       ps_containers := main\<lparr>ct_volumeMounts := ct_volumeMounts main @
         [\<lparr>vm_name = containerInitDataVolume, vm_mountPath = containerInitDataPath, vm_readOnly = True\<rparr>]\<rparr> # rest\<rparr>,
     pt_annotations := mset (pt_annotations pod) containerInitHash (hexBytes (l_sha256 L data))\<rparr>)"

definition initArgs :: "containerInitSpec \<Rightarrow> string \<Rightarrow> string list \<Rightarrow> string list" where
  "initArgs cfg terminationPath argv =
     [''--user-data'', containerInitDataPath @ ''/'' @ containerInitDataKey, ''--termination-message'', terminationPath]
     @ (if ci_defaultUser cfg \<noteq> [] then [''--default-user'', ci_defaultUser cfg] else [])
     @ (if ci_runAsUser cfg \<noteq> [] then [''--run-as'', ci_runAsUser cfg] else [])
     @ [''--''] @ argv"

definition wrapMain :: "containerInitSpec \<Rightarrow> container \<Rightarrow> container" where
  "wrapMain cfg main = (let path = (if ct_terminationMessagePath main = [] then ''/dev/termination-log'' else ct_terminationMessagePath main) in
     main\<lparr>ct_command := [containerInitBinPath @ ''/container-init''],
       ct_terminationMessagePath := path,
       ct_terminationMessagePolicy := (if ct_terminationMessagePolicy main = [] then ''File'' else ct_terminationMessagePolicy main),
       ct_args := initArgs cfg path (ct_command main @ ct_args main),
       ct_volumeMounts := ct_volumeMounts main @
         [\<lparr>vm_name = containerInitBinVolume, vm_mountPath = containerInitBinPath, vm_readOnly = True\<rparr>]\<rparr>)"

definition injectInit :: "string \<Rightarrow> containerInitSpec \<Rightarrow> podTemplate \<Rightarrow> podTemplate" where
  "injectInit initImage cfg pod = (case ps_containers (pt_spec pod) of
     [] \<Rightarrow> pod
   | main # rest \<Rightarrow> pod\<lparr>pt_spec := (pt_spec pod)\<lparr>
       ps_containers := wrapMain cfg main # rest,
       ps_volumes := ps_volumes (pt_spec pod) @ [\<lparr>vol_name = containerInitBinVolume, vol_source = VolEmptyDir\<rparr>],
       ps_initContainers := ps_initContainers (pt_spec pod) @ [installerContainer initImage]\<rparr>\<rparr>)"

text \<open>\<^verbatim>\<open>prepareContainerInit\<close> returns the transformed template; \<open>initImage\<close> is the reconciler's \<^verbatim>\<open>ContainerInitImage\<close>.\<close>

definition prepareContainerInit :: "lib \<Rightarrow> string \<Rightarrow> workspace \<Rightarrow> podTemplate \<Rightarrow> podTemplate result prog" where
  "prepareContainerInit L initImage ws pod = (case wss_containerInit (w_spec ws) of
     None \<Rightarrow> tryP (removeContainerInitSecret L ws) (\<lambda>_. Ret (Inr pod))
   | Some cfg \<Rightarrow>
       if ci_mode cfg = containerInitDisabled then tryP (removeContainerInitSecret L ws) (\<lambda>_. Ret (Inr pod))
       else (case checkInitTemplate initImage ws cfg (pt_spec pod) of
         Inl e \<Rightarrow> Ret (Inl e)
       | Inr _ \<Rightarrow> tryP (containerInitData L ws cfg) (\<lambda>(name, data).
           let pod1 = attachInitData L name data pod in
           Ret (Inr (if ci_mode cfg = containerInitBakedIn then pod1 else injectInit initImage cfg pod1)))))"

section \<open>Failed runs\<close>

text \<open>The step names of the runner's contract; an indexed step carries a decimal index.\<close>

definition plainSteps :: "string list" where
  "plainSteps = [''preflight'', ''handoff'', ''package_update'', ''package_upgrade'', ''packages'', ''ssh_authorized_keys'', ''ca_certs'', ''timezone'']"

definition indexedSteps :: "string list" where
  "indexedSteps = [''bootcmd'', ''write_files'', ''runcmd'', ''groups'', ''users'', ''chpasswd.users'']"

definition isDigit :: "char \<Rightarrow> bool" where
  "isDigit c \<longleftrightarrow> CHR ''0'' \<le> c \<and> c \<le> CHR ''9''"

text \<open>\<open>indexSuffix s t\<close>: \<open>s\<close> is \<^verbatim>\<open>[digits]\<close> followed by \<open>t\<close>.\<close>

definition indexSuffix :: "string \<Rightarrow> string \<Rightarrow> bool" where
  "indexSuffix s t \<longleftrightarrow> (let body = drop 1 s; digits = takeWhile isDigit body in
     hasPrefix s ''['' \<and> digits \<noteq> [] \<and> dropWhile isDigit body = '']'' @ t)"

definition containerInitFailureStep :: "string \<Rightarrow> bool" where
  "containerInitFailureStep s \<longleftrightarrow> s \<in> set plainSteps
     \<or> list_ex (\<lambda>p. hasPrefix s p \<and> indexSuffix (drop (length p) s) []) indexedSteps
     \<or> (hasPrefix s ''users'' \<and> indexSuffix (drop 5 s) ''.lock_passwd'')"

definition containerInitFailureCondition :: "lib \<Rightarrow> workspace \<Rightarrow> pod \<Rightarrow> workspaceCondition option" where
  "containerInitFailureCondition L ws p = (case wss_containerInit (w_spec ws) of
     None \<Rightarrow> None
   | Some cfg \<Rightarrow>
     if ci_mode cfg \<noteq> containerInitInjected then None
     else case pod_containerStatuses p of
       [] \<Rightarrow> None
     | s # ss \<Rightarrow>
       (case (if cs_waiting (cst_state s) \<noteq> None then cs_terminated (cst_lastTerminationState s)
              else cs_terminated (cst_state s)) of
          None \<Rightarrow> None
        | Some t \<Rightarrow>
          if tm_exitCode t = 0 \<or> int (length (tm_message t)) > 1024 then None
          else (case l_parseDiagnostic L (tm_message t) of
            Inl e \<Rightarrow> None
          | Inr (source, version, state, step) \<Rightarrow>
              if source \<noteq> ''container-init'' \<or> version \<noteq> 1 \<or> state \<noteq> ''failed'' \<or> \<not> containerInitFailureStep step then None
              else Some \<lparr>wc_type = ''ContainerInitialized'', wc_status = ''False'', wc_lastProbeTime = None,
                wc_lastTransitionTime = tm_finishedAt t, wc_reason = ''ContainerInitFailed'',
                wc_message = ''Container initialization failed during '' @ step @ ''; inspect the main container logs.''\<rparr>)))"

text \<open>The watch on Secrets: the workspaces that reference a Secret.\<close>

definition workspacesForContainerInitSecret :: "ometa \<Rightarrow> key list prog" where
  "workspacesForContainerInitSecret obj =
     bind (listP Cached KWorkspace toWorkspace (Some (m_namespace obj)) []) (\<lambda>r. Ret (case r of
       Inl e \<Rightarrow> []
     | Inr list \<Rightarrow> map (\<lambda>ws. (namespaceOf ws, nameOf ws)) (filter (\<lambda>ws. case wss_containerInit (w_spec ws) of
           None \<Rightarrow> False
         | Some cfg \<Rightarrow> ci_mode cfg \<noteq> containerInitDisabled \<and> ci_userDataSecretRef cfg = Some (m_name obj)) list)))"

section \<open>What the rewritten template keeps\<close>

definition afterSeparator :: "string list \<Rightarrow> string list" where
  "afterSeparator args = tl (dropWhile (\<lambda>a. a \<noteq> ''--'') args)"

lemma account_not_separator: "containerInitAccountName s \<Longrightarrow> s \<noteq> ''--''"
  by (auto simp: containerInitAccountName_def nameStart_def)

lemma initArgs_separator:
  assumes "validateContainerInitIdentity cfg = Inr ()" and "path \<noteq> ''--''"
  shows "afterSeparator (initArgs cfg path argv) = argv"
proof -
  have "ci_defaultUser cfg \<noteq> ''--''" and "ci_runAsUser cfg \<noteq> ''--''"
    using assms(1) account_not_separator
    by (auto simp: validateContainerInitIdentity_def split: if_splits)
  then show ?thesis using assms(2) by (simp add: afterSeparator_def initArgs_def)
qed

lemma checkInitTemplate_ok:
  assumes "checkInitTemplate initImage ws cfg ps = Inr ()"
  obtains main rest where "ps_containers ps = main # rest" and "validateContainerInitIdentity cfg = Inr ()"
    and "ci_mode cfg = containerInitInjected \<or> ci_mode cfg = containerInitBakedIn"
    and "ci_mode cfg = containerInitInjected \<Longrightarrow> ct_command main \<noteq> []"
    and "\<forall>v \<in> set (ps_volumes ps). vol_name v \<noteq> containerInitBinVolume \<and> vol_name v \<noteq> containerInitDataVolume"
    and "\<forall>c \<in> set (ps_initContainers ps). ct_name c \<noteq> containerInitInstaller"
    and "\<forall>m \<in> set (ct_volumeMounts main). \<not> reservedPath (vm_mountPath m)"
  using assms unfolding checkInitTemplate_def
  by (auto split: if_splits sum.splits list.splits simp: list_ex_iff)

lemma containerInitData_size:
  assumes "runs (containerInitData L ws cfg) tr (Inr (name, data))"
  shows "data \<noteq> [] \<and> int (length data) \<le> containerInitMaxData"
  using assms unfolding containerInitData_def referencedInitData_def inlineInitData_def Let_def
  by (auto simp: runs_Ret_iff runs_wrapP runs_tryP runs_bind_sum split: option.splits if_splits sum.splits)

text \<open>
  C27. Container initialization keeps what the user asked to run. When injected initialization
  succeeds, the main container runs the initializer, and everything after the first argument \<open>--\<close>
  is the original command line, which is not empty (the termination path, the one free-form argument
  before it, is assumed not to be \<open>--\<close> itself). Volumes, mounts, init containers and the other containers
  are kept; the additions use names and paths that were not in use, and the template carries the
  digest of between 1 and 262144 bytes of user data.
\<close>

theorem init_keeps_command:
  assumes "runs (prepareContainerInit L initImage ws pod) tr (Inr pod')"
    and "wss_containerInit (w_spec ws) = Some cfg" and "ci_mode cfg = containerInitInjected"
    and "ps_containers (pt_spec pod) = main # rest" and "ct_terminationMessagePath main \<noteq> ''--''"
  shows "\<exists>main' name data dv bv dm bm ic.
      ps_containers (pt_spec pod') = main' # rest
    \<and> ct_command main' = [containerInitBinPath @ ''/container-init'']
    \<and> afterSeparator (ct_args main') = ct_command main @ ct_args main \<and> ct_command main \<noteq> []
    \<and> ct_volumeMounts main' = ct_volumeMounts main @ [dm, bm]
    \<and> list_all (\<lambda>m. vm_mountPath m \<noteq> vm_mountPath dm \<and> vm_mountPath m \<noteq> vm_mountPath bm) (ct_volumeMounts main)
    \<and> ps_volumes (pt_spec pod') = ps_volumes (pt_spec pod) @ [dv, bv]
    \<and> list_all (\<lambda>v. vol_name v \<noteq> vol_name dv \<and> vol_name v \<noteq> vol_name bv) (ps_volumes (pt_spec pod))
    \<and> ps_initContainers (pt_spec pod') = ps_initContainers (pt_spec pod) @ [ic]
    \<and> list_all (\<lambda>c. ct_name c \<noteq> ct_name ic) (ps_initContainers (pt_spec pod))
    \<and> vol_source dv = VolSecret name 292 [(containerInitDataKey, containerInitDataKey)]
    \<and> mget (pt_annotations pod') containerInitHash = hexBytes (l_sha256 L data)
    \<and> data \<noteq> [] \<and> int (length data) \<le> containerInitMaxData"
proof -
  from assms(1-3) obtain name data t where ok: "checkInitTemplate initImage ws cfg (pt_spec pod) = Inr ()"
    and data: "runs (containerInitData L ws cfg) t (Inr (name, data))"
    and pod': "pod' = injectInit initImage cfg (attachInitData L name data pod)"
    unfolding prepareContainerInit_def by (auto simp: runs_tryP runs_Ret_iff Let_def split: sum.splits)
  from ok show ?thesis
  proof (cases rule: checkInitTemplate_ok)
    case (1 main0 rest0)
    with assms(4) have main: "main0 = main" by simp
    have sep: "afterSeparator (initArgs cfg ''/dev/termination-log'' argv) = argv"
      "afterSeparator (initArgs cfg (ct_terminationMessagePath main) argv) = argv" for argv
      using initArgs_separator[OF 1(2)] assms(5) by simp_all
    show ?thesis
      using 1(4-7) assms(3,4) containerInitData_size[OF data] unfolding pod' main
      by (auto simp: injectInit_def attachInitData_def wrapMain_def Let_def installerContainer_def reservedPath_def list_all_iff sep)
  qed
qed

definition exInitSpec :: containerInitSpec where
  "exInitSpec = \<lparr>ci_mode = containerInitInjected, ci_defaultUser = ''dev'', ci_runAsUser = [], ci_userData = ''x'',
     ci_userDataSecretRef = None\<rparr>"

definition exInitWorkspace :: workspace where
  "exInitWorkspace = (let ws = exWorkspace ''scratch'' in ws\<lparr>w_spec := (w_spec ws)\<lparr>wss_containerInit := Some exInitSpec\<rparr>\<rparr>)"

definition exInitPod :: podTemplate where
  "exInitPod = \<lparr>pt_labels = [], pt_annotations = [], pt_spec = exPodSpec\<rparr>"

definition exInitRun :: "trace \<times> podTemplate result option" where
  "exInitRun = exec (prepareContainerInit ref_lib ''installer:1'' exInitWorkspace exInitPod)
     [notFound, RObj (OSecret (newInitSecret ref_lib exInitWorkspace ''x''))]"

lemma exInitRun_ok: "case snd exInitRun of Some (Inr pod') \<Rightarrow> True | _ \<Rightarrow> False"
  by code_simp

lemma exInitRun_runs:
  obtains pod' where "runs (prepareContainerInit ref_lib ''installer:1'' exInitWorkspace exInitPod) (fst exInitRun) (Inr pod')"
proof -
  obtain pod' where "snd exInitRun = Some (Inr pod')" using exInitRun_ok by (auto split: option.splits sum.splits)
  then have "exInitRun = (fst exInitRun, Some (Inr pod'))" by (metis prod.collapse)
  then have "runs (prepareContainerInit ref_lib ''installer:1'' exInitWorkspace exInitPod) (fst exInitRun) (Inr pod')"
    unfolding exInitRun_def by (rule exec_runs)
  then show thesis by (rule that)
qed

theorem init_keeps_command_witness:
  "\<exists>tr pod' main' rest. runs (prepareContainerInit ref_lib ''installer:1'' exInitWorkspace exInitPod) tr (Inr pod')
     \<and> ps_containers (pt_spec pod') = main' # rest \<and> afterSeparator (ct_args main') = [''run'', ''--fast'']"
proof -
  obtain pod' where run: "runs (prepareContainerInit ref_lib ''installer:1'' exInitWorkspace exInitPod) (fst exInitRun) (Inr pod')"
    by (rule exInitRun_runs)
  have "wss_containerInit (w_spec exInitWorkspace) = Some exInitSpec" "ci_mode exInitSpec = containerInitInjected"
    "ps_containers (pt_spec exInitPod) = exContainer # []" "ct_terminationMessagePath exContainer \<noteq> ''--''"
    "ct_command exContainer @ ct_args exContainer = [''run'', ''--fast'']"
    by (simp_all add: exInitWorkspace_def exInitSpec_def exInitPod_def exPodSpec_def exContainer_def Let_def exWorkspace_def)
  from init_keeps_command[OF run this(1-4)] this(5) run show ?thesis by (metis (no_types, lifting))
qed

section \<open>Ownership of the user data Secret\<close>

abbreviation initSecretGet :: "lib \<Rightarrow> workspace \<Rightarrow> req" where
  "initSecretGet L ws \<equiv> ReqGet Cached KSecret (namespaceOf ws, containerInitSecretName L (nameOf ws))"

lemma removeContainerInitSecret_writes:
  assumes "runs (removeContainerInitSecret L ws) tr r" and "(q, x) \<in> set tr" and "isWrite q"
  shows "\<exists>s. (initSecretGet L ws, RObj (OSecret s)) \<in> set tr \<and> l_isControlledBy L (sec_meta s) (w_meta ws)
    \<and> q = ReqDelete (OSecret s) []"
  using assms unfolding removeContainerInitSecret_def
  by (auto simp: runs_bind_sum runs_client runs_mapP runs_Ret_iff asObj_Inr split: if_splits)

lemma inlineInitData_writes:
  assumes "runs (inlineInitData L ws data) tr r" and "(q, x) \<in> set tr" and "isWrite q"
  shows "(\<exists>s. (initSecretGet L ws, RObj (OSecret s)) \<in> set tr \<and> l_isControlledBy L (sec_meta s) (w_meta ws)
      \<and> q = ReqUpdate (OSecret (s\<lparr>sec_data := [(containerInitDataKey, data)]\<rparr>)))
    \<or> (\<exists>e m. (initSecretGet L ws, RErr e) \<in> set tr \<and> isNotFound e
      \<and> l_setControllerReference L (w_meta ws) (objectMeta (namespaceOf ws) (containerInitSecretName L (nameOf ws))) = Inr m
      \<and> q = ReqCreate (OSecret ((newInitSecret L ws data)\<lparr>sec_meta := m\<rparr>)))"
  using assms unfolding inlineInitData_def Let_def
  by (auto simp: runs_bind_sum runs_client runs_tryP runs_Ret_iff asObj_Inr asObj_notFound newInitSecret_def
      split: if_splits sum.splits)

lemma containerInitData_writes:
  assumes "runs (containerInitData L ws cfg) tr r" and "(q, x) \<in> set tr" and "isWrite q"
  shows "(\<exists>t r'. runs (removeContainerInitSecret L ws) t r' \<and> (q, x) \<in> set t \<and> set t \<subseteq> set tr)
    \<or> runs (inlineInitData L ws (ci_userData cfg)) tr r"
  using assms unfolding containerInitData_def referencedInitData_def Let_def
  by (auto simp: runs_wrapP runs_tryP runs_client runs_Ret_iff split: option.splits if_splits) blast+

text \<open>
  C21. Only the workspace's own Secret is touched. Whatever the API server answers, preparing container
  initialization deletes or rewrites a Secret only if it was read under the generated name and is
  controlled by this workspace, and then rewrites nothing but its data; it creates one only after that
  name was reported free, with this workspace as controller. A Secret the user refers to is only read.
\<close>

theorem init_secret_owned:
  assumes "runs (prepareContainerInit L initImage ws pod) tr r" and "(q, x) \<in> set tr" and "isWrite q"
  shows "(\<exists>s. (initSecretGet L ws, RObj (OSecret s)) \<in> set tr \<and> l_isControlledBy L (sec_meta s) (w_meta ws)
      \<and> (q = ReqDelete (OSecret s) [] \<or> (\<exists>data. q = ReqUpdate (OSecret (s\<lparr>sec_data := [(containerInitDataKey, data)]\<rparr>)))))
    \<or> (\<exists>e m data. (initSecretGet L ws, RErr e) \<in> set tr \<and> isNotFound e
      \<and> l_setControllerReference L (w_meta ws) (objectMeta (namespaceOf ws) (containerInitSecretName L (nameOf ws))) = Inr m
      \<and> q = ReqCreate (OSecret ((newInitSecret L ws data)\<lparr>sec_meta := m\<rparr>)))"
proof -
  from assms consider (remove) t r' where "runs (removeContainerInitSecret L ws) t r'" "(q, x) \<in> set t" "set t \<subseteq> set tr"
    | (data) cfg t r' where "runs (containerInitData L ws cfg) t r'" "(q, x) \<in> set t" "set t \<subseteq> set tr"
    unfolding prepareContainerInit_def
    by (auto simp: runs_tryP runs_Ret_iff Let_def split: option.splits if_splits sum.splits)
  then show ?thesis
  proof cases
    case remove
    from removeContainerInitSecret_writes[OF remove(1,2) assms(3)] remove(3) show ?thesis by blast
  next
    case data
    from containerInitData_writes[OF data(1,2) assms(3)] show ?thesis
    proof (elim disjE exE conjE)
      fix u y assume "runs (removeContainerInitSecret L ws) u y" "(q, x) \<in> set u" "set u \<subseteq> set t"
      from removeContainerInitSecret_writes[OF this(1,2) assms(3)] this(3) data(3) show ?thesis by blast
    next
      assume "runs (inlineInitData L ws (ci_userData cfg)) t r'"
      from inlineInitData_writes[OF this data(2) assms(3)] data(3) show ?thesis by blast
    qed
  qed
qed

theorem init_secret_owned_witness:
  "\<exists>tr r q x. runs (prepareContainerInit ref_lib ''installer:1'' exInitWorkspace exInitPod) tr r
     \<and> (q, x) \<in> set tr \<and> isWrite q
     \<and> ((\<exists>s. (initSecretGet ref_lib exInitWorkspace, RObj (OSecret s)) \<in> set tr)
        \<or> (\<exists>e. (initSecretGet ref_lib exInitWorkspace, RErr e) \<in> set tr \<and> isNotFound e))"
proof -
  obtain pod' where run: "runs (prepareContainerInit ref_lib ''installer:1'' exInitWorkspace exInitPod) (fst exInitRun) (Inr pod')"
    by (rule exInitRun_runs)
  have "list_ex (\<lambda>(q, x). isWrite q) (fst exInitRun)" by code_simp
  then obtain q x where q: "(q, x) \<in> set (fst exInitRun)" "isWrite q" by (auto simp: list_ex_iff)
  from init_secret_owned[OF run q] run q show ?thesis by blast
qed

section \<open>Failure diagnostics\<close>

lemma indexSuffix_form:
  assumes "indexSuffix s t"
  obtains d where "s = ''['' @ d @ '']'' @ t" and "list_all isDigit d"
proof
  let ?body = "drop 1 s"
  have "s = ''['' @ ?body" using assms by (cases s) (auto simp: indexSuffix_def hasPrefix_def Let_def)
  also have "?body = takeWhile isDigit ?body @ dropWhile isDigit ?body" by simp
  also have "dropWhile isDigit ?body = '']'' @ t" using assms by (simp add: indexSuffix_def Let_def)
  finally show "s = ''['' @ takeWhile isDigit ?body @ '']'' @ t" .
  show "list_all isDigit (takeWhile isDigit ?body)" by (auto simp: list_all_iff dest: set_takeWhileD)
qed

text \<open>A step name is one of a fixed list, possibly with a decimal index.\<close>

lemma failureStep_form:
  assumes "containerInitFailureStep s"
  shows "s \<in> set plainSteps \<or> (\<exists>p d t. s = p @ ''['' @ d @ '']'' @ t \<and> list_all isDigit d
    \<and> (p \<in> set indexedSteps \<and> t = [] \<or> p = ''users'' \<and> t = ''.lock_passwd''))"
proof -
  have cut: "s = p @ drop (length p) s" if "hasPrefix s p" for p
    using that by (simp add: hasPrefix_def) (metis append_take_drop_id)
  from assms consider "s \<in> set plainSteps"
    | p where "p \<in> set indexedSteps" "hasPrefix s p" "indexSuffix (drop (length p) s) []"
    | "hasPrefix s ''users''" "indexSuffix (drop 5 s) ''.lock_passwd''"
    unfolding containerInitFailureStep_def list_ex_iff by blast
  then show ?thesis
  proof cases
    case 2
    from 2(3) obtain d where "drop (length p) s = ''['' @ d @ '']'' @ []" "list_all isDigit d" by (rule indexSuffix_form)
    with cut[OF 2(2)] 2(1) show ?thesis by metis
  next
    case 3
    from 3(2) obtain d where "drop 5 s = ''['' @ d @ '']'' @ ''.lock_passwd''" "list_all isDigit d" by (rule indexSuffix_form)
    moreover have "length ''users'' = 5" by simp
    ultimately show ?thesis using cut[OF 3(1)] by metis
  qed simp
qed

text \<open>
  A failure condition leaks nothing. The condition that reports a failed initialization exists only
  for injected initialization and a nonzero exit, and its message is a fixed sentence around a step
  name from a fixed list, with at most a decimal index: no output of the application or of a tool
  gets into the status.
\<close>

theorem init_failure_no_payload:
  assumes "containerInitFailureCondition L ws p = Some c"
  shows "\<exists>step. wc_message c = ''Container initialization failed during '' @ step @ ''; inspect the main container logs.''
    \<and> (step \<in> set plainSteps \<or> (\<exists>q d t. step = q @ ''['' @ d @ '']'' @ t \<and> list_all isDigit d
        \<and> (q \<in> set indexedSteps \<and> t = [] \<or> q = ''users'' \<and> t = ''.lock_passwd'')))
    \<and> wc_type c = ''ContainerInitialized'' \<and> wc_status c = ''False'' \<and> wc_reason c = ''ContainerInitFailed''
    \<and> (\<exists>cfg. wss_containerInit (w_spec ws) = Some cfg \<and> ci_mode cfg = containerInitInjected)"
proof -
  from assms obtain step where "containerInitFailureStep step"
    and "wc_message c = ''Container initialization failed during '' @ step @ ''; inspect the main container logs.''"
    and "wc_type c = ''ContainerInitialized''" "wc_status c = ''False''" "wc_reason c = ''ContainerInitFailed''"
    and "\<exists>cfg. wss_containerInit (w_spec ws) = Some cfg \<and> ci_mode cfg = containerInitInjected"
    unfolding containerInitFailureCondition_def
    by (auto split: option.splits if_splits list.splits sum.splits prod.splits)
  with failureStep_form[of step] show ?thesis by blast
qed

definition exFailedPod :: pod where
  "exFailedPod = \<lparr>pod_meta = objectMeta ''team'' ''ws-0'', pod_conditions = [],
     pod_containerStatuses = [\<lparr>cst_state = exState\<lparr>cs_terminated := Some \<lparr>tm_exitCode = 1, tm_message = ''users[12].lock_passwd'', tm_finishedAt = None\<rparr>\<rparr>,
       cst_lastTerminationState = exState\<rparr>], pod_statusOther = JNull\<rparr>"

lemma exFailed: "containerInitFailureCondition ref_lib exInitWorkspace exFailedPod \<noteq> None"
  by code_simp

theorem init_failure_no_payload_witness:
  "\<exists>c step. containerInitFailureCondition ref_lib exInitWorkspace exFailedPod = Some c
     \<and> wc_message c = ''Container initialization failed during '' @ step @ ''; inspect the main container logs.''"
  using exFailed init_failure_no_payload[of ref_lib exInitWorkspace exFailedPod] by blast

end
