(* ===== verification/Workload_Reconcile.thy ===== *)
theory Workload_Reconcile
  imports Container_Init
begin

text \<open>
  Reconciling the workload objects of container and scratch workspaces, the Service and the status of
  every workspace (src/internal/controller/workspace_controller.go, with the status conditions of
  Windows guests from vm_windows_guest.go). The lemmas say what is written and that the writes settle.
\<close>

section \<open>Pods and images\<close>

definition podReady :: "pod option \<Rightarrow> bool" where
  "podReady p = (case p of None \<Rightarrow> False
   | Some q \<Rightarrow> (case find (\<lambda>c. pc_type c = ''Ready'') (pod_conditions q) of
       None \<Rightarrow> False | Some c \<Rightarrow> pc_status c = ''True''))"

definition getPod :: "string \<Rightarrow> string \<Rightarrow> pod option result prog" where
  "getPod namespace name = bind (getP Cached KPod toPod namespace name) (\<lambda>g. Ret (case g of
     Inl e \<Rightarrow> if isNotFound e then Inr None else Inl e
   | Inr p \<Rightarrow> Inr (Some p)))"

definition podByLabel :: "lib \<Rightarrow> string \<Rightarrow> string \<Rightarrow> pod option result prog" where
  "podByLabel L namespace selector = (case l_parseSelector L selector of
     Inl e \<Rightarrow> Ret (Inl e)
   | Inr sel \<Rightarrow> tryP (listP Cached KPod toPod (Some namespace) sel) (\<lambda>pods.
       Ret (Inr (case pods of [] \<Rightarrow> None | p # ps \<Rightarrow> Some p))))"

definition imageByRef :: "string \<Rightarrow> image option result prog" where
  "imageByRef imageRef = tryP (listP Cached KImage toImage None []) (\<lambda>images.
     Ret (Inr (find (\<lambda>i. is_image (i_spec i) = imageRef) images)))"

definition agentPortForImage :: "image option \<Rightarrow> int" where
  "agentPortForImage img = (case img of None \<Rightarrow> 0
   | Some i \<Rightarrow> (case is_proxyConfig (i_spec i) of None \<Rightarrow> 0
     | Some p \<Rightarrow> if pxy_agentPort p < 1 \<or> pxy_agentPort p > 65535 then 0 else pxy_agentPort p))"

definition mainImage :: "workspace \<Rightarrow> string" where
  "mainImage ws = (case containersOf ws of [] \<Rightarrow> [] | c # cs \<Rightarrow> ct_image c)"

definition agentImageForWorkspace :: "workspace \<Rightarrow> image option prog" where
  "agentImageForWorkspace ws =
     (if mainImage ws = [] then Ret None
      else bind (imageByRef (mainImage ws)) (\<lambda>r. Ret (case r of Inl e \<Rightarrow> None | Inr i \<Rightarrow> i)))"

section \<open>Failure diagnostics\<close>

definition notReady :: "string \<Rightarrow> string \<Rightarrow> int \<Rightarrow> workspaceCondition" where
  "notReady reason msg now = \<lparr>wc_type = ''Ready'', wc_status = ''False'', wc_lastProbeTime = None,
     wc_lastTransitionTime = Some now, wc_reason = reason, wc_message = msg\<rparr>"

text \<open>
  The object the status update leaves behind is not used again: every caller returns right after. A
  failed update is only logged.
\<close>

definition setNotReadyCondition :: "workspace \<Rightarrow> string \<Rightarrow> string \<Rightarrow> unit prog" where
  "setNotReadyCondition ws reason msg =
     (let old = zeroOr [] (wst_conditions (w_status ws)) in
      if list_ex (\<lambda>c. wc_type c = ''Ready'' \<and> wc_status c = ''False'' \<and> wc_reason c = reason \<and> wc_message c = msg) old
      then Ret ()
      else bind nowP (\<lambda>now.
        let conditions = filter (\<lambda>c. wc_type c \<noteq> ''Ready'') old @ [notReady reason msg now] in
        if wst_conditions (w_status ws) = Some conditions then Ret ()
        else bind (statusUpdateP toWorkspace (OWorkspace (ws\<lparr>w_status := (w_status ws)\<lparr>wst_conditions := Some conditions\<rparr>\<rparr>)))
               (\<lambda>_. Ret ())))"

section \<open>Workloads\<close>

definition emptyWorkload :: workload where
  "emptyWorkload = \<lparr>wl_meta = objectMeta [] [], wl_replicas = 0, wl_selector = [],
     wl_template = \<lparr>pt_labels = [], pt_annotations = [], pt_spec = \<lparr>ps_containers = [], ps_initContainers = [],
       ps_volumes = [], ps_nodeSelector = [], ps_tolerations = [], ps_other = JNull\<rparr>\<rparr>, wl_readyReplicas = 0\<rparr>"

text \<open>The generated workload with the prepared template, its fingerprint and the owner.\<close>

definition desiredWorkload :: "lib \<Rightarrow> workspace \<Rightarrow> workload \<Rightarrow> podTemplate \<Rightarrow> workload result" where
  "desiredWorkload L ws wl template = (case l_setControllerReference L (w_meta ws) (setPodTemplateHash L template (wl_meta wl)) of
     Inl e \<Rightarrow> Inl e
   | Inr m \<Rightarrow> Inr (wl\<lparr>wl_template := template, wl_meta := m\<rparr>))"

definition prepareWorkload :: "lib \<Rightarrow> string \<Rightarrow> workspace \<Rightarrow> workload \<Rightarrow> workload result prog" where
  "prepareWorkload L initImage ws wl =
     bind (prepareContainerInit L initImage ws (wl_template wl)) (\<lambda>r. case r of
       Inl e \<Rightarrow> bind (setNotReadyCondition ws ''ContainerInitFailed'' (errText e)) (\<lambda>_. Ret (Inl e))
     | Inr template \<Rightarrow> Ret (desiredWorkload L ws wl template))"

definition ensureStatefulSet :: "lib \<Rightarrow> workload \<Rightarrow> workload result prog" where
  "ensureStatefulSet L ss = ensureObject OStatefulSet toStatefulSet (statefulSetNeedsUpdate L) (applyWorkload L) emptyWorkload ss"

definition ensureDeployment :: "lib \<Rightarrow> workload \<Rightarrow> workload result prog" where
  "ensureDeployment L dep = ensureObject ODeployment toDeployment (deploymentNeedsUpdate L) (applyWorkload L) emptyWorkload dep"

definition reconcileStatefulSet :: "lib \<Rightarrow> string \<Rightarrow> workspace \<Rightarrow> (int \<times> pod option) result prog" where
  "reconcileStatefulSet L initImage ws =
     tryP (prepareWorkload L initImage ws (generateStatefulSet L ws)) (\<lambda>ss.
     tryP (ensureStatefulSet L ss) (\<lambda>found.
     tryP (getPod (namespaceOf ws) (m_name (wl_meta ss) @ ''-0'')) (\<lambda>p.
     Ret (Inr (wl_readyReplicas found, p)))))"

definition reconcileDeployment :: "lib \<Rightarrow> string \<Rightarrow> workspace \<Rightarrow> (int \<times> pod option) result prog" where
  "reconcileDeployment L initImage ws =
     tryP (prepareWorkload L initImage ws (generateDeployment L ws)) (\<lambda>dep.
     tryP (ensureDeployment L dep) (\<lambda>found.
     tryP (podByLabel L (namespaceOf ws) (LabelWorkspaceName @ ''='' @ nameOf ws)) (\<lambda>p.
     Ret (Inr (wl_readyReplicas found, p)))))"

definition emptyService :: service where
  "emptyService = \<lparr>svc_meta = objectMeta [] [], svc_type = [], svc_selector = [], svc_ports = []\<rparr>"

definition reconcileService :: "lib \<Rightarrow> workspace \<Rightarrow> string \<Rightarrow> unit result prog" where
  "reconcileService L ws wsType =
     bind (if wsType = WorkspaceTypeVM then mapP agentPortForImage (agentImageForWorkspace ws) else Ret 0) (\<lambda>agentPort.
       let service = generateService ws wsType agentPort in
       case l_setControllerReference L (w_meta ws) (svc_meta service) of
         Inl e \<Rightarrow> Ret (Inl e)
       | Inr m \<Rightarrow> tryP (ensureObject OService toService serviceNeedsUpdate applyService emptyService (service\<lparr>svc_meta := m\<rparr>))
                    (\<lambda>_. Ret (Inr ())))"

section \<open>The status\<close>

definition podCondToWorkspaceCondition :: "podCondition \<Rightarrow> workspaceCondition" where
  "podCondToWorkspaceCondition podc = \<lparr>wc_type = pc_type podc, wc_status = pc_status podc,
     wc_lastProbeTime = pc_lastProbeTime podc, wc_lastTransitionTime = pc_lastTransitionTime podc,
     wc_reason = pc_reason podc, wc_message = pc_message podc\<rparr>"

definition sameCondition :: "workspaceCondition \<Rightarrow> workspaceCondition \<Rightarrow> bool" where
  "sameCondition a b \<longleftrightarrow> wc_type a = wc_type b \<and> wc_status a = wc_status b \<and> wc_reason a = wc_reason b \<and> wc_message a = wc_message b"

text \<open>The inner loop of \<^verbatim>\<open>windowsStatusConditions\<close>: the times of the last old condition with the same verdict.\<close>

definition keepTimes :: "workspaceCondition list \<Rightarrow> workspaceCondition \<Rightarrow> workspaceCondition" where
  "keepTimes olds current = foldl (\<lambda>c old. if sameCondition c old
     then c\<lparr>wc_lastTransitionTime := wc_lastTransitionTime old, wc_lastProbeTime := wc_lastProbeTime old\<rparr> else c) current olds"

definition windowsReadyCondition :: "int \<Rightarrow> int \<Rightarrow> int \<Rightarrow> workspaceCondition" where
  "windowsReadyCondition readyReplicas t1 t2 = \<lparr>wc_type = ''Ready'',
     wc_status = (if readyReplicas > 0 then ''True'' else ''False''), wc_lastProbeTime = Some t2, wc_lastTransitionTime = Some t1,
     wc_reason = (if readyReplicas = 0 then ''WindowsProvisioning'' else ''WindowsReady''),
     wc_message = (if readyReplicas = 0 then ''Waiting for Windows native setup, guest agent and bootstrap removal''
                   else ''Windows setup and bootstrap removal completed'')\<rparr>"

definition windowsConditions :: "workspaceCondition list \<Rightarrow> int \<Rightarrow> workspaceCondition list \<Rightarrow> int \<Rightarrow> int \<Rightarrow> workspaceCondition list" where
  "windowsConditions olds readyReplicas conditions t1 t2 =
     map (keepTimes olds) (filter (\<lambda>c. wc_type c \<noteq> ''Ready'') conditions @ [windowsReadyCondition readyReplicas t1 t2])"

definition windowsStatusConditions :: "workspace \<Rightarrow> workspaceStatus \<Rightarrow> workspaceStatus prog" where
  "windowsStatusConditions ws status =
     bind nowP (\<lambda>t1. bind nowP (\<lambda>t2. Ret (status\<lparr>wst_conditions :=
       Some (windowsConditions (zeroOr [] (wst_conditions (w_status ws))) (wst_readyReplicas status)
               (zeroOr [] (wst_conditions status)) t1 t2)\<rparr>)))"

definition emptyPodStatus :: "pod \<Rightarrow> bool" where
  "emptyPodStatus p \<longleftrightarrow> pod_conditions p = [] \<and> pod_containerStatuses p = [] \<and> pod_statusOther p = JNull"

definition emptyState :: containerState where
  "emptyState = \<lparr>cs_waiting = None, cs_running = None, cs_terminated = None\<rparr>"

definition podConditions :: "lib \<Rightarrow> workspace \<Rightarrow> pod \<Rightarrow> workspaceCondition list" where
  "podConditions L ws p = map podCondToWorkspaceCondition (pod_conditions p)
     @ (case containerInitFailureCondition L ws p of None \<Rightarrow> [] | Some c \<Rightarrow> [c])"

definition observedStatus :: "lib \<Rightarrow> workspace \<Rightarrow> int \<Rightarrow> pod option \<Rightarrow> workspaceStatus" where
  "observedStatus L ws readyReplicas p =
     (let status = \<lparr>wst_managementExecution = wst_managementExecution (w_status ws), wst_conditions = Some [],
            wst_readyReplicas = readyReplicas, wst_containerState = emptyState\<rparr> in
      case p of None \<Rightarrow> status
      | Some q \<Rightarrow> if emptyPodStatus q then status
          else status\<lparr>wst_containerState := (case pod_containerStatuses q of [] \<Rightarrow> emptyState | s # ss \<Rightarrow> cst_state s),
                 wst_conditions := Some (podConditions L ws q)\<rparr>)"

text \<open>One attempt of the retried status write.\<close>

definition writeStatus :: "workspace \<Rightarrow> workspaceStatus \<Rightarrow> unit result prog" where
  "writeStatus ws status =
     tryP (getP Cached KWorkspace toWorkspace (namespaceOf ws) (nameOf ws)) (\<lambda>latest.
       ask (ReqStatusUpdate (OWorkspace (latest\<lparr>w_status := status\<lparr>wst_managementExecution :=
         wst_managementExecution (w_status latest)\<rparr>\<rparr>))) asUnit)"

definition updateWorkspaceStatus :: "lib \<Rightarrow> workspace \<Rightarrow> int \<Rightarrow> pod option \<Rightarrow> unit result prog" where
  "updateWorkspaceStatus L ws readyReplicas p =
     bind (if windowsWorkspace ws then windowsStatusConditions ws (observedStatus L ws readyReplicas p)
           else Ret (observedStatus L ws readyReplicas p)) (\<lambda>status.
       if w_status ws \<noteq> status then l_retryOnConflict L (writeStatus ws status) else Ret (Inr ()))"

section \<open>The workload settles\<close>

definition templateDerivative_doc :: "lib \<Rightarrow> bool" where
  "templateDerivative_doc L \<longleftrightarrow> (\<forall>t. l_templateDerivative L t t)"

text \<open>
  \<^verbatim>\<open>SetControllerReference\<close> adds the owner reference and leaves the rest of the metadata alone; it makes the
  owner the controller.
\<close>

definition setControllerReference_doc :: "lib \<Rightarrow> bool" where
  "setControllerReference_doc L \<longleftrightarrow> (\<forall>owner m m'. l_setControllerReference L owner m = Inr m' \<longrightarrow>
     m' = m\<lparr>m_ownerRefs := m_ownerRefs m'\<rparr> \<and> l_isControlledBy L m' owner)"

lemma ref_templateDerivative_doc: "templateDerivative_doc ref_lib"
  by (simp add: templateDerivative_doc_def)

lemma ref_setControllerReference_doc: "setControllerReference_doc ref_lib"
  unfolding setControllerReference_doc_def ref_lib_sel
  by (auto simp: ref_setControllerReference_def ref_isControlledBy_def ref_controllerOf_def ref_controllerRef_def
      split: option.splits if_splits)

lemma desiredWorkload_meta:
  assumes "setControllerReference_doc L" and "desiredWorkload L ws wl template = Inr d"
  shows "m_annotations (wl_meta d) = m_annotations (setPodTemplateHash L template (wl_meta wl))"
    and "keyOf (OStatefulSet d) = keyOf (OStatefulSet wl)" and "wl_template d = template" and "wl_replicas d = wl_replicas wl"
    and "l_isControlledBy L (wl_meta d) (w_meta ws)"
proof -
  from assms(2) obtain m where m: "l_setControllerReference L (w_meta ws) (setPodTemplateHash L template (wl_meta wl)) = Inr m"
    and d: "d = wl\<lparr>wl_template := template, wl_meta := m\<rparr>"
    by (auto simp: desiredWorkload_def split: sum.splits)
  from m assms(1) have m': "m = (setPodTemplateHash L template (wl_meta wl))\<lparr>m_ownerRefs := m_ownerRefs m\<rparr>"
    and own: "l_isControlledBy L m (w_meta ws)" unfolding setControllerReference_doc_def by blast+
  note sel = arg_cong[OF m', of m_annotations] arg_cong[OF m', of m_name] arg_cong[OF m', of m_namespace]
  show "m_annotations (wl_meta d) = m_annotations (setPodTemplateHash L template (wl_meta wl))"
    using sel(1) by (simp add: d)
  show "keyOf (OStatefulSet d) = keyOf (OStatefulSet wl)"
    using sel(2,3) by (simp add: d keyOf_def setPodTemplateHash_def)
  show "wl_template d = template" "wl_replicas d = wl_replicas wl" "l_isControlledBy L (wl_meta d) (w_meta ws)"
    by (simp_all add: d own)
qed

lemma desiredWorkload_fingerprinted:
  "templateDerivative_doc L \<Longrightarrow> setControllerReference_doc L \<Longrightarrow> desiredWorkload L ws wl template = Inr d \<Longrightarrow> fingerprinted L d"
  using desiredWorkload_meta[of L ws wl template d]
  by (simp add: fingerprinted_def templateDerivative_doc_def setPodTemplateHash_def)

text \<open>
  C22. Reconciling a workload settles. Take the object the reconciler wants, for any prepared pod template
  and any owner; when the object it wrote over a live StatefulSet or Deployment is read back as it was
  written, the next pass issues that one read and no write: there is no endless update loop.
\<close>

theorem workload_settles:
  assumes "templateDerivative_doc L" and "setControllerReference_doc L"
    and "desiredWorkload L ws wl template = Inr d"
  shows "(runs (ensureStatefulSet L d) tr r \<and> (readReq (OStatefulSet d), RObj (OStatefulSet (applyWorkload L d c))) \<in> set tr
      \<longrightarrow> tr = [(readReq (OStatefulSet d), RObj (OStatefulSet (applyWorkload L d c)))] \<and> r = Inr (applyWorkload L d c))
    \<and> (runs (ensureDeployment L d) tr r \<and> (readReq (ODeployment d), RObj (ODeployment (applyWorkload L d c))) \<in> set tr
      \<longrightarrow> tr = [(readReq (ODeployment d), RObj (ODeployment (applyWorkload L d c)))] \<and> r = Inr (applyWorkload L d c))"
  using desiredWorkload_fingerprinted[OF assms] sts.converged[of L emptyWorkload d tr r c] dep.converged[of L emptyWorkload d tr r c]
  unfolding ensureStatefulSet_def ensureDeployment_def by blast

definition exDesired :: workload where
  "exDesired = (case desiredWorkload ref_lib (exWorkspace []) (generateStatefulSet ref_lib (exWorkspace []))
     (wl_template (generateStatefulSet ref_lib (exWorkspace []))) of Inr d \<Rightarrow> d | Inl e \<Rightarrow> emptyWorkload)"

lemma exDesired_ok: "desiredWorkload ref_lib (exWorkspace []) (generateStatefulSet ref_lib (exWorkspace []))
     (wl_template (generateStatefulSet ref_lib (exWorkspace []))) = Inr exDesired"
  by code_simp

theorem workload_settles_witness:
  "\<exists>tr r. runs (ensureStatefulSet ref_lib exDesired) tr r
     \<and> tr = [(readReq (OStatefulSet exDesired), RObj (OStatefulSet (applyWorkload ref_lib exDesired emptyWorkload)))]
     \<and> r = Inr (applyWorkload ref_lib exDesired emptyWorkload)"
proof -
  let ?w = "applyWorkload ref_lib exDesired emptyWorkload"
  let ?e = "exec (ensureStatefulSet ref_lib exDesired) [RObj (OStatefulSet ?w)]"
  have "snd ?e \<noteq> None" by code_simp
  then obtain r where "?e = (fst ?e, Some r)" by (metis option.exhaust_sel prod.collapse)
  then have run: "runs (ensureStatefulSet ref_lib exDesired) (fst ?e) r" by (rule exec_runs)
  have "(readReq (OStatefulSet exDesired), RObj (OStatefulSet ?w)) \<in> set (fst ?e)" by code_simp
  with workload_settles[OF ref_templateDerivative_doc ref_setControllerReference_doc exDesired_ok, of "fst ?e" r emptyWorkload] run
  show ?thesis by blast
qed

lemma prepareWorkload_ok:
  assumes "runs (prepareWorkload L initImage ws wl) tr (Inr d)"
  obtains template where "runs (prepareContainerInit L initImage ws (wl_template wl)) tr (Inr template)"
    and "desiredWorkload L ws wl template = Inr d"
  using assms unfolding prepareWorkload_def runs_bind_sum by (auto simp: runs_bind runs_Ret_iff)

text \<open>
  What a successful pass over a container workspace leaves behind: a StatefulSet that was created,
  updated (and the write accepted) or found, that needs no update against the desired one, and
  whose replica count is 0 for a stopped workspace and 1 otherwise. The desired one carries the
  template that container initialization prepared and is controlled by the workspace.
\<close>

theorem statefulset_reached:
  assumes "templateDerivative_doc L" and "setControllerReference_doc L"
    and "runs (reconcileStatefulSet L initImage ws) tr (Inr res)"
  shows "\<exists>t template d w. runs (prepareContainerInit L initImage ws (wl_template (generateStatefulSet L ws))) t (Inr template)
    \<and> desiredWorkload L ws (generateStatefulSet L ws) template = Inr d \<and> l_isControlledBy L (wl_meta d) (w_meta ws)
    \<and> \<not> statefulSetNeedsUpdate L d w \<and> wl_replicas w = (if stopped ws then 0 else 1)
    \<and> ((\<exists>x. accepted x \<and> ((ReqCreate (OStatefulSet w), x) \<in> set tr \<and> w = d
           \<or> (ReqUpdate (OStatefulSet w), x) \<in> set tr \<and> (\<exists>c. w = applyWorkload L d c)))
       \<or> (readReq (OStatefulSet d), RObj (OStatefulSet w)) \<in> set tr)"
proof -
  from assms(3) obtain t1 d t2 found t3 where p: "runs (prepareWorkload L initImage ws (generateStatefulSet L ws)) t1 (Inr d)"
    and e: "runs (ensureStatefulSet L d) t2 (Inr found)" and tr: "tr = t1 @ t2 @ t3"
    unfolding reconcileStatefulSet_def by (auto simp: runs_tryP)
  from p show ?thesis
  proof (cases rule: prepareWorkload_ok)
    case (1 template)
    note d = desiredWorkload_meta[OF assms(2) 1(2)] and fp = desiredWorkload_fingerprinted[OF assms(1,2) 1(2)]
    from sts.reached[OF e[unfolded ensureStatefulSet_def] fp] obtain w where w: "\<not> statefulSetNeedsUpdate L d w"
      "(\<exists>x. accepted x \<and> ((ReqCreate (OStatefulSet w), x) \<in> set t2 \<and> w = d
           \<or> (ReqUpdate (OStatefulSet w), x) \<in> set t2 \<and> (\<exists>c. w = applyWorkload L d c)))
       \<or> (readReq (OStatefulSet d), RObj (OStatefulSet w)) \<in> set t2" by blast
    have "wl_replicas w = wl_replicas d" using w(1) by (auto simp: statefulSetNeedsUpdate_def split: if_splits)
    with d(4) have "wl_replicas w = (if stopped ws then 0 else 1)"
      by (simp add: generateStatefulSet_def generateWorkload_def Let_def)
    with 1 d(5) w show ?thesis unfolding tr by (intro exI conjI) auto
  qed
qed

theorem statefulset_reached_witness:
  "\<exists>tr res w. runs (reconcileStatefulSet ref_lib [] (exWorkspace [])) tr (Inr res)
     \<and> wl_replicas w = (if stopped (exWorkspace []) then 0 else 1)
     \<and> ((\<exists>x. accepted x \<and> ((ReqCreate (OStatefulSet w), x) \<in> set tr \<or> (ReqUpdate (OStatefulSet w), x) \<in> set tr))
       \<or> (\<exists>q. (q, RObj (OStatefulSet w)) \<in> set tr))"
proof -
  let ?e = "exec (reconcileStatefulSet ref_lib [] (exWorkspace [])) [notFound, notFound, RObj (OStatefulSet emptyWorkload), notFound]"
  have "snd ?e = Some (Inr (0, None))" by code_simp
  then have "?e = (fst ?e, Some (Inr (0, None)))" by (metis prod.collapse)
  then have run: "runs (reconcileStatefulSet ref_lib [] (exWorkspace [])) (fst ?e) (Inr (0, None))" by (rule exec_runs)
  from statefulset_reached[OF ref_templateDerivative_doc ref_setControllerReference_doc run] run show ?thesis by blast
qed

section \<open>The status never rolls back the execution epoch\<close>

lemma writeStatus_runs:
  assumes "runs (writeStatus ws status) tr y" and "tr = pre @ (q, x) # post" and "isWrite q"
  shows "\<exists>latest. pre = [(ReqGet Cached KWorkspace (namespaceOf ws, nameOf ws), RObj (OWorkspace latest))]
    \<and> q = ReqStatusUpdate (OWorkspace (latest\<lparr>w_status := status\<lparr>wst_managementExecution := wst_managementExecution (w_status latest)\<rparr>\<rparr>))"
  using assms unfolding writeStatus_def
  by (auto simp: runs_tryP runs_client runs_ask runs_Ret_iff asObj_Inr Cons_eq_append_conv append_eq_Cons_conv)

text \<open>
  C23. A readiness update never rolls back the execution epoch. However often the status write is retried,
  the request directly before each write is a read of this Workspace, and the write is based on what that read returned: it
  keeps that object's metadata and spec and the management execution identity (VM and revocation epoch) it has, and nothing else is written.
\<close>

theorem status_keeps_epoch:
  assumes "retryOnConflict_doc L" and "runs (updateWorkspaceStatus L ws readyReplicas p) tr r"
    and "(q, x) \<in> set tr" and "isWrite q"
  shows "\<exists>pre post latest st.
    tr = pre @ (ReqGet Cached KWorkspace (namespaceOf ws, nameOf ws), RObj (OWorkspace latest)) # (q, x) # post
    \<and> q = ReqStatusUpdate (OWorkspace (latest\<lparr>w_status := st\<rparr>))
    \<and> wst_managementExecution st = wst_managementExecution (w_status latest)"
proof -
  have quiet: "calls (\<lambda>q. \<not> isWrite q) (windowsStatusConditions ws s)" for s
    unfolding windowsStatusConditions_def by (auto intro!: calls_bind)
  from assms(2-4) obtain t1 t2 status r' where w: "runs (l_retryOnConflict L (writeStatus ws status)) t2 r'" "(q, x) \<in> set t2" "tr = t1 @ t2"
    unfolding updateWorkspaceStatus_def
    by (auto simp: runs_bind runs_Ret_iff no_writes[OF quiet] split: if_splits)
  from w(1) assms(1) have "retry_trace isConflict (writeStatus ws status) t2 r'" by (simp add: retryOnConflict_doc_def)
  from retry_trace_segment[OF this w(2)] obtain l pre post l' y where t: "t2 = l @ pre @ (q, x) # post @ l'"
    and run: "runs (writeStatus ws status) (pre @ (q, x) # post) y" by blast
  from writeStatus_runs[OF run refl assms(4)] obtain latest where
    "pre = [(ReqGet Cached KWorkspace (namespaceOf ws, nameOf ws), RObj (OWorkspace latest))]"
    "q = ReqStatusUpdate (OWorkspace (latest\<lparr>w_status := status\<lparr>wst_managementExecution := wst_managementExecution (w_status latest)\<rparr>\<rparr>))" by blast
  then show ?thesis unfolding w(3) t
    by (intro exI[of _ "t1 @ l"] exI[of _ "post @ l'"] exI[of _ latest]
        exI[of _ "status\<lparr>wst_managementExecution := wst_managementExecution (w_status latest)\<rparr>"]) simp
qed

text \<open>The first write meets a conflict; the second attempt reads again.\<close>

theorem status_keeps_epoch_witness:
  "\<exists>tr r q x pre post latest st. runs (updateWorkspaceStatus ref_lib (exWorkspace []) 1 None) tr r
     \<and> tr = pre @ (ReqGet Cached KWorkspace (namespaceOf (exWorkspace []), nameOf (exWorkspace [])), RObj (OWorkspace latest)) # (q, x) # post
     \<and> q = ReqStatusUpdate (OWorkspace (latest\<lparr>w_status := st\<rparr>))
     \<and> wst_managementExecution st = wst_managementExecution (w_status latest)"
proof -
  let ?e = "exec (updateWorkspaceStatus ref_lib (exWorkspace []) 1 None)
    [RObj (OWorkspace (exWorkspace [])), RErr (ApiErr ReasonConflict []), RObj (OWorkspace (exWorkspace [])), ROk]"
  have "snd ?e = Some (Inr ())" by code_simp
  then have "?e = (fst ?e, Some (Inr ()))" by (metis prod.collapse)
  then have run: "runs (updateWorkspaceStatus ref_lib (exWorkspace []) 1 None) (fst ?e) (Inr ())" by (rule exec_runs)
  have "list_ex (\<lambda>(q, x). isWrite q) (fst ?e)" by code_simp
  then obtain q x where q: "(q, x) \<in> set (fst ?e)" "isWrite q" by (auto simp: list_ex_iff)
  from status_keeps_epoch[OF ref_retryOnConflict_doc run q] run show ?thesis by blast
qed

section \<open>Windows conditions are stable\<close>

definition verdict :: "workspaceCondition \<Rightarrow> string \<times> string \<times> string \<times> string" where
  "verdict c = (wc_type c, wc_status c, wc_reason c, wc_message c)"

lemma sameCondition_verdict: "sameCondition a b \<longleftrightarrow> verdict a = verdict b"
  by (auto simp: sameCondition_def verdict_def)

lemma keepTimes_verdict [simp]: "verdict (keepTimes olds c) = verdict c"
  unfolding keepTimes_def by (induction olds arbitrary: c) (auto simp: verdict_def)

lemma keepTimes_unique:
  assumes "old \<in> set olds" and "verdict c = verdict old" and "\<forall>d \<in> set olds. verdict d = verdict old \<longrightarrow> d = old"
  shows "keepTimes olds c = old"
proof -
  have stay: "\<forall>d \<in> set xs. verdict d = verdict old \<longrightarrow> d = old \<Longrightarrow> keepTimes xs old = old" for xs
    unfolding keepTimes_def by (induction xs) (auto simp: sameCondition_verdict)
  have take: "c\<lparr>wc_lastTransitionTime := wc_lastTransitionTime d, wc_lastProbeTime := wc_lastProbeTime d\<rparr> = d"
    if "verdict c = verdict d" for c d :: workspaceCondition using that by (simp add: verdict_def)
  show ?thesis using assms
  proof (induction olds arbitrary: c)
    case (Cons d ds)
    show ?case
    proof (cases "verdict c = verdict d")
      case True
      with Cons.prems have "d = old" by auto
      with True have "keepTimes (d # ds) c = keepTimes ds old" unfolding keepTimes_def by (simp add: sameCondition_verdict take)
      with stay[of ds] Cons.prems(3) show ?thesis by simp
    next
      case False
      then have "keepTimes (d # ds) c = keepTimes ds c" by (simp add: keepTimes_def sameCondition_verdict)
      with False Cons show ?thesis by auto
    qed
  qed simp
qed

text \<open>
  Reporting on a Windows guest causes no status feedback loop. The reported conditions contain exactly
  one Ready condition, true exactly when a replica is ready; and reporting the same state again, at any later
  time, on top of what was reported before gives exactly the same conditions, time stamps included, as long
  as no two pod conditions say the same.
\<close>

theorem windows_conditions_stable:
  assumes "distinct (map verdict (filter (\<lambda>c. wc_type c \<noteq> ''Ready'') cs))"
  shows "windowsConditions (windowsConditions olds n cs t1 t2) n cs t3 t4 = windowsConditions olds n cs t1 t2
    \<and> map wc_status (filter (\<lambda>c. wc_type c = ''Ready'') (windowsConditions olds n cs t1 t2)) = [if n > 0 then ''True'' else ''False'']"
proof
  let ?F = "filter (\<lambda>c. wc_type c \<noteq> ''Ready'') cs"
  let ?r = "windowsConditions olds n cs t1 t2"
  have ty: "wc_type (keepTimes o1 c) = wc_type c \<and> wc_status (keepTimes o1 c) = wc_status c" for o1 c
    using keepTimes_verdict[of o1 c] by (simp add: verdict_def)
  have keys: "map verdict ?r = map verdict (?F @ [windowsReadyCondition n t3 t4])"
    by (simp add: windowsConditions_def comp_def) (simp add: windowsReadyCondition_def verdict_def)
  moreover have "distinct (map verdict (?F @ [windowsReadyCondition n t3 t4]))"
    using assms by (auto simp: windowsReadyCondition_def verdict_def)
  ultimately have dist: "distinct (map verdict ?r)" by simp
  then have inj: "inj_on verdict (set ?r)" unfolding distinct_map by blast
  have len: "length ?r = length (?F @ [windowsReadyCondition n t3 t4])" using keys by (metis length_map)
  show "windowsConditions ?r n cs t3 t4 = ?r"
  proof (rule nth_equalityI)
    show "length (windowsConditions ?r n cs t3 t4) = length ?r" unfolding windowsConditions_def by (simp only: length_map length_append list.size)
    fix i assume "i < length (windowsConditions ?r n cs t3 t4)"
    then have i: "i < length ?r" "i < length (?F @ [windowsReadyCondition n t3 t4])" using len by (simp_all only: windowsConditions_def length_map length_append list.size)
    have "verdict ((?F @ [windowsReadyCondition n t3 t4]) ! i) = verdict (?r ! i)" 
      using arg_cong[OF keys, of "\<lambda>l. l ! i"] i by (simp only: nth_map)
    moreover have "\<forall>d \<in> set ?r. verdict d = verdict (?r ! i) \<longrightarrow> d = ?r ! i"
      using inj_onD[OF inj] nth_mem[OF i(1)] by blast
    ultimately have "keepTimes ?r ((?F @ [windowsReadyCondition n t3 t4]) ! i) = ?r ! i"
      using i(1) by (intro keepTimes_unique) auto
    then show "windowsConditions ?r n cs t3 t4 ! i = ?r ! i"
      using i(2) by (simp only: windowsConditions_def nth_map)
  qed
  show "map wc_status (filter (\<lambda>c. wc_type c = ''Ready'') ?r) = [if n > 0 then ''True'' else ''False'']"
    by (simp add: windowsConditions_def filter_map comp_def ty filter_empty_conv) (simp add: windowsReadyCondition_def)
qed

definition exCondition :: "string \<Rightarrow> workspaceCondition" where
  "exCondition t = \<lparr>wc_type = t, wc_status = ''True'', wc_lastProbeTime = None, wc_lastTransitionTime = Some 1, wc_reason = [], wc_message = []\<rparr>"

theorem windows_conditions_stable_witness:
  "windowsConditions (windowsConditions [] 1 [exCondition ''PodScheduled'', exCondition ''Ready''] 5 6) 1
     [exCondition ''PodScheduled'', exCondition ''Ready''] 7 8
   = windowsConditions [] 1 [exCondition ''PodScheduled'', exCondition ''Ready''] 5 6"
proof -
  have "distinct (map verdict (filter (\<lambda>c. wc_type c \<noteq> ''Ready'') [exCondition ''PodScheduled'', exCondition ''Ready'']))"
    by code_simp
  from windows_conditions_stable[OF this] show ?thesis by blast
qed

end
