(* ===== verification/VM_Disks.thy ===== *)
theory VM_Disks
  imports Workload_Reconcile Filepath
begin

text \<open>
  Data disks of VM workspaces (src/internal/controller/vm_disks.go): which guest mount paths are
  admitted, how values are quoted for the guest's shell, and how a workspace claims a disk. The
  lemmas compare the path check with a specification on path components, show that quoting is undone
  by a shell, and that a disk is never taken from an owner that may still use it.
\<close>

section \<open>Guest mount paths\<close>

definition protectedPaths :: "string list" where
  "protectedPaths = [''/'', ''/boot'', ''/dev'', ''/proc'', ''/sys'', ''/etc'', ''/usr'', ''/bin'', ''/sbin'', ''/lib'', ''/lib64'', ''/run'']"

definition validGuestMountPath :: "string \<Rightarrow> bool" where
  "validGuestMountPath v \<longleftrightarrow>
     (if \<not> rooted v \<or> clean v \<noteq> v \<or> list_ex (\<lambda>c. c \<in> set v) [CHR 0x00, CHR 0x0D, CHR 0x0A] then False
      else \<not> list_ex (\<lambda>p. v = p \<or> (p \<noteq> ''/'' \<and> hasPrefix v (p @ ''/''))) protectedPaths)"

section \<open>Quoting\<close>

definition shellQuote :: "string \<Rightarrow> string" where
  "shellQuote v = [CHR 0x27] @ replaceAll [CHR 0x27] [CHR 0x27, CHR 0x22, CHR 0x27, CHR 0x22, CHR 0x27] v @ [CHR 0x27]"

section \<open>Claiming disks\<close>

abbreviation vmDiskTypeLabel :: string where "vmDiskTypeLabel \<equiv> ''kubeworkspaces.io/volume-type''"
abbreviation vmDiskOwnerAnnotation :: string where "vmDiskOwnerAnnotation \<equiv> ''kubeworkspaces.io/disk-workspace''"
abbreviation KDataVolume :: kind where "KDataVolume \<equiv> KUnstructured ''cdi.kubevirt.io/v1beta1'' ''DataVolume''"
abbreviation KVirtualMachine :: kind where "KVirtualMachine \<equiv> KUnstructured ''kubevirt.io/v1'' ''VirtualMachine''"
abbreviation KVirtualMachineInstance :: kind where
  "KVirtualMachineInstance \<equiv> KUnstructured ''kubevirt.io/v1'' ''VirtualMachineInstance''"

definition diskOwner :: "workspace \<Rightarrow> string" where
  "diskOwner ws = nameOf ws @ ''/'' @ m_uid (w_meta ws)"

text \<open>\<^verbatim>\<open>strings.SplitN(current, "/", 2)\<close>: the part before the first slash and, if there is one, the rest.\<close>

definition ownerName :: "string \<Rightarrow> string" where
  "ownerName current = takeWhile (\<lambda>c. c \<noteq> CHR ''/'') current"

definition ownerUID :: "string \<Rightarrow> string option" where
  "ownerUID current = (if CHR ''/'' \<in> set current then Some (tl (dropWhile (\<lambda>c. c \<noteq> CHR ''/'') current)) else None)"

definition claimableDisk :: "unstructured \<Rightarrow> bool" where
  "claimableDisk disk \<longleftrightarrow> mget (m_labels (un_meta disk)) vmDiskTypeLabel = ''vm-disk''
     \<and> nestedMap (un_object disk) [''spec'', ''source'', ''blank''] \<noteq> None \<and> m_deletion (un_meta disk) = None"

text \<open>The checks on a claim held by another owner.\<close>

definition ownerVMIGone :: "reader \<Rightarrow> workspace \<Rightarrow> string \<Rightarrow> string \<Rightarrow> unit result prog" where
  "ownerVMIGone rd ws name owner =
     bind (getP rd KVirtualMachineInstance toUnstructured (namespaceOf ws) owner) (\<lambda>g. Ret (case g of
       Inr vmi \<Rightarrow> Inl (Errorf (''VM disk '' @ name @ '' is still used by VMI '' @ owner))
     | Inl e \<Rightarrow> if isNotFound e then Inr () else Inl e))"

definition checkPreviousOwner :: "reader \<Rightarrow> workspace \<Rightarrow> string \<Rightarrow> string \<Rightarrow> unit result prog" where
  "checkPreviousOwner rd ws name current =
     bind (getP rd KWorkspace toWorkspace (namespaceOf ws) (ownerName current)) (\<lambda>g. case g of
       Inr other \<Rightarrow> if ownerUID current = None \<or> ownerUID current = Some (m_uid (w_meta other))
         then Ret (Inl (Errorf (''VM disk '' @ name @ '' is owned by workspace '' @ ownerName current)))
         else ownerVMIGone rd ws name (ownerName current)
     | Inl e \<Rightarrow> if \<not> isNotFound e then Ret (Inl e) else ownerVMIGone rd ws name (ownerName current))"

definition withDiskOwner :: "workspace \<Rightarrow> unstructured \<Rightarrow> unstructured" where
  "withDiskOwner ws disk = disk\<lparr>un_meta := (un_meta disk)\<lparr>m_annotations :=
     mset (m_annotations (un_meta disk)) vmDiskOwnerAnnotation (diskOwner ws)\<rparr>\<rparr>"

definition takeClaim :: "reader \<Rightarrow> workspace \<Rightarrow> string \<Rightarrow> unstructured \<Rightarrow> unit result prog" where
  "takeClaim rd ws name disk = (let current = mget (m_annotations (un_meta disk)) vmDiskOwnerAnnotation in
     tryP (if current \<noteq> [] \<and> current \<noteq> diskOwner ws then checkPreviousOwner rd ws name current else Ret (Inr ())) (\<lambda>_.
     if current = diskOwner ws then Ret (Inr ())
     else ask (ReqUpdate (OUnstructured (withDiskOwner ws disk))) asUnit))"

text \<open>One attempt of the retried claim.\<close>

definition claimAttempt :: "reader \<Rightarrow> workspace \<Rightarrow> string \<Rightarrow> unit result prog" where
  "claimAttempt rd ws name =
     wrapP (''cannot get VM disk '' @ name @ '': '') (getP rd KDataVolume toUnstructured (namespaceOf ws) name) (\<lambda>disk.
       if \<not> claimableDisk disk
       then Ret (Inl (Errorf (name @ '' must be a non-terminating platform-created blank CDI disk'')))
       else takeClaim rd ws name disk)"

definition claimVMDataVolume :: "lib \<Rightarrow> reader \<Rightarrow> workspace \<Rightarrow> string \<Rightarrow> unit result prog" where
  "claimVMDataVolume L rd ws name = l_retryOnConflict L (claimAttempt rd ws name)"

text \<open>\<open>rd\<close> is \<open>Live\<close> when the reconciler has an \<^verbatim>\<open>APIReader\<close> and \<open>Cached\<close> otherwise.\<close>

definition claimVMDisks :: "lib \<Rightarrow> reader \<Rightarrow> workspace \<Rightarrow> unit result prog" where
  "claimVMDisks L rd ws = (case containersOf ws of
     [] \<Rightarrow> Ret (Inr ())
   | c # cs \<Rightarrow> forE (claimVMDataVolume L rd ws) (sort (map vm_name (ct_volumeMounts c))))"

section \<open>Admitted paths\<close>

text \<open>
  The specification: the components of an admitted path. Every component is a proper name, and the
  first one is no protected directory.
\<close>

definition protectedDirs :: "string list" where
  "protectedDirs = [''boot'', ''dev'', ''proc'', ''sys'', ''etc'', ''usr'', ''bin'', ''sbin'', ''lib'', ''lib64'', ''run'']"

definition cleanName :: "string \<Rightarrow> bool" where
  "cleanName p \<longleftrightarrow> proper p \<and> p \<noteq> ''.''"

lemma splitOn_nosep: "c \<notin> set s \<Longrightarrow> splitOn c s = [s]"
  by (induction s) auto

lemma splitOn_sep: "c \<notin> set s \<Longrightarrow> splitOn c (s @ c # t) = s # splitOn c t"
  by (induction s) auto

lemma splitOn_join:
  "ps \<noteq> [] \<Longrightarrow> list_all (\<lambda>p. c \<notin> set p) ps \<Longrightarrow> splitOn c (join [c] ps) = ps"
proof (induction "[c]" ps rule: join.induct)
  case (3 x y zs)
  then show ?case using splitOn_sep[of c x "join [c] (y # zs)"] by simp
qed (auto simp: splitOn_nosep)

lemma cleanComps_clean:
  "list_all cleanName ps \<Longrightarrow> cleanComps True acc ps = rev acc @ ps"
  by (induction ps arbitrary: acc) (auto simp: cleanName_def proper_def)

definition dotName :: string where "dotName = ''.''"

lemma dotName_facts: "dotName \<noteq> ''..''" "p \<noteq> ''.'' \<longleftrightarrow> p \<noteq> dotName"
  by (simp_all add: dotName_def)

lemma cleanComps_no_dot: "dotName \<notin> set acc \<Longrightarrow> dotName \<notin> set (cleanComps r acc ps)"
proof (induction ps arbitrary: acc)
  case (Cons p ps)
  consider (skip) "p = [] \<or> p = ''.''" | (up) "p = ''..''" | (push) "p \<noteq> []" "p \<noteq> ''.''" "p \<noteq> ''..''" by blast
  then show ?case
  proof cases
    case skip
    then have "cleanComps r acc (p # ps) = cleanComps r acc ps" by auto
    with Cons show ?thesis by metis
  next
    case up
    have "dotName \<notin> set (cleanComps r [''..''] ps)" by (rule Cons.IH) (simp add: dotName_facts(1))
    moreover have "dotName \<notin> set (cleanComps r [] ps)" by (rule Cons.IH) simp
    moreover have "dotName \<notin> set (cleanComps r (''..'' # acc) ps)" by (rule Cons.IH) (use Cons.prems in \<open>simp add: dotName_facts(1)\<close>)
    moreover have "dotName \<notin> set (cleanComps r (tl acc) ps)" by (rule Cons.IH) (use Cons.prems in \<open>cases acc; simp\<close>)
    ultimately show ?thesis unfolding up by (cases acc; cases r) auto
  next
    case push
    then have "cleanComps r acc (p # ps) = cleanComps r (p # acc) ps" by simp
    moreover have "dotName \<notin> set (p # acc)" using Cons.prems push(2) dotName_facts(2) by auto
    ultimately show ?thesis using Cons.IH by metis
  qed
qed simp

lemma comps_cleanName:
  assumes "rooted s"
  shows "list_all cleanName (comps s)"
  using comps_rooted[OF assms] cleanComps_no_dot[of "[]" "rooted s" "splitOn CHR ''/'' s"]
  by (simp add: list_all_iff cleanName_def comps_def dotName_facts(2)) blast

lemma comps_join:
  assumes "cs \<noteq> []" and "list_all cleanName cs"
  shows "comps (''/'' @ join ''/'' cs) = cs"
proof -
  have "splitOn CHR ''/'' (''/'' @ join ''/'' cs) = [] # cs"
    using splitOn_join[of cs "CHR ''/''"] assms by (simp add: list_all_iff cleanName_def proper_def)
  then show ?thesis using cleanComps_clean[OF assms(2), of "[]"] by (simp add: comps_def rooted_def hasPrefix_def)
qed

lemma rooted_slash: "rooted (''/'' @ s)"
  by (simp add: rooted_def hasPrefix_def)

lemma join_Cons: "cs \<noteq> [] \<Longrightarrow> join s (c # cs) = c @ s @ join s cs"
  by (cases cs) auto

lemma protected_path_dir: "p \<in> set protectedPaths \<Longrightarrow> p \<noteq> ''/'' \<Longrightarrow> \<exists>d \<in> set protectedDirs. p = ''/'' @ d"
  by (auto simp: protectedPaths_def protectedDirs_def)

lemma protected_dir_path: "d \<in> set protectedDirs \<Longrightarrow> ''/'' @ d \<in> set protectedPaths \<and> CHR ''/'' \<notin> set d \<and> ''/'' @ d \<noteq> ''/''"
  by (auto simp: protectedPaths_def protectedDirs_def)

lemma under_dir:
  assumes "CHR ''/'' \<notin> set c" and "CHR ''/'' \<notin> set d"
  shows "join ''/'' (c # cs) = d \<or> hasPrefix (join ''/'' (c # cs)) (d @ ''/'') \<longleftrightarrow> c = d"
proof -
  have all: "\<forall>x \<in> set d. x \<noteq> CHR ''/''" using assms(2) by blast
  have d: "takeWhile (\<lambda>x. x \<noteq> CHR ''/'') d = d" using all by (simp add: takeWhile_eq_all_conv)
  have "c = d" if "hasPrefix (join ''/'' (c # cs)) (d @ ''/'')"
  proof -
    from that obtain t where "join ''/'' (c # cs) = d @ ''/'' @ t" by (auto simp: hasPrefix_iff)
    then have "takeWhile (\<lambda>x. x \<noteq> CHR ''/'') (join ''/'' (c # cs)) = d" using all by (simp add: takeWhile_append2)
    then show ?thesis using join_takeWhile[OF assms(1), of cs] by simp
  qed
  moreover have "c = d" if "join ''/'' (c # cs) = d" using join_takeWhile[OF assms(1), of cs] d that by simp
  moreover have "join ''/'' (d # cs) = d \<or> hasPrefix (join ''/'' (d # cs)) (d @ ''/'')"
  proof (cases cs)
    case (Cons q qs)
    then have "join ''/'' (d # cs) = (d @ ''/'') @ join ''/'' cs" by simp
    then show ?thesis by (metis hasPrefix_append)
  qed simp
  ultimately show ?thesis by blast
qed

lemma clean_rooted_iff:
  "rooted v \<and> clean v = v \<longleftrightarrow> v = ''/'' \<or> (\<exists>c cs. v = ''/'' @ join ''/'' (c # cs) \<and> list_all cleanName (c # cs))"
proof
  assume v: "rooted v \<and> clean v = v"
  then have "clean v = ''/'' @ join ''/'' (comps v)" by (simp add: clean_def)
  with v have eq: "v = ''/'' @ join ''/'' (comps v)" by simp
  show "v = ''/'' \<or> (\<exists>c cs. v = ''/'' @ join ''/'' (c # cs) \<and> list_all cleanName (c # cs))"
  proof (cases "comps v")
    case Nil
    with eq show ?thesis by simp
  next
    case (Cons c cs)
    with eq comps_cleanName[of v] v show ?thesis by metis
  qed
next
  assume "v = ''/'' \<or> (\<exists>c cs. v = ''/'' @ join ''/'' (c # cs) \<and> list_all cleanName (c # cs))"
  then show "rooted v \<and> clean v = v"
  proof (elim disjE exE conjE)
    assume "v = ''/''"
    then show ?thesis by (simp add: rooted_def hasPrefix_def clean_def comps_def)
  next
    fix c cs assume "v = ''/'' @ join ''/'' (c # cs)" "list_all cleanName (c # cs)"
    then show ?thesis using comps_join[of "c # cs"] rooted_slash by (simp add: clean_def del: join.simps append_Cons)
  qed
qed

lemma protected_iff:
  assumes "list_all cleanName (c # cs)"
  shows "list_ex (\<lambda>p. ''/'' @ join ''/'' (c # cs) = p \<or> (p \<noteq> ''/'' \<and> hasPrefix (''/'' @ join ''/'' (c # cs)) (p @ ''/''))) protectedPaths
    \<longleftrightarrow> c \<in> set protectedDirs"
proof -
  have c: "CHR ''/'' \<notin> set c" "c \<noteq> []" using assms by (simp_all add: cleanName_def proper_def)
  have ne: "join ''/'' (c # cs) \<noteq> []" using c(2) by (cases cs) auto
  have pre: "hasPrefix (''/'' @ s) ((''/'' @ d) @ ''/'') \<longleftrightarrow> hasPrefix s (d @ ''/'')" for s d
    by (simp add: hasPrefix_def)
  show ?thesis
  proof
    assume "list_ex (\<lambda>p. ''/'' @ join ''/'' (c # cs) = p \<or> (p \<noteq> ''/'' \<and> hasPrefix (''/'' @ join ''/'' (c # cs)) (p @ ''/''))) protectedPaths"
    then obtain p where p: "p \<in> set protectedPaths" "''/'' @ join ''/'' (c # cs) = p \<or> (p \<noteq> ''/'' \<and> hasPrefix (''/'' @ join ''/'' (c # cs)) (p @ ''/''))"
      unfolding list_ex_iff by blast
    with ne have "p \<noteq> ''/''" by (auto simp del: join.simps)
    with p(1) obtain d where d: "d \<in> set protectedDirs" "p = ''/'' @ d" using protected_path_dir by blast
    with p(2) have "join ''/'' (c # cs) = d \<or> hasPrefix (join ''/'' (c # cs)) (d @ ''/'')" using pre by (metis same_append_eq)
    with under_dir[OF c(1), of d cs] protected_dir_path[OF d(1)] d(1) show "c \<in> set protectedDirs" by metis
  next
    assume d: "c \<in> set protectedDirs"
    then have "join ''/'' (c # cs) = c \<or> hasPrefix (join ''/'' (c # cs)) (c @ ''/'')" using under_dir[OF c(1) c(1), of cs] by blast
    with protected_dir_path[OF d] pre show "list_ex (\<lambda>p. ''/'' @ join ''/'' (c # cs) = p \<or> (p \<noteq> ''/'' \<and> hasPrefix (''/'' @ join ''/'' (c # cs)) (p @ ''/''))) protectedPaths"
      unfolding list_ex_iff by metis
  qed
qed

definition lineSafe :: "string \<Rightarrow> bool" where
  "lineSafe v \<longleftrightarrow> CHR 0x00 \<notin> set v \<and> CHR 0x0D \<notin> set v \<and> CHR 0x0A \<notin> set v"

text \<open>
  C24. Which guest paths a disk may be mounted at. The check on the path string, with its cleaning and
  prefix tests, admits exactly the absolute paths whose components are all proper names (not empty, not
  \<open>.\<close> or \<open>..\<close>), whose first component is none of the eleven protected system directories,
  and that contain no NUL, carriage return or line feed. In particular it never admits the root
  directory, a path below a protected directory, or one that climbs out with \<open>..\<close>.
\<close>

theorem validGuestMountPath_exact:
  "validGuestMountPath v \<longleftrightarrow> (\<exists>c cs. v = ''/'' @ join ''/'' (c # cs) \<and> list_all cleanName (c # cs)
     \<and> c \<notin> set protectedDirs \<and> lineSafe v)"
proof -
  have safe: "list_ex (\<lambda>c. c \<in> set v) [CHR 0x00, CHR 0x0D, CHR 0x0A] \<longleftrightarrow> \<not> lineSafe v" by (auto simp: lineSafe_def)
  have root: "list_ex (\<lambda>p. ''/'' = p \<or> (p \<noteq> ''/'' \<and> hasPrefix ''/'' (p @ ''/''))) protectedPaths" by (simp add: protectedPaths_def)
  have "validGuestMountPath v \<longleftrightarrow> (rooted v \<and> clean v = v) \<and> lineSafe v
      \<and> \<not> list_ex (\<lambda>p. v = p \<or> (p \<noteq> ''/'' \<and> hasPrefix v (p @ ''/''))) protectedPaths"
    unfolding validGuestMountPath_def safe by auto
  then show ?thesis unfolding clean_rooted_iff using root protected_iff by blast
qed

section \<open>Quoting is undone by the shell\<close>

text \<open>
  How a POSIX shell reads one word: single quotes protect everything up to the next one, double quotes
  everything but the characters that keep a meaning there, and outside quotes only characters
  without a meaning of their own are considered. \<open>None\<close> when the word is not closed or uses anything else.
\<close>

definition shPlain :: "char \<Rightarrow> bool" where
  "shPlain c \<longleftrightarrow> nameChar c \<or> c \<in> set ''/.:''"

fun shWord :: "string \<Rightarrow> string option" and shSingle :: "string \<Rightarrow> string option" and shDouble :: "string \<Rightarrow> string option" where
  "shWord [] = Some []"
| "shWord (c # cs) = (if c = CHR 0x27 then shSingle cs else if c = CHR 0x22 then shDouble cs
     else if shPlain c then map_option (Cons c) (shWord cs) else None)"
| "shSingle [] = None"
| "shSingle (c # cs) = (if c = CHR 0x27 then shWord cs else map_option (Cons c) (shSingle cs))"
| "shDouble [] = None"
| "shDouble (c # cs) = (if c = CHR 0x22 then shWord cs else if c \<in> set [CHR 0x24, CHR 0x60, CHR 0x5C] then None
     else map_option (Cons c) (shDouble cs))"

lemma shSingle_quoted:
  "shSingle (replaceAll [CHR 0x27] [CHR 0x27, CHR 0x22, CHR 0x27, CHR 0x22, CHR 0x27] v @ CHR 0x27 # rest)
     = map_option (\<lambda>t. v @ t) (shWord rest)"
proof (induction v)
  case Nil
  then show ?case by (simp add: option.map_ident)
next
  case (Cons c cs)
  then show ?case by (cases "c = CHR 0x27") (auto simp: hasPrefix_def option.map_comp comp_def)
qed

text \<open>
  C25. Quoting for the guest's shell. For every value, whatever characters it contains, a shell reads the
  quoted form, wherever it stands at the start of a word, as exactly that value followed by what the
  rest of the word means: no value can break out of its quotes.
\<close>

theorem shellQuote_roundtrip:
  "shWord (shellQuote v @ rest) = map_option (\<lambda>t. v @ t) (shWord rest) \<and> shWord (shellQuote v) = Some v"
  using shSingle_quoted[of v rest] shSingle_quoted[of v "[]"] by (simp add: shellQuote_def)

section \<open>Claims\<close>

text \<open>The two reads that show that the recorded owner of a disk is gone.\<close>

definition ownerGone :: "reader \<Rightarrow> workspace \<Rightarrow> string \<Rightarrow> trace \<Rightarrow> bool" where
  "ownerGone rd ws current t \<longleftrightarrow> (\<exists>g e. t = [(ReqGet rd KWorkspace (namespaceOf ws, ownerName current), g),
       (ReqGet rd KVirtualMachineInstance (namespaceOf ws, ownerName current), RErr e)] \<and> isNotFound e
   \<and> ((\<exists>e'. g = RErr e' \<and> isNotFound e')
     \<or> (\<exists>other uid. g = RObj (OWorkspace other) \<and> ownerUID current = Some uid \<and> uid \<noteq> m_uid (w_meta other))))"

definition claimOf :: "reader \<Rightarrow> workspace \<Rightarrow> req \<Rightarrow> resp \<Rightarrow> trace \<Rightarrow> bool" where
  "claimOf rd ws q x tr \<longleftrightarrow> (\<exists>pre mid post disk name. tr = pre @ (ReqGet rd KDataVolume (namespaceOf ws, name), RObj (OUnstructured disk)) # mid @ (q, x) # post
     \<and> q = ReqUpdate (OUnstructured (withDiskOwner ws disk)) \<and> claimableDisk disk
     \<and> (let current = mget (m_annotations (un_meta disk)) vmDiskOwnerAnnotation in
        if current = [] then mid = [] else ownerGone rd ws current mid))"

lemma claimOf_append: "claimOf rd ws q x t \<Longrightarrow> claimOf rd ws q x (l @ t @ l')"
proof -
  assume "claimOf rd ws q x t"
  then obtain pre mid post disk name where t: "t = pre @ (ReqGet rd KDataVolume (namespaceOf ws, name), RObj (OUnstructured disk)) # mid @ (q, x) # post"
    and c: "q = ReqUpdate (OUnstructured (withDiskOwner ws disk)) \<and> claimableDisk disk
     \<and> (let current = mget (m_annotations (un_meta disk)) vmDiskOwnerAnnotation in
        if current = [] then mid = [] else ownerGone rd ws current mid)" unfolding claimOf_def by blast
  from c show ?thesis unfolding claimOf_def
    by (intro exI[of _ "l @ pre"] exI[of _ mid] exI[of _ "post @ l'"] exI[of _ disk] exI[of _ name]) (simp only: t append_assoc append_Cons simp_thms)
qed

lemma ownerVMIGone_Inr:
  assumes "runs (ownerVMIGone rd ws name owner) t (Inr u)"
  shows "\<exists>e. t = [(ReqGet rd KVirtualMachineInstance (namespaceOf ws, owner), RErr e)] \<and> isNotFound e"
proof -
  from assms obtain g where t: "t = [(ReqGet rd KVirtualMachineInstance (namespaceOf ws, owner), g)]"
    and r: "(case asObj toUnstructured g of Inr vmi \<Rightarrow> Inl (Errorf (''VM disk '' @ name @ '' is still used by VMI '' @ owner))
      | Inl e \<Rightarrow> if isNotFound e then Inr () else Inl e) = Inr u"
    unfolding ownerVMIGone_def by (auto simp: runs_bind runs_client runs_Ret_iff)
  show ?thesis
  proof (cases "asObj toUnstructured g")
    case (Inl e)
    with r have nf: "isNotFound e" by (auto split: if_splits)
    with Inl have "g = RErr e" by (simp add: asObj_notFound)
    with nf t show ?thesis by auto
  qed (use r in simp)
qed

lemma checkPreviousOwner_Inr:
  assumes "runs (checkPreviousOwner rd ws name current) t (Inr u)"
  shows "ownerGone rd ws current t"
proof -
  from assms obtain g t2 where t: "t = (ReqGet rd KWorkspace (namespaceOf ws, ownerName current), g) # t2"
    and k: "runs (ownerVMIGone rd ws name (ownerName current)) t2 (Inr u)"
    and g: "(\<exists>e. g = RErr e \<and> isNotFound e) \<or> (\<exists>other uid. g = RObj (OWorkspace other) \<and> ownerUID current = Some uid \<and> uid \<noteq> m_uid (w_meta other))"
    unfolding checkPreviousOwner_def runs_bind_sum
    by (auto simp: runs_client runs_Ret_iff asObj_notFound asObj_Inr split: if_splits)
  from g ownerVMIGone_Inr[OF k] show ?thesis unfolding t ownerGone_def by auto
qed

lemma checkPreviousOwner_calls: "calls (\<lambda>q. \<not> isWrite q) (checkPreviousOwner rd ws name current)"
  unfolding checkPreviousOwner_def ownerVMIGone_def by (auto split: sum.split intro!: calls_bind)

lemma takeClaim_write:
  assumes "runs (takeClaim rd ws name disk) tr r" and "tr = mid @ (q, x) # post" and "isWrite q"
  shows "q = ReqUpdate (OUnstructured (withDiskOwner ws disk))
    \<and> (let current = mget (m_annotations (un_meta disk)) vmDiskOwnerAnnotation in
       if current = [] then mid = [] else ownerGone rd ws current mid)"
proof -
  let ?cur = "mget (m_annotations (un_meta disk)) vmDiskOwnerAnnotation"
  let ?p = "if ?cur \<noteq> [] \<and> ?cur \<noteq> diskOwner ws then checkPreviousOwner rd ws name ?cur else Ret (Inr ())"
  have quiet: "calls (\<lambda>q. \<not> isWrite q) ?p" using checkPreviousOwner_calls by simp
  have mem: "(q, x) \<in> set tr" using assms(2) by simp
  from assms(1,3) mem obtain t1 u y where t: "runs ?p t1 (Inr u)" "tr = t1 @ [(ReqUpdate (OUnstructured (withDiskOwner ws disk)), y)]" "?cur \<noteq> diskOwner ws"
    unfolding takeClaim_def Let_def runs_tryP
    using no_writes[OF quiet] by (auto simp: runs_ask runs_Ret_iff simp del: if_split split: if_splits)
  have "(q, x) \<notin> set t1" using no_writes[OF quiet t(1) assms(3)] .
  then have "mid = t1" "q = ReqUpdate (OUnstructured (withDiskOwner ws disk))" using t(2) assms(2)
    by (auto simp: append_eq_append_conv2 append_eq_Cons_conv Cons_eq_append_conv)
  moreover have "if ?cur = [] then t1 = [] else ownerGone rd ws ?cur t1"
    using t(1,3) checkPreviousOwner_Inr by (auto simp: runs_Ret_iff)
  ultimately show ?thesis by (simp add: Let_def)
qed

lemma claimAttempt_write:
  assumes "runs (claimAttempt rd ws name) tr r" and "tr = pre @ (q, x) # post" and "isWrite q"
  shows "claimOf rd ws q x tr"
proof -
  have "(q, x) \<in> set tr" using assms(2) by simp
  with assms(1,3) obtain disk t where tr: "tr = (ReqGet rd KDataVolume (namespaceOf ws, name), RObj (OUnstructured disk)) # t"
    and d: "claimableDisk disk" and t: "runs (takeClaim rd ws name disk) t r" "(q, x) \<in> set t"
    unfolding claimAttempt_def by (auto simp: runs_wrapP runs_client runs_Ret_iff asObj_Inr split: if_splits)
  from t(2) obtain mid post' where m: "t = mid @ (q, x) # post'" by (meson split_list)
  from takeClaim_write[OF t(1) m assms(3)] d show ?thesis
    unfolding claimOf_def tr m by (intro exI[of _ "[]"] exI[of _ mid] exI[of _ post'] exI[of _ disk] exI[of _ name]) auto
qed

text \<open>
  C26. A disk is never taken from someone who may still use it. Claiming the disks of a workspace writes
  nothing but the owner annotation of a live, blank disk made by the platform. The write is based on a read of that disk in the same attempt: when
  the disk read had no owner, the write is the next request; otherwise exactly two reads lie between, after the disk's, and they show its recorded
  owner gone: the workspace of that name was reported absent or has another UID, and its VMI was reported absent. So a write that
  meets a conflict is not repeated on the strength of what was read before it.
\<close>

theorem disk_claim_safe:
  assumes "retryOnConflict_doc L" and "runs (claimVMDisks L rd ws) tr r" and "(q, x) \<in> set tr" and "isWrite q"
  shows "\<exists>pre mid post disk name. tr = pre @ (ReqGet rd KDataVolume (namespaceOf ws, name), RObj (OUnstructured disk)) # mid @ (q, x) # post
    \<and> q = ReqUpdate (OUnstructured (withDiskOwner ws disk))
    \<and> mget (m_labels (un_meta disk)) ''kubeworkspaces.io/volume-type'' = ''vm-disk''
    \<and> nestedMap (un_object disk) [''spec'', ''source'', ''blank''] \<noteq> None \<and> m_deletion (un_meta disk) = None
    \<and> (let current = mget (m_annotations (un_meta disk)) ''kubeworkspaces.io/disk-workspace'' in
       if current = [] then mid = [] else ownerGone rd ws current mid)"
proof -
  have one: "claimOf rd ws q x t" if run: "runs (claimVMDataVolume L rd ws name) t y" and mem: "(q, x) \<in> set t" for name t y
  proof -
    from run assms(1) have "retry_trace isConflict (claimAttempt rd ws name) t y"
      by (simp add: retryOnConflict_doc_def claimVMDataVolume_def)
    from retry_trace_segment[OF this mem] obtain l pre post l' y' where t: "t = l @ pre @ (q, x) # post @ l'"
      and att: "runs (claimAttempt rd ws name) (pre @ (q, x) # post) y'" by blast
    from claimOf_append[OF claimAttempt_write[OF att refl assms(4)], of l l'] t show ?thesis by simp
  qed
  have "claimOf rd ws q x t" if "runs (forE (claimVMDataVolume L rd ws) names) t y" "(q, x) \<in> set t" for names t y
    using that
  proof (induction names arbitrary: t)
    case (Cons n ns)
    have "\<exists>t1 t2 y1. t = t1 @ t2 \<and> runs (claimVMDataVolume L rd ws n) t1 y1
        \<and> (t2 = [] \<or> runs (forE (claimVMDataVolume L rd ws) ns) t2 y)"
      using Cons.prems(1) by (auto simp: runs_tryP)
    then obtain t1 t2 y1 where t: "t = t1 @ t2" and r1: "runs (claimVMDataVolume L rd ws n) t1 y1"
      and r2: "t2 = [] \<or> runs (forE (claimVMDataVolume L rd ws) ns) t2 y" by blast
    consider "(q, x) \<in> set t1" | "(q, x) \<in> set t2" using Cons.prems(2) t by auto
    then show ?case
    proof cases
      case 1
      from claimOf_append[OF one[OF r1 1], of "[]" t2] t show ?thesis by simp
    next
      case 2
      with r2 have "claimOf rd ws q x t2" by (auto intro: Cons.IH)
      from claimOf_append[OF this, of t1 "[]"] t show ?thesis by simp
    qed
  qed (simp add: runs_Ret_iff)
  then have "claimOf rd ws q x tr" using assms(2,3) unfolding claimVMDisks_def by (auto simp: runs_Ret_iff split: list.splits)
  then show ?thesis unfolding claimOf_def claimableDisk_def by blast
qed

definition exDisk :: unstructured where
  "exDisk = \<lparr>un_apiVersion = ''cdi.kubevirt.io/v1beta1'', un_kind = ''DataVolume'',
     un_meta = (objectMeta ''team'' ''data'')\<lparr>m_labels := [(vmDiskTypeLabel, ''vm-disk'')],
       m_annotations := [(vmDiskOwnerAnnotation, ''old/u-0'')]\<rparr>,
     un_object = [(''spec'', JObj [(''source'', JObj [(''blank'', JObj [])])])]\<rparr>"

definition exDiskWorkspace :: workspace where
  "exDiskWorkspace = (let ws = exWorkspace ''vm'' in ws\<lparr>w_spec := (w_spec ws)\<lparr>wss_template := exPodSpec\<lparr>ps_containers :=
     [exContainer\<lparr>ct_volumeMounts := [\<lparr>vm_name = ''data'', vm_mountPath = ''/srv/data'', vm_readOnly = False\<rparr>]\<rparr>]\<rparr>\<rparr>\<rparr>)"

theorem disk_claim_safe_witness:
  "\<exists>tr r q x pre mid post disk name. runs (claimVMDisks ref_lib Live exDiskWorkspace) tr r
     \<and> tr = pre @ (ReqGet Live KDataVolume (namespaceOf exDiskWorkspace, name), RObj (OUnstructured disk)) # mid @ (q, x) # post
     \<and> q = ReqUpdate (OUnstructured (withDiskOwner exDiskWorkspace disk)) \<and> m_deletion (un_meta disk) = None"
proof -
  let ?e = "exec (claimVMDisks ref_lib Live exDiskWorkspace) [RObj (OUnstructured exDisk), notFound, notFound, ROk]"
  have "snd ?e = Some (Inr ())" by code_simp
  then have "?e = (fst ?e, Some (Inr ()))" by (metis prod.collapse)
  then have run: "runs (claimVMDisks ref_lib Live exDiskWorkspace) (fst ?e) (Inr ())" by (rule exec_runs)
  have "list_ex (\<lambda>(q, x). isWrite q) (fst ?e)" by code_simp
  then obtain q x where q: "(q, x) \<in> set (fst ?e)" "isWrite q" by (auto simp: list_ex_iff)
  from disk_claim_safe[OF ref_retryOnConflict_doc run q] run show ?thesis by blast
qed

end
