(* ===== verification/Management.thy ===== *)
theory Management
  imports VM_Disks
begin

text \<open>
  The execution identity of a running VM workspace (src/internal/controller/vm_execution_epoch.go and
  vm_management_bootstrap.go): the revocation epoch recorded in the status and the one-time bootstrap
  credential kept in a protected namespace. The lemmas show that the epoch never decreases, what a
  credential is bound to, and that a credential the controller created is recognised afterwards.
\<close>

abbreviation windowsProvisionedGeneration :: string where
  "windowsProvisionedGeneration \<equiv> ''kubeworkspaces.io/windows-provisioned-generation''"
abbreviation windowsDetachingGeneration :: string where
  "windowsDetachingGeneration \<equiv> ''kubeworkspaces.io/windows-detaching-generation''"
abbreviation windowsRebootAnnotation :: string where "windowsRebootAnnotation \<equiv> ''kubeworkspaces.io/reboot''"
abbreviation windowsGenerationAnnotation :: string where
  "windowsGenerationAnnotation \<equiv> ''kubeworkspaces.io/windows-generation''"
abbreviation managementBootstrapLabel :: string where "managementBootstrapLabel \<equiv> ''kubeworkspaces.io/management-bootstrap''"
abbreviation workspaceUIDLabel :: string where "workspaceUIDLabel \<equiv> ''kubeworkspaces.io/workspace-uid''"
abbreviation vmUIDLabel :: string where "vmUIDLabel \<equiv> ''kubeworkspaces.io/virtualmachine-uid''"
abbreviation workspaceNamespaceAnnotation :: string where
  "workspaceNamespaceAnnotation \<equiv> ''kubeworkspaces.io/workspace-namespace''"
abbreviation workspaceNameAnnotation :: string where "workspaceNameAnnotation \<equiv> ''kubeworkspaces.io/workspace-name''"
abbreviation managementBootstrapLifetime :: int where "managementBootstrapLifetime \<equiv> seconds 900"

section \<open>Unpadded URL-safe base64\<close>

text \<open>
  \<^verbatim>\<open>base64.RawURLEncoding\<close> on bits. The decoder here refuses every character outside the alphabet; Go's
  skips line breaks, which makes no difference to a caller that, as here, accepts a string only if
  encoding the decoded bytes gives the string back.
\<close>

definition base64Alphabet :: string where
  "base64Alphabet = ''ABCDEFGHIJKLMNOPQRSTUVWXYZabcdefghijklmnopqrstuvwxyz0123456789-_''"

definition bitsOf :: "char \<Rightarrow> bool list" where
  "bitsOf c = [digit7 c, digit6 c, digit5 c, digit4 c, digit3 c, digit2 c, digit1 c, digit0 c]"

fun bytesOf :: "bool list \<Rightarrow> string" where
  "bytesOf (a # b # c # d # e # f # g # h # bs) = Char h g f e d c b a # bytesOf bs"
| "bytesOf bs = []"

definition sextet :: "bool \<Rightarrow> bool \<Rightarrow> bool \<Rightarrow> bool \<Rightarrow> bool \<Rightarrow> bool \<Rightarrow> char" where
  "sextet a b c d e f = base64Alphabet ! (of_bool a * 32 + of_bool b * 16 + of_bool c * 8 + of_bool d * 4 + of_bool e * 2 + of_bool f)"

fun encodeBits :: "bool list \<Rightarrow> string" where
  "encodeBits (a # b # c # d # e # f # bs) = sextet a b c d e f # encodeBits bs"
| "encodeBits [] = []"
| "encodeBits [a, b] = [sextet a b False False False False]"
| "encodeBits [a, b, c, d] = [sextet a b c d False False]"
| "encodeBits bs = []"

definition encodeBase64 :: "string \<Rightarrow> string" where
  "encodeBase64 bytes = encodeBits (concat (map bitsOf bytes))"

definition sextetTable :: "(bool list \<times> char) list" where
  "sextetTable = (let bs = [False, True] in
     [([a, b, c, d, e, f], sextet a b c d e f). a \<leftarrow> bs, b \<leftarrow> bs, c \<leftarrow> bs, d \<leftarrow> bs, e \<leftarrow> bs, f \<leftarrow> bs])"

definition sextetBits :: "char \<Rightarrow> bool list option" where
  "sextetBits ch = map_option fst (find (\<lambda>(bs, c). c = ch) sextetTable)"

fun decodeChars :: "string \<Rightarrow> bool list option" where
  "decodeChars [] = Some []"
| "decodeChars (c # cs) = (case sextetBits c of None \<Rightarrow> None
     | Some bs \<Rightarrow> (case decodeChars cs of None \<Rightarrow> None | Some rest \<Rightarrow> Some (bs @ rest)))"

definition decodeBase64 :: "string \<Rightarrow> string option" where
  "decodeBase64 s = (if length s mod 4 = 1 then None else map_option bytesOf (decodeChars s))"

section \<open>The execution epoch\<close>

definition requestedExecutionEpoch :: "workspace \<Rightarrow> int result" where
  "requestedExecutionEpoch ws = (let epoch = wss_executionRevocationEpoch (w_spec ws) in
     if epoch < 0 then Inl (Errorf ''execution revocation epoch must be a nonnegative int64'') else Inr epoch)"

definition ownedByWorkspace :: "lib \<Rightarrow> workspace \<Rightarrow> unstructured \<Rightarrow> bool" where
  "ownedByWorkspace L ws vm \<longleftrightarrow> (case l_getControllerOf L (un_meta vm) of None \<Rightarrow> False
     | Some owner \<Rightarrow> or_uid owner = m_uid (w_meta ws) \<and> or_name owner = nameOf ws
         \<and> or_kind owner = ''Workspace'' \<and> or_apiVersion owner = GroupVersion)"

definition managementVMCurrent :: "lib \<Rightarrow> workspace \<Rightarrow> unstructured \<Rightarrow> unstructured \<Rightarrow> bool" where
  "managementVMCurrent L ws vm observedVM \<longleftrightarrow>
     (if nestedBool (un_object vm) [''spec'', ''running''] \<noteq> Some True \<or> m_uid (un_meta vm) = []
         \<or> m_uid (un_meta vm) \<noteq> m_uid (un_meta observedVM) \<or> m_deletion (un_meta vm) \<noteq> None \<or> \<not> ownedByWorkspace L ws vm
      then False
      else if \<not> windowsWorkspace ws then True
      else (case wss_vmProfile (w_spec ws) of None \<Rightarrow> False | Some p \<Rightarrow>
        vp_generation p \<noteq> [] \<and> mget (annotationsOf ws) windowsProvisionedGeneration = vp_generation p
        \<and> mget (m_annotations (un_meta vm)) windowsGenerationAnnotation = vp_generation p))"

definition nextEpoch :: "managementExecutionStatus option \<Rightarrow> int \<Rightarrow> int" where
  "nextEpoch previous epoch = (case previous of None \<Rightarrow> epoch
     | Some p \<Rightarrow> if me_revocationEpoch p > epoch then me_revocationEpoch p else epoch)"

definition withExecution :: "workspace \<Rightarrow> string \<Rightarrow> int \<Rightarrow> workspace" where
  "withExecution ws vmUID epoch = ws\<lparr>w_status := (w_status ws)\<lparr>
     wst_managementExecution := Some \<lparr>me_vmUID = vmUID, me_revocationEpoch = epoch\<rparr>,
     wst_conditions := Some (zeroOr [] (wst_conditions (w_status ws)))\<rparr>\<rparr>"

definition copyExecution :: "workspace \<Rightarrow> workspace \<Rightarrow> workspace" where
  "copyExecution inst ws = inst\<lparr>w_status := (w_status inst)\<lparr>wst_managementExecution := wst_managementExecution (w_status ws)\<rparr>,
     w_meta := (w_meta inst)\<lparr>m_resourceVersion := m_resourceVersion (w_meta ws)\<rparr>\<rparr>"

text \<open>The result is the caller's object with the execution identity copied into it.\<close>

definition reconcileExecutionEpoch :: "lib \<Rightarrow> reader \<Rightarrow> workspace \<Rightarrow> unstructured \<Rightarrow> workspace result prog" where
  "reconcileExecutionEpoch L rd inst vm =
     tryP (getP rd KWorkspace toWorkspace (namespaceOf inst) (nameOf inst)) (\<lambda>ws.
     tryP (getP rd KVirtualMachine toUnstructured (namespaceOf inst) (nameOf inst)) (\<lambda>currentVM.
       if m_uid (w_meta ws) = [] \<or> m_uid (w_meta ws) \<noteq> m_uid (w_meta inst) \<or> m_deletion (w_meta ws) \<noteq> None
          \<or> \<not> managementVMCurrent L ws currentVM vm
       then Ret (Inl (Errorf ''execution epoch identity is not current''))
       else case requestedExecutionEpoch ws of
         Inl e \<Rightarrow> Ret (Inl e)
       | Inr requested \<Rightarrow>
           let previous = wst_managementExecution (w_status ws);
               epoch = nextEpoch previous requested;
               vmUID = m_uid (un_meta vm)
           in if previous = Some \<lparr>me_vmUID = vmUID, me_revocationEpoch = epoch\<rparr> then Ret (Inr (copyExecution inst ws))
              else tryP (statusUpdateP toWorkspace (OWorkspace (withExecution ws vmUID epoch)))
                     (\<lambda>stored. Ret (Inr (copyExecution inst stored)))))"

section \<open>The bootstrap credential\<close>

definition managementBootstrapSecretName :: "lib \<Rightarrow> string \<Rightarrow> string \<Rightarrow> int \<Rightarrow> string" where
  "managementBootstrapSecretName L workspaceUID vmUID epoch =
     ''kw-mgmt-'' @ hexBytes (take 16 (l_sha256 L (workspaceUID @ ''/'' @ vmUID @ (if epoch \<noteq> 0 then ''/'' @ showInt epoch else []))))"

definition managementLifecyclePending :: "workspace \<Rightarrow> bool" where
  "managementLifecyclePending ws \<longleftrightarrow> list_ex (\<lambda>key. mhas (annotationsOf ws) key)
     [AnnotationReset, AnnotationStopped, windowsRebootAnnotation, windowsDetachingGeneration]"

definition canonicalNonce :: "string \<Rightarrow> bool" where
  "canonicalNonce token \<longleftrightarrow> (case decodeBase64 token of None \<Rightarrow> False
     | Some nonce \<Rightarrow> length nonce = 32 \<and> encodeBase64 nonce = token)"

definition bootstrapEnvelope :: "secret \<Rightarrow> workspace \<Rightarrow> unstructured \<Rightarrow> bool" where
  "bootstrapEnvelope secret ws vm \<longleftrightarrow>
     \<not> (sec_type secret \<noteq> ''Opaque'' \<or> sec_immutable secret \<noteq> Some True \<or> m_ownerRefs (sec_meta secret) \<noteq> []
        \<or> m_deletion (sec_meta secret) \<noteq> None \<or> length (sec_data secret) \<noteq> 1)
     \<and> \<not> (mget (m_labels (sec_meta secret)) managementBootstrapLabel \<noteq> ''v1''
        \<or> mget (m_labels (sec_meta secret)) workspaceUIDLabel \<noteq> m_uid (w_meta ws)
        \<or> mget (m_labels (sec_meta secret)) vmUIDLabel \<noteq> m_uid (un_meta vm))
     \<and> \<not> (mget (m_annotations (sec_meta secret)) workspaceNamespaceAnnotation \<noteq> namespaceOf ws
        \<or> mget (m_annotations (sec_meta secret)) workspaceNameAnnotation \<noteq> nameOf ws)"

definition bootstrapDocumentCurrent :: "bootstrapDocument \<Rightarrow> workspace \<Rightarrow> unstructured \<Rightarrow> int \<Rightarrow> bool" where
  "bootstrapDocumentCurrent doc ws vm now \<longleftrightarrow> (case wst_managementExecution (w_status ws) of None \<Rightarrow> False
     | Some state \<Rightarrow> me_vmUID state = m_uid (un_meta vm) \<and> me_revocationEpoch state \<ge> 0 \<and> canonicalNonce (bd_token doc)
         \<and> bd_version doc = 1 \<and> bd_namespace doc = namespaceOf ws \<and> bd_workspaceName doc = nameOf ws
         \<and> bd_workspaceUID doc = m_uid (w_meta ws) \<and> bd_generation doc = m_uid (un_meta vm)
         \<and> bd_revocationEpoch doc = word_of_int (me_revocationEpoch state)
         \<and> (case bd_expiresAt doc of None \<Rightarrow> False | Some t \<Rightarrow> t \<le> now + managementBootstrapLifetime))"

definition managementBootstrapMatches :: "lib \<Rightarrow> secret \<Rightarrow> workspace \<Rightarrow> unstructured \<Rightarrow> int \<Rightarrow> bool" where
  "managementBootstrapMatches L secret ws vm now \<longleftrightarrow> bootstrapEnvelope secret ws vm
     \<and> (let raw = mget (sec_data secret) ''bootstrap.json'' in
        raw \<noteq> [] \<and> int (length raw) \<le> 4096
        \<and> (case l_decodeBootstrap L raw of Inl e \<Rightarrow> False | Inr doc \<Rightarrow> bootstrapDocumentCurrent doc ws vm now))"

definition newBootstrapDocument :: "string \<Rightarrow> workspace \<Rightarrow> unstructured \<Rightarrow> int \<Rightarrow> int \<Rightarrow> bootstrapDocument" where
  "newBootstrapDocument nonce ws vm epoch now = \<lparr>bd_version = 1, bd_token = encodeBase64 nonce, bd_namespace = namespaceOf ws,
     bd_workspaceName = nameOf ws, bd_workspaceUID = m_uid (w_meta ws), bd_generation = m_uid (un_meta vm),
     bd_revocationEpoch = word_of_int epoch, bd_expiresAt = Some (now - now mod 1000 + managementBootstrapLifetime)\<rparr>"

definition newBootstrapSecret :: "string \<Rightarrow> string \<Rightarrow> workspace \<Rightarrow> unstructured \<Rightarrow> string \<Rightarrow> secret" where
  "newBootstrapSecret mgmtNs name ws vm raw = \<lparr>
     sec_meta = (objectMeta mgmtNs name)\<lparr>
       m_labels := [(managementBootstrapLabel, ''v1''), (workspaceUIDLabel, m_uid (w_meta ws)), (vmUIDLabel, m_uid (un_meta vm))],
       m_annotations := [(workspaceNamespaceAnnotation, namespaceOf ws), (workspaceNameAnnotation, nameOf ws)]\<rparr>,
     sec_type = ''Opaque'', sec_immutable = Some True, sec_data = [(''bootstrap.json'', raw)], sec_stringData = []\<rparr>"

text \<open>\<^verbatim>\<open>rand.Read\<close> into a buffer of \<open>n\<close> bytes.\<close>

definition asBytes :: "nat \<Rightarrow> resp \<Rightarrow> string result" where
  "asBytes n r = (case r of RErr e \<Rightarrow> Inl e | RStr s \<Rightarrow> if length s = n then Inr s else Inl badResponse | _ \<Rightarrow> Inl badResponse)"

text \<open>Creating the Secret with a fresh nonce.\<close>

definition issueBootstrapSecret :: "lib \<Rightarrow> string \<Rightarrow> string \<Rightarrow> workspace \<Rightarrow> unstructured \<Rightarrow> int \<Rightarrow> string \<Rightarrow> unit result prog" where
  "issueBootstrapSecret L mgmtNs name ws vm epoch nonce = bind nowP (\<lambda>now.
     case l_encodeBootstrap L (newBootstrapDocument nonce ws vm epoch now) of
       Inl e \<Rightarrow> Ret (Inl (Errorf ''management bootstrap encoding failed''))
     | Inr raw \<Rightarrow> replaceErr ''management bootstrap Secret creation failed''
         (createP toSecret (OSecret (newBootstrapSecret mgmtNs name ws vm raw))) (\<lambda>_. Ret (Inr ())))"

text \<open>The part of \<^verbatim>\<open>reconcileManagementBootstrap\<close> after the identity checks.\<close>

definition ensureBootstrapSecret :: "lib \<Rightarrow> reader \<Rightarrow> string \<Rightarrow> workspace \<Rightarrow> unstructured \<Rightarrow> int \<Rightarrow> unit result prog" where
  "ensureBootstrapSecret L rd mgmtNs ws vm epoch =
     (let name = managementBootstrapSecretName L (m_uid (w_meta ws)) (m_uid (un_meta vm)) epoch in
      bind (getP rd KSecret toSecret mgmtNs name) (\<lambda>g. case g of
        Inr secret \<Rightarrow> bind nowP (\<lambda>now. Ret (if managementBootstrapMatches L secret ws vm now then Inr ()
            else Inl (Errorf ''management bootstrap Secret identity conflicts'')))
      | Inl e \<Rightarrow>
          if \<not> isNotFound e then Ret (Inl (Errorf ''management bootstrap Secret lookup failed''))
          else replaceErr ''management bootstrap entropy unavailable'' (ask (ReqRandBytes 32) (asBytes 32)) 
                 (issueBootstrapSecret L mgmtNs name ws vm epoch)))"

definition bootstrapEpoch :: "workspace \<Rightarrow> unstructured \<Rightarrow> int option" where
  "bootstrapEpoch ws vm = (case (wst_managementExecution (w_status ws), requestedExecutionEpoch ws) of
     (Some state, Inr requested) \<Rightarrow>
       if me_vmUID state \<noteq> m_uid (un_meta vm) \<or> me_revocationEpoch state < 0 \<or> requested > me_revocationEpoch state then None
       else Some (me_revocationEpoch state)
   | _ \<Rightarrow> None)"

definition reconcileManagementBootstrap ::
  "lib \<Rightarrow> reader \<Rightarrow> string \<Rightarrow> workspace \<Rightarrow> unstructured \<Rightarrow> unit result prog" where
  "reconcileManagementBootstrap L rd mgmtNs inst observedVM =
     (if mgmtNs = [] then Ret (Inr ())
      else if \<not> l_isDNS1123Label L mgmtNs \<or> mgmtNs = namespaceOf inst
      then Ret (Inl (Errorf ''management bootstrap requires a separate protected namespace''))
      else replaceErr ''management bootstrap workspace lookup failed''
        (getP rd KWorkspace toWorkspace (namespaceOf inst) (nameOf inst)) (\<lambda>ws.
        if m_uid (w_meta ws) = [] \<or> m_uid (w_meta ws) \<noteq> m_uid (w_meta inst) \<or> m_deletion (w_meta ws) \<noteq> None
           \<or> workspaceTypeOf ws \<noteq> WorkspaceTypeVM \<or> managementLifecyclePending ws
        then Ret (Inl (Errorf ''management bootstrap workspace identity is not current''))
        else replaceErr ''management bootstrap VM lookup failed''
          (getP rd KVirtualMachine toUnstructured (namespaceOf inst) (nameOf inst)) (\<lambda>vm.
          if \<not> managementVMCurrent L ws vm observedVM
          then Ret (Inl (Errorf ''management bootstrap VM identity is not current''))
          else case bootstrapEpoch ws vm of
            None \<Rightarrow> Ret (Inl (Errorf ''management bootstrap execution epoch is not current''))
          | Some epoch \<Rightarrow> ensureBootstrapSecret L rd mgmtNs ws vm epoch)))"

text \<open>Both steps; the first one updates the caller's object.\<close>

definition reconcileManagementIdentity ::
  "lib \<Rightarrow> reader \<Rightarrow> string \<Rightarrow> workspace \<Rightarrow> unstructured \<Rightarrow> (workspace \<times> unit result) prog" where
  "reconcileManagementIdentity L rd mgmtNs inst vm =
     bind (reconcileExecutionEpoch L rd inst vm) (\<lambda>r. case r of
       Inl e \<Rightarrow> Ret (inst, Inl e)
     | Inr inst' \<Rightarrow> mapP (\<lambda>u. (inst', u)) (reconcileManagementBootstrap L rd mgmtNs inst' vm))"

section \<open>Base64 round trip\<close>

lemma sextetTable_chars: "map snd sextetTable = base64Alphabet"
  by code_simp

lemma base64Alphabet_distinct: "distinct base64Alphabet"
  by code_simp

lemma sextetTable_mem: "([a, b, c, d, e, f], sextet a b c d e f) \<in> set sextetTable"
  unfolding sextetTable_def Let_def by (cases a; cases b; cases c; cases d; cases e; cases f; simp)

lemma find_unique: "distinct (map snd xs) \<Longrightarrow> (k, v) \<in> set xs \<Longrightarrow> find (\<lambda>(k, w). w = v) xs = Some (k, v)"
proof (induction xs)
  case (Cons x xs)
  obtain k' v' where x: "x = (k', v')" by (cases x)
  show ?case
  proof (cases "v' = v")
    case True
    with Cons.prems x have "k' = k" by force
    with True x show ?thesis by simp
  next
    case False
    with Cons x show ?thesis by auto
  qed
qed simp

lemma sextetBits_sextet [simp]: "sextetBits (sextet a b c d e f) = Some [a, b, c, d, e, f]"
  using find_unique[OF _ sextetTable_mem, of a b c d e f] base64Alphabet_distinct
  unfolding sextetBits_def sextetTable_chars by simp

lemma decode_encodeBits:
  "even (length bs) \<Longrightarrow> \<exists>pad. decodeChars (encodeBits bs) = Some (bs @ pad) \<and> length pad < 6"
  by (induction bs rule: encodeBits.induct) auto

lemma length_encodeBits: "even (length bs) \<Longrightarrow> length (encodeBits bs) = (length bs + 5) div 6"
  by (induction bs rule: encodeBits.induct) auto

lemma bytesOf_short: "length pad < 8 \<Longrightarrow> bytesOf pad = []"
  by (induction pad rule: bytesOf.induct) auto

lemma bytesOf_bits: "length pad < 8 \<Longrightarrow> bytesOf (concat (map bitsOf s) @ pad) = s"
proof (induction s)
  case (Cons c s)
  then show ?case by (cases c) (simp add: bitsOf_def)
qed (simp add: bytesOf_short)

lemma length_bits: "length (concat (map bitsOf s)) = 8 * length s"
  by (induction s) (simp_all add: bitsOf_def)

lemma decode_encodeBase64: "decodeBase64 (encodeBase64 s) = Some s"
proof -
  let ?bs = "concat (map bitsOf s)"
  have ev: "even (length ?bs)" by (simp add: length_bits)
  have len: "length (encodeBase64 s) = (8 * length s + 5) div 6"
    unfolding encodeBase64_def using length_encodeBits[OF ev] by (simp add: length_bits)
  have "((8 * length s + 5) div 6) mod 4 \<noteq> 1" by presburger
  then have "length (encodeBase64 s) mod 4 \<noteq> 1" using len by simp
  moreover from decode_encodeBits[OF ev] obtain pad where "decodeChars (encodeBits ?bs) = Some (?bs @ pad)" "length pad < 6" by blast
  ultimately show ?thesis using bytesOf_bits[of pad s] by (simp add: decodeBase64_def encodeBase64_def)
qed

lemma canonicalNonce_encode: "length nonce = 32 \<Longrightarrow> canonicalNonce (encodeBase64 nonce)"
  by (simp add: canonicalNonce_def decode_encodeBase64)

section \<open>The epoch never decreases\<close>

lemma nextEpoch_max:
  "nextEpoch previous requested = (case previous of None \<Rightarrow> requested | Some p \<Rightarrow> max (me_revocationEpoch p) requested)"
  by (auto simp: nextEpoch_def split: option.split)

text \<open>
  C27. The revocation epoch only grows and is bound to one VM. The one write of reconciling the
  execution epoch is a status update of the Workspace as read, which is the caller's Workspace by UID
  and not under deletion, while a VM was read that is running, not under deletion and owned by it.
  The recorded VM is that VM, and the recorded epoch is the larger of the requested and the previously recorded one.
\<close>

theorem execution_epoch_monotone:
  assumes "runs (reconcileExecutionEpoch L rd inst vm) tr r" and "(q, x) \<in> set tr" and "isWrite q"
  shows "\<exists>ws cur epoch. q = ReqStatusUpdate (OWorkspace (withExecution ws (m_uid (un_meta cur)) epoch))
    \<and> (ReqGet rd KWorkspace (namespaceOf inst, nameOf inst), RObj (OWorkspace ws)) \<in> set tr
    \<and> (ReqGet rd KVirtualMachine (namespaceOf inst, nameOf inst), RObj (OUnstructured cur)) \<in> set tr
    \<and> m_uid (w_meta ws) = m_uid (w_meta inst) \<and> m_deletion (w_meta ws) = None
    \<and> managementVMCurrent L ws cur vm \<and> m_uid (un_meta cur) \<noteq> [] \<and> ownedByWorkspace L ws cur
    \<and> 0 \<le> wss_executionRevocationEpoch (w_spec ws)
    \<and> epoch = (case wst_managementExecution (w_status ws) of None \<Rightarrow> wss_executionRevocationEpoch (w_spec ws)
        | Some p \<Rightarrow> max (me_revocationEpoch p) (wss_executionRevocationEpoch (w_spec ws)))"
proof -
  from assms obtain ws cur epoch where
    ws: "(ReqGet rd KWorkspace (namespaceOf inst, nameOf inst), RObj (OWorkspace ws)) \<in> set tr"
      "(ReqGet rd KVirtualMachine (namespaceOf inst, nameOf inst), RObj (OUnstructured cur)) \<in> set tr"
      "m_uid (w_meta ws) = m_uid (w_meta inst)" "m_deletion (w_meta ws) = None" "managementVMCurrent L ws cur vm"
      "requestedExecutionEpoch ws = Inr epoch"
    and q: "q = ReqStatusUpdate (OWorkspace (withExecution ws (m_uid (un_meta vm)) (nextEpoch (wst_managementExecution (w_status ws)) epoch)))"
    unfolding reconcileExecutionEpoch_def
    by (auto simp: runs_tryP runs_client runs_Ret_iff asObj_Inr Let_def split: if_splits sum.splits)
  from ws(5) have cur: "m_uid (un_meta cur) = m_uid (un_meta vm)" "m_uid (un_meta cur) \<noteq> []" "ownedByWorkspace L ws cur"
    by (auto simp: managementVMCurrent_def split: if_splits)
  from ws(6) have e: "epoch = wss_executionRevocationEpoch (w_spec ws)" "0 \<le> epoch"
    by (auto simp: requestedExecutionEpoch_def Let_def split: if_splits)
  show ?thesis
    using ws(1-5) cur(2,3) e(2) q unfolding nextEpoch_max e(1) cur(1)[symmetric]
    by (intro exI[of _ ws] exI[of _ cur] exI conjI) (assumption | rule refl)+
qed

definition exVM :: unstructured where
  "exVM = \<lparr>un_apiVersion = ''kubevirt.io/v1'', un_kind = ''VirtualMachine'',
     un_meta = (objectMeta ''team'' ''ws'')\<lparr>m_uid := ''vm-1'', m_ownerRefs := [\<lparr>or_apiVersion = GroupVersion, or_kind = ''Workspace'',
       or_name = ''ws'', or_uid = ''u-1'', or_controller = True\<rparr>]\<rparr>,
     un_object = [(''spec'', JObj [(''running'', JBool True)])]\<rparr>"

definition exManaged :: workspace where
  "exManaged = withExecution (exWorkspace ''vm'') ''vm-1'' 0"

theorem execution_epoch_monotone_witness:
  "\<exists>tr r q x ws epoch. runs (reconcileExecutionEpoch ref_lib Live (exWorkspace ''vm'') exVM) tr r \<and> (q, x) \<in> set tr
     \<and> q = ReqStatusUpdate (OWorkspace (withExecution ws ''vm-1'' epoch)) \<and> 0 \<le> wss_executionRevocationEpoch (w_spec ws)"
proof -
  let ?e = "exec (reconcileExecutionEpoch ref_lib Live (exWorkspace ''vm'') exVM)
    [RObj (OWorkspace (exWorkspace ''vm'')), RObj (OUnstructured exVM), RErr (ApiErr ReasonOther [])]"
  have "snd ?e = Some (Inl (ApiErr ReasonOther []))" by code_simp
  then have "?e = (fst ?e, Some (Inl (ApiErr ReasonOther [])))" by (metis prod.collapse)
  then have run: "runs (reconcileExecutionEpoch ref_lib Live (exWorkspace ''vm'') exVM) (fst ?e) (Inl (ApiErr ReasonOther []))"
    by (rule exec_runs)
  have "list_ex (\<lambda>(q, x). isWrite q) (fst ?e)" by code_simp
  then obtain q x where q: "(q, x) \<in> set (fst ?e)" "isWrite q" by (auto simp: list_ex_iff)
  have vm: "managementVMCurrent ref_lib ws cur exVM \<Longrightarrow> m_uid (un_meta cur) = ''vm-1''" for ws cur
    by (auto simp: managementVMCurrent_def exVM_def split: if_splits)
  from execution_epoch_monotone[OF run q] vm run q show ?thesis by metis
qed

section \<open>The bootstrap credential\<close>

lemma asBytes_Inr: "asBytes n r = Inr s \<longleftrightarrow> r = RStr s \<and> length s = n"
  by (auto simp: asBytes_def badResponse_def split: resp.splits if_splits)

lemma issueBootstrapSecret_write:
  assumes "runs (issueBootstrapSecret L mgmtNs name ws vm epoch nonce) tr r" and "(q, x) \<in> set tr" and "isWrite q"
  shows "\<exists>raw now. q = ReqCreate (OSecret (newBootstrapSecret mgmtNs name ws vm raw)) \<and> (ReqNow, now) \<in> set tr
    \<and> l_encodeBootstrap L (newBootstrapDocument nonce ws vm epoch (case now of RInt t \<Rightarrow> t | _ \<Rightarrow> 0)) = Inr raw"
proof -
  from assms(1) obtain now t where tr: "tr = (ReqNow, now) # t"
    and k: "runs (case l_encodeBootstrap L (newBootstrapDocument nonce ws vm epoch (case now of RInt t \<Rightarrow> t | _ \<Rightarrow> 0)) of
        Inl e \<Rightarrow> Ret (Inl (Errorf ''management bootstrap encoding failed''))
      | Inr raw \<Rightarrow> replaceErr ''management bootstrap Secret creation failed''
          (createP toSecret (OSecret (newBootstrapSecret mgmtNs name ws vm raw))) (\<lambda>_. Ret (Inr ()))) t r"
    unfolding issueBootstrapSecret_def nowP_def by (auto simp: runs_bind runs_ask)
  show ?thesis
    using k assms(2,3) unfolding tr
    by (cases "l_encodeBootstrap L (newBootstrapDocument nonce ws vm epoch (case now of RInt t \<Rightarrow> t | _ \<Rightarrow> 0))")
      (auto simp: runs_replaceErr runs_client runs_Ret_iff)
qed

lemma ensureBootstrapSecret_write:
  assumes "runs (ensureBootstrapSecret L rd mgmtNs ws vm epoch) tr r" and "(q, x) \<in> set tr" and "isWrite q"
  shows "\<exists>nonce e raw now. q = ReqCreate (OSecret (newBootstrapSecret mgmtNs
        (managementBootstrapSecretName L (m_uid (w_meta ws)) (m_uid (un_meta vm)) epoch) ws vm raw))
    \<and> (ReqGet rd KSecret (mgmtNs, managementBootstrapSecretName L (m_uid (w_meta ws)) (m_uid (un_meta vm)) epoch), RErr e) \<in> set tr
    \<and> isNotFound e \<and> (ReqRandBytes 32, RStr nonce) \<in> set tr \<and> length nonce = 32 \<and> (ReqNow, now) \<in> set tr
    \<and> l_encodeBootstrap L (newBootstrapDocument nonce ws vm epoch (case now of RInt t \<Rightarrow> t | _ \<Rightarrow> 0)) = Inr raw"
proof -
  let ?name = "managementBootstrapSecretName L (m_uid (w_meta ws)) (m_uid (un_meta vm)) epoch"
  from assms obtain e nonce t where tr: "tr = (ReqGet rd KSecret (mgmtNs, ?name), RErr e) # (ReqRandBytes 32, RStr nonce) # t"
    "isNotFound e" "length nonce = 32" and t: "runs (issueBootstrapSecret L mgmtNs ?name ws vm epoch nonce) t r" "(q, x) \<in> set t"
    unfolding ensureBootstrapSecret_def Let_def runs_bind_sum
    by (auto simp: runs_client runs_replaceErr runs_bind runs_ask runs_Ret_iff nowP_def asObj_notFound asBytes_Inr split: if_splits)
  from issueBootstrapSecret_write[OF t assms(3)] tr show ?thesis by fastforce
qed

text \<open>
  C28. A bootstrap credential is only ever issued once per identity. The one write of reconciling the
  management bootstrap creates a Secret, in the configured namespace, which is not the namespace of
  the workspace, after its name was reported free. It is immutable, has no owner and carries a nonce of 32
  fresh bytes. The Workspace it is issued for is the caller's by UID, a VM workspace not under deletion and with no
  reset, stop, reboot or detach pending; its VM is current, and its recorded epoch, which the name and the document
  carry, belongs to that VM and is not behind the requested epoch.
\<close>

theorem bootstrap_issued_safely:
  assumes "runs (reconcileManagementBootstrap L rd mgmtNs inst observedVM) tr r" and "(q, x) \<in> set tr" and "isWrite q"
  shows "\<exists>ws vm epoch nonce now raw e.
      (ReqGet rd KWorkspace (namespaceOf inst, nameOf inst), RObj (OWorkspace ws)) \<in> set tr
    \<and> (ReqGet rd KVirtualMachine (namespaceOf inst, nameOf inst), RObj (OUnstructured vm)) \<in> set tr
    \<and> mgmtNs \<noteq> namespaceOf inst \<and> m_uid (w_meta ws) = m_uid (w_meta inst) \<and> m_deletion (w_meta ws) = None
    \<and> workspaceTypeOf ws = WorkspaceTypeVM \<and> \<not> managementLifecyclePending ws \<and> managementVMCurrent L ws vm observedVM
    \<and> wst_managementExecution (w_status ws) = Some \<lparr>me_vmUID = m_uid (un_meta vm), me_revocationEpoch = epoch\<rparr>
    \<and> wss_executionRevocationEpoch (w_spec ws) \<le> epoch
    \<and> (ReqGet rd KSecret (mgmtNs, managementBootstrapSecretName L (m_uid (w_meta ws)) (m_uid (un_meta vm)) epoch), RErr e) \<in> set tr
    \<and> isNotFound e \<and> (ReqRandBytes 32, RStr nonce) \<in> set tr \<and> length nonce = 32
    \<and> l_encodeBootstrap L (newBootstrapDocument nonce ws vm epoch now) = Inr raw
    \<and> q = ReqCreate (OSecret (newBootstrapSecret mgmtNs
         (managementBootstrapSecretName L (m_uid (w_meta ws)) (m_uid (un_meta vm)) epoch) ws vm raw))"
proof -
  from assms obtain ws vm epoch t where
    tr: "tr = (ReqGet rd KWorkspace (namespaceOf inst, nameOf inst), RObj (OWorkspace ws))
      # (ReqGet rd KVirtualMachine (namespaceOf inst, nameOf inst), RObj (OUnstructured vm)) # t"
    and ws: "mgmtNs \<noteq> namespaceOf inst" "m_uid (w_meta ws) = m_uid (w_meta inst)" "m_deletion (w_meta ws) = None"
      "workspaceTypeOf ws = WorkspaceTypeVM" "\<not> managementLifecyclePending ws" "managementVMCurrent L ws vm observedVM"
    and ep: "bootstrapEpoch ws vm = Some epoch"
    and t: "runs (ensureBootstrapSecret L rd mgmtNs ws vm epoch) t r" "(q, x) \<in> set t"
    unfolding reconcileManagementBootstrap_def
    by (auto simp: runs_replaceErr runs_client runs_Ret_iff asObj_Inr split: if_splits option.splits)
  have sub: "set t \<subseteq> set tr" and gets: "(ReqGet rd KWorkspace (namespaceOf inst, nameOf inst), RObj (OWorkspace ws)) \<in> set tr"
    "(ReqGet rd KVirtualMachine (namespaceOf inst, nameOf inst), RObj (OUnstructured vm)) \<in> set tr" unfolding tr by auto
  from ep obtain st where st: "wst_managementExecution (w_status ws) = Some st" "me_vmUID st = m_uid (un_meta vm)"
    "me_revocationEpoch st = epoch" "wss_executionRevocationEpoch (w_spec ws) \<le> epoch"
    by (auto simp: bootstrapEpoch_def requestedExecutionEpoch_def Let_def split: option.splits sum.splits if_splits)
  then have "wst_managementExecution (w_status ws) = Some \<lparr>me_vmUID = m_uid (un_meta vm), me_revocationEpoch = epoch\<rparr>" by auto
  moreover from ensureBootstrapSecret_write[OF t(1,2) assms(3)] sub obtain nonce e raw now where
    "q = ReqCreate (OSecret (newBootstrapSecret mgmtNs (managementBootstrapSecretName L (m_uid (w_meta ws)) (m_uid (un_meta vm)) epoch) ws vm raw))"
    "(ReqGet rd KSecret (mgmtNs, managementBootstrapSecretName L (m_uid (w_meta ws)) (m_uid (un_meta vm)) epoch), RErr e) \<in> set tr"
    "isNotFound e" "(ReqRandBytes 32, RStr nonce) \<in> set tr" "length nonce = 32"
    "l_encodeBootstrap L (newBootstrapDocument nonce ws vm epoch now) = Inr raw" by blast
  ultimately show ?thesis using ws gets st(4) by blast
qed

theorem bootstrap_issued_safely_witness:
  "\<exists>tr q x raw name vm. runs (reconcileManagementBootstrap ref_lib Live ''mgmt'' exManaged exVM) tr (Inr ())
     \<and> (q, x) \<in> set tr \<and> isWrite q \<and> q = ReqCreate (OSecret (newBootstrapSecret ''mgmt'' name exManaged vm raw))"
proof -
  let ?e = "exec (reconcileManagementBootstrap ref_lib Live ''mgmt'' exManaged exVM)
    [RObj (OWorkspace exManaged), RObj (OUnstructured exVM), notFound, RStr (replicate 32 CHR ''n''), RInt 5000,
     RObj (OSecret (newBootstrapSecret ''mgmt'' [] exManaged exVM []))]"
  have "snd ?e = Some (Inr ())" by code_simp
  then have "?e = (fst ?e, Some (Inr ()))" by (metis prod.collapse)
  then have run: "runs (reconcileManagementBootstrap ref_lib Live ''mgmt'' exManaged exVM) (fst ?e) (Inr ())" by (rule exec_runs)
  have "list_ex (\<lambda>(q, x). isWrite q) (fst ?e)" by code_simp
  then obtain q x where q: "(q, x) \<in> set (fst ?e)" "isWrite q" by (auto simp: list_ex_iff)
  have "list_all (\<lambda>(q, x). case x of RObj (OWorkspace w) \<Rightarrow> w = exManaged | _ \<Rightarrow> True) (fst ?e)" by code_simp
  then have only: "(g, RObj (OWorkspace w)) \<in> set (fst ?e) \<Longrightarrow> w = exManaged" for g w by (auto simp: list_all_iff)
  from bootstrap_issued_safely[OF run q] only run q show ?thesis by metis
qed

section \<open>An issued credential is recognised\<close>

text \<open>Decoding the JSON text of a document gives the document back, and the text is not empty.\<close>

definition bootstrapJSON_doc :: "lib \<Rightarrow> bool" where
  "bootstrapJSON_doc L \<longleftrightarrow> (\<forall>doc raw. l_encodeBootstrap L doc = Inr raw \<longrightarrow> l_decodeBootstrap L raw = Inr doc \<and> raw \<noteq> [])"

text \<open>
  An issued credential is recognised afterwards. The Secret that issuing a credential creates, when it is
  read back by a later pass for the same workspace, VM and recorded epoch, passes every check of the controller,
  so the later pass reports no conflict; the text is assumed to have at most 4096 bytes, the limit of the check.
\<close>

theorem bootstrap_roundtrip:
  assumes "bootstrapJSON_doc L" and "bootstrapEpoch ws vm = Some epoch" and "length nonce = 32"
    and "l_encodeBootstrap L (newBootstrapDocument nonce ws vm epoch issued) = Inr raw"
    and "int (length raw) \<le> 4096" and "issued \<le> now"
  shows "managementBootstrapMatches L (newBootstrapSecret mgmtNs name ws vm raw) ws vm now"
proof -
  have dec: "l_decodeBootstrap L raw = Inr (newBootstrapDocument nonce ws vm epoch issued)" "raw \<noteq> []"
    using assms(1,4) by (auto simp: bootstrapJSON_doc_def)
  have "issued - issued mod 1000 \<le> now" using assms(6) by (smt (verit) pos_mod_sign)
  moreover from assms(2) obtain st where "wst_managementExecution (w_status ws) = Some st" "me_vmUID st = m_uid (un_meta vm)"
    "me_revocationEpoch st = epoch" "0 \<le> epoch"
    by (auto simp: bootstrapEpoch_def split: option.splits sum.splits if_splits)
  ultimately have "bootstrapDocumentCurrent (newBootstrapDocument nonce ws vm epoch issued) ws vm now"
    using canonicalNonce_encode[OF assms(3)] by (simp add: bootstrapDocumentCurrent_def newBootstrapDocument_def)
  moreover have "bootstrapEnvelope (newBootstrapSecret mgmtNs name ws vm raw) ws vm"
    by (simp add: bootstrapEnvelope_def newBootstrapSecret_def mget_def)
  ultimately show ?thesis
    using dec assms(5) by (simp add: managementBootstrapMatches_def newBootstrapSecret_def mget_def Let_def)
qed

text \<open>A library with a JSON codec that knows one document.\<close>

definition jsonLib :: lib where
  "jsonLib = (let doc = newBootstrapDocument (replicate 32 CHR ''n'') exManaged exVM 0 5000 in
     ref_lib\<lparr>l_encodeBootstrap := (\<lambda>d. if d = doc then Inr ''{}'' else Inl (Errorf [])),
       l_decodeBootstrap := (\<lambda>s. Inr doc)\<rparr>)"

theorem bootstrap_roundtrip_witness:
  "managementBootstrapMatches jsonLib (newBootstrapSecret ''mgmt'' ''kw-mgmt-1'' exManaged exVM ''{}'') exManaged exVM 6000"
proof (rule bootstrap_roundtrip)
  show "bootstrapJSON_doc jsonLib" by (auto simp: bootstrapJSON_doc_def jsonLib_def Let_def split: if_splits)
  show "bootstrapEpoch exManaged exVM = Some 0" by code_simp
  show "length (replicate 32 CHR ''n'') = 32" by simp
  show "l_encodeBootstrap jsonLib (newBootstrapDocument (replicate 32 CHR ''n'') exManaged exVM 0 5000) = Inr ''{}''"
    by (simp add: jsonLib_def Let_def)
  show "int (length ''{}'') \<le> 4096" by simp
  show "(5000 :: int) \<le> 6000" by simp
qed

end
