(* ===== verification/Cloud_Init.thy ===== *)
theory Cloud_Init
  imports Management
begin

text \<open>
  First-boot data of Linux VM workspaces: the cloud-init user data derived from the Image, the SSH
  keys, the binding of the Linux agent and the mounts of data disks, the Secrets that carry them, and
  the checks on the root image (src/internal/controller/workspace_controller.go, vm_disks.go,
  vm_linux_agent.go, vm_root_disk.go). YAML is a parameter of the library record. A Go function that
  returns a string and an error is a pair here, because one caller ignores the error and uses the
  string; \<open>PanicErr\<close> marks a write to a nil map.
\<close>

section \<open>Images\<close>

abbreviation annotationAgentGeneration :: string where "annotationAgentGeneration \<equiv> ''kubeworkspaces.io/agent-generation''"

definition usesGuestAgentSSH :: "image option \<Rightarrow> bool" where
  "usesGuestAgentSSH img \<longleftrightarrow> (case img of None \<Rightarrow> False | Some i \<Rightarrow> is_defaultUser (i_spec i) \<noteq> []
     \<and> mget (m_annotations (i_meta i)) AnnotationSSHKeyPropagation = ''qemuGuestAgent'')"

definition linuxAgentImage :: "image option \<Rightarrow> bool" where
  "linuxAgentImage img \<longleftrightarrow> (case img of None \<Rightarrow> False | Some i \<Rightarrow> is_vmProfile (i_spec i) = []
     \<and> (case is_remoteDesktop (i_spec i) of None \<Rightarrow> False | Some rd \<Rightarrow> rd_protocol rd = ''agent''))"

definition lookupVMImage :: "workspace \<Rightarrow> image option result prog" where
  "lookupVMImage ws = (if wss_vmProfile (w_spec ws) \<noteq> None then Ret (Inr None) else imageByRef (mainImage ws))"

text \<open>The object after the call, as written by the server on success, and the error.\<close>

definition updateWorkspaceW :: "workspace \<Rightarrow> (workspace \<times> unit result) prog" where
  "updateWorkspaceW ws = bind (updateP toWorkspace (OWorkspace ws)) (\<lambda>r. Ret (case r of
     Inl e \<Rightarrow> (ws, Inl e) | Inr stored \<Rightarrow> (stored, Inr ())))"

definition setAnnotation :: "workspace \<Rightarrow> string \<Rightarrow> string \<Rightarrow> workspace" where
  "setAnnotation ws k v = ws\<lparr>w_meta := (w_meta ws)\<lparr>m_annotations := mset (annotationsOf ws) k v\<rparr>\<rparr>"

definition dropAnnotation :: "workspace \<Rightarrow> string \<Rightarrow> workspace" where
  "dropAnnotation ws k = ws\<lparr>w_meta := (w_meta ws)\<lparr>m_annotations := mdel (annotationsOf ws) k\<rparr>\<rparr>"

definition newUUID :: "string prog" where
  "newUUID = ask ReqUUID (\<lambda>r. case r of RStr s \<Rightarrow> s | _ \<Rightarrow> [])"

definition ensureLinuxAgentGeneration :: "workspace \<Rightarrow> image option \<Rightarrow> (workspace \<times> unit result) prog" where
  "ensureLinuxAgentGeneration ws img =
     (if \<not> linuxAgentImage img then Ret (ws, Inr ())
      else case img of None \<Rightarrow> Ret (ws, Inr ())
      | Some i \<Rightarrow>
        if \<not> is_defaultCloudInit (i_spec i) \<or> \<not> is_persistentRootDisk (i_spec i) \<or> is_defaultUser (i_spec i) = []
        then Ret (ws, Inl (Errorf ''linux agent images require cloud-init, a persistent root and defaultUser''))
        else if mget (annotationsOf ws) annotationAgentGeneration \<noteq> [] then Ret (ws, Inr ())
        else bind newUUID (\<lambda>u. updateWorkspaceW (setAnnotation ws annotationAgentGeneration u)))"

section \<open>Root images\<close>

definition validateVMRootImage :: "lib \<Rightarrow> workspace \<Rightarrow> image option \<Rightarrow> unit result" where
  "validateVMRootImage L ws img =
     (if windowsWorkspace ws \<or> containersOf ws = [] then Inr ()
      else let ref = mainImage ws in
        if \<not> contains ref ''://'' then Inr ()
        else if (case l_urlParse L ref of Inl e \<Rightarrow> True
            | Inr u \<Rightarrow> (url_scheme u \<noteq> ''https'' \<and> url_scheme u \<noteq> ''http'') \<or> url_hostname u = [] \<or> url_hasUser u \<or> url_fragment u \<noteq> [])
            \<or> list_ex (\<lambda>c. c \<in> set spaces) ref
        then Inl (Errorf ''VM cloud image must be an absolute HTTP(S) URL without credentials, whitespace or a fragment'')
        else if (case img of None \<Rightarrow> True | Some i \<Rightarrow> \<not> is_persistentRootDisk (i_spec i) \<or> is_vmProfile (i_spec i) \<noteq> []
            \<or> is_workspaceTypes (i_spec i) \<noteq> [WorkspaceTypeVM])
        then Inl (Errorf ''HTTP(S) VM roots require a VM-only Image with persistentRootDisk enabled'')
        else Inr ())"

definition vmRootDiskSource :: "string \<Rightarrow> json" where
  "vmRootDiskSource img = (let lower = toLower img in
     if hasPrefix lower ''https://'' \<or> hasPrefix lower ''http://''
     then JObj [(''http'', JObj [(''url'', JStr img)])]
     else JObj [(''registry'', JObj [(''url'', JStr (''docker://'' @ img))])])"

section \<open>User data\<close>

abbreviation NL :: string where "NL \<equiv> [CHR 0x0A]"

fun mergeExisting :: "string list \<Rightarrow> json list \<Rightarrow> json list \<times> string list" where
  "mergeExisting seen [] = ([], seen)"
| "mergeExisting seen (k # ks) = (case k of
     JStr s \<Rightarrow> if s \<in> set seen then mergeExisting seen ks
       else (case mergeExisting (s # seen) ks of (out, seen') \<Rightarrow> (k # out, seen'))
   | _ \<Rightarrow> (case mergeExisting seen ks of (out, seen') \<Rightarrow> (k # out, seen')))"

fun mergeNew :: "string list \<Rightarrow> string list \<Rightarrow> json list" where
  "mergeNew seen [] = []"
| "mergeNew seen (k # ks) = (if k \<in> set seen then mergeNew seen ks else JStr k # mergeNew (k # seen) ks)"

definition mergeKeys :: "json list \<Rightarrow> string list \<Rightarrow> json list" where
  "mergeKeys existing sshKeys = (case mergeExisting [] existing of (out, seen) \<Rightarrow> out @ mergeNew seen sshKeys)"

definition jsonList :: "jobj option \<Rightarrow> string \<Rightarrow> json list" where
  "jsonList body k = (case body of None \<Rightarrow> [] | Some m \<Rightarrow> (case map_of m k of Some (JArr xs) \<Rightarrow> xs | _ \<Rightarrow> []))"

text \<open>The document the keys are merged into: \<open>Inl\<close> when the user data is no YAML map and is returned as it is.\<close>

definition keysBody :: "lib \<Rightarrow> string \<Rightarrow> jobj option result" where
  "keysBody L userData = (let trimmed = trimSpace (trimPrefix (trimSpace userData) ''#cloud-config'') in
     if userData = [] \<or> trimmed = [] then Inr (Some []) else l_yamlUnmarshal L trimmed)"

definition injectSSHAuthorizedKeys :: "lib \<Rightarrow> string \<Rightarrow> string list \<Rightarrow> string result" where
  "injectSSHAuthorizedKeys L userData sshKeys =
     (if sshKeys = [] then Inr userData
      else case keysBody L userData of
        Inl e \<Rightarrow> Inr userData
      | Inr body \<Rightarrow>
          let merged = mergeKeys (jsonList body ''ssh_authorized_keys'') sshKeys in
          if merged = [] then Inr userData
          else (case body of
            None \<Rightarrow> Inl (PanicErr ''assignment to entry in nil map'')
          | Some m \<Rightarrow> (case l_yamlMarshal L (JObj (mset m ''ssh_authorized_keys'' (JArr merged))) of
              Inl e \<Rightarrow> Inr userData
            | Inr y \<Rightarrow> Inr (''#cloud-config'' @ NL @ y))))"

definition passwordConfig :: "string \<Rightarrow> string \<Rightarrow> string" where
  "passwordConfig user password = ''#cloud-config'' @ NL @ ''ssh_pwauth: true'' @ NL @ ''chpasswd:'' @ NL @ ''  expire: false'' @ NL
     @ ''  list: |'' @ NL @ ''    '' @ user @ '':'' @ password @ NL"

definition imageUserData :: "image option \<Rightarrow> string" where
  "imageUserData img = (case img of None \<Rightarrow> [] | Some i \<Rightarrow>
     if is_defaultUserData (i_spec i) \<noteq> [] then is_defaultUserData (i_spec i)
     else if is_defaultCloudInit (i_spec i) \<and> is_defaultUser (i_spec i) \<noteq> [] \<and> is_defaultPassword (i_spec i) \<noteq> []
     then passwordConfig (is_defaultUser (i_spec i)) (is_defaultPassword (i_spec i)) else [])"

definition cloudInitUserData :: "lib \<Rightarrow> image option \<Rightarrow> string list \<Rightarrow> string result" where
  "cloudInitUserData L img sshKeys = injectSSHAuthorizedKeys L (imageUserData img) sshKeys"

definition bindingPath :: string where
  "bindingPath = ''/etc/workspace-agent/public/binding.json''"

definition isBindingFile :: "json \<Rightarrow> bool" where
  "isBindingFile file \<longleftrightarrow> (case file of JObj entry \<Rightarrow> map_of entry ''path'' = Some (JStr bindingPath) | _ \<Rightarrow> False)"

definition bindingFile :: "string \<Rightarrow> json" where
  "bindingFile binding = JObj [(''path'', JStr bindingPath), (''owner'', JStr ''root:root''), (''permissions'', JStr ''0444''), (''content'', JStr binding)]"

text \<open>\<^verbatim>\<open>return "#cloud-config\n" + string(encoded), err\<close>\<close>

definition cloudConfig :: "lib \<Rightarrow> jobj \<Rightarrow> gerr option \<times> string" where
  "cloudConfig L body = (case l_yamlMarshal L (JObj body) of
     Inl e \<Rightarrow> (Some e, ''#cloud-config'' @ NL) | Inr y \<Rightarrow> (None, ''#cloud-config'' @ NL @ y))"

definition linuxAgentCloudInit :: "lib \<Rightarrow> workspace \<Rightarrow> image option \<Rightarrow> string \<Rightarrow> gerr option \<times> string" where
  "linuxAgentCloudInit L ws img data =
     (if \<not> linuxAgentImage img then (None, data)
      else if m_uid (w_meta ws) = [] \<or> mget (annotationsOf ws) annotationAgentGeneration = []
      then (Some (Errorf ''linux agent workspace binding has not been initialized''), [])
      else if \<not> hasPrefix (trimSpace data) ''#cloud-config''
      then (Some (Errorf ''linux agent requires cloud-config user-data''), [])
      else case l_yamlUnmarshal L data of
        Inl e \<Rightarrow> (Some (Wrapf ''linux agent requires cloud-config user-data: '' e), [])
      | Inr b \<Rightarrow>
          (case l_jsonStrings L [(''workspaceUid'', m_uid (w_meta ws)), (''workspaceGeneration'', mget (annotationsOf ws) annotationAgentGeneration)] of
            Inl e \<Rightarrow> (Some e, [])
          | Inr binding \<Rightarrow>
              let body = zeroOr [] b; files = jsonList (Some body) ''write_files'' in
              if list_ex isBindingFile files
              then (Some (Errorf ''linux agent binding path is reserved for the controller''), [])
              else cloudConfig L (mset body ''write_files'' (JArr (files @ [bindingFile binding])))))"

definition ownershipScript :: "string \<Rightarrow> string" where
  "ownershipScript user = (if user = [] then []
     else ''if [ \"$formatted\" = true ] && id '' @ shellQuote user @ '' >/dev/null 2>&1; then chown '' @ shellQuote user @ '' \"$target\"; fi'' @ NL)"

definition mountScript :: "string \<Rightarrow> string \<Rightarrow> string \<Rightarrow> string" where
  "mountScript device target ownership = join NL
     [''set -eu'', ''device='' @ shellQuote device, ''target='' @ shellQuote target, ''formatted=false'', ''udevadm settle'',
      ''test -b \"$device\"'', ''if blkid -p \"$device\" >/dev/null 2>&1; then'',
      ''  test \"$(blkid -p -s TYPE -o value \"$device\")\" = ext4'', ''else'', ''  status=$?'', ''  test \"$status\" = 2'',
      ''  mkfs.ext4 -F \"$device\"'', ''  formatted=true'', ''fi'', ''mkdir -p \"$target\"'',
      ''if ! mountpoint -q \"$target\"; then'', ''  mount -t ext4 \"$device\" \"$target\"'', ''fi'', ownership]"

text \<open>The loop over the mounts: the names and paths used so far are the accumulators.\<close>

fun mountCommands :: "lib \<Rightarrow> string \<Rightarrow> string list \<Rightarrow> string list \<Rightarrow> volumeMount list \<Rightarrow> json list option" where
  "mountCommands L user names paths [] = Some []"
| "mountCommands L user names paths (m # ms) =
     (if \<not> l_isDNS1123Label L (vm_name m) \<or> vm_name m \<in> set names \<or> \<not> validGuestMountPath (vm_mountPath m) \<or> vm_mountPath m \<in> set paths
      then None
      else (case mountCommands L user (vm_name m # names) (vm_mountPath m # paths) ms of
        None \<Rightarrow> None
      | Some cs \<Rightarrow> Some (JStr (mountScript (''/dev/disk/by-id/virtio-'' @ vmDiskSerial L (vm_name m)) (vm_mountPath m) (ownershipScript user)) # cs)))"

definition mountsOf :: "workspace \<Rightarrow> volumeMount list" where
  "mountsOf ws = (case containersOf ws of [] \<Rightarrow> [] | c # cs \<Rightarrow> ct_volumeMounts c)"

definition cloudInitCapable :: "image option \<Rightarrow> bool" where
  "cloudInitCapable img \<longleftrightarrow> (case img of None \<Rightarrow> False | Some i \<Rightarrow> is_defaultCloudInit (i_spec i) \<or> is_defaultUserData (i_spec i) \<noteq> [])"

definition imageUser :: "image option \<Rightarrow> string" where
  "imageUser img = (case img of None \<Rightarrow> [] | Some i \<Rightarrow> is_defaultUser (i_spec i))"

text \<open>Adding the mounts to the user data.\<close>

definition mountUserData :: "lib \<Rightarrow> workspace \<Rightarrow> image option \<Rightarrow> string \<Rightarrow> gerr option \<times> string" where
  "mountUserData L ws img data =
     (if \<not> cloudInitCapable img then (Some (Errorf ''VM disk mounting requires a cloud-init capable Image''), [])
      else if data \<noteq> [] \<and> \<not> hasPrefix (trimSpace data) ''#cloud-config''
      then (Some (Errorf ''VM disk mounting requires cloud-config user-data''), [])
      else case (if data = [] then Inr (Some []) else l_yamlUnmarshal L data) of
        Inl e \<Rightarrow> (Some e, [])
      | Inr body \<Rightarrow>
          (case mountCommands L (imageUser img) [] [] (mountsOf ws) of
            None \<Rightarrow> (Some (Errorf ''VM disk names and clean guest mount paths must be valid and unique''), [])
          | Some cs \<Rightarrow> (case body of
              None \<Rightarrow> (Some (PanicErr ''assignment to entry in nil map''), [])
            | Some m \<Rightarrow> cloudConfig L (mset m ''bootcmd'' (JArr (jsonList body ''bootcmd'' @ cs))))))"

definition vmCloudInitUserData :: "lib \<Rightarrow> workspace \<Rightarrow> image option \<Rightarrow> string list \<Rightarrow> gerr option \<times> string" where
  "vmCloudInitUserData L ws img sshKeys = (case cloudInitUserData L img sshKeys of
     Inl e \<Rightarrow> (Some e, [])
   | Inr data0 \<Rightarrow> (case linuxAgentCloudInit L ws img data0 of
       (Some e, _) \<Rightarrow> (Some e, [])
     | (None, data) \<Rightarrow> if mountsOf ws = [] then (None, data) else mountUserData L ws img data))"

section \<open>The Secrets\<close>

abbreviation cloudInitSecretKey :: string where "cloudInitSecretKey \<equiv> ''userdata''"
abbreviation inlineCloudInitMaxBytes :: int where "inlineCloudInitMaxBytes \<equiv> 2048"

definition inlined :: "string \<Rightarrow> bool" where
  "inlined data \<longleftrightarrow> int (length data) \<le> inlineCloudInitMaxBytes"

definition cloudInitVolume :: "string \<Rightarrow> string \<Rightarrow> json" where
  "cloudInitVolume workspaceName data = JObj [(''name'', JStr ''cloudinitdisk''), (''cloudInitNoCloud'',
     if \<not> inlined data then JObj [(''secretRef'', JObj [(''name'', JStr (cloudInitSecretName workspaceName))])]
     else JObj [(''userData'', JStr data)])]"

definition newCloudInitSecret :: "workspace \<Rightarrow> string \<Rightarrow> secret" where
  "newCloudInitSecret ws data = \<lparr>sec_meta = objectMeta (namespaceOf ws) (cloudInitSecretName (nameOf ws)), sec_type = ''Opaque'',
     sec_immutable = None, sec_data = [(cloudInitSecretKey, data)], sec_stringData = []\<rparr>"

definition removeCloudInitSecret :: "workspace \<Rightarrow> unit result prog" where
  "removeCloudInitSecret ws = bind (getP Cached KSecret toSecret (namespaceOf ws) (cloudInitSecretName (nameOf ws))) (\<lambda>g. case g of
     Inl e \<Rightarrow> Ret (if isNotFound e then Inr () else Inl e)
   | Inr secret \<Rightarrow> deleteP (OSecret secret) [])"

definition reconcileCloudInitSecret :: "lib \<Rightarrow> workspace \<Rightarrow> string \<Rightarrow> unit result prog" where
  "reconcileCloudInitSecret L ws data =
     (if inlined data then removeCloudInitSecret ws
      else let secret = newCloudInitSecret ws data in
        case l_setControllerReference L (w_meta ws) (sec_meta secret) of
          Inl e \<Rightarrow> Ret (Inl e)
        | Inr m \<Rightarrow> bind (getP Cached KSecret toSecret (namespaceOf ws) (cloudInitSecretName (nameOf ws))) (\<lambda>g. case g of
            Inl e \<Rightarrow> if isNotFound e then ask (ReqCreate (OSecret (secret\<lparr>sec_meta := m\<rparr>))) asUnit else Ret (Inl e)
          | Inr found \<Rightarrow> if \<not> mequal (sec_data found) (sec_data secret)
                           then ask (ReqUpdate (OSecret (found\<lparr>sec_data := sec_data secret\<rparr>))) asUnit else Ret (Inr ())))"

definition mutateSSHKeySecret :: "lib \<Rightarrow> workspace \<Rightarrow> string list \<Rightarrow> kobj \<Rightarrow> kobj result" where
  "mutateSSHKeySecret L ws sshKeys ob = (case ob of
     OSecret secret \<Rightarrow> (case l_setControllerReference L (w_meta ws) (sec_meta secret) of
       Inl e \<Rightarrow> Inl e
     | Inr m \<Rightarrow> Inr (OSecret (secret\<lparr>sec_meta := m, sec_type := ''Opaque'', sec_data := [(''authorized_keys'', join NL sshKeys)]\<rparr>)))
   | _ \<Rightarrow> Inl badResponse)"

definition reconcileSSHKeySecret :: "lib \<Rightarrow> workspace \<Rightarrow> string list \<Rightarrow> unit result prog" where
  "reconcileSSHKeySecret L ws sshKeys = l_createOrUpdate L
     (OSecret \<lparr>sec_meta = objectMeta (namespaceOf ws) (sshKeySecretName L (nameOf ws)), sec_type = [], sec_immutable = None,
        sec_data = [], sec_stringData = []\<rparr>) (mutateSSHKeySecret L ws sshKeys)"

definition sshAuthorizedKeysForWorkspace :: "string \<Rightarrow> string list result prog" where
  "sshAuthorizedKeysForWorkspace namespace = tryP (listP Cached KSshKey toSshKey (Some namespace) []) (\<lambda>keys.
     Ret (Inr (sort (filter (\<lambda>k. k \<noteq> []) (map (\<lambda>k. sk_publicKey (k_spec k)) keys)))))"

text \<open>The watch on SSH keys: every VM workspace of the namespace.\<close>

definition workspacesForSSHKey :: "ometa \<Rightarrow> key list prog" where
  "workspacesForSSHKey obj = bind (listP Cached KWorkspace toWorkspace (Some (m_namespace obj)) []) (\<lambda>r. Ret (case r of
     Inl e \<Rightarrow> []
   | Inr workspaces \<Rightarrow> map (\<lambda>ws. (namespaceOf ws, nameOf ws)) (filter (\<lambda>ws. workspaceTypeOf ws = WorkspaceTypeVM) workspaces)))"

section \<open>Merging the keys\<close>

definition jsonStrings :: "json list \<Rightarrow> string list" where
  "jsonStrings xs = List.map_filter (\<lambda>j. case j of JStr s \<Rightarrow> Some s | _ \<Rightarrow> None) xs"

lemma jsonStrings_simps [simp]:
  "jsonStrings [] = []" "jsonStrings (x # xs) = (case x of JStr s \<Rightarrow> s # jsonStrings xs | _ \<Rightarrow> jsonStrings xs)"
  "jsonStrings (xs @ ys) = jsonStrings xs @ jsonStrings ys"
  by (auto simp: jsonStrings_def List.map_filter_def split: json.split)

lemma set_jsonStrings [simp]: "set (jsonStrings xs) = {s. JStr s \<in> set xs}"
  by (induction xs) (auto split: json.splits)

lemma mergeExisting_spec:
  "mergeExisting seen ks = (out, seen') \<Longrightarrow>
     set out \<union> JStr ` set seen = set ks \<union> JStr ` set seen \<and> set seen' = set seen \<union> set (jsonStrings ks)
     \<and> distinct (jsonStrings out) \<and> set (jsonStrings out) \<inter> set seen = {}"
proof (induction ks arbitrary: seen out seen')
  case (Cons k ks)
  consider (dup) s where "k = JStr s" "s \<in> set seen" | (new) s where "k = JStr s" "s \<notin> set seen" | (other) "\<forall>s. k \<noteq> JStr s"
    by blast
  then show ?case
  proof cases
    case dup
    then have "mergeExisting seen ks = (out, seen')" using Cons.prems by simp
    from Cons.IH[OF this] dup show ?thesis by auto
  next
    case new
    obtain o1 s1 where m: "mergeExisting (s # seen) ks = (o1, s1)" by (cases "mergeExisting (s # seen) ks") auto
    with new Cons.prems have "out = k # o1" "seen' = s1" by auto
    with Cons.IH[OF m] new show ?thesis by auto
  next
    case other
    obtain o1 s1 where m: "mergeExisting seen ks = (o1, s1)" by (cases "mergeExisting seen ks") auto
    with other Cons.prems have "out = k # o1" "seen' = s1" by (auto split: json.splits)
    with Cons.IH[OF m] other show ?thesis by (auto split: json.splits)
  qed
qed simp

lemma union_cover: "M \<union> J = K \<union> J \<Longrightarrow> J \<subseteq> E \<Longrightarrow> E \<union> M = E \<union> K"
  by blast

lemma mergeNew_spec:
  "set (mergeNew seen ks) \<union> JStr ` set seen = JStr ` set ks \<union> JStr ` set seen
   \<and> distinct (jsonStrings (mergeNew seen ks)) \<and> set (jsonStrings (mergeNew seen ks)) \<inter> set seen = {}"
  by (induction seen ks rule: mergeNew.induct) auto

text \<open>
  Adding SSH keys to cloud-init user data loses nothing: the merged list contains exactly the entries that
  were there, strings or not, and the keys, and no string twice.
\<close>

theorem mergeKeys_exact:
  "set (mergeKeys existing sshKeys) = set existing \<union> JStr ` set sshKeys \<and> distinct (jsonStrings (mergeKeys existing sshKeys))"
proof -
  obtain out seen where m: "mergeExisting [] existing = (out, seen)" by (cases "mergeExisting [] existing")
  note e = mergeExisting_spec[OF m] and n = mergeNew_spec[of seen sshKeys]
  have seen: "set seen = {s. JStr s \<in> set out}" and out: "set out = set existing" using e by auto
  have "JStr ` set seen \<subseteq> set existing" using seen out by auto
  then have "set (out @ mergeNew seen sshKeys) = set existing \<union> JStr ` set sshKeys" using union_cover[OF conjunct1[OF n], of "set existing"] out by simp
  moreover have "distinct (jsonStrings (out @ mergeNew seen sshKeys))" using e n seen by auto
  ultimately show ?thesis by (simp add: mergeKeys_def m)
qed

section \<open>Mounting data disks\<close>

lemma mountCommands_Some:
  "mountCommands L user names paths ms = Some cs \<Longrightarrow>
     distinct (map vm_name ms) \<and> distinct (map vm_mountPath ms) \<and> set (map vm_name ms) \<inter> set names = {}
     \<and> set (map vm_mountPath ms) \<inter> set paths = {}
     \<and> (\<forall>m \<in> set ms. l_isDNS1123Label L (vm_name m) \<and> validGuestMountPath (vm_mountPath m))
     \<and> cs = map (\<lambda>m. JStr (mountScript (''/dev/disk/by-id/virtio-'' @ vmDiskSerial L (vm_name m)) (vm_mountPath m) (ownershipScript user))) ms"
proof (induction ms arbitrary: names paths cs)
  case (Cons m ms)
  from Cons.prems obtain cs' where c: "mountCommands L user (vm_name m # names) (vm_mountPath m # paths) ms = Some cs'"
    and "l_isDNS1123Label L (vm_name m)" "vm_name m \<notin> set names" "validGuestMountPath (vm_mountPath m)" "vm_mountPath m \<notin> set paths"
    and "cs = JStr (mountScript (''/dev/disk/by-id/virtio-'' @ vmDiskSerial L (vm_name m)) (vm_mountPath m) (ownershipScript user)) # cs'"
    by (simp split: if_splits option.splits)
  with Cons.IH[OF c] show ?case by auto
qed simp

lemma cloudConfig_None: "cloudConfig L body = (None, data) \<longleftrightarrow> (\<exists>y. l_yamlMarshal L (JObj body) = Inr y \<and> data = ''#cloud-config'' @ NL @ y)"
  by (auto simp: cloudConfig_def split: sum.splits)

lemma mountUserData_ok:
  assumes "mountUserData L ws img data = (None, out)"
  shows "\<exists>body cs y. mountCommands L (imageUser img) [] [] (mountsOf ws) = Some cs
    \<and> l_yamlMarshal L (JObj (mset body ''bootcmd'' (JArr (jsonList (Some body) ''bootcmd'' @ cs)))) = Inr y \<and> out = ''#cloud-config'' @ NL @ y"
  using assms unfolding mountUserData_def
  by (auto simp: cloudConfig_None split: if_splits sum.splits option.splits)

text \<open>
  When user data for a VM with data disks is produced, every disk name is a DNS label and no name and no mount
  path is used twice, every path is one the guest may mount on, and the boot commands written into the document
  are the ones that were there followed by one mount script for each disk, in order, whose device and path are
  quoted for the shell.
\<close>

theorem mounts_checked:
  assumes "vmCloudInitUserData L ws img keys = (None, data)" and "mountsOf ws \<noteq> []"
  shows "distinct (map vm_name (mountsOf ws)) \<and> distinct (map vm_mountPath (mountsOf ws))
    \<and> list_all (\<lambda>m. l_isDNS1123Label L (vm_name m) \<and> validGuestMountPath (vm_mountPath m)) (mountsOf ws)
    \<and> (\<exists>body old y. l_yamlMarshal L (JObj (mset body ''bootcmd'' (JArr (old @ map (\<lambda>m. JStr (mountScript
          (''/dev/disk/by-id/virtio-'' @ vmDiskSerial L (vm_name m)) (vm_mountPath m) (ownershipScript (imageUser img)))) (mountsOf ws))))) = Inr y
        \<and> old = jsonList (Some body) ''bootcmd'' \<and> data = ''#cloud-config'' @ NL @ y)"
proof -
  obtain d where "mountUserData L ws img d = (None, data)"
    using assms unfolding vmCloudInitUserData_def by (auto split: sum.splits option.splits prod.splits)
  from mountUserData_ok[OF this] obtain body cs y where cs: "mountCommands L (imageUser img) [] [] (mountsOf ws) = Some cs"
    and y: "l_yamlMarshal L (JObj (mset body ''bootcmd'' (JArr (jsonList (Some body) ''bootcmd'' @ cs)))) = Inr y" "data = ''#cloud-config'' @ NL @ y"
    by blast
  from mountCommands_Some[OF cs] y show ?thesis by (auto simp: list_all_iff)
qed

definition exImageSpec :: imageSpec where
  "exImageSpec = \<lparr>is_image = ''registry/vm:1'', is_displayName = [], is_description = [], is_category = [], is_tags = [],
     is_defaultPort = 0, is_defaultPath = [], is_icon = [], is_defaultArgs = [], is_defaultCommand = [], is_defaultContainerInit = None,
     is_defaultEnv = [], is_defaultCredentials = None, is_privileged = False, is_homepageURL = [], is_sourceURL = [],
     is_imageHomepageURL = [], is_defaultUser = ''u'', is_defaultPassword = [], is_defaultCloudInit = True, is_defaultUserData = [],
     is_defaultHomedir = [], is_defaultShell = [], is_links = [], is_proxyConfig = None, is_defaultUID = None,
     is_defaultInitContainers = [], is_additionalPorts = [], is_defaultSharedMemory = False, is_defaultImagePullPolicy = [],
     is_workspaceTypes = [WorkspaceTypeVM], is_vmProfile = [], is_persistentRootDisk = True, is_persistentRootDiskSize = [],
     is_memoryLimit = [], is_memoryRequest = [], is_videoDevice = [], is_soundDevice = [], is_remoteDesktop = None\<rparr>"

definition exImage :: image where
  "exImage = \<lparr>i_meta = objectMeta [] ''vm'', i_spec = exImageSpec, i_conditions = []\<rparr>"

theorem mounts_checked_witness:
  "validGuestMountPath (vm_mountPath (hd (mountsOf exDiskWorkspace))) \<and> mountsOf exDiskWorkspace \<noteq> []"
proof -
  have "fst (vmCloudInitUserData ref_lib exDiskWorkspace (Some exImage) []) = None" by code_simp
  then have d: "vmCloudInitUserData ref_lib exDiskWorkspace (Some exImage) [] =
      (None, snd (vmCloudInitUserData ref_lib exDiskWorkspace (Some exImage) []))" by (metis prod.collapse)
  have m: "mountsOf exDiskWorkspace \<noteq> []" by code_simp
  from mounts_checked[OF d m] m show ?thesis by (cases "mountsOf exDiskWorkspace") auto
qed

text \<open>
  An Image whose default user data is only the header line is a null YAML document. Unmarshalling it leaves the
  map nil, and storing the mounts into it panics, where the binding of the Linux agent allocates the map first.
\<close>

lemma null_user_data_panics:
  assumes "l_yamlUnmarshal L ''#cloud-config'' = Inr None" and "is_defaultUserData (i_spec i) = ''#cloud-config''"
    and "\<not> linuxAgentImage (Some i)" and "mountsOf ws \<noteq> []" and "mountCommands L (is_defaultUser (i_spec i)) [] [] (mountsOf ws) \<noteq> None"
  shows "vmCloudInitUserData L ws (Some i) [] = (Some (PanicErr ''assignment to entry in nil map''), [])"
proof -
  have trim: "hasPrefix (trimSpace ''#cloud-config'') ''#cloud-config''" by code_simp
  have "cloudInitUserData L (Some i) [] = Inr ''#cloud-config''"
    using assms(2) by (simp add: cloudInitUserData_def injectSSHAuthorizedKeys_def imageUserData_def)
  moreover have "linuxAgentCloudInit L ws (Some i) ''#cloud-config'' = (None, ''#cloud-config'')"
    using assms(3) by (simp add: linuxAgentCloudInit_def)
  moreover have "mountUserData L ws (Some i) ''#cloud-config'' = (Some (PanicErr ''assignment to entry in nil map''), [])"
    using assms trim by (auto simp: mountUserData_def cloudInitCapable_def imageUser_def)
  ultimately show ?thesis using assms(4) by (simp add: vmCloudInitUserData_def)
qed

section \<open>The cloud-init Secret\<close>

lemma setControllerReference_docD:
  assumes "setControllerReference_doc L" and "l_setControllerReference L owner m = Inr m'"
  shows "m_name m' = m_name m" "m_namespace m' = m_namespace m" "m_labels m' = m_labels m"
    "m_annotations m' = m_annotations m" "m_uid m' = m_uid m" "m_resourceVersion m' = m_resourceVersion m" "l_isControlledBy L m' owner"
proof -
  have "m' = m\<lparr>m_ownerRefs := m_ownerRefs m'\<rparr>" and "l_isControlledBy L m' owner"
    using assms unfolding setControllerReference_doc_def by blast+
  then show "m_name m' = m_name m" "m_namespace m' = m_namespace m" "m_labels m' = m_labels m"
    "m_annotations m' = m_annotations m" "m_uid m' = m_uid m" "m_resourceVersion m' = m_resourceVersion m" "l_isControlledBy L m' owner"
    by (metis ometa.select_convs ometa.surjective ometa.update_convs)+
qed

text \<open>
  The user data reaches the guest. When the data is too long to be inlined, the cloud-init volume of the VM refers
  to a Secret by name, and a successful pass created the Secret of that name with the data, controlled by the
  workspace, after it was reported absent, or found one, which holds the data already or was updated to hold it.
  When it is inlined, the volume carries the data itself.
\<close>

theorem cloudinit_delivered:
  assumes "setControllerReference_doc L" and "runs (reconcileCloudInitSecret L ws data) tr (Inr ())"
  shows "if inlined data then cloudInitVolume (nameOf ws) data =
        JObj [(''name'', JStr ''cloudinitdisk''), (''cloudInitNoCloud'', JObj [(''userData'', JStr data)])]
    else \<exists>name s g. cloudInitVolume (nameOf ws) data = JObj [(''name'', JStr ''cloudinitdisk''),
          (''cloudInitNoCloud'', JObj [(''secretRef'', JObj [(''name'', JStr name)])])]
      \<and> map_of (sec_data s) = [''userdata'' \<mapsto> data]
      \<and> (ReqGet Cached KSecret (namespaceOf ws, name), g) \<in> set tr
      \<and> (g = RObj (OSecret s)
         \<or> (\<exists>x found. g = RObj (OSecret found) \<and> s = found\<lparr>sec_data := sec_data s\<rparr> \<and> (ReqUpdate (OSecret s), x) \<in> set tr \<and> asUnit x = Inr ())
         \<or> (\<exists>x e. g = RErr e \<and> isNotFound e \<and> m_name (sec_meta s) = name \<and> l_isControlledBy L (sec_meta s) (w_meta ws)
             \<and> (ReqCreate (OSecret s), x) \<in> set tr \<and> asUnit x = Inr ()))"
proof (cases "inlined data")
  case True
  then show ?thesis by (simp add: cloudInitVolume_def)
next
  case False
  let ?s = "newCloudInitSecret ws data" and ?name = "cloudInitSecretName (nameOf ws)"
  have data: "map_of (sec_data ?s) = [''userdata'' \<mapsto> data]" by (simp add: newCloudInitSecret_def)
  from assms(2) False obtain m where m: "l_setControllerReference L (w_meta ws) (sec_meta ?s) = Inr m"
    unfolding reconcileCloudInitSecret_def by (auto simp: Let_def runs_Ret_iff split: sum.splits)
  from setControllerReference_docD[OF assms(1) this] have own: "m_name m = ?name" "l_isControlledBy L m (w_meta ws)"
    by (auto simp: newCloudInitSecret_def objectMeta_def)
  from assms(2) False m consider
      (create) e x where "isNotFound e" "asUnit x = Inr ()" "tr = [(ReqGet Cached KSecret (namespaceOf ws, ?name), RErr e), (ReqCreate (OSecret (?s\<lparr>sec_meta := m\<rparr>)), x)]"
    | (update) found x where "asUnit x = Inr ()"
        "tr = [(ReqGet Cached KSecret (namespaceOf ws, ?name), RObj (OSecret found)), (ReqUpdate (OSecret (found\<lparr>sec_data := sec_data ?s\<rparr>)), x)]"
    | (same) found where "mequal (sec_data found) (sec_data ?s)" "tr = [(ReqGet Cached KSecret (namespaceOf ws, ?name), RObj (OSecret found))]"
    unfolding reconcileCloudInitSecret_def Let_def if_not_P[OF False] m sum.case runs_bind_sum
    by (auto simp: runs_client runs_ask runs_Ret_iff asObj_Inr asObj_notFound split: if_splits)
  then show ?thesis
  proof cases
    case create
    then show ?thesis using False own data unfolding cloudInitVolume_def by (auto intro!: exI[of _ "?s\<lparr>sec_meta := m\<rparr>"])
  next
    case update
    then show ?thesis using False own data unfolding cloudInitVolume_def by (auto intro!: exI[of _ "found\<lparr>sec_data := sec_data ?s\<rparr>"])
  next
    case same
    then show ?thesis using False data unfolding cloudInitVolume_def mequal_iff by (auto intro!: exI[of _ found])
  qed
qed

definition exUserData :: string where
  "exUserData = replicate 2049 CHR ''a''"

lemma exUserData_long: "\<not> inlined exUserData"
  by (simp add: inlined_def exUserData_def)

theorem cloudinit_delivered_witness:
  "\<exists>tr name. runs (reconcileCloudInitSecret ref_lib exDiskWorkspace exUserData) tr (Inr ())
     \<and> cloudInitVolume (nameOf exDiskWorkspace) exUserData = JObj [(''name'', JStr ''cloudinitdisk''),
          (''cloudInitNoCloud'', JObj [(''secretRef'', JObj [(''name'', JStr name)])])]"
proof -
  let ?e = "exec (reconcileCloudInitSecret ref_lib exDiskWorkspace exUserData) [notFound, ROk]"
  have "case l_setControllerReference ref_lib (w_meta exDiskWorkspace) (sec_meta (newCloudInitSecret exDiskWorkspace [])) of Inl e \<Rightarrow> False | Inr m \<Rightarrow> True"
    by code_simp
  then obtain m where "l_setControllerReference ref_lib (w_meta exDiskWorkspace) (sec_meta (newCloudInitSecret exDiskWorkspace exUserData)) = Inr m"
    by (auto simp: newCloudInitSecret_def split: sum.splits)
  then have "snd ?e = Some (Inr ())" using exUserData_long
    by (simp add: reconcileCloudInitSecret_def getP_def ask_def notFound_def Let_def)
  then have "?e = (fst ?e, Some (Inr ()))" by (metis prod.collapse)
  then have run: "runs (reconcileCloudInitSecret ref_lib exDiskWorkspace exUserData) (fst ?e) (Inr ())" by (rule exec_runs)
  from cloudinit_delivered[OF ref_setControllerReference_doc run] run exUserData_long show ?thesis by auto
qed

text \<open>
  The Secret is taken by its name alone: whoever owns it, it is deleted when the user data fits inline, although
  the function is documented to manage a Secret owned by the Workspace.
\<close>

lemma cloudinit_secret_unowned:
  assumes "inlined data"
  shows "runs (reconcileCloudInitSecret L ws data)
    [(ReqGet Cached KSecret (namespaceOf ws, cloudInitSecretName (nameOf ws)), RObj (OSecret s)), (ReqDelete (OSecret s) [], ROk)] (Inr ())"
  unfolding reconcileCloudInitSecret_def removeCloudInitSecret_def if_P[OF assms]
  by (rule exec_runs[of _ "[RObj (OSecret s), ROk]"]) (simp add: client_defs ask_def)

end
