(* ===== verification/VM_Gen.thy ===== *)
theory VM_Gen
  imports Cloud_Init
begin

text \<open>
  The KubeVirt VirtualMachine of a Linux VM workspace (src/internal/controller/workspace_controller.go): domain
  resources, network, disks and volumes, scheduling, the comparison with the stored object and the migration of
  a legacy root disk. The object is untyped JSON, as in the source. A Go type assertion that fails is the error
  \<open>PanicErr\<close>.
\<close>

section \<open>GPUs and resources\<close>

definition isGPUResource :: "string \<Rightarrow> bool" where
  "isGPUResource name \<longleftrightarrow> name \<in> {''nvidia.com/gpu'', ''amd.com/gpu'', ''intel.com/gpu''}
     \<or> dropWhile (\<lambda>c. c \<noteq> CHR ''/'') name = ''/gpu''"

definition gpuDevicesFromLimits :: "resourceList \<Rightarrow> json list" where
  "gpuDevicesFromLimits limits = map (\<lambda>(idx, name). JObj [(''deviceName'', JStr name), (''name'', JStr (''gpu'' @ showInt (int idx)))])
     (enumerate 0 (sort (filter isGPUResource (map fst limits))))"

definition quantityMap :: "lib \<Rightarrow> resourceList \<Rightarrow> jobj" where
  "quantityMap L rl = map (\<lambda>(k, v). (k, JStr (l_quantityString L v))) rl"

definition containerResources :: "lib \<Rightarrow> podSpec \<Rightarrow> jobj" where
  "containerResources L ps = (case ps_containers ps of [] \<Rightarrow> [] | c # cs \<Rightarrow>
     (if ct_requests c = [] then [] else [(''requests'', JObj (quantityMap L (ct_requests c)))])
     @ (if ct_limits c = [] then [] else [(''limits'', JObj (quantityMap L (ct_limits c)))]))"

definition imageMemory :: "image option \<Rightarrow> jobj \<Rightarrow> jobj" where
  "imageMemory img resources = (case img of None \<Rightarrow> resources | Some i \<Rightarrow>
     if is_memoryLimit (i_spec i) = [] then resources
     else let limits = zeroOr [] (nestedMap resources [''limits'']); reqMap = zeroOr [] (nestedMap resources [''requests'']);
              podMem = (if is_memoryRequest (i_spec i) \<noteq> [] then is_memoryRequest (i_spec i) else is_memoryLimit (i_spec i))
          in mset (mset resources ''limits'' (JObj (mset limits ''memory'' (JStr podMem))))
               ''requests'' (JObj (mset reqMap ''memory'' (JStr podMem))))"

text \<open>\<^verbatim>\<open>resources[field].(map[string]interface{})\<close> panics when the field is not there.\<close>

definition defaultMemory :: "string \<Rightarrow> jobj \<Rightarrow> jobj result" where
  "defaultMemory field resources = (case map_of resources field of
     Some (JObj m) \<Rightarrow> Inr (if map_of m ''memory'' = None
       then mset resources field (JObj (mset m ''memory'' (JStr DefaultGuestMemory))) else resources)
   | _ \<Rightarrow> Inl (PanicErr ''interface conversion: interface {} is nil, not map[string]interface {}''))"

definition vmDomainResources :: "lib \<Rightarrow> podSpec \<Rightarrow> image option \<Rightarrow> jobj result" where
  "vmDomainResources L ps img = (case defaultMemory ''limits'' (imageMemory img (containerResources L ps)) of
     Inl e \<Rightarrow> Inl e | Inr resources \<Rightarrow> defaultMemory ''requests'' resources)"

section \<open>Network\<close>

definition portForward :: "int \<Rightarrow> json" where
  "portForward p = JObj [(''port'', JInt p), (''protocol'', JStr ''TCP'')]"

definition forwardedPorts :: "container \<Rightarrow> int \<Rightarrow> int list" where
  "forwardedPorts c agentPort = (let declared = (if ct_ports c = [] then [DefaultContainerPort] else map cp_containerPort (ct_ports c))
     in declared @ (if agentPort > 0 \<and> agentPort \<notin> set declared then [agentPort] else []))"

definition defaultNetworks :: "json list" where
  "defaultNetworks = [JObj [(''name'', JStr ''default''), (''pod'', JObj [])]]"

definition vmDefaultNetwork :: "string \<Rightarrow> podSpec \<Rightarrow> int \<Rightarrow> json list \<times> json list" where
  "vmDefaultNetwork workspaceName ps agentPort = (case ps_containers ps of
     [] \<Rightarrow> ([], defaultNetworks)
   | c # cs \<Rightarrow> ([JObj [(''name'', JStr ''default''), (''masquerade'', JObj []),
       (''ports'', JArr (map portForward (forwardedPorts c agentPort))),
       (''macAddress'', JStr (macAddressForWorkspace workspaceName))]], defaultNetworks))"

section \<open>Data disks\<close>

text \<open>The metadata of the mounts in the untyped Workspace; a later mount of the same name replaces an earlier one.\<close>

fun mountMetaOf :: "json list \<Rightarrow> (string \<times> jobj) list \<Rightarrow> (string \<times> jobj) list" where
  "mountMetaOf [] acc = acc"
| "mountMetaOf (v # vs) acc = (case v of
     JObj m \<Rightarrow> (case map_of m ''name'' of Some (JStr name) \<Rightarrow> mountMetaOf vs (mset acc name m) | _ \<Rightarrow> mountMetaOf vs acc)
   | _ \<Rightarrow> mountMetaOf vs acc)"

definition vmVolumeMountMeta :: "unstructured option \<Rightarrow> (string \<times> jobj) list" where
  "vmVolumeMountMeta inst = (case inst of None \<Rightarrow> [] | Some u \<Rightarrow>
     (case zeroOr [] (nestedSlice (un_object u) [''spec'', ''template'', ''spec'', ''containers'']) of
        JObj c # cs \<Rightarrow> mountMetaOf (zeroOr [] (nestedSlice c [''volumeMounts''])) []
      | _ \<Rightarrow> []))"

definition cdromDevice :: "jobj \<Rightarrow> json" where
  "cdromDevice mountMeta = (let bus = (case map_of mountMeta ''bus'' of Some (JStr b) \<Rightarrow> b | _ \<Rightarrow> []);
       readonly = (case map_of mountMeta ''readOnly'' of Some (JBool b) \<Rightarrow> b
         | _ \<Rightarrow> (case map_of mountMeta ''readonly'' of Some (JBool b) \<Rightarrow> b | _ \<Rightarrow> True))
     in JObj [(''bus'', JStr (if bus = [] then ''sata'' else bus)), (''readonly'', JBool readonly)])"

definition virtioDisk :: json where
  "virtioDisk = JObj [(''bus'', JStr ''virtio'')]"

definition dataDiskName :: "lib \<Rightarrow> volumeMount \<Rightarrow> string" where
  "dataDiskName L mount = ''data-'' @ vmDiskSerial L (vm_name mount)"

definition dataDisk :: "lib \<Rightarrow> (string \<times> jobj) list \<Rightarrow> volumeMount \<Rightarrow> json" where
  "dataDisk L meta mount = (let mountMeta = zeroOr [] (map_of meta (vm_name mount)) in
     JObj [(''name'', JStr (dataDiskName L mount)), (''serial'', JStr (vmDiskSerial L (vm_name mount))),
       (if map_of mountMeta ''type'' = Some (JStr ''cdrom'') then (''cdrom'', cdromDevice mountMeta) else (''disk'', virtioDisk))])"

definition dataVolume :: "lib \<Rightarrow> volumeMount \<Rightarrow> json" where
  "dataVolume L mount = JObj [(''name'', JStr (dataDiskName L mount)), (''dataVolume'', JObj [(''name'', JStr (vm_name mount))])]"

definition appendVMDataMounts :: "lib \<Rightarrow> podSpec \<Rightarrow> unstructured option \<Rightarrow> json list \<times> json list" where
  "appendVMDataMounts L ps inst = (case ps_containers ps of [] \<Rightarrow> ([], [])
     | c # cs \<Rightarrow> (map (dataDisk L (vmVolumeMountMeta inst)) (ct_volumeMounts c), map (dataVolume L) (ct_volumeMounts c)))"

section \<open>Scheduling, memory and CPU\<close>

text \<open>\<^verbatim>\<open>_ = unstructured.SetNested...\<close>: the document is left as it is when the call fails.\<close>

definition putNested :: "jobj \<Rightarrow> string list \<Rightarrow> json \<Rightarrow> jobj" where
  "putNested m path v = zeroOr m (setNested m path v)"

definition tolerationJSON :: "toleration \<Rightarrow> json" where
  "tolerationJSON t = JObj ([(''key'', JStr (tol_key t)), (''operator'', JStr (tol_operator t)), (''effect'', JStr (tol_effect t))]
     @ (if tol_value t \<noteq> [] then [(''value'', JStr (tol_value t))] else [])
     @ (case tol_seconds t of None \<Rightarrow> [] | Some s \<Rightarrow> [(''tolerationSeconds'', JInt s)]))"

definition applyVMScheduling :: "jobj \<Rightarrow> podSpec \<Rightarrow> jobj" where
  "applyVMScheduling vmSpec ps =
     (let s1 = (if ps_tolerations ps = [] then vmSpec
                else putNested vmSpec [''template'', ''spec'', ''tolerations''] (JArr (map tolerationJSON (ps_tolerations ps))))
      in if ps_nodeSelector ps = [] then s1
         else putNested s1 [''template'', ''spec'', ''nodeSelector''] (JObj (map (\<lambda>(k, v). (k, JStr v)) (ps_nodeSelector ps))))"

definition cpuCores :: "lib \<Rightarrow> jobj \<Rightarrow> int option" where
  "cpuCores L resources = (case nestedMap resources [''limits''] of None \<Rightarrow> None | Some limits \<Rightarrow>
     (case map_of limits ''cpu'' of Some (JStr cpuStr) \<Rightarrow>
        if cpuStr = [] then None
        else (case l_parseQuantity L cpuStr of Inl e \<Rightarrow> None | Inr q \<Rightarrow> Some (max 1 (l_quantityValue L q)))
      | _ \<Rightarrow> None))"

definition pinMemory :: "image option \<Rightarrow> jobj \<Rightarrow> jobj" where
  "pinMemory img domain = (case img of None \<Rightarrow> domain | Some i \<Rightarrow>
     if is_memoryLimit (i_spec i) \<noteq> [] \<and> is_memoryRequest (i_spec i) \<noteq> []
     then mset domain ''memory'' (JObj [(''guest'', JStr (is_memoryLimit (i_spec i)))]) else domain)"

definition applyDomainMemoryAndCPU :: "lib \<Rightarrow> jobj \<Rightarrow> jobj \<Rightarrow> image option \<Rightarrow> jobj" where
  "applyDomainMemoryAndCPU L vmSpec resources img = (case nestedMap vmSpec [''template'', ''spec'', ''domain''] of
     None \<Rightarrow> vmSpec
   | Some domain0 \<Rightarrow> let domain1 = pinMemory img domain0;
         domain = (case cpuCores L resources of None \<Rightarrow> domain1 | Some cores \<Rightarrow> mset domain1 ''cpu'' (JObj [(''cores'', JInt cores)]))
       in putNested vmSpec [''template'', ''spec'', ''domain''] (JObj domain))"

section \<open>The VirtualMachine\<close>

definition persistentRoot :: "workspace \<Rightarrow> image option \<Rightarrow> bool" where
  "persistentRoot ws img \<longleftrightarrow> (case img of None \<Rightarrow> False | Some i \<Rightarrow> is_persistentRootDisk (i_spec i)) \<and> mainImage ws \<noteq> []"

definition rootDiskSize :: "image option \<Rightarrow> string" where
  "rootDiskSize img = (case img of None \<Rightarrow> ''10Gi'' | Some i \<Rightarrow>
     if is_persistentRootDiskSize (i_spec i) = [] then ''10Gi'' else is_persistentRootDiskSize (i_spec i))"

definition rootTemplate :: "lib \<Rightarrow> workspace \<Rightarrow> image option \<Rightarrow> json" where
  "rootTemplate L ws img = JObj [(''metadata'', JObj [(''name'', JStr (rootDiskDataVolumeName L (nameOf ws)))]),
     (''spec'', JObj [(''source'', vmRootDiskSource (mainImage ws)),
       (''pvc'', JObj [(''accessModes'', JArr [JStr ''ReadWriteOnce'']),
          (''resources'', JObj [(''requests'', JObj [(''storage'', JStr (rootDiskSize img))])])])])]"

definition rootVolume :: "lib \<Rightarrow> workspace \<Rightarrow> image option \<Rightarrow> json" where
  "rootVolume L ws img = (if persistentRoot ws img
     then JObj [(''name'', JStr ''rootdisk''), (''dataVolume'', JObj [(''name'', JStr (rootDiskDataVolumeName L (nameOf ws)))])]
     else JObj [(''name'', JStr ''rootdisk''), (''containerDisk'', JObj [(''image'', JStr (mainImage ws))])])"

definition namedDisk :: "string \<Rightarrow> json" where
  "namedDisk name = JObj [(''name'', JStr name), (''disk'', virtioDisk)]"

definition vmDisks :: "lib \<Rightarrow> workspace \<Rightarrow> string \<Rightarrow> unstructured option \<Rightarrow> json list" where
  "vmDisks L ws data inst = namedDisk ''rootdisk'' # (if data \<noteq> [] then [namedDisk ''cloudinitdisk''] else [])
     @ fst (appendVMDataMounts L (wss_template (w_spec ws)) inst)"

definition vmVolumes :: "lib \<Rightarrow> workspace \<Rightarrow> image option \<Rightarrow> string \<Rightarrow> unstructured option \<Rightarrow> json list" where
  "vmVolumes L ws img data inst = rootVolume L ws img # (if data \<noteq> [] then [cloudInitVolume (nameOf ws) data] else [])
     @ snd (appendVMDataMounts L (wss_template (w_spec ws)) inst)"

definition tabletInput :: json where
  "tabletInput = JObj [(''type'', JStr ''tablet''), (''bus'', JStr ''usb''), (''name'', JStr ''tablet'')]"

definition vmGPUs :: "podSpec \<Rightarrow> json list" where
  "vmGPUs ps = (case ps_containers ps of [] \<Rightarrow> [] | c # cs \<Rightarrow> gpuDevicesFromLimits (ct_limits c))"

definition optionalDevice :: "string \<Rightarrow> string \<Rightarrow> json \<Rightarrow> jobj" where
  "optionalDevice setting field v = (if setting = [] then [] else [(field, v)])"

definition vmDevices :: "lib \<Rightarrow> workspace \<Rightarrow> image option \<Rightarrow> string \<Rightarrow> int \<Rightarrow> unstructured option \<Rightarrow> jobj" where
  "vmDevices L ws img data agentPort inst = (let ps = wss_template (w_spec ws);
       video = (case img of None \<Rightarrow> [] | Some i \<Rightarrow> is_videoDevice (i_spec i));
       sound = (case img of None \<Rightarrow> [] | Some i \<Rightarrow> is_soundDevice (i_spec i)) in
     [(''disks'', JArr (vmDisks L ws data inst)), (''interfaces'', JArr (fst (vmDefaultNetwork (nameOf ws) ps agentPort))),
      (''inputs'', JArr [tabletInput])]
     @ (if vmGPUs ps = [] then [] else [(''gpus'', JArr (vmGPUs ps))])
     @ optionalDevice video ''video'' (JObj [(''type'', JStr video)])
     @ optionalDevice sound ''sound'' (JObj [(''name'', JStr ''audiodev''), (''model'', JStr sound)]))"

definition vmLabels :: "workspace \<Rightarrow> strmap" where
  "vmLabels ws = fold (\<lambda>(k, v) m. mset m k v) (m_labels (w_meta ws)) [(LabelWorkspaceName, nameOf ws)]"

definition accessCredentials :: "lib \<Rightarrow> workspace \<Rightarrow> image option \<Rightarrow> json" where
  "accessCredentials L ws img = JArr [JObj [(''sshPublicKey'', JObj [
     (''source'', JObj [(''secret'', JObj [(''secretName'', JStr (sshKeySecretName L (nameOf ws)))])]),
     (''propagationMethod'', JObj [(''qemuGuestAgent'', JObj [(''users'', JArr [JStr (imageUser img)])])])])]]"

definition vmSpecBase :: "lib \<Rightarrow> workspace \<Rightarrow> image option \<Rightarrow> jobj \<Rightarrow> string \<Rightarrow> int \<Rightarrow> unstructured option \<Rightarrow> jobj" where
  "vmSpecBase L ws img resources data agentPort inst = [(''running'', JBool (\<not> stopped ws)),
     (''template'', JObj [(''metadata'', JObj [(''labels'', JObj (map (\<lambda>(k, v). (k, JStr v)) (vmLabels ws)))]),
       (''spec'', JObj [
          (''domain'', JObj [(''resources'', JObj resources), (''devices'', JObj (vmDevices L ws img data agentPort inst))]),
          (''networks'', JArr (snd (vmDefaultNetwork (nameOf ws) (wss_template (w_spec ws)) agentPort))),
          (''volumes'', JArr (vmVolumes L ws img data inst))])])]"

definition vmSpec :: "lib \<Rightarrow> workspace \<Rightarrow> image option \<Rightarrow> jobj \<Rightarrow> string \<Rightarrow> int \<Rightarrow> unstructured option \<Rightarrow> jobj" where
  "vmSpec L ws img resources data agentPort inst =
     (let s0 = vmSpecBase L ws img resources data agentPort inst;
          s1 = (if usesGuestAgentSSH img then putNested s0 [''template'', ''spec'', ''accessCredentials''] (accessCredentials L ws img) else s0);
          s2 = applyVMScheduling s1 (wss_template (w_spec ws));
          s3 = applyDomainMemoryAndCPU L s2 resources img
      in if persistentRoot ws img then mset s3 ''dataVolumeTemplates'' (JArr [rootTemplate L ws img]) else s3)"

definition newVirtualMachine :: "ometa \<Rightarrow> jobj \<Rightarrow> unstructured" where
  "newVirtualMachine m sp = \<lparr>un_apiVersion = ''kubevirt.io/v1'', un_kind = ''VirtualMachine'', un_meta = m, un_object = [(''spec'', JObj sp)]\<rparr>"

text \<open>
  \<^verbatim>\<open>cloudUserData, _ := vmCloudInitUserData(...)\<close>: an error is ignored and the string used, a panic is not.
\<close>

definition ignoredError :: "gerr option \<times> string \<Rightarrow> string result" where
  "ignoredError r = (case r of (Some (PanicErr m), _) \<Rightarrow> Inl (PanicErr m) | (_, data) \<Rightarrow> Inr data)"

definition generateLinuxVirtualMachine ::
  "lib \<Rightarrow> workspace \<Rightarrow> image option \<Rightarrow> string list \<Rightarrow> int \<Rightarrow> unstructured option \<Rightarrow> unstructured result" where
  "generateLinuxVirtualMachine L ws img sshKeys agentPort inst = (case vmDomainResources L (wss_template (w_spec ws)) img of
     Inl e \<Rightarrow> Inl e
   | Inr resources \<Rightarrow> (case ignoredError (vmCloudInitUserData L ws img (if usesGuestAgentSSH img then [] else sshKeys)) of
       Inl e \<Rightarrow> Inl e
     | Inr data \<Rightarrow> Inr (newVirtualMachine (objectMeta (namespaceOf ws) (nameOf ws)) (vmSpec L ws img resources data agentPort inst))))"

section \<open>Legacy root disks\<close>

definition putObject :: "unstructured \<Rightarrow> string list \<Rightarrow> json \<Rightarrow> unstructured" where
  "putObject u path v = u\<lparr>un_object := putNested (un_object u) path v\<rparr>"

abbreviation templateSpecPath :: "string list" where "templateSpecPath \<equiv> [''spec'', ''template'', ''spec'']"
abbreviation volumesPath :: "string list" where "volumesPath \<equiv> templateSpecPath @ [''volumes'']"

definition renameRootDisk :: "unstructured \<Rightarrow> unstructured result" where
  "renameRootDisk desired = (case zeroOr [] (nestedSlice (un_object desired) [''spec'', ''dataVolumeTemplates'']) of
     [JObj t] \<Rightarrow> (let d = putObject desired [''spec'', ''dataVolumeTemplates''] (JArr [JObj (mset t ''metadata'' (JObj [(''name'', JStr ''rootdisk'')]))])
       in case zeroOr [] (nestedSlice (un_object d) volumesPath) of
            JObj v # vs \<Rightarrow> Inr (putObject d volumesPath (JArr (JObj (mset v ''dataVolume'' (JObj [(''name'', JStr ''rootdisk'')])) # vs)))
          | _ \<Rightarrow> Inl (PanicErr ''volumes[0]''))
   | [_] \<Rightarrow> Inl (PanicErr ''interface conversion'')
   | _ \<Rightarrow> Inr desired)"

fun preserveIn :: "unstructured \<Rightarrow> json list \<Rightarrow> unstructured result" where
  "preserveIn desired [] = Inr desired"
| "preserveIn desired (volume # vs) = (case volume of
     JObj v \<Rightarrow> if map_of v ''name'' \<noteq> Some (JStr ''rootdisk'') \<or> zeroOr [] (nestedString v [''dataVolume'', ''name'']) \<noteq> ''rootdisk''
       then preserveIn desired vs else renameRootDisk desired
   | _ \<Rightarrow> Inl (PanicErr ''interface conversion''))"

definition preserveLegacyRootDisk :: "unstructured \<Rightarrow> unstructured \<Rightarrow> unstructured result" where
  "preserveLegacyRootDisk desired current =
     (if mget (m_annotations (un_meta current)) AnnotationLegacyRootDisk \<noteq> ''true'' then Inr desired
      else preserveIn desired (zeroOr [] (nestedSlice (un_object current) volumesPath)))"

section \<open>Comparison\<close>

definition ownedLists :: "string list list" where
  "ownedLists = [templateSpecPath @ [''accessCredentials''], volumesPath, templateSpecPath @ [''networks''], templateSpecPath @ [''tolerations''],
     templateSpecPath @ [''domain'', ''devices'', ''disks''], templateSpecPath @ [''domain'', ''devices'', ''interfaces''],
     templateSpecPath @ [''domain'', ''devices'', ''inputs''], templateSpecPath @ [''domain'', ''devices'', ''gpus''],
     [''spec'', ''dataVolumeTemplates'']]"

abbreviation soundPath :: "string list" where "soundPath \<equiv> templateSpecPath @ [''domain'', ''devices'', ''sound'']"

definition sameList :: "lib \<Rightarrow> jobj \<Rightarrow> jobj \<Rightarrow> string list \<Rightarrow> bool" where
  "sameList L d c path \<longleftrightarrow> (let dl = zeroOr [] (nestedSlice d path); cl = zeroOr [] (nestedSlice c path)
     in length dl = length cl \<and> l_derivative L (JArr dl) (JArr cl))"

definition virtualMachineNeedsUpdate :: "lib \<Rightarrow> unstructured \<Rightarrow> unstructured \<Rightarrow> bool" where
  "virtualMachineNeedsUpdate L desired current \<longleftrightarrow> (let d = un_object desired; c = un_object current in
     zeroOr False (nestedBool d [''spec'', ''running'']) \<noteq> zeroOr False (nestedBool c [''spec'', ''running''])
     \<or> \<not> l_derivative L (JObj (zeroOr [] (nestedMap d [''spec'', ''template'']))) (JObj (zeroOr [] (nestedMap c [''spec'', ''template''])))
     \<or> \<not> list_all (sameList L d c) ownedLists
     \<or> (nestedMap d soundPath \<noteq> None) \<noteq> (nestedMap c soundPath \<noteq> None)
     \<or> \<not> l_derivative L (JObj (zeroOr [] (nestedMap d soundPath))) (JObj (zeroOr [] (nestedMap c soundPath))))"

section \<open>Domain resources\<close>

definition declaredLimits :: "podSpec \<Rightarrow> resourceList" where
  "declaredLimits ps = (case ps_containers ps of [] \<Rightarrow> [] | c # cs \<Rightarrow> ct_limits c)"

definition declaredRequests :: "podSpec \<Rightarrow> resourceList" where
  "declaredRequests ps = (case ps_containers ps of [] \<Rightarrow> [] | c # cs \<Rightarrow> ct_requests c)"

definition memoryOverride :: "image option \<Rightarrow> bool" where
  "memoryOverride img \<longleftrightarrow> (case img of None \<Rightarrow> False | Some i \<Rightarrow> is_memoryLimit (i_spec i) \<noteq> [])"

text \<open>A field of the resources is the declared map, except for the entry \<open>memory\<close>.\<close>

definition extends :: "lib \<Rightarrow> resourceList \<Rightarrow> json option \<Rightarrow> bool" where
  "extends L declared field \<longleftrightarrow> (case field of Some (JObj m) \<Rightarrow>
     (map_of m)(''memory'' := None) = (map_of (quantityMap L declared))(''memory'' := None) | _ \<Rightarrow> False)"

definition hasMemory :: "json option \<Rightarrow> bool" where
  "hasMemory field \<longleftrightarrow> (case field of Some (JObj m) \<Rightarrow> map_of m ''memory'' \<noteq> None | _ \<Rightarrow> False)"

lemma quantityMap_nil [simp]: "quantityMap L [] = []"
  by (simp add: quantityMap_def)

lemma containerResources_fields:
  "map_of (containerResources L ps) ''limits'' = (if declaredLimits ps = [] then None else Some (JObj (quantityMap L (declaredLimits ps))))"
  "map_of (containerResources L ps) ''requests'' = (if declaredRequests ps = [] then None else Some (JObj (quantityMap L (declaredRequests ps))))"
  by (auto simp: containerResources_def declaredLimits_def declaredRequests_def split: list.split)

lemma nestedMap_field [simp]: "nestedMap m [k] = (case map_of m k of Some (JObj x) \<Rightarrow> Some x | _ \<Rightarrow> None)"
  by (simp add: nestedMap_def split: option.split json.split)

lemma imageMemory_fields:
  "map_of (imageMemory img (containerResources L ps)) ''limits'' = None \<longleftrightarrow> declaredLimits ps = [] \<and> \<not> memoryOverride img"
  "map_of (imageMemory img (containerResources L ps)) ''requests'' = None \<longleftrightarrow> declaredRequests ps = [] \<and> \<not> memoryOverride img"
  "map_of (imageMemory img (containerResources L ps)) ''limits'' = Some v \<Longrightarrow> extends L (declaredLimits ps) (Some v)"
  "map_of (imageMemory img (containerResources L ps)) ''requests'' = Some v \<Longrightarrow> extends L (declaredRequests ps) (Some v)"
  by (auto simp: imageMemory_def memoryOverride_def containerResources_fields extends_def Let_def split: option.splits if_splits)

lemma defaultMemory_missing:
  "map_of r k = None \<Longrightarrow> defaultMemory k r = Inl (PanicErr ''interface conversion: interface {} is nil, not map[string]interface {}'')"
  by (simp add: defaultMemory_def)

lemma defaultMemory_present:
  assumes "extends L d (map_of r k)"
  obtains r' where "defaultMemory k r = Inr r'" "extends L d (map_of r' k)" "hasMemory (map_of r' k)"
    "\<And>j. j \<noteq> k \<Longrightarrow> map_of r' j = map_of r j"
proof -
  from assms obtain m where m: "map_of r k = Some (JObj m)" "(map_of m)(''memory'' := None) = (map_of (quantityMap L d))(''memory'' := None)"
    by (auto simp: extends_def split: option.splits json.splits)
  show ?thesis
  proof (rule that)
    show "defaultMemory k r = Inr (if map_of m ''memory'' = None then mset r k (JObj (mset m ''memory'' (JStr DefaultGuestMemory))) else r)"
      using m(1) by (simp add: defaultMemory_def)
  qed (use m in \<open>auto simp: extends_def hasMemory_def\<close>)
qed

text \<open>
  C30. The memory fallback. Domain resources are produced exactly when the Image sets a memory limit or the main
  container declares both a limit and a request; then limits and requests both name a memory amount and repeat
  every other resource the container declares. Otherwise the code panics on a nil map, so the documented default
  of 2Gi is not applied to a template that declares no resources.
\<close>

theorem vm_resources_exact:
  "case vmDomainResources L ps img of
     Inr r \<Rightarrow> (memoryOverride img \<or> declaredLimits ps \<noteq> [] \<and> declaredRequests ps \<noteq> [])
       \<and> hasMemory (map_of r ''limits'') \<and> hasMemory (map_of r ''requests'')
       \<and> extends L (declaredLimits ps) (map_of r ''limits'') \<and> extends L (declaredRequests ps) (map_of r ''requests'')
   | Inl e \<Rightarrow> memoryOverride img = False \<and> (declaredLimits ps = [] \<or> declaredRequests ps = [])
       \<and> e = PanicErr ''interface conversion: interface {} is nil, not map[string]interface {}''"
proof -
  let ?r = "imageMemory img (containerResources L ps)"
  show ?thesis
  proof (cases "map_of ?r ''limits''")
    case None
    then show ?thesis by (simp add: vmDomainResources_def defaultMemory_missing imageMemory_fields)
  next
    case (Some v)
    with imageMemory_fields(3) have "extends L (declaredLimits ps) (map_of ?r ''limits'')" by simp
    then obtain r1 where r1: "defaultMemory ''limits'' ?r = Inr r1" "extends L (declaredLimits ps) (map_of r1 ''limits'')"
        "hasMemory (map_of r1 ''limits'')" "\<And>j. j \<noteq> ''limits'' \<Longrightarrow> map_of r1 j = map_of ?r j"
      by (rule defaultMemory_present) blast
    show ?thesis
    proof (cases "map_of ?r ''requests''")
      case None
      then show ?thesis using r1 by (simp add: vmDomainResources_def defaultMemory_missing imageMemory_fields)
    next
      case (Some w)
      with imageMemory_fields(4) r1(4) have "extends L (declaredRequests ps) (map_of r1 ''requests'')" by simp
      then obtain r2 where r2: "defaultMemory ''requests'' r1 = Inr r2" "extends L (declaredRequests ps) (map_of r2 ''requests'')"
          "hasMemory (map_of r2 ''requests'')" "\<And>j. j \<noteq> ''requests'' \<Longrightarrow> map_of r2 j = map_of r1 j"
        by (rule defaultMemory_present) blast
      have "memoryOverride img \<or> declaredLimits ps \<noteq> [] \<and> declaredRequests ps \<noteq> []"
        using Some \<open>map_of ?r ''limits'' = Some v\<close> imageMemory_fields(1,2)[of img L ps] by auto
      then show ?thesis using r1 r2 by (simp add: vmDomainResources_def)
    qed
  qed
qed

section \<open>Ports\<close>

text \<open>
  The guest is reachable where the Service points: every target port of the Service generated for the workspace
  is forwarded into the guest by the only interface of the VM, provided the first declared port is a port number.
\<close>

theorem vm_forwards_service_ports:
  assumes "containersOf ws = c # cs" and "list_all (\<lambda>p. cp_containerPort p > 0) (ct_ports c)"
  shows "\<exists>iface ports. fst (vmDefaultNetwork (nameOf ws) (wss_template (w_spec ws)) agentPort) = [JObj iface]
    \<and> map_of iface ''ports'' = Some (JArr (map portForward ports))
    \<and> sp_targetPort ` set (svc_ports (generateService ws WorkspaceTypeVM agentPort)) \<subseteq> set ports"
proof -
  have "declaredPorts ws = ct_ports c"
    using assms by (auto simp: declaredPorts_def split: list.splits)
  then have "sp_targetPort ` set (svc_ports (generateService ws WorkspaceTypeVM agentPort)) \<subseteq> set (forwardedPorts c agentPort)"
    by (cases "ct_ports c") (auto simp: forwardedPorts_def generateService_def servicePorts_def containerServicePorts_def
        containerServicePorts_simps Let_def)
  then show ?thesis using assms(1) by (auto simp: vmDefaultNetwork_def)
qed

theorem vm_forwards_service_ports_witness:
  "\<exists>iface ports. fst (vmDefaultNetwork (nameOf (exWorkspace ''w'')) (wss_template (w_spec (exWorkspace ''w''))) 9000) = [JObj iface]
    \<and> map_of iface ''ports'' = Some (JArr (map portForward ports))
    \<and> sp_targetPort ` set (svc_ports (generateService (exWorkspace ''w'') WorkspaceTypeVM 9000)) \<subseteq> set ports"
proof -
  have "containersOf (exWorkspace ''w'') = [exContainer]" by code_simp
  moreover have "list_all (\<lambda>p. cp_containerPort p > 0) (ct_ports exContainer)" by code_simp
  ultimately show ?thesis by (rule vm_forwards_service_ports)
qed

section \<open>Documents\<close>

text \<open>Two paths part when they differ in a field before either ends; writing at one leaves the other alone.\<close>

fun parted :: "string list \<Rightarrow> string list \<Rightarrow> bool" where
  "parted (f # fs) (g # gs) \<longleftrightarrow> f \<noteq> g \<or> parted fs gs"
| "parted _ _ \<longleftrightarrow> False"

lemma nestedField_setNested_parted:
  "setNested m path v = Some m' \<Longrightarrow> parted path q \<Longrightarrow> nestedField (JObj m') q = nestedField (JObj m) q"
proof (induction m path v arbitrary: m' q rule: setNested.induct)
  case (2 m f v)
  then show ?case by (cases q; cases "tl q") auto
next
  case (3 m f g fs v)
  from 3(4) obtain h q' where q: "q = h # q'" by (cases q) auto
  show ?case
  proof (cases "h = f")
    case False
    with 3(3) q show ?thesis by (auto split: option.splits json.splits)
  next
    case True
    with 3(4) q have parted: "parted (g # fs) q'" by simp
    consider (absent) "map_of m f = None" | (present) y where "map_of m f = Some (JObj y)"
      using 3(3) by (auto split: option.splits json.splits)
    then show ?thesis
    proof cases
      case absent
      then obtain x where x: "setNested [] (g # fs) v = Some x" "m' = mset m f (JObj x)" using 3(3) by (auto split: option.splits)
      have "nestedField (JObj x) q' = nestedField (JObj []) q'" by (rule 3(1)[OF absent x(1) parted])
      moreover from parted have "nestedField (JObj []) q' = None" by (cases q') auto
      ultimately show ?thesis using absent x(2) q True by simp
    next
      case present
      then obtain x where x: "setNested y (g # fs) v = Some x" "m' = mset m f (JObj x)" using 3(3) by (auto split: option.splits)
      with 3(2)[OF present refl x(1) parted] present q True show ?thesis by simp
    qed
  qed
qed simp

lemma nestedField_putNested [simp]: "parted path q \<Longrightarrow> nestedField (JObj (putNested m path v)) q = nestedField (JObj m) q"
  by (cases "setNested m path v") (auto simp: putNested_def intro: nestedField_setNested_parted)

lemma nestedField_append: "nestedField v (p @ q) = (case nestedField v p of None \<Rightarrow> None | Some w \<Rightarrow> nestedField w q)"
  by (induction v p rule: nestedField.induct) (auto split: json.splits option.splits)

lemma setNested_present: "nestedField (JObj m) path = Some w \<Longrightarrow> \<exists>m'. setNested m path v = Some m'"
  by (induction m path v rule: setNested.induct) (auto split: option.splits json.splits)

lemma nestedField_putNested_present:
  assumes "nestedField (JObj m) path = Some w" and "path \<noteq> []"
  shows "nestedField (JObj (putNested m path v)) path = Some v"
proof -
  from setNested_present[OF assms(1)] obtain m' where "setNested m path v = Some m'" by blast
  with nestedField_setNested[OF assms(2) this] show ?thesis by (simp add: putNested_def)
qed

lemma nestedField_mset [simp]: "k \<noteq> f \<Longrightarrow> nestedField (JObj (mset m k v)) (f # fs) = nestedField (JObj m) (f # fs)"
  by simp

section \<open>Disks and volumes\<close>

lemma applyVMScheduling_field:
  "parted [''template'', ''spec'', ''tolerations''] q \<Longrightarrow> parted [''template'', ''spec'', ''nodeSelector''] q \<Longrightarrow>
     nestedField (JObj (applyVMScheduling m ps)) q = nestedField (JObj m) q"
  by (simp add: applyVMScheduling_def Let_def del: nestedField.simps parted.simps)

lemma domain_kept:
  assumes "nestedField (JObj m) [''template'', ''spec'', ''domain''] = Some (JObj d)"
  shows "nestedField (JObj (applyDomainMemoryAndCPU L m r img)) [''template'', ''spec'', ''domain'', ''devices''] = map_of d ''devices''"
proof -
  let ?p = "[''template'', ''spec'', ''domain'']"
  have d: "nestedMap m ?p = Some d" using assms by (simp add: nestedMap_def del: nestedField.simps)
  then obtain d' where a: "applyDomainMemoryAndCPU L m r img = putNested m ?p (JObj d')" and k: "map_of d' ''devices'' = map_of d ''devices''"
    unfolding applyDomainMemoryAndCPU_def by (auto simp: pinMemory_def Let_def split: option.splits)
  have "nestedField (JObj (putNested m ?p (JObj d'))) ?p = Some (JObj d')"
    by (rule nestedField_putNested_present[OF assms]) simp
  then show ?thesis using nestedField_append[of "JObj (putNested m ?p (JObj d'))" ?p "[''devices'']"] a k
    by (simp del: nestedField.simps(2) add: nestedField.simps(2)[of "JObj d'"] split: option.split)
qed

lemma domain_other:
  "parted [''template'', ''spec'', ''domain''] q \<Longrightarrow> nestedField (JObj (applyDomainMemoryAndCPU L m r img)) q = nestedField (JObj m) q"
  by (simp add: applyDomainMemoryAndCPU_def Let_def del: nestedField.simps parted.simps split: option.split)

lemma vmSpecBase_fields:
  "nestedField (JObj (vmSpecBase L ws img r data p inst)) [''template'', ''spec'', ''volumes''] = Some (JArr (vmVolumes L ws img data inst))"
  "nestedField (JObj (vmSpecBase L ws img r data p inst)) [''template'', ''spec'', ''domain'']
     = Some (JObj [(''resources'', JObj r), (''devices'', JObj (vmDevices L ws img data p inst))])"
  by (simp_all add: vmSpecBase_def)

lemma vmSpec_fields:
  "nestedField (JObj (vmSpec L ws img r data p inst)) [''template'', ''spec'', ''volumes''] = Some (JArr (vmVolumes L ws img data inst))"
  "nestedField (JObj (vmSpec L ws img r data p inst)) [''template'', ''spec'', ''domain'', ''devices''] = Some (JObj (vmDevices L ws img data p inst))"
proof -
  let ?s0 = "vmSpecBase L ws img r data p inst"
  let ?s1 = "if usesGuestAgentSSH img then putNested ?s0 [''template'', ''spec'', ''accessCredentials''] (accessCredentials L ws img) else ?s0"
  let ?s2 = "applyVMScheduling ?s1 (wss_template (w_spec ws))" and ?v = "[''template'', ''spec'', ''volumes'']" and ?d = "[''template'', ''spec'', ''domain'']"
  have s2: "nestedField (JObj ?s2) ?v = nestedField (JObj ?s0) ?v" "nestedField (JObj ?s2) ?d = nestedField (JObj ?s0) ?d"
    by (simp_all add: applyVMScheduling_field del: nestedField.simps)
  have fin: "nestedField (JObj (vmSpec L ws img r data p inst)) (''template'' # q)
      = nestedField (JObj (applyDomainMemoryAndCPU L ?s2 r img)) (''template'' # q)" for q
    by (simp add: vmSpec_def Let_def)
  show "nestedField (JObj (vmSpec L ws img r data p inst)) ?v = Some (JArr (vmVolumes L ws img data inst))"
    unfolding fin using domain_other[of ?v L ?s2 r img] s2(1) vmSpecBase_fields(1) by (simp del: nestedField.simps)
  show "nestedField (JObj (vmSpec L ws img r data p inst)) [''template'', ''spec'', ''domain'', ''devices''] = Some (JObj (vmDevices L ws img data p inst))"
    unfolding fin using domain_kept[of ?s2 _ L r img] s2(2) vmSpecBase_fields(2) by (simp del: nestedField.simps)
qed

abbreviation devicesPath :: "string list" where "devicesPath \<equiv> templateSpecPath @ [''domain'', ''devices'']"

lemma newVirtualMachine_field: "nestedField (JObj (un_object (newVirtualMachine m sp))) (''spec'' # q) = nestedField (JObj sp) q"
  by (simp add: newVirtualMachine_def)

lemma generated_lists:
  assumes "generateLinuxVirtualMachine L ws img keys p inst = Inr vm"
  obtains data where "ignoredError (vmCloudInitUserData L ws img (if usesGuestAgentSSH img then [] else keys)) = Inr data"
    "nestedSlice (un_object vm) volumesPath = Some (vmVolumes L ws img data inst)"
    "nestedSlice (un_object vm) (devicesPath @ [''disks'']) = Some (vmDisks L ws data inst)"
proof -
  from assms obtain r data where d: "ignoredError (vmCloudInitUserData L ws img (if usesGuestAgentSSH img then [] else keys)) = Inr data"
    and vm: "vm = newVirtualMachine (objectMeta (namespaceOf ws) (nameOf ws)) (vmSpec L ws img r data p inst)"
    by (auto simp: generateLinuxVirtualMachine_def split: sum.splits)
  have v: "nestedSlice (un_object vm) volumesPath = Some (vmVolumes L ws img data inst)"
    unfolding vm nestedSlice_def using vmSpec_fields(1)[of L ws img r data p inst] by (simp add: newVirtualMachine_field del: nestedField.simps)
  have "nestedField (JObj (un_object vm)) devicesPath = Some (JObj (vmDevices L ws img data p inst))"
    unfolding vm using vmSpec_fields(2)[of L ws img r data p inst] by (simp add: newVirtualMachine_field del: nestedField.simps)
  then have "nestedField (JObj (un_object vm)) (devicesPath @ [''disks'']) = Some (JArr (vmDisks L ws data inst))"
    unfolding nestedField_append by (simp add: vmDevices_def Let_def)
  then have "nestedSlice (un_object vm) (devicesPath @ [''disks'']) = Some (vmDisks L ws data inst)"
    by (simp add: nestedSlice_def del: nestedField.simps)
  with d v show ?thesis by (rule that)
qed

definition nameField :: "json \<Rightarrow> json option" where
  "nameField v = (case v of JObj m \<Rightarrow> map_of m ''name'' | _ \<Rightarrow> None)"

lemma disk_names: "map nameField (vmDisks L ws data inst) = map nameField (vmVolumes L ws img data inst)"
  by (auto simp: vmDisks_def vmVolumes_def appendVMDataMounts_def nameField_def namedDisk_def rootVolume_def cloudInitVolume_def
      dataDisk_def dataVolume_def Let_def split: list.split)

text \<open>
  C29. Disks and volumes of a generated VM belong together. They are the same number in the same order with the same
  names: the root disk, the cloud-init disk when there is user data, and one disk for each mount of the main
  container, whose volume is the DataVolume named by the mount. The root volume is the workspace's own DataVolume
  for a persistent root and the container disk of the main image otherwise.
\<close>

theorem vm_disks_have_volumes:
  assumes "generateLinuxVirtualMachine L ws img keys agentPort inst = Inr vm"
  shows "\<exists>disks volumes data. nestedSlice (un_object vm) (devicesPath @ [''disks'']) = Some disks
    \<and> nestedSlice (un_object vm) volumesPath = Some volumes \<and> map nameField disks = map nameField volumes
    \<and> volumes = rootVolume L ws img # (if data = [] then [] else [cloudInitVolume (nameOf ws) data])
         @ map (dataVolume L) (mountsOf ws)
    \<and> data = snd (vmCloudInitUserData L ws img (if usesGuestAgentSSH img then [] else keys))"
proof -
  from assms obtain data where d: "ignoredError (vmCloudInitUserData L ws img (if usesGuestAgentSSH img then [] else keys)) = Inr data"
    and l: "nestedSlice (un_object vm) volumesPath = Some (vmVolumes L ws img data inst)"
      "nestedSlice (un_object vm) (devicesPath @ [''disks'']) = Some (vmDisks L ws data inst)"
    by (rule generated_lists)
  have "data = snd (vmCloudInitUserData L ws img (if usesGuestAgentSSH img then [] else keys))"
    using d unfolding ignoredError_def by (auto split: prod.splits option.splits gerr.splits)
  moreover have "snd (appendVMDataMounts L (wss_template (w_spec ws)) inst) = map (dataVolume L) (mountsOf ws)"
    by (simp add: appendVMDataMounts_def mountsOf_def split: list.split)
  ultimately show ?thesis using l disk_names[of L ws data inst img] by (auto simp: vmVolumes_def)
qed

definition exVMImage :: image where
  "exVMImage = exImage\<lparr>i_spec := exImageSpec\<lparr>is_memoryLimit := ''4Gi''\<rparr>\<rparr>"

definition isInr :: "'a + 'b \<Rightarrow> bool" where
  "isInr x \<longleftrightarrow> (case x of Inl _ \<Rightarrow> False | Inr _ \<Rightarrow> True)"

lemma isInrD: "isInr x \<Longrightarrow> \<exists>y. x = Inr y"
  by (auto simp: isInr_def split: sum.splits)

theorem vm_disks_have_volumes_witness:
  "\<exists>vm disks volumes. generateLinuxVirtualMachine ref_lib exDiskWorkspace (Some exVMImage) [] 0 None = Inr vm
    \<and> nestedSlice (un_object vm) (devicesPath @ [''disks'']) = Some disks
    \<and> nestedSlice (un_object vm) volumesPath = Some volumes \<and> map nameField disks = map nameField volumes"
proof -
  have "isInr (generateLinuxVirtualMachine ref_lib exDiskWorkspace (Some exVMImage) [] 0 None)" by code_simp
  then obtain vm where vm: "generateLinuxVirtualMachine ref_lib exDiskWorkspace (Some exVMImage) [] 0 None = Inr vm"
    using isInrD by blast
  from vm_disks_have_volumes[OF vm] vm show ?thesis by blast
qed

section \<open>Stopping\<close>

lemma mset_head: "mset ((k, x) # m) f v = (if k = f then (k, v) # m else (k, x) # mset m f v)"
  by (simp add: mset_def)

lemma putNested_head: "k \<noteq> f \<Longrightarrow> putNested ((k, x) # m) (f # p) v = (k, x) # putNested m (f # p) v"
  by (cases p) (auto simp: putNested_def mset_head split: option.splits json.splits)

lemma nestedMap_head: "k \<noteq> f \<Longrightarrow> nestedMap ((k, x) # m) (f # p) = nestedMap m (f # p)"
  by (simp add: nestedMap_def)

lemma applyVMScheduling_head: "applyVMScheduling ((''running'', x) # m) ps = (''running'', x) # applyVMScheduling m ps"
  by (simp add: applyVMScheduling_def putNested_head Let_def)

lemma applyDomainMemoryAndCPU_head:
  "applyDomainMemoryAndCPU L ((''running'', x) # m) r img = (''running'', x) # applyDomainMemoryAndCPU L m r img"
  by (simp add: applyDomainMemoryAndCPU_def putNested_head nestedMap_head Let_def split: option.split)

text \<open>The workspace as the generator sees it, apart from the stop annotation.\<close>

definition sameButStopped :: "workspace \<Rightarrow> workspace \<Rightarrow> bool" where
  "sameButStopped v w \<longleftrightarrow> w_spec v = w_spec w \<and> nameOf v = nameOf w \<and> namespaceOf v = namespaceOf w \<and> m_uid (w_meta v) = m_uid (w_meta w)
     \<and> m_labels (w_meta v) = m_labels (w_meta w)
     \<and> mget (annotationsOf v) annotationAgentGeneration = mget (annotationsOf w) annotationAgentGeneration"

lemma sameButStopped_with: "sameButStopped (withStopped x ws) ws" "sameButStopped (withoutStopped ws) ws"
  by (simp_all add: sameButStopped_def withStopped_def withoutStopped_def)

lemma sameButStopped_userData:
  assumes "sameButStopped v w"
  shows "vmCloudInitUserData L v img keys = vmCloudInitUserData L w img keys"
proof -
  have m: "mountsOf v = mountsOf w" using assms by (simp add: sameButStopped_def mountsOf_def)
  have u: "m_uid (w_meta v) = m_uid (w_meta w)" "mget (annotationsOf v) annotationAgentGeneration = mget (annotationsOf w) annotationAgentGeneration"
    using assms by (simp_all add: sameButStopped_def)
  have a: "linuxAgentCloudInit L v img data = linuxAgentCloudInit L w img data"
    and d: "mountUserData L v img data = mountUserData L w img data" for data
    unfolding linuxAgentCloudInit_def mountUserData_def u m by (rule refl)+
  show ?thesis unfolding vmCloudInitUserData_def m a d by (rule refl)
qed

lemma sameButStopped_spec:
  assumes "sameButStopped v w"
  shows "vmSpec L v img r data p inst = mset (vmSpec L w img r data p inst) ''running'' (JBool (\<not> stopped v))"
proof -
  from assms have e: "vmVolumes L v img data inst = vmVolumes L w img data inst" "vmDevices L v img data p inst = vmDevices L w img data p inst"
    "vmLabels v = vmLabels w" "accessCredentials L v img = accessCredentials L w img" "persistentRoot v img = persistentRoot w img"
    "rootTemplate L v img = rootTemplate L w img" "w_spec v = w_spec w" "nameOf v = nameOf w"
    by (simp_all add: sameButStopped_def vmVolumes_def vmDevices_def vmLabels_def accessCredentials_def persistentRoot_def rootTemplate_def
        rootVolume_def vmDisks_def mainImage_def)
  show ?thesis
    by (simp add: vmSpec_def vmSpecBase_def e putNested_head applyVMScheduling_head applyDomainMemoryAndCPU_head mset_head Let_def)
qed

text \<open>
  Stopping a VM only halts it: with the stop annotation, whatever its value, the generated VM is the one of the
  workspace with \<^verbatim>\<open>spec.running\<close> false, without it the same with \<^verbatim>\<open>spec.running\<close> true. Disks, cloud-init data and
  hardware do not depend on it, and neither do the errors.
\<close>

theorem vm_stop_only_halts:
  "generateLinuxVirtualMachine L (withStopped x ws) img keys agentPort inst =
     map_sum id (\<lambda>vm. putObject vm [''spec'', ''running''] (JBool False)) (generateLinuxVirtualMachine L ws img keys agentPort inst)
   \<and> generateLinuxVirtualMachine L (withoutStopped ws) img keys agentPort inst =
     map_sum id (\<lambda>vm. putObject vm [''spec'', ''running''] (JBool True)) (generateLinuxVirtualMachine L ws img keys agentPort inst)"
proof -
  have "generateLinuxVirtualMachine L v img keys agentPort inst =
      map_sum id (\<lambda>vm. putObject vm [''spec'', ''running''] (JBool (\<not> stopped v))) (generateLinuxVirtualMachine L ws img keys agentPort inst)"
    if v: "sameButStopped v ws" for v
  proof -
    have w: "w_spec v = w_spec ws" "nameOf v = nameOf ws" "namespaceOf v = namespaceOf ws" using v by (simp_all add: sameButStopped_def)
    show ?thesis
      by (simp add: generateLinuxVirtualMachine_def w sameButStopped_userData[OF v] sameButStopped_spec[OF v] putObject_def putNested_def
          newVirtualMachine_def mset_head split: sum.split)
  qed
  note eq = this
  have "stopped (withStopped x ws)" "\<not> stopped (withoutStopped ws)" by (simp_all add: stopped_def withStopped_def withoutStopped_def)
  then show ?thesis using eq[OF sameButStopped_with(1)] eq[OF sameButStopped_with(2)] by simp
qed

section \<open>Updates\<close>

text \<open>\<^verbatim>\<open>DeepDerivative\<close> holds of a value and itself.\<close>

definition derivative_doc :: "lib \<Rightarrow> bool" where
  "derivative_doc L \<longleftrightarrow> (\<forall>x. l_derivative L x x)"

text \<open>The update: the spec of the stored object is replaced by the desired one.\<close>

definition withSpec :: "unstructured \<Rightarrow> unstructured \<Rightarrow> unstructured" where
  "withSpec desired latest = (case map_of (un_object desired) ''spec'' of None \<Rightarrow> latest\<lparr>un_object := mset (un_object latest) ''spec'' JNull\<rparr>
     | Some s \<Rightarrow> latest\<lparr>un_object := mset (un_object latest) ''spec'' s\<rparr>)"

lemma withSpec_field:
  "map_of (un_object desired) ''spec'' = Some s \<Longrightarrow>
     nestedField (JObj (un_object (withSpec desired latest))) (''spec'' # q) = nestedField (JObj (un_object desired)) (''spec'' # q)"
  by (simp add: withSpec_def)

lemma ownedLists_spec: "list_all (\<lambda>p. \<exists>q. p = ''spec'' # q) ownedLists"
  by (simp add: ownedLists_def)

lemma vm_update_settles:
  assumes "derivative_doc L" and "map_of (un_object desired) ''spec'' = Some s"
  shows "\<not> virtualMachineNeedsUpdate L desired (withSpec desired latest)"
proof -
  have r: "l_derivative L x x" for x using assms(1) by (simp add: derivative_doc_def)
  have "nestedSlice (un_object (withSpec desired latest)) (''spec'' # q) = nestedSlice (un_object desired) (''spec'' # q)"
    "nestedMap (un_object (withSpec desired latest)) (''spec'' # q) = nestedMap (un_object desired) (''spec'' # q)"
    "nestedBool (un_object (withSpec desired latest)) (''spec'' # q) = nestedBool (un_object desired) (''spec'' # q)" for q
    using withSpec_field[OF assms(2)] unfolding nestedSlice_def nestedMap_def nestedBool_def by simp_all
  then show ?thesis unfolding virtualMachineNeedsUpdate_def ownedLists_def sameList_def Let_def by (simp add: r)
qed

end
