(* ===== verification/Windows_Profile.thy ===== *)
theory Windows_Profile
  imports VM_Gen
begin

text \<open>
  The Windows guest profile (src/internal/controller/vm_windows_guest.go, vm_windows_gpu.go): its validation,
  the checks on the worker, the KubeVirt installation, storage and GPU before a VM is made, the resolution of the
  profile from the Image catalog, and the identity derived from it. A quantity that the source writes as a
  constant with suffix Gi is its amount in thousandths, \<open>gi n\<close>.
\<close>

section \<open>Validation\<close>

abbreviation windowsEligibleNodeLabel :: string where "windowsEligibleNodeLabel \<equiv> ''kubeworkspaces.io/windows11-amd64-eligible''"
abbreviation windowsGuestArchitecture :: string where "windowsGuestArchitecture \<equiv> ''amd64''"
abbreviation hostnameLabel :: string where "hostnameLabel \<equiv> ''kubernetes.io/hostname''"
abbreviation archLabel :: string where "archLabel \<equiv> ''kubernetes.io/arch''"

abbreviation gi :: "int \<Rightarrow> int" where "gi n \<equiv> n * 1073741824000"

abbreviation nodeSelectorOf :: "workspace \<Rightarrow> strmap" where "nodeSelectorOf ws \<equiv> ps_nodeSelector (wss_template (w_spec ws))"

text \<open>The regular expression \<^verbatim>\<open>^.+@sha256:[a-f0-9]{64}$\<close>.\<close>

definition windowsImageDigest :: "string \<Rightarrow> bool" where
  "windowsImageDigest s \<longleftrightarrow> length s > 72 \<and> (let n = length s - 72 in
     CHR 0x0A \<notin> set (take n s) \<and> take 8 (drop n s) = ''@sha256:'' \<and> list_all (\<lambda>c. c \<in> set ''0123456789abcdef'') (drop (n + 8) s))"

definition kubernetesDomain :: "string \<Rightarrow> bool" where
  "kubernetesDomain d \<longleftrightarrow> d = ''kubernetes.io'' \<or> hasSuffix d ''.kubernetes.io'' \<or> d = ''k8s.io'' \<or> hasSuffix d ''.k8s.io''"

definition extendedResource :: "lib \<Rightarrow> string \<Rightarrow> bool" where
  "extendedResource L name \<longleftrightarrow> (case splitOn CHR ''/'' name of
     [domain, rest] \<Rightarrow> length name \<le> 253 \<and> \<not> hasPrefix name ''requests.'' \<and> l_isDNS1123Subdomain L domain
       \<and> l_isQualifiedName L name \<and> \<not> kubernetesDomain domain
   | _ \<Rightarrow> False)"

definition validateVMGPUProfile :: "lib \<Rightarrow> vmGPUProfile option \<Rightarrow> unit result" where
  "validateVMGPUProfile L profile = (case profile of None \<Rightarrow> Inr () | Some p \<Rightarrow>
     if \<not> extendedResource L (gp_resourceName p) then Inl (Errorf ''VM GPU profile requires a vendor extended resource'')
     else if length (gp_id p) > 63 \<or> \<not> l_isDNS1123Label L (gp_id p) \<or> gp_displayName p = [] \<or> length (gp_displayName p) > 128
       \<or> gp_guestDriverVersion p = [] \<or> length (gp_guestDriverVersion p) > 128 \<or> gp_count p \<noteq> 1
       \<or> (gp_kind p \<noteq> ''pci'' \<and> gp_kind p \<noteq> ''mediated'') \<or> gp_nodeSelector p = []
     then Inl (Errorf ''invalid versioned VM GPU profile'')
     else if list_ex (\<lambda>(k, v). \<not> l_isQualifiedName L k \<or> \<not> l_isValidLabelValue L v) (gp_nodeSelector p)
     then Inl (Errorf ''invalid VM GPU worker selector'')
     else Inr ())"

definition atLeast :: "lib \<Rightarrow> string \<Rightarrow> int \<Rightarrow> bool" where
  "atLeast L s bound \<longleftrightarrow> (case l_parseQuantity L s of Inl e \<Rightarrow> False | Inr q \<Rightarrow> q_milli q \<ge> bound)"

definition validWindowsContainer :: "workspace \<Rightarrow> resolvedVMProfile \<Rightarrow> unit result" where
  "validWindowsContainer ws profile = (case containersOf ws of
     [c] \<Rightarrow>
       if ct_image c \<noteq> vp_image profile \<or> \<not> windowsImageDigest (vp_image profile)
       then Inl (Errorf ''windows profile requires one main container with the resolved OCI image digest'')
       else if ct_volumeMounts c \<noteq> [] \<or> ps_volumes (wss_template (w_spec ws)) \<noteq> []
       then Inl (Errorf ''windows automatic user-disk mounting is not supported'')
       else if list_ex (\<lambda>(k, v). CHR ''/'' \<in> set k) (ct_limits c)
       then Inl (Errorf ''windows GPU resources require a typed operator profile, not container limits'')
       else if list_ex (\<lambda>(k, v). CHR ''/'' \<in> set k) (ct_requests c)
       then Inl (Errorf ''windows GPU resources require a typed operator profile, not container requests'')
       else Inr ()
   | _ \<Rightarrow> Inl (Errorf ''windows profile requires one main container with the resolved OCI image digest''))"

definition validWindowsHardware :: "lib \<Rightarrow> workspace \<Rightarrow> resolvedVMProfile \<Rightarrow> unit result" where
  "validWindowsHardware L ws profile =
     (if vp_cpuCores profile < 2 then Inl (Errorf ''windows 11 requires at least 2 guest CPU cores'')
      else if \<not> atLeast L (vp_guestMemory profile) (gi 4) then Inl (Errorf ''windows 11 requires at least 4Gi guest memory'')
      else if \<not> atLeast L (vp_rootDiskSize profile) (gi 80) then Inl (Errorf ''windows prepared roots require at least 80Gi persistent storage'')
      else if vp_generation profile = [] then Inl (Errorf ''windows provisioning generation is missing'')
      else if mget (nodeSelectorOf ws) archLabel \<notin> {[], windowsGuestArchitecture}
      then Inl (Errorf ''windows 11 profile requires amd64 scheduling'')
      else Inr ())"

definition validateWindowsProfile :: "lib \<Rightarrow> workspace \<Rightarrow> unit result" where
  "validateWindowsProfile L ws = (case wss_vmProfile (w_spec ws) of
     None \<Rightarrow> Inl (Errorf ''unsupported VM guest profile'')
   | Some profile \<Rightarrow>
       if vp_id profile \<noteq> Windows11AMD64V1 then Inl (Errorf ''unsupported VM guest profile'')
       else if wss_type (w_spec ws) \<noteq> WorkspaceTypeVM then Inl (Errorf ''windows profile requires a VM workspace'')
       else (case validWindowsContainer ws profile of Inl e \<Rightarrow> Inl e | Inr _ \<Rightarrow>
         (case validateVMGPUProfile L (vp_gpu profile) of Inl e \<Rightarrow> Inl e | Inr _ \<Rightarrow> validWindowsHardware L ws profile)))"

section \<open>Preflight\<close>

definition zeroQuantity :: quantity where
  "zeroQuantity = \<lparr>q_milli = 0, q_format = []\<rparr>"

definition nodeReady :: "node \<Rightarrow> bool" where
  "nodeReady n \<longleftrightarrow> list_ex (\<lambda>(t, s). t = ''Ready'' \<and> s = ''True'') (node_conditions n)"

definition certifiedNode :: "node \<Rightarrow> unit result" where
  "certifiedNode n =
     (if node_unschedulable n \<or> mget (m_labels (node_meta n)) windowsEligibleNodeLabel \<noteq> LabelValueTrue
         \<or> mget (m_labels (node_meta n)) archLabel \<noteq> windowsGuestArchitecture
      then Inl (Errorf ''windows worker is not schedulable/certified for the selected amd64 profile'')
      else if q_milli (zeroOr zeroQuantity (map_of (node_allocatable n) ''devices.kubevirt.io/kvm'')) = 0
      then Inl (Errorf ''windows worker does not advertise KVM acceleration'')
      else if \<not> nodeReady n then Inl (Errorf ''windows worker is not Ready'') else Inr ())"

definition preflightWindowsNode :: "workspace \<Rightarrow> unit result prog" where
  "preflightWindowsNode ws = (let nodeName = mget (nodeSelectorOf ws) hostnameLabel in
     if nodeName = []
     then Ret (Inl (Errorf ''windows workspaces require a certified worker selector so root and state storage bind together''))
     else replaceErr ''windows worker inventory is unavailable'' (listP Cached KNode toNode None [(hostnameLabel, nodeName)]) (\<lambda>nodes.
       Ret (case nodes of [n] \<Rightarrow> certifiedNode n
            | _ \<Rightarrow> Inl (Errorf ''windows worker selector must resolve to one certified worker''))))"

abbreviation KKubeVirtList :: kind where "KKubeVirtList \<equiv> KUnstructured ''kubevirt.io/v1'' ''KubeVirtList''"
abbreviation KDataVolumeList :: kind where "KDataVolumeList \<equiv> KUnstructured ''cdi.kubevirt.io/v1beta1'' ''DataVolumeList''"
abbreviation KStorageProfile :: kind where "KStorageProfile \<equiv> KUnstructured ''cdi.kubevirt.io/v1beta1'' ''StorageProfile''"

definition checkKubeVirt :: "unstructured \<Rightarrow> unit result" where
  "checkKubeVirt kv = (let ob = un_object kv in
     if \<not> hasPrefix (zeroOr [] (nestedString ob [''status'', ''observedKubeVirtVersion''])) ''v1.9.''
       \<or> zeroOr [] (nestedString ob [''status'', ''phase'']) \<noteq> ''Deployed''
     then Inl (Errorf ''windows profile requires deployed KubeVirt 1.9.x persistent-state support'')
     else if zeroOr False (nestedBool ob [''spec'', ''configuration'', ''developerConfiguration'', ''useEmulation''])
     then Inl (Errorf ''windows profile requires KVM, not software emulation'')
     else Inr ())"

text \<open>The loop over the annotations that mark a default class; \<open>Inr []\<close> when none is marked.\<close>

fun defaultStateClass :: "storageClass list \<Rightarrow> string list \<Rightarrow> string result" where
  "defaultStateClass classes [] = Inr []"
| "defaultStateClass classes (annotation # rest) =
     (case map (\<lambda>sc. m_name (sc_meta sc)) (filter (\<lambda>sc. mget (m_annotations (sc_meta sc)) annotation = LabelValueTrue) classes) of
        [] \<Rightarrow> defaultStateClass classes rest
      | [name] \<Rightarrow> Inr name
      | _ \<Rightarrow> Inl (Errorf ''windows backend-state StorageClass is ambiguous''))"

definition backendStateClass :: "unstructured \<Rightarrow> storageClass list \<Rightarrow> storageClass result" where
  "backendStateClass kv classes = (let configured = zeroOr [] (nestedString (un_object kv) [''spec'', ''configuration'', ''vmStateStorageClass'']) in
     case (if configured \<noteq> [] then Inr configured
           else defaultStateClass classes [''storageclass.kubevirt.io/is-default-virt-class'', ''storageclass.kubernetes.io/is-default-class'']) of
       Inl e \<Rightarrow> Inl e
     | Inr name \<Rightarrow> (case rev (filter (\<lambda>sc. m_name (sc_meta sc) = name) classes) of
           [] \<Rightarrow> Inl (Errorf ''windows backend-state StorageClass is missing'') | sc # _ \<Rightarrow> Inr sc))"

text \<open>\<^verbatim>\<open>NestedStringSlice\<close>: nil unless every element is a string.\<close>

definition nestedStrings :: "jobj \<Rightarrow> string list \<Rightarrow> string list" where
  "nestedStrings m path = (let xs = zeroOr [] (nestedSlice m path) in
     if list_all (\<lambda>x. case x of JStr s \<Rightarrow> True | _ \<Rightarrow> False) xs then map (\<lambda>x. case x of JStr s \<Rightarrow> s | _ \<Rightarrow> []) xs else [])"

definition filesystemModes :: "unstructured \<Rightarrow> string list" where
  "filesystemModes profile = concat (map (\<lambda>item. case item of
       JObj property \<Rightarrow> if map_of property ''volumeMode'' = Some (JStr ''Filesystem'') then nestedStrings property [''accessModes''] else []
     | _ \<Rightarrow> []) (zeroOr [] (nestedSlice (un_object profile) [''status'', ''claimPropertySets''])))"

definition checkLocalClass :: "unstructured \<Rightarrow> unit result" where
  "checkLocalClass profile = (let modes = filesystemModes profile in
     if ''ReadWriteMany'' \<in> set modes then Inl (Errorf ''local backend-state storage cannot satisfy RWX'')
     else if ''ReadWriteOnce'' \<notin> set modes then Inl (Errorf ''explicit local backend-state class requires Filesystem/RWO defaults'')
     else Inr ())"

definition checkStateStorage :: "unstructured \<Rightarrow> storageClass list \<Rightarrow> unit result prog" where
  "checkStateStorage kv classes = (let stateClass = zeroOr [] (nestedString (un_object kv) [''spec'', ''configuration'', ''vmStateStorageClass'']) in
     case backendStateClass kv classes of
       Inl e \<Rightarrow> Ret (Inl e)
     | Inr selected \<Rightarrow>
         if stateClass \<noteq> [] \<and> hasSuffix (sc_provisioner selected) ''/local-path''
         then replaceErr ''explicit local backend-state class requires a Filesystem/RWO StorageProfile''
           (getP Cached KStorageProfile toUnstructured [] stateClass) (\<lambda>profile. Ret (checkLocalClass profile))
         else Ret (Inr ()))"

definition preflightWindowsInfrastructure :: "workspace \<Rightarrow> unit result prog" where
  "preflightWindowsInfrastructure ws =
     replaceErr ''windows requires an available KubeVirt installation'' (listP Cached KKubeVirtList toUnstructured None []) (\<lambda>kubevirts.
       case kubevirts of
         [kv] \<Rightarrow> tryP (Ret (checkKubeVirt kv)) (\<lambda>_.
           replaceErr ''windows persistent roots require CDI'' (listP Cached KDataVolumeList toUnstructured (Some (namespaceOf ws)) []) (\<lambda>_.
           replaceErr ''windows persistent-state storage inventory is unavailable'' (listP Cached KStorageClass toStorageClass None []) (\<lambda>classes.
             checkStateStorage kv classes)))
       | _ \<Rightarrow> Ret (Inl (Errorf ''windows requires an available KubeVirt installation'')))"

section \<open>GPU preflight\<close>

text \<open>\<^verbatim>\<open>reflect.DeepEqual\<close> on two profiles.\<close>

definition sameGPUProfile :: "vmGPUProfile \<Rightarrow> vmGPUProfile \<Rightarrow> bool" where
  "sameGPUProfile a b \<longleftrightarrow> a\<lparr>gp_nodeSelector := []\<rparr> = b\<lparr>gp_nodeSelector := []\<rparr> \<and> mequal (gp_nodeSelector a) (gp_nodeSelector b)"

text \<open>The loop over the operator's profiles; the flag is \<^verbatim>\<open>approved\<close>.\<close>

fun approveGPU :: "vmGPUProfile \<Rightarrow> bool \<Rightarrow> vmGPUProfile list \<Rightarrow> unit result" where
  "approveGPU profile approved [] = (if approved then Inr () else Inl (Errorf ''VM GPU profile is not approved by the operator''))"
| "approveGPU profile approved (candidate # rest) =
     (if gp_id candidate = gp_id profile
      then if approved \<or> \<not> sameGPUProfile candidate profile
           then Inl (Errorf ''VM GPU snapshot does not match its versioned operator profile'')
           else approveGPU profile True rest
      else approveGPU profile approved rest)"

definition gpuNode :: "vmGPUProfile \<Rightarrow> node \<Rightarrow> unit result" where
  "gpuNode profile n =
     (if list_ex (\<lambda>(k, v). map_of (m_labels (node_meta n)) k \<noteq> Some v) (gp_nodeSelector profile)
      then Inl (Errorf ''selected worker is not eligible for this VM GPU profile'')
      else if q_milli (zeroOr zeroQuantity (map_of (node_allocatable n) (gp_resourceName profile))) < 1000
      then Inl (Errorf ''selected worker does not advertise the VM GPU resource'')
      else Inr ())"

definition permittedGPU :: "vmGPUProfile \<Rightarrow> unstructured \<Rightarrow> unit result" where
  "permittedGPU profile kv = (let field = (if gp_kind profile = ''mediated'' then ''mediatedDevices'' else ''pciHostDevices'') in
     if list_ex (\<lambda>entry. case entry of JObj item \<Rightarrow> map_of item ''resourceName'' = Some (JStr (gp_resourceName profile)) | _ \<Rightarrow> False)
          (zeroOr [] (nestedSlice (un_object kv) [''spec'', ''configuration'', ''permittedHostDevices'', field]))
     then Inr () else Inl (Errorf ''VM GPU resource is not in the matching KubeVirt allowlist''))"

definition onlyOne :: "string \<Rightarrow> 'a list \<Rightarrow> 'a result" where
  "onlyOne msg xs = (case xs of [x] \<Rightarrow> Inr x | _ \<Rightarrow> Inl (Errorf msg))"

definition singleton :: "string \<Rightarrow> 'a list result prog \<Rightarrow> 'a result prog" where
  "singleton msg p = replaceErr msg p (\<lambda>xs. Ret (onlyOne msg xs))"

definition preflightGPU :: "lib \<Rightarrow> workspace \<Rightarrow> vmGPUProfile \<Rightarrow> unit result prog" where
  "preflightGPU L ws profile =
     tryP (Ret (validateVMGPUProfile L (Some profile))) (\<lambda>_.
     replaceErr ''VM GPU operator profiles are unavailable'' (getP Cached KPlatformConfig toPlatformConfig [] ''default'') (\<lambda>platform.
     tryP (Ret (approveGPU profile False (pcs_vmGPUProfiles (pcfg_spec platform)))) (\<lambda>_.
     tryP (preflightWindowsNode ws) (\<lambda>_.
     tryP (singleton ''VM GPU requires an available certified worker''
         (listP Cached KNode toNode None [(hostnameLabel, mget (nodeSelectorOf ws) hostnameLabel)])) (\<lambda>n.
     tryP (Ret (gpuNode profile n)) (\<lambda>_.
     tryP (singleton ''VM GPU KubeVirt allowlist is unavailable'' (listP Cached KKubeVirtList toUnstructured None [])) (\<lambda>kv.
       Ret (permittedGPU profile kv))))))))"

definition gpuOf :: "workspace \<Rightarrow> vmGPUProfile option" where
  "gpuOf ws = (case wss_vmProfile (w_spec ws) of None \<Rightarrow> None | Some profile \<Rightarrow> vp_gpu profile)"

definition preflightWindowsGPU :: "lib \<Rightarrow> workspace \<Rightarrow> unit result prog" where
  "preflightWindowsGPU L ws = (case gpuOf ws of None \<Rightarrow> Ret (Inr ()) | Some profile \<Rightarrow> preflightGPU L ws profile)"

definition preflightWindows :: "lib \<Rightarrow> workspace \<Rightarrow> unit result prog" where
  "preflightWindows L ws = tryP (Ret (validateWindowsProfile L ws)) (\<lambda>_. tryP (preflightWindowsNode ws) (\<lambda>_.
     tryP (preflightWindowsInfrastructure ws) (\<lambda>_. preflightWindowsGPU L ws)))"

section \<open>Resolution\<close>

definition windowsRemoteDesktopTransport :: "image \<Rightarrow> unit result" where
  "windowsRemoteDesktopTransport img = (case is_remoteDesktop (i_spec img) of None \<Rightarrow> Inr () | Some rd \<Rightarrow>
     if rd_protocol rd \<noteq> ''agent''
     then Inl (Errorf (''windows images support only the agent remote desktop transport, not '' @ goQuote (rd_protocol rd))) else Inr ())"

definition checkWindowsImage :: "image \<Rightarrow> unit result" where
  "checkWindowsImage img = (let spec = i_spec img in
     if is_vmProfile spec \<noteq> Windows11AMD64V1 then Inl (Errorf ''unsupported Image VM profile'')
     else if \<not> is_persistentRootDisk spec \<or> is_defaultCloudInit spec \<or> is_defaultUserData spec \<noteq> [] \<or> is_defaultPassword spec \<noteq> []
     then Inl (Errorf ''windows images require persistent generalised roots, native Sysprep and no shared password'')
     else windowsRemoteDesktopTransport img)"

text \<open>The conversion \<^verbatim>\<open>int32(cpu.Value())\<close> wraps around.\<close>

definition toInt32 :: "int \<Rightarrow> int" where
  "toInt32 v = sint (word_of_int v :: 32 word)"

definition snapshotProfile :: "lib \<Rightarrow> workspace \<Rightarrow> image \<Rightarrow> string \<Rightarrow> resolvedVMProfile" where
  "snapshotProfile L ws img generation = (let spec = i_spec img;
       limits = (case containersOf ws of [c] \<Rightarrow> ct_limits c | _ \<Rightarrow> []) in
     \<lparr>vp_gpu = None, vp_id = is_vmProfile spec, vp_image = is_image spec, vp_generation = generation,
      vp_rootDiskSize = (if is_persistentRootDiskSize spec = [] then ''80Gi'' else is_persistentRootDiskSize spec),
      vp_cpuCores = (case map_of limits ''cpu'' of None \<Rightarrow> 4 | Some q \<Rightarrow> toInt32 (l_quantityValue L q)),
      vp_guestMemory = (case map_of limits ''memory'' of None \<Rightarrow> ''8Gi'' | Some q \<Rightarrow> l_quantityString L q),
      vp_importSecretName = [], vp_importCertConfigMapName = [], vp_storageClassName = []\<rparr>)"

definition withProfile :: "workspace \<Rightarrow> resolvedVMProfile \<Rightarrow> workspace" where
  "withProfile ws profile = ws\<lparr>w_spec := (w_spec ws)\<lparr>wss_vmProfile := Some profile\<rparr>\<rparr>"

definition storeResolved :: "workspace \<Rightarrow> (workspace \<times> bool result) prog" where
  "storeResolved ws = bind (updateWorkspaceW ws) (\<lambda>(ws', r). Ret (ws', case r of Inl e \<Rightarrow> Inl e | Inr _ \<Rightarrow> Inr True))"

definition snapshotWindows :: "lib \<Rightarrow> workspace \<Rightarrow> image \<Rightarrow> (workspace \<times> bool result) prog" where
  "snapshotWindows L ws img = bind (getP Cached KVirtualMachine toUnstructured (namespaceOf ws) (nameOf ws)) (\<lambda>g. case g of
     Inr vm \<Rightarrow> Ret (ws, Inl (Errorf ''an existing legacy VM cannot change guest profile without an explicit Reset''))
   | Inl e \<Rightarrow> if \<not> isNotFound e then Ret (ws, Inl e)
       else bind newUUID (\<lambda>u. let ws' = withProfile ws (snapshotProfile L ws img u) in
         case validateWindowsProfile L ws' of Inl e' \<Rightarrow> Ret (ws', Inl e') | Inr _ \<Rightarrow> storeResolved ws'))"

definition resolveWindowsProfile :: "lib \<Rightarrow> workspace \<Rightarrow> image option \<Rightarrow> (workspace \<times> bool result) prog" where
  "resolveWindowsProfile L ws img = (case wss_vmProfile (w_spec ws) of
     Some profile \<Rightarrow>
       if vp_generation profile = []
       then bind newUUID (\<lambda>u. storeResolved (withProfile ws (profile\<lparr>vp_generation := u\<rparr>)))
       else Ret (ws, case validateWindowsProfile L ws of Inl e \<Rightarrow> Inl e | Inr _ \<Rightarrow> Inr False)
   | None \<Rightarrow> (case img of
       None \<Rightarrow> Ret (ws, Inr False)
     | Some i \<Rightarrow> if is_vmProfile (i_spec i) = [] then Ret (ws, Inr False)
         else (case checkWindowsImage i of Inl e \<Rightarrow> Ret (ws, Inl e) | Inr _ \<Rightarrow> snapshotWindows L ws i)))"

section \<open>Identity\<close>

definition generationOf :: "workspace \<Rightarrow> string" where
  "generationOf ws = (case wss_vmProfile (w_spec ws) of None \<Rightarrow> [] | Some profile \<Rightarrow> vp_generation profile)"

unbundle bit_operations_syntax

definition charByte :: "char \<Rightarrow> 8 word" where
  "charByte c = word_of_int (of_char c)"

definition windowsIdentity :: "lib \<Rightarrow> workspace \<Rightarrow> string" where
  "windowsIdentity L ws = (let sum0 = l_sha256 L (m_uid (w_meta ws) @ ''/'' @ generationOf ws);
       sum1 = sum0[6 := byteChar ((charByte (sum0 ! 6) AND 0x0F) OR 0x40)];
       sum = sum1[8 := byteChar ((charByte (sum1 ! 8) AND 0x3F) OR 0x80)]
     in join ''-'' (map hexBytes [take 4 sum, take 2 (drop 4 sum), take 2 (drop 6 sum), take 2 (drop 8 sum), take 6 (drop 10 sum)]))"

definition upperHex :: "string \<Rightarrow> string" where
  "upperHex s = map (\<lambda>c. if c \<in> set ''abcdef'' then char_of (of_char c - 32 :: nat) else c) s"

definition windowsHostname :: "lib \<Rightarrow> workspace \<Rightarrow> string" where
  "windowsHostname L ws = ''KW-'' @ upperHex (hexBytes (take 6 (l_sha256 L (windowsIdentity L ws))))"

definition windowsBootstrapSecretName :: "lib \<Rightarrow> workspace \<Rightarrow> string" where
  "windowsBootstrapSecretName L ws = (let name = nameOf ws in
     (if length name > 36 then trimRight (take 36 name) ''-'' else name) @ ''-win-''
       @ hexBytes (take 6 (l_sha256 L (name @ ''/'' @ generationOf ws))))"

section \<open>A resolved profile stays\<close>

lemma runs_newUUID: "runs newUUID tr u \<Longrightarrow> \<exists>r. tr = [(ReqUUID, r)]"
  unfolding newUUID_def by (auto simp: runs_ask)

lemma runs_updateWorkspaceW: "runs (updateWorkspaceW ws) tr y \<Longrightarrow> \<exists>r. tr = [(ReqUpdate (OWorkspace ws), r)]"
  unfolding updateWorkspaceW_def by (auto simp: runs_bind runs_client runs_Ret_iff)

lemma storeResolved_trace: "runs (storeResolved ws) tr y \<Longrightarrow> \<exists>r. tr = [(ReqUpdate (OWorkspace ws), r)]"
  unfolding storeResolved_def by (auto simp: runs_bind runs_Ret_iff split: prod.splits dest: runs_updateWorkspaceW)

lemma snapshotWindows_write:
  assumes "runs (snapshotWindows L ws img) tr y" and "(q, x) \<in> set tr" and "isWrite q"
  shows "\<exists>u e. q = ReqUpdate (OWorkspace (withProfile ws (snapshotProfile L ws img u)))
    \<and> validateWindowsProfile L (withProfile ws (snapshotProfile L ws img u)) = Inr ()
    \<and> isNotFound e \<and> (ReqGet Cached KVirtualMachine (namespaceOf ws, nameOf ws), RErr e) \<in> set tr"
proof -
  from assms obtain e t where e: "isNotFound e" "tr = (ReqGet Cached KVirtualMachine (namespaceOf ws, nameOf ws), RErr e) # t" "(q, x) \<in> set t"
    and t: "runs (bind newUUID (\<lambda>u. let ws' = withProfile ws (snapshotProfile L ws img u) in
         case validateWindowsProfile L ws' of Inl e' \<Rightarrow> Ret (ws', Inl e') | Inr _ \<Rightarrow> storeResolved ws')) t y"
    unfolding snapshotWindows_def runs_bind_sum by (auto simp: runs_client runs_Ret_iff asObj_notFound split: if_splits)
  from t obtain t1 u t2 where t1: "runs newUUID t1 u" "t = t1 @ t2"
    and t2: "runs (let ws' = withProfile ws (snapshotProfile L ws img u) in
         case validateWindowsProfile L ws' of Inl e' \<Rightarrow> Ret (ws', Inl e') | Inr _ \<Rightarrow> storeResolved ws') t2 y"
    unfolding runs_bind by blast
  let ?w = "withProfile ws (snapshotProfile L ws img u)"
  from runs_newUUID[OF t1(1)] e(3) assms(3) t1(2) have q: "(q, x) \<in> set t2" by auto
  then have valid: "validateWindowsProfile L ?w = Inr ()" and "runs (storeResolved ?w) t2 y"
    using t2 by (cases "validateWindowsProfile L ?w"; simp add: runs_Ret_iff)+
  from storeResolved_trace[OF this(2)] q have "q = ReqUpdate (OWorkspace ?w)" by auto
  with e valid show ?thesis by (intro exI[of _ u] exI[of _ e]) simp
qed

text \<open>
  C36. A resolved profile is a snapshot. Resolving the profile of a workspace writes nothing once the profile has a
  generation, whatever the catalog says. Otherwise it writes the Workspace with nothing changed but the
  generation of its profile, or, when there is no profile, with the profile taken from the Image: a profile that
  passes the validation, and only after the VM was reported absent.
\<close>

theorem windows_profile_snapshot:
  assumes "runs (resolveWindowsProfile L ws img) tr y" and "(q, x) \<in> set tr" and "isWrite q"
  shows "\<exists>profile. q = ReqUpdate (OWorkspace (withProfile ws profile))
    \<and> (case wss_vmProfile (w_spec ws) of
         Some old \<Rightarrow> vp_generation old = [] \<and> profile = old\<lparr>vp_generation := vp_generation profile\<rparr>
       | None \<Rightarrow> (\<exists>i e. img = Some i \<and> profile = snapshotProfile L ws i (vp_generation profile) \<and> checkWindowsImage i = Inr ()
           \<and> validateWindowsProfile L (withProfile ws profile) = Inr ()
           \<and> isNotFound e \<and> (ReqGet Cached KVirtualMachine (namespaceOf ws, nameOf ws), RErr e) \<in> set tr))"
proof (cases "wss_vmProfile (w_spec ws)")
  case (Some old)
  show ?thesis
  proof (cases "vp_generation old = []")
    case True
    from assms(1) Some True obtain t1 u t2 where t: "runs newUUID t1 u" "runs (storeResolved (withProfile ws (old\<lparr>vp_generation := u\<rparr>))) t2 y" "tr = t1 @ t2"
      unfolding resolveWindowsProfile_def by (auto simp: runs_bind)
    from runs_newUUID[OF t(1)] storeResolved_trace[OF t(2)] t(3) assms(2,3)
    have "q = ReqUpdate (OWorkspace (withProfile ws (old\<lparr>vp_generation := u\<rparr>)))" by auto
    then show ?thesis using Some True by (intro exI[of _ "old\<lparr>vp_generation := u\<rparr>"]) simp
  next
    case False
    then show ?thesis using assms Some by (auto simp: resolveWindowsProfile_def runs_Ret_iff)
  qed
next
  case None
  with assms obtain i where i: "img = Some i" "checkWindowsImage i = Inr ()" "runs (snapshotWindows L ws i) tr y"
    unfolding resolveWindowsProfile_def by (auto simp: runs_Ret_iff split: option.splits if_splits sum.splits)
  from snapshotWindows_write[OF i(3) assms(2,3)] obtain u e where "q = ReqUpdate (OWorkspace (withProfile ws (snapshotProfile L ws i u)))"
    "validateWindowsProfile L (withProfile ws (snapshotProfile L ws i u)) = Inr ()"
    "isNotFound e" "(ReqGet Cached KVirtualMachine (namespaceOf ws, nameOf ws), RErr e) \<in> set tr" by blast
  moreover have "vp_generation (snapshotProfile L ws i u) = u" by (simp add: snapshotProfile_def Let_def)
  ultimately show ?thesis using None i by (intro exI[of _ "snapshotProfile L ws i u"]) auto
qed

definition exProfile :: resolvedVMProfile where
  "exProfile = \<lparr>vp_gpu = None, vp_id = Windows11AMD64V1, vp_image = ''registry/win@sha256:'' @ replicate 64 CHR ''0'', vp_generation = ''g1'',
     vp_rootDiskSize = ''80Gi'', vp_cpuCores = 4, vp_guestMemory = ''8Gi'', vp_importSecretName = [], vp_importCertConfigMapName = [],
     vp_storageClassName = []\<rparr>"

definition exWindows :: workspace where
  "exWindows = (let ws = exWorkspace ''win'' in ws\<lparr>w_spec := (w_spec ws)\<lparr>wss_vmProfile := Some exProfile, wss_type := WorkspaceTypeVM,
     wss_template := exPodSpec\<lparr>ps_containers := [exContainer\<lparr>ct_image := vp_image exProfile, ct_volumeMounts := [], ct_limits := [], ct_requests := []\<rparr>],
       ps_volumes := []\<rparr>\<rparr>\<rparr>)"

theorem windows_profile_snapshot_witness:
  "\<exists>tr y q x profile. runs (resolveWindowsProfile ref_lib (withProfile exWindows (exProfile\<lparr>vp_generation := []\<rparr>)) None) tr y
     \<and> (q, x) \<in> set tr \<and> q = ReqUpdate (OWorkspace (withProfile (withProfile exWindows (exProfile\<lparr>vp_generation := []\<rparr>)) profile))"
proof -
  let ?w = "withProfile exWindows (exProfile\<lparr>vp_generation := []\<rparr>)"
  let ?e = "exec (resolveWindowsProfile ref_lib ?w None) [RStr ''g2'', RObj (OWorkspace exWindows)]"
  have "snd ?e = Some (exWindows, Inr True)" by code_simp
  then have "?e = (fst ?e, Some (exWindows, Inr True))" by (metis prod.collapse)
  then have run: "runs (resolveWindowsProfile ref_lib ?w None) (fst ?e) (exWindows, Inr True)" by (rule exec_runs)
  have "list_ex (\<lambda>(q, x). isWrite q) (fst ?e)" by code_simp
  then obtain q x where q: "(q, x) \<in> set (fst ?e)" "isWrite q" by (auto simp: list_ex_iff)
  from windows_profile_snapshot[OF run q] run q show ?thesis by blast
qed

section \<open>Names and identity\<close>

lemma hex_length: "sha256_doc L \<Longrightarrow> length (hexBytes (take n (l_sha256 L s))) = 2 * min n 32"
  by (simp add: sha256_doc_def min.commute)

text \<open>
  The firmware UUID is of version 4 and variant 1: the bits that the code sets are fixed and the other bits are
  those of the hash.
\<close>

lemma byteChar_high_digits:
  "digit4 (byteChar b) = bit b 4" "digit5 (byteChar b) = bit b 5" "digit6 (byteChar b) = bit b 6" "digit7 (byteChar b) = bit b 7"
  using bit_uint_iff[of b 4] bit_uint_iff[of b 5] bit_uint_iff[of b 6] bit_uint_iff[of b 7] by (simp_all add: byteChar_def char_of_def)

lemma version_nibble: "hd (hexByte (byteChar ((b AND 0x0F) OR 0x40))) = CHR ''4''"
  by (simp add: hexByte_def byteChar_high_digits bit_or_iff bit_and_iff hexNibble_def)

lemma variant_nibble: "hd (hexByte (byteChar ((b AND 0x3F) OR 0x80))) \<in> set ''89ab''"
  by (simp add: hexByte_def byteChar_high_digits bit_or_iff bit_and_iff hexNibble_def)

lemma take2_drop: "n + 1 < length s \<Longrightarrow> take 2 (drop n s) = [s ! n, s ! (n + 1)]"
  by (simp add: numeral_2_eq_2 take_Suc_conv_app_nth)

lemma hexBytes_pair: "hexBytes [a, b] = hexByte a @ hexByte b"
  by (simp add: hexBytes_def)

lemma upperHex_length [simp]: "length (upperHex s) = length s"
  by (simp add: upperHex_def)

lemma identity_parts:
  assumes "length s = 32"
  shows "length (join ''-'' (map hexBytes [take 4 s, take 2 (drop 4 s), take 2 (drop 6 s), take 2 (drop 8 s), take 6 (drop 10 s)])) = 36"
    "join ''-'' (map hexBytes [take 4 s, take 2 (drop 4 s), take 2 (drop 6 s), take 2 (drop 8 s), take 6 (drop 10 s)]) ! 14 = hd (hexByte (s ! 6))"
    "join ''-'' (map hexBytes [take 4 s, take 2 (drop 4 s), take 2 (drop 6 s), take 2 (drop 8 s), take 6 (drop 10 s)]) ! 19 = hd (hexByte (s ! 8))"
  using assms by (simp_all add: nth_append take2_drop hexBytes_pair) (simp_all add: hexByte_def)

text \<open>
  C37. The names made for a Windows guest fit where they are used: the computer name has 15 characters, the limit of
  NetBIOS, the bootstrap Secret has a name of at most 53, and the firmware identity has the 36 characters of a
  UUID with version digit 4 and a variant digit 8, 9, a or b.
\<close>

theorem windows_names_fit:
  assumes "sha256_doc L"
  shows "length (windowsHostname L ws) = 15 \<and> length (windowsBootstrapSecretName L ws) \<le> 53 \<and> length (windowsIdentity L ws) = 36
    \<and> windowsIdentity L ws ! 14 = CHR ''4'' \<and> windowsIdentity L ws ! 19 \<in> set ''89ab''"
proof -
  have len: "length (l_sha256 L s) = 32" for s using assms by (simp add: sha256_doc_def)
  have "length (windowsHostname L ws) = 15" by (simp add: windowsHostname_def len)
  moreover have "length (windowsBootstrapSecretName L ws) \<le> 53"
    using length_trimRight[of "take 36 (nameOf ws)" "''-''"] by (auto simp: windowsBootstrapSecretName_def len Let_def)
  moreover have "length (windowsIdentity L ws) = 36 \<and> windowsIdentity L ws ! 14 = CHR ''4'' \<and> windowsIdentity L ws ! 19 \<in> set ''89ab''"
  proof -
    define s0 where "s0 = l_sha256 L (m_uid (w_meta ws) @ ''/'' @ generationOf ws)"
    define s1 where "s1 = s0[6 := byteChar ((charByte (s0 ! 6) AND 0x0F) OR 0x40)]"
    define s where "s = s1[8 := byteChar ((charByte (s1 ! 8) AND 0x3F) OR 0x80)]"
    have l: "length s = 32" "length s1 = 32" "length s0 = 32" by (simp_all add: s_def s1_def s0_def len)
    then have n: "s ! 6 = byteChar ((charByte (s0 ! 6) AND 0x0F) OR 0x40)" "s ! 8 = byteChar ((charByte (s1 ! 8) AND 0x3F) OR 0x80)"
      by (simp_all add: s_def s1_def)
    show ?thesis
      unfolding windowsIdentity_def Let_def s0_def[symmetric] s1_def[symmetric] s_def[symmetric] identity_parts[OF l(1)] n
      using version_nibble variant_nibble by blast
  qed
  ultimately show ?thesis by blast
qed

theorem windows_names_fit_witness:
  "length (windowsHostname ref_lib exWindows) = 15 \<and> length (windowsBootstrapSecretName ref_lib exWindows) \<le> 53
     \<and> windowsIdentity ref_lib exWindows ! 14 = CHR ''4''"
  using windows_names_fit[OF ref_sha256_doc, of exWindows] by simp

section \<open>GPU approval\<close>

lemma approveGPU_iff:
  "approveGPU p a cs = Inr () \<longleftrightarrow>
     (if a then filter (\<lambda>c. gp_id c = gp_id p) cs = [] else \<exists>c. filter (\<lambda>c. gp_id c = gp_id p) cs = [c] \<and> sameGPUProfile c p)"
  by (induction cs arbitrary: a) auto

lemma onlyOne_Inr [simp]: "onlyOne msg xs = Inr x \<longleftrightarrow> xs = [x]" "Inr x = onlyOne msg xs \<longleftrightarrow> xs = [x]"
  by (cases xs; cases "tl xs"; auto simp: onlyOne_def)+

lemma runs_singleton: "runs (singleton msg p) tr (Inr x) \<longleftrightarrow> runs p tr (Inr [x])"
  unfolding singleton_def runs_replaceErr by (auto simp: runs_Ret_iff)

lemma runs_pure_tryP:
  "runs (tryP (Ret c) k) tr (Inr y) \<longleftrightarrow> (\<exists>x. c = Inr x \<and> runs (k x) tr (Inr y))"
  by (auto simp: runs_tryP runs_Ret_iff)

lemma gpuNode_Inr:
  "gpuNode p n = Inr () \<longleftrightarrow> list_all (\<lambda>(k, v). map_of (m_labels (node_meta n)) k = Some v) (gp_nodeSelector p)
     \<and> q_milli (zeroOr zeroQuantity (map_of (node_allocatable n) (gp_resourceName p))) \<ge> 1000"
  by (auto simp: gpuNode_def list_ex_iff list_all_iff)

lemma preflightGPU_Inr:
  assumes "runs (preflightGPU L ws p) tr (Inr ())"
  shows "\<exists>platform nodes n kvs kv.
      (ReqGet Cached KPlatformConfig ([], ''default''), RObj (OPlatformConfig platform)) \<in> set tr
    \<and> approveGPU p False (pcs_vmGPUProfiles (pcfg_spec platform)) = Inr ()
    \<and> (ReqList Cached KNode None [(hostnameLabel, mget (nodeSelectorOf ws) hostnameLabel)], RList nodes) \<in> set tr
    \<and> List.map_filter toNode nodes = [n] \<and> gpuNode p n = Inr ()
    \<and> (ReqList Cached KKubeVirtList None [], RList kvs) \<in> set tr \<and> List.map_filter toUnstructured kvs = [kv] \<and> permittedGPU p kv = Inr ()"
proof -
  from assms obtain t0 platform t1 where p: "runs (getP Cached KPlatformConfig toPlatformConfig [] ''default'') t0 (Inr platform)"
    and a: "approveGPU p False (pcs_vmGPUProfiles (pcfg_spec platform)) = Inr ()" and tr: "tr = t0 @ t1"
    and t1: "runs (tryP (preflightWindowsNode ws) (\<lambda>_.
     tryP (singleton ''VM GPU requires an available certified worker''
         (listP Cached KNode toNode None [(hostnameLabel, mget (nodeSelectorOf ws) hostnameLabel)])) (\<lambda>n.
     tryP (Ret (gpuNode p n)) (\<lambda>_.
     tryP (singleton ''VM GPU KubeVirt allowlist is unavailable'' (listP Cached KKubeVirtList toUnstructured None [])) (\<lambda>kv.
       Ret (permittedGPU p kv)))))) t1 (Inr ())"
    unfolding preflightGPU_def runs_pure_tryP runs_replaceErr by auto
  from t1 obtain t2 u t3 n t4 where t2: "runs (preflightWindowsNode ws) t2 (Inr u)" "t1 = t2 @ t3 @ t4"
    and t3: "runs (listP Cached KNode toNode None [(hostnameLabel, mget (nodeSelectorOf ws) hostnameLabel)]) t3 (Inr [n])"
    and n: "gpuNode p n = Inr ()"
    and t4: "runs (tryP (singleton ''VM GPU KubeVirt allowlist is unavailable'' (listP Cached KKubeVirtList toUnstructured None [])) (\<lambda>kv.
       Ret (permittedGPU p kv))) t4 (Inr ())"
    unfolding runs_tryP[of "preflightWindowsNode ws"] runs_tryP[of "singleton ''VM GPU requires an available certified worker'' _"]
      runs_singleton runs_pure_tryP by auto
  from t4 obtain kv where kv: "runs (listP Cached KKubeVirtList toUnstructured None []) t4 (Inr [kv])" "permittedGPU p kv = Inr ()"
    unfolding runs_tryP runs_singleton by (auto simp: runs_Ret_iff)
  from p t3 kv(1) obtain nodes kvs where "t0 = [(ReqGet Cached KPlatformConfig ([], ''default''), RObj (OPlatformConfig platform))]"
    "t3 = [(ReqList Cached KNode None [(hostnameLabel, mget (nodeSelectorOf ws) hostnameLabel)], RList nodes)]" "List.map_filter toNode nodes = [n]"
    "t4 = [(ReqList Cached KKubeVirtList None [], RList kvs)]" "List.map_filter toUnstructured kvs = [kv]"
    by (auto simp: runs_client asObj_Inr asList_Inr)
  then show ?thesis using a n kv(2) tr t2(2) by (intro exI[of _ platform] exI[of _ nodes] exI[of _ n] exI[of _ kvs] exI[of _ kv]) simp
qed

text \<open>
  A GPU is attached only as the operator approved it. When the GPU preflight of a workspace with a GPU profile
  succeeds, the platform configuration it read has exactly one profile of that id, equal to the snapshot in the
  workspace; the one node its selector names carries the labels of the profile and advertises a device; and
  the only KubeVirt installation permits the device.
\<close>

theorem gpu_operator_approved:
  assumes "gpuOf ws = Some p" and "runs (preflightWindowsGPU L ws) tr (Inr ())"
  shows "\<exists>platform nodes n kvs kv c.
      (ReqGet Cached KPlatformConfig ([], ''default''), RObj (OPlatformConfig platform)) \<in> set tr
    \<and> filter (\<lambda>c. gp_id c = gp_id p) (pcs_vmGPUProfiles (pcfg_spec platform)) = [c] \<and> sameGPUProfile c p
    \<and> (ReqList Cached KNode None [(hostnameLabel, mget (nodeSelectorOf ws) hostnameLabel)], RList nodes) \<in> set tr
    \<and> List.map_filter toNode nodes = [n] \<and> list_all (\<lambda>(k, v). map_of (m_labels (node_meta n)) k = Some v) (gp_nodeSelector p)
    \<and> q_milli (zeroOr zeroQuantity (map_of (node_allocatable n) (gp_resourceName p))) \<ge> 1000
    \<and> (ReqList Cached KKubeVirtList None [], RList kvs) \<in> set tr \<and> List.map_filter toUnstructured kvs = [kv] \<and> permittedGPU p kv = Inr ()"
proof -
  have "runs (preflightGPU L ws p) tr (Inr ())" using assms by (simp add: preflightWindowsGPU_def)
  from preflightGPU_Inr[OF this] show ?thesis unfolding approveGPU_iff gpuNode_Inr by auto blast
qed

definition exGPU :: vmGPUProfile where
  "exGPU = \<lparr>gp_id = ''a10-v1'', gp_displayName = ''A10'', gp_resourceName = ''nvidia.com/a10'', gp_kind = ''pci'', gp_count = 1,
     gp_nodeSelector = [(''gpu'', ''a10'')], gp_guestDriverVersion = ''1'', gp_experimental = False\<rparr>"

definition exGPUWorkspace :: workspace where
  "exGPUWorkspace = (let ws = withProfile exWindows (exProfile\<lparr>vp_gpu := Some exGPU\<rparr>) in
     ws\<lparr>w_spec := (w_spec ws)\<lparr>wss_template := (wss_template (w_spec ws))\<lparr>ps_nodeSelector := [(hostnameLabel, ''n1'')]\<rparr>\<rparr>\<rparr>)"

definition exNode :: node where
  "exNode = \<lparr>node_meta = (objectMeta [] ''n1'')\<lparr>m_labels := [(windowsEligibleNodeLabel, ''true''), (archLabel, ''amd64''), (''gpu'', ''a10'')]\<rparr>,
     node_unschedulable = False,
     node_allocatable = [(''devices.kubevirt.io/kvm'', \<lparr>q_milli = 1000, q_format = []\<rparr>), (''nvidia.com/a10'', \<lparr>q_milli = 1000, q_format = []\<rparr>)],
     node_conditions = [(''Ready'', ''True'')]\<rparr>"

definition exKubeVirt :: unstructured where
  "exKubeVirt = \<lparr>un_apiVersion = ''kubevirt.io/v1'', un_kind = ''KubeVirt'', un_meta = objectMeta ''kubevirt'' ''kubevirt'',
     un_object = [(''spec'', JObj [(''configuration'', JObj [(''permittedHostDevices'',
       JObj [(''pciHostDevices'', JArr [JObj [(''resourceName'', JStr ''nvidia.com/a10'')]])])])])]\<rparr>"

definition exPlatform :: platformConfig where
  "exPlatform = \<lparr>pcfg_meta = objectMeta [] ''default'', pcfg_spec = \<lparr>pcs_vmGPUProfiles = [exGPU], pcs_maintenance = None,
     pcs_form_lockedFields = None, pcs_vmExecution = None, pcs_agentUpgrades = None\<rparr>, pcfg_maintenanceActive = False, pcfg_conditions = []\<rparr>"

theorem gpu_operator_approved_witness:
  "\<exists>tr platform c. runs (preflightWindowsGPU ref_lib exGPUWorkspace) tr (Inr ())
     \<and> (ReqGet Cached KPlatformConfig ([], ''default''), RObj (OPlatformConfig platform)) \<in> set tr
     \<and> filter (\<lambda>c. gp_id c = gp_id exGPU) (pcs_vmGPUProfiles (pcfg_spec platform)) = [c] \<and> sameGPUProfile c exGPU"
proof -
  let ?e = "exec (preflightWindowsGPU ref_lib exGPUWorkspace)
    [RObj (OPlatformConfig exPlatform), RList [ONode exNode], RList [ONode exNode], RList [OUnstructured exKubeVirt]]"
  have "snd ?e = Some (Inr ())" by code_simp
  then have "?e = (fst ?e, Some (Inr ()))" by (metis prod.collapse)
  then have run: "runs (preflightWindowsGPU ref_lib exGPUWorkspace) (fst ?e) (Inr ())" by (rule exec_runs)
  have "gpuOf exGPUWorkspace = Some exGPU" by code_simp
  from gpu_operator_approved[OF this run] run show ?thesis by blast
qed

end
