(* ===== verification/Windows_Guest.thy ===== *)
theory Windows_Guest
  imports Windows_Profile
begin

text \<open>
  Windows guests (src/internal/controller/vm_windows_guest.go, vm_windows_gpu.go): the Secret with the initial
  credentials and the answer file, provisioning through the guest agent, the removal of the bootstrap disc, reboot
  and reset, the KubeVirt object and the guard on GPU changes. A Workspace that a function changes in place is
  returned beside the result.
\<close>

section \<open>Answer file\<close>

text \<open>\<^verbatim>\<open>xml.EscapeText\<close> on well-formed UTF-8: markup and white space are escaped, other control characters replaced.\<close>

definition xmlEscape :: "string \<Rightarrow> string" where
  "xmlEscape s = concat (map (\<lambda>c.
     if c = CHR 0x22 then ''&#34;'' else if c = CHR 0x27 then ''&#39;'' else if c = CHR ''&'' then ''&amp;''
     else if c = CHR ''<'' then ''&lt;'' else if c = CHR ''>'' then ''&gt;'' else if c = CHR 0x09 then ''&#x9;''
     else if c = CHR 0x0A then ''&#xA;'' else if c = CHR 0x0D then ''&#xD;''
     else if c < CHR '' '' then [CHR 0xEF, CHR 0xBF, CHR 0xBD] else [c]) s)"

definition answerHead :: string where
  "answerHead = ''<?xml version=\"1.0\" encoding=\"UTF-8\"?>'' @ NL
     @ ''<unattend xmlns=\"urn:schemas-microsoft-com:unattend\" xmlns:wcm=\"http://schemas.microsoft.com/WMIConfig/2002/State\"><settings pass=\"specialize\">''
     @ ''<component name=\"Microsoft-Windows-Shell-Setup\" processorArchitecture=\"amd64\" publicKeyToken=\"31bf3856ad364e35\" language=\"neutral\" versionScope=\"nonSx''
     @ ''S\"><ComputerName>''"

definition answerUser :: string where
  "answerUser = ''</ComputerName><TimeZone>UTC</TimeZone></component></settings><settings pass=\"oobeSystem\">''
     @ ''<component name=\"Microsoft-Windows-International-Core\" processorArchitecture=\"amd64\" publicKeyToken=\"31bf3856ad364e35\" language=\"neutral\" versionScope''
     @ ''=\"nonSxS\"><InputLocale>en-US</InputLocale><SystemLocale>en-US</SystemLocale><UILanguage>en-US</UILanguage><UserLocale>en-US</UserLocale></component>''
     @ ''<component name=\"Microsoft-Windows-Shell-Setup\" processorArchitecture=\"amd64\" publicKeyToken=\"31bf3856ad364e35\" language=\"neutral\" versionScope=\"nonSx''
     @ ''S\"><OOBE><HideEULAPage>true</HideEULAPage><HideOnlineAccountScreens>true</HideOnlineAccountScreens>''
     @ ''<HideWirelessSetupInOOBE>true</HideWirelessSetupInOOBE><ProtectYourPC>3</ProtectYourPC></OOBE><UserAccounts><LocalAccounts>''
     @ ''<LocalAccount wcm:action=\"add\"><Name>''"

definition answerPassword :: string where
  "answerPassword = ''</Name><DisplayName>Workspace</DisplayName><Group>Administrators</Group><Password><Value>''"

definition answerTail :: string where
  "answerTail = ''</Value><PlainText>true</PlainText></Password></LocalAccount></LocalAccounts></UserAccounts></component></settings></unattend>''"

definition windowsAnswerFile :: "string \<Rightarrow> string \<Rightarrow> string \<Rightarrow> string" where
  "windowsAnswerFile hostname username password =
     answerHead @ xmlEscape hostname @ answerUser @ xmlEscape username @ answerPassword @ xmlEscape password @ answerTail"

section \<open>Bootstrap Secret\<close>

abbreviation tokenKey :: string where "tokenKey \<equiv> ''enrollment-token.json''"
abbreviation answerKey :: string where "answerKey \<equiv> ''autounattend.xml''"
abbreviation windowsGenerationLabel :: string where "windowsGenerationLabel \<equiv> ''kubeworkspaces.io/windows-generation''"

definition provisioned :: "workspace \<Rightarrow> bool" where
  "provisioned ws \<longleftrightarrow> mget (annotationsOf ws) windowsProvisionedGeneration = generationOf ws"

definition detaching :: "workspace \<Rightarrow> bool" where
  "detaching ws \<longleftrightarrow> mget (annotationsOf ws) windowsDetachingGeneration = generationOf ws"

definition rebooting :: "workspace \<Rightarrow> bool" where
  "rebooting ws \<longleftrightarrow> mget (annotationsOf ws) windowsRebootAnnotation \<noteq> []"

definition windowsEnrollmentToken :: "lib \<Rightarrow> string \<Rightarrow> string \<Rightarrow> int \<Rightarrow> string result prog" where
  "windowsEnrollmentToken L uid generation now =
     replaceErr ''unable to generate enrollment token'' (ask (ReqRandBytes 24) (asBytes 24)) (\<lambda>nonce.
       Ret (case l_jsonMarshal L (JObj [(''token'', JStr (hexBytes nonce)), (''workspaceUid'', JStr uid),
           (''workspaceGeneration'', JStr generation), (''expiresAt'', JInt ((now + seconds (7 * 24 * 3600)) div 1000000000))]) of
         Inl e \<Rightarrow> Inl (Errorf ''unable to render enrollment token'') | Inr raw \<Rightarrow> Inr raw))"

definition importSecretOf :: "workspace \<Rightarrow> string" where
  "importSecretOf ws = (case wss_vmProfile (w_spec ws) of None \<Rightarrow> [] | Some p \<Rightarrow> vp_importSecretName p)"

definition importCertOf :: "workspace \<Rightarrow> string" where
  "importCertOf ws = (case wss_vmProfile (w_spec ws) of None \<Rightarrow> [] | Some p \<Rightarrow> vp_importCertConfigMapName p)"

definition checkImportCredentials :: "workspace \<Rightarrow> unit result prog" where
  "checkImportCredentials ws = (if importSecretOf ws = [] then Ret (Inr ())
     else replaceErr ''windows CDI registry credentials are unavailable''
       (getP Cached KSecret toSecret (namespaceOf ws) (importSecretOf ws)) (\<lambda>registry.
         Ret (if mget (sec_data registry) ''accessKeyId'' = [] \<or> mget (sec_data registry) ''secretKey'' = []
              then Inl (Errorf ''windows CDI pod imports require accessKeyId and secretKey credentials'') else Inr ())))"

definition checkImportCertificates :: "workspace \<Rightarrow> unit result prog" where
  "checkImportCertificates ws = (if importCertOf ws = [] then Ret (Inr ())
     else replaceErr ''windows CDI registry CA certificates are unavailable''
       (getP Cached KConfigMap toConfigMap (namespaceOf ws) (importCertOf ws)) (\<lambda>certificates.
         Ret (if cm_data certificates = [] then Inl (Errorf ''windows CDI registry CA certificates are unavailable'') else Inr ())))"

definition backfillToken :: "lib \<Rightarrow> workspace \<Rightarrow> secret \<Rightarrow> unit result prog" where
  "backfillToken L ws secret = bind nowP (\<lambda>now.
     tryP (windowsEnrollmentToken L (m_uid (w_meta ws)) (generationOf ws) now) (\<lambda>token.
       ask (ReqUpdate (OSecret (secret\<lparr>sec_data := mset (sec_data secret) tokenKey token\<rparr>))) asUnit))"

definition keepBootstrapSecret :: "lib \<Rightarrow> workspace \<Rightarrow> secret \<Rightarrow> unit result prog" where
  "keepBootstrapSecret L ws secret =
     (if \<not> l_isControlledBy L (sec_meta secret) (w_meta ws)
      then Ret (Inl (Errorf ''windows bootstrap Secret is owned by another resource''))
      else if mget (sec_data secret) ''password'' = [] \<or> \<not> provisioned ws \<and> mget (sec_data secret) answerKey = []
      then Ret (Inl (Errorf ''windows bootstrap Secret is incomplete''))
      else if \<not> provisioned ws \<and> mget (sec_data secret) tokenKey = [] then backfillToken L ws secret
      else Ret (Inr ()))"

definition windowsPassword :: "string \<Rightarrow> string" where
  "windowsPassword bytes = encodeBase64 bytes @ ''!9aA''"

definition newWindowsSecret :: "lib \<Rightarrow> workspace \<Rightarrow> string \<Rightarrow> string \<Rightarrow> secret" where
  "newWindowsSecret L ws password token = \<lparr>
     sec_meta = (objectMeta (namespaceOf ws) (windowsBootstrapSecretName L ws))\<lparr>m_labels := [(windowsGenerationLabel, generationOf ws)]\<rparr>,
     sec_type = ''Opaque'', sec_immutable = None,
     sec_data = [(answerKey, windowsAnswerFile (windowsHostname L ws) ''workspace'' password), (''username'', ''workspace''),
       (''password'', password), (tokenKey, token)], sec_stringData = []\<rparr>"

definition createBootstrapSecret :: "lib \<Rightarrow> workspace \<Rightarrow> unit result prog" where
  "createBootstrapSecret L ws =
     replaceErr ''unable to generate Windows bootstrap credentials'' (ask (ReqRandBytes 24) (asBytes 24)) (\<lambda>bytes.
     bind nowP (\<lambda>now. tryP (windowsEnrollmentToken L (m_uid (w_meta ws)) (generationOf ws) now) (\<lambda>token.
       let secret = newWindowsSecret L ws (windowsPassword bytes) token in
       case l_setControllerReference L (w_meta ws) (sec_meta secret) of
         Inl e \<Rightarrow> Ret (Inl e)
       | Inr m \<Rightarrow> ask (ReqCreate (OSecret (secret\<lparr>sec_meta := m\<rparr>))) asUnit)))"

definition ensureWindowsSecret :: "lib \<Rightarrow> workspace \<Rightarrow> unit result prog" where
  "ensureWindowsSecret L ws = bind (getP Cached KSecret toSecret (namespaceOf ws) (windowsBootstrapSecretName L ws)) (\<lambda>g. case g of
     Inr secret \<Rightarrow> keepBootstrapSecret L ws secret
   | Inl e \<Rightarrow> if \<not> isNotFound e then Ret (Inl e)
       else if provisioned ws then Ret (Inl (Errorf ''windows initial credentials are missing; explicit recovery or Reset is required''))
       else createBootstrapSecret L ws)"

definition reconcileWindowsBootstrap :: "lib \<Rightarrow> workspace \<Rightarrow> unit result prog" where
  "reconcileWindowsBootstrap L ws = tryP (checkImportCredentials ws) (\<lambda>_. tryP (checkImportCertificates ws) (\<lambda>_. ensureWindowsSecret L ws))"

section \<open>Lifecycle\<close>

definition isConditionTrue :: "string \<Rightarrow> json \<Rightarrow> bool" where
  "isConditionTrue t item \<longleftrightarrow> (case item of JObj c \<Rightarrow> map_of c ''type'' = Some (JStr t) \<and> map_of c ''status'' = Some (JStr ''True'') | _ \<Rightarrow> False)"

definition getVMI :: "workspace \<Rightarrow> unstructured result prog" where
  "getVMI ws = getP Cached KVirtualMachineInstance toUnstructured (namespaceOf ws) (nameOf ws)"

definition windowsAgentConnected :: "workspace \<Rightarrow> bool prog" where
  "windowsAgentConnected ws = bind (getVMI ws) (\<lambda>g. Ret (case g of Inl e \<Rightarrow> False
     | Inr vmi \<Rightarrow> list_ex (isConditionTrue ''AgentConnected'') (zeroOr [] (nestedSlice (un_object vmi) [''status'', ''conditions'']))))"

definition withGeneration :: "workspace \<Rightarrow> string \<Rightarrow> workspace" where
  "withGeneration ws u = (case wss_vmProfile (w_spec ws) of None \<Rightarrow> ws | Some p \<Rightarrow> withProfile ws (p\<lparr>vp_generation := u\<rparr>))"

definition freshGeneration :: "workspace \<Rightarrow> (workspace \<times> unit result) prog" where
  "freshGeneration ws = bind newUUID (\<lambda>u.
     Ret (dropAnnotation (dropAnnotation (withGeneration ws u) windowsProvisionedGeneration) windowsDetachingGeneration, Inr ()))"

definition resetWindowsGeneration :: "lib \<Rightarrow> workspace \<Rightarrow> (workspace \<times> unit result) prog" where
  "resetWindowsGeneration L ws = (if \<not> windowsWorkspace ws then Ret (ws, Inr ())
     else bind (getP Cached KSecret toSecret (namespaceOf ws) (windowsBootstrapSecretName L ws)) (\<lambda>g. case g of
       Inl e \<Rightarrow> if isNotFound e then freshGeneration ws else Ret (ws, Inl e)
     | Inr secret \<Rightarrow>
         if \<not> l_isControlledBy L (sec_meta secret) (w_meta ws)
         then Ret (ws, Inl (Errorf ''windows bootstrap Secret is owned by another resource''))
         else bind (deleteP (OSecret secret) []) (\<lambda>r. case r of Inl e \<Rightarrow> Ret (ws, Inl e) | Inr _ \<Rightarrow> freshGeneration ws)))"

definition stageWindowsEnrollment :: "lib \<Rightarrow> workspace \<Rightarrow> string \<Rightarrow> unit result prog" where
  "stageWindowsEnrollment L ws pod = tryP (getP Cached KSecret toSecret (namespaceOf ws) (windowsBootstrapSecretName L ws)) (\<lambda>secret.
     let token = mget (sec_data secret) tokenKey in
     if token = [] then Ret (Inr ()) else ask (ReqGuestStage (namespaceOf ws) pod (nameOf ws) token) asUnit)"

text \<open>\<^verbatim>\<open>NestedStringMap\<close> of the active pods: nil unless every value is a string.\<close>

definition activePods :: "unstructured \<Rightarrow> string list" where
  "activePods vmi = (let m = zeroOr [] (nestedMap (un_object vmi) [''status'', ''activePods'']) in
     if list_all (\<lambda>(k, v). case v of JStr s \<Rightarrow> True | _ \<Rightarrow> False) m then map fst m else [])"

definition asBool :: "resp \<Rightarrow> bool result" where
  "asBool r = (case r of RErr e \<Rightarrow> Inl e | RBool b \<Rightarrow> Inr b | _ \<Rightarrow> Inl badResponse)"

definition guestComplete :: "lib \<Rightarrow> workspace \<Rightarrow> string \<Rightarrow> bool result prog" where
  "guestComplete L ws pod = ask (ReqGuestComplete (namespaceOf ws) pod (nameOf ws) (windowsHostname L ws)) asBool"

definition markProvisioned :: "workspace \<Rightarrow> workspace" where
  "markProvisioned ws = setAnnotation (setAnnotation ws windowsProvisionedGeneration (generationOf ws)) windowsDetachingGeneration (generationOf ws)"

text \<open>The calls that precede the mark; \<open>Inr False\<close> when the guest has not finished.\<close>

definition guestFinished :: "lib \<Rightarrow> workspace \<Rightarrow> pod \<Rightarrow> bool result prog" where
  "guestFinished L ws p = tryP (getVMI ws) (\<lambda>vmi.
     if m_uid (pod_meta p) \<notin> set (activePods vmi)
     then Ret (Inl (Errorf ''windows provisioning requires the active KubeVirt launcher''))
     else tryP (guestComplete L ws (m_name (pod_meta p))) (\<lambda>complete.
       if \<not> complete then Ret (Inr False)
       else tryP (stageWindowsEnrollment L ws (m_name (pod_meta p))) (\<lambda>_. Ret (Inr True))))"

definition reconcileWindowsProvisioning :: "lib \<Rightarrow> bool \<Rightarrow> workspace \<Rightarrow> pod option \<Rightarrow> (workspace \<times> bool result) prog" where
  "reconcileWindowsProvisioning L hasAgent ws pod =
     (if detaching ws then Ret (ws, Inr False)
      else if provisioned ws then Ret (ws, Inr True)
      else case pod of None \<Rightarrow> Ret (ws, Inr False) | Some p \<Rightarrow>
        if \<not> hasAgent then Ret (ws, Inr False)
        else bind (guestFinished L ws p) (\<lambda>r. case r of
            Inl e \<Rightarrow> Ret (ws, Inl e)
          | Inr complete \<Rightarrow> if \<not> complete then Ret (ws, Inr False)
              else bind (updateWorkspaceW (markProvisioned ws)) (\<lambda>(ws', u). Ret (ws', case u of Inl e \<Rightarrow> Inl e | Inr _ \<Rightarrow> Inr False))))"

definition windowsReady :: "lib \<Rightarrow> bool \<Rightarrow> workspace \<Rightarrow> pod option \<Rightarrow> bool \<Rightarrow> (workspace \<times> bool result) prog" where
  "windowsReady L hasAgent ws pod running =
     (if stopped ws \<or> rebooting ws then Ret (ws, Inr False)
      else if \<not> running then Ret (ws, Inr False)
      else bind (windowsAgentConnected ws) (\<lambda>connected.
        if \<not> connected then Ret (ws, Inr False) else reconcileWindowsProvisioning L hasAgent ws pod))"

definition stripAnswer :: "secret \<Rightarrow> secret" where
  "stripAnswer secret = secret\<lparr>sec_data := mdel (sec_data secret) answerKey\<rparr>"

definition detachSecret :: "lib \<Rightarrow> workspace \<Rightarrow> unit result prog" where
  "detachSecret L ws = replaceErr ''windows initial credentials are unavailable during bootstrap removal''
     (getP Cached KSecret toSecret (namespaceOf ws) (windowsBootstrapSecretName L ws)) (\<lambda>secret.
       if \<not> l_isControlledBy L (sec_meta secret) (w_meta ws)
       then Ret (Inl (Errorf ''windows bootstrap Secret is owned by another resource''))
       else ask (ReqUpdate (OSecret (stripAnswer secret))) asUnit)"

text \<open>The condition under which the VMI is known to be gone: \<open>Inr True\<close>; \<open>Inr False\<close> when it still exists.\<close>

definition vmiAbsent :: "workspace \<Rightarrow> bool result prog" where
  "vmiAbsent ws = bind (getVMI ws) (\<lambda>g. case g of
     Inr vmi \<Rightarrow> Ret (Inr False) | Inl e \<Rightarrow> Ret (if isNotFound e then Inr True else Inl e))"

definition finishWindowsDetach :: "lib \<Rightarrow> workspace \<Rightarrow> (workspace \<times> unit result) prog" where
  "finishWindowsDetach L ws = (if \<not> detaching ws then Ret (ws, Inr ())
     else bind (vmiAbsent ws) (\<lambda>g. case g of
       Inl e \<Rightarrow> Ret (ws, Inl e)
     | Inr gone \<Rightarrow> if \<not> gone then Ret (ws, Inr ())
         else bind (detachSecret L ws) (\<lambda>r. case r of
           Inl e \<Rightarrow> Ret (ws, Inl e)
         | Inr _ \<Rightarrow> updateWorkspaceW (dropAnnotation ws windowsDetachingGeneration))))"

definition finishWindowsReboot :: "workspace \<Rightarrow> (workspace \<times> unit result) prog" where
  "finishWindowsReboot ws = (if \<not> rebooting ws then Ret (ws, Inr ())
     else bind (vmiAbsent ws) (\<lambda>g. case g of
       Inl e \<Rightarrow> Ret (ws, Inl e)
     | Inr gone \<Rightarrow> if \<not> gone then Ret (ws, Inr ()) else updateWorkspaceW (dropAnnotation ws windowsRebootAnnotation)))"

definition finishWindowsLifecycle :: "lib \<Rightarrow> workspace \<Rightarrow> (workspace \<times> unit result) prog" where
  "finishWindowsLifecycle L ws = bind (finishWindowsDetach L ws) (\<lambda>(ws', r). case r of
     Inl e \<Rightarrow> Ret (ws', Inl e) | Inr _ \<Rightarrow> finishWindowsReboot ws')"

section \<open>The VirtualMachine\<close>

definition applyWindowsGPU :: "workspace \<Rightarrow> jobj \<Rightarrow> jobj \<Rightarrow> jobj \<times> jobj" where
  "applyWindowsGPU ws devices requests = (case gpuOf ws of
     None \<Rightarrow> (devices, [(''requests'', JObj requests)])
   | Some p \<Rightarrow> (mset devices ''gpus'' (JArr [JObj [(''name'', JStr ''gpu0''), (''deviceName'', JStr (gp_resourceName p)),
         (''virtualGPUOptions'', JObj [(''display'', JObj [(''enabled'', JBool False)])])]]),
       [(''requests'', JObj (mset requests (gp_resourceName p) (JStr ''1''))), (''limits'', JObj [(gp_resourceName p, JStr ''1'')])]))"

definition windowsMAC :: "lib \<Rightarrow> workspace \<Rightarrow> string" where
  "windowsMAC L ws = join '':'' (''02'' # map hexByte (take 5 (l_sha256 L (windowsIdentity L ws))))"

definition windowsRegistry :: "resolvedVMProfile \<Rightarrow> jobj" where
  "windowsRegistry p = [(''url'', JStr (''docker://'' @ vp_image p)), (''pullMethod'', JStr ''pod'')]
     @ optionalDevice (vp_importSecretName p) ''secretRef'' (JStr (vp_importSecretName p))
     @ optionalDevice (vp_importCertConfigMapName p) ''certConfigMap'' (JStr (vp_importCertConfigMapName p))"

definition windowsStorage :: "resolvedVMProfile \<Rightarrow> jobj" where
  "windowsStorage p = [(''accessModes'', JArr [JStr ''ReadWriteOnce'']), (''volumeMode'', JStr ''Filesystem''),
       (''resources'', JObj [(''requests'', JObj [(''storage'', JStr (vp_rootDiskSize p))])])]
     @ optionalDevice (vp_storageClassName p) ''storageClassName'' (JStr (vp_storageClassName p))"

definition windowsTemplate :: "lib \<Rightarrow> workspace \<Rightarrow> resolvedVMProfile \<Rightarrow> json" where
  "windowsTemplate L ws p = (let host = mget (nodeSelectorOf ws) hostnameLabel in
     JObj [(''metadata'', JObj ((''name'', JStr (rootDiskDataVolumeName L (nameOf ws)))
         # optionalDevice host ''annotations'' (JObj [(''volume.kubernetes.io/selected-node'', JStr host)]))),
       (''spec'', JObj [(''source'', JObj [(''registry'', JObj (windowsRegistry p))]), (''storage'', JObj (windowsStorage p))])])"

definition windowsDisks :: "workspace \<Rightarrow> json list" where
  "windowsDisks ws = JObj [(''name'', JStr ''rootdisk''), (''disk'', virtioDisk), (''bootOrder'', JInt 1)]
     # (if provisioned ws then [] else [JObj [(''name'', JStr ''sysprep''), (''cdrom'', JObj [(''bus'', JStr ''sata''), (''readonly'', JBool True)])]])"

definition windowsVolumes :: "lib \<Rightarrow> workspace \<Rightarrow> json list" where
  "windowsVolumes L ws = JObj [(''name'', JStr ''rootdisk''), (''dataVolume'', JObj [(''name'', JStr (rootDiskDataVolumeName L (nameOf ws)))])]
     # (if provisioned ws then [] else [JObj [(''name'', JStr ''sysprep''),
         (''sysprep'', JObj [(''secret'', JObj [(''name'', JStr (windowsBootstrapSecretName L ws))])])]])"

definition windowsInterface :: "lib \<Rightarrow> workspace \<Rightarrow> int \<Rightarrow> json" where
  "windowsInterface L ws agentPort = JObj ([(''name'', JStr ''default''), (''model'', JStr ''virtio''), (''macAddress'', JStr (windowsMAC L ws)),
     (''masquerade'', JObj [])] @ (if agentPort > 0 then [(''ports'', JArr [portForward agentPort])] else []))"

abbreviation enabledFlag :: json where "enabledFlag \<equiv> JObj [(''enabled'', JBool True)]"

definition windowsDevices :: "lib \<Rightarrow> workspace \<Rightarrow> int \<Rightarrow> jobj" where
  "windowsDevices L ws agentPort = [(''tpm'', JObj [(''persistent'', JBool True)]), (''autoattachGraphicsDevice'', JBool True),
     (''autoattachSerialConsole'', JBool False), (''video'', JObj [(''type'', JStr ''vga'')]), (''disks'', JArr (windowsDisks ws)),
     (''inputs'', JArr [JObj [(''name'', JStr ''tablet''), (''type'', JStr ''tablet''), (''bus'', JStr ''usb'')]]),
     (''interfaces'', JArr [windowsInterface L ws agentPort])]"

definition windowsFeatures :: json where
  "windowsFeatures = JObj [(''acpi'', enabledFlag), (''smm'', enabledFlag), (''hyperv'', JObj [(''relaxed'', enabledFlag), (''vapic'', enabledFlag),
     (''spinlocks'', JObj [(''enabled'', JBool True), (''spinlocks'', JInt 8191)])])]"

definition windowsClock :: json where
  "windowsClock = JObj [(''utc'', JObj []), (''timer'', JObj [(''hpet'', JObj [(''present'', JBool False)]), (''pit'', JObj [(''tickPolicy'', JStr ''delay'')]),
     (''rtc'', JObj [(''tickPolicy'', JStr ''catchup'')]), (''hyperv'', JObj [(''present'', JBool True)])])]"

definition oneGi :: quantity where
  "oneGi = \<lparr>q_milli = gi 1, q_format = ''BinarySI''\<rparr>"

definition windowsDomain :: "lib \<Rightarrow> workspace \<Rightarrow> resolvedVMProfile \<Rightarrow> quantity \<Rightarrow> int \<Rightarrow> jobj" where
  "windowsDomain L ws p guest agentPort =
     (case applyWindowsGPU ws (windowsDevices L ws agentPort) [(''memory'', JStr (l_quantityString L (l_quantityAdd L guest oneGi)))] of
        (devices, resources) \<Rightarrow>
          [(''machine'', JObj [(''type'', JStr ''q35'')]),
           (''cpu'', JObj [(''cores'', JInt (vp_cpuCores p)), (''model'', JStr ''host-passthrough'')]),
           (''memory'', JObj [(''guest'', JStr (l_quantityString L guest))]), (''resources'', JObj resources),
           (''firmware'', JObj [(''uuid'', JStr (windowsIdentity L ws)), (''bootloader'', JObj [(''efi'', JObj [(''secureBoot'', JBool True), (''persistent'', JBool True)])])]),
           (''features'', windowsFeatures), (''clock'', windowsClock), (''devices'', JObj devices)])"

definition halted :: "workspace \<Rightarrow> bool" where
  "halted ws \<longleftrightarrow> stopped ws \<or> detaching ws \<or> rebooting ws"

definition windowsSpecBase :: "lib \<Rightarrow> workspace \<Rightarrow> resolvedVMProfile \<Rightarrow> quantity \<Rightarrow> int \<Rightarrow> jobj" where
  "windowsSpecBase L ws p guest agentPort = [(''running'', JBool (\<not> halted ws)), (''dataVolumeTemplates'', JArr [windowsTemplate L ws p]),
     (''template'', JObj [(''metadata'', JObj [(''labels'', JObj [(LabelWorkspaceName, JStr (nameOf ws))])]),
       (''spec'', JObj [(''architecture'', JStr ''amd64''), (''terminationGracePeriodSeconds'', JInt 180),
          (''domain'', JObj (windowsDomain L ws p guest agentPort)), (''networks'', JArr defaultNetworks), (''volumes'', JArr (windowsVolumes L ws))])])]"

definition windowsSelector :: "workspace \<Rightarrow> jobj" where
  "windowsSelector ws = mset (map (\<lambda>(k, v). (k, JStr v)) (nodeSelectorOf ws)) archLabel (JStr windowsGuestArchitecture)"

definition windowsSpec :: "lib \<Rightarrow> workspace \<Rightarrow> resolvedVMProfile \<Rightarrow> quantity \<Rightarrow> int \<Rightarrow> jobj" where
  "windowsSpec L ws p guest agentPort = putNested (applyVMScheduling (windowsSpecBase L ws p guest agentPort) (wss_template (w_spec ws)))
     [''template'', ''spec'', ''nodeSelector''] (JObj (windowsSelector ws))"

definition generateWindowsVirtualMachine :: "lib \<Rightarrow> workspace \<Rightarrow> int \<Rightarrow> unstructured result" where
  "generateWindowsVirtualMachine L ws agentPort = (case wss_vmProfile (w_spec ws) of
     None \<Rightarrow> Inl (PanicErr ''nil pointer dereference'')
   | Some p \<Rightarrow> (case l_parseQuantity L (vp_guestMemory p) of
       Inl e \<Rightarrow> Inl (PanicErr ''cannot parse quantity'')
     | Inr guest \<Rightarrow> Inr (newVirtualMachine ((objectMeta (namespaceOf ws) (nameOf ws))\<lparr>m_annotations := [(windowsGenerationAnnotation, vp_generation p)]\<rparr>)
           (windowsSpec L ws p guest agentPort))))"

definition generateVirtualMachine ::
  "lib \<Rightarrow> workspace \<Rightarrow> image option \<Rightarrow> string list \<Rightarrow> int \<Rightarrow> unstructured option \<Rightarrow> unstructured result" where
  "generateVirtualMachine L ws img sshKeys agentPort inst =
     (if windowsWorkspace ws then generateWindowsVirtualMachine L ws agentPort
      else generateLinuxVirtualMachine L ws img sshKeys agentPort inst)"

definition applyWindowsImageSoundDevice :: "workspace \<Rightarrow> unstructured \<Rightarrow> image option \<Rightarrow> unstructured" where
  "applyWindowsImageSoundDevice ws vm img = (case img of None \<Rightarrow> vm | Some i \<Rightarrow>
     if \<not> windowsWorkspace ws \<or> is_soundDevice (i_spec i) = [] \<or> map_option vp_image (wss_vmProfile (w_spec ws)) \<noteq> Some (is_image (i_spec i)) then vm
     else putObject vm soundPath (JObj [(''name'', JStr ''audiodev''), (''model'', JStr (is_soundDevice (i_spec i)))]))"

section \<open>GPU transitions\<close>

text \<open>\<^verbatim>\<open>reflect.DeepEqual\<close> on untyped values: maps are compared without regard to the order of their keys.\<close>

fun canonical :: "json \<Rightarrow> json" where
  "canonical (JObj m) = JObj (sort_key fst (map (\<lambda>(k, v). (k, canonical v)) m))"
| "canonical (JArr xs) = JArr (map canonical xs)"
| "canonical v = v"

definition deepEqual :: "json \<Rightarrow> json \<Rightarrow> bool" where
  "deepEqual a b \<longleftrightarrow> canonical a = canonical b"

text \<open>
  \<^verbatim>\<open>fmt.Sprint\<close> of a scalar. A list or a map prints as \<^verbatim>\<open>[...]\<close> or \<^verbatim>\<open>map[...]\<close>, which is no quantity, so the value is kept.
\<close>

definition sprint :: "json \<Rightarrow> string" where
  "sprint v = (case v of JStr s \<Rightarrow> s | JInt i \<Rightarrow> showInt i | JBool b \<Rightarrow> (if b then ''true'' else ''false'') | JNull \<Rightarrow> ''<nil>''
     | JArr _ \<Rightarrow> ''[]'' | JObj _ \<Rightarrow> ''map[]'')"

definition normalQuantity :: "lib \<Rightarrow> json \<Rightarrow> json" where
  "normalQuantity L v = (case l_parseQuantity L (sprint v) of Inl e \<Rightarrow> v | Inr q \<Rightarrow> JStr (l_quantityString L q))"

definition extendedResources :: "lib \<Rightarrow> jobj \<Rightarrow> string \<Rightarrow> jobj" where
  "extendedResources L ob field = map (\<lambda>(name, v). (field @ ''/'' @ name, normalQuantity L v))
     (filter (\<lambda>(name, v). CHR ''/'' \<in> set name) (zeroOr [] (nestedMap ob (templateSpecPath @ [''domain'', ''resources'', field]))))"

definition windowsGPUHardware :: "lib \<Rightarrow> unstructured \<Rightarrow> jobj" where
  "windowsGPUHardware L vm = (let gpus = zeroOr [] (nestedSlice (un_object vm) (devicesPath @ [''gpus''])) in
     (if gpus = [] then [] else [(''gpus'', JArr gpus)])
     @ extendedResources L (un_object vm) ''requests'' @ extendedResources L (un_object vm) ''limits'')"

definition vmHalted :: "unstructured \<Rightarrow> bool" where
  "vmHalted vm \<longleftrightarrow> (case nestedBool (un_object vm) [''spec'', ''running''] of Some running \<Rightarrow> \<not> running
     | None \<Rightarrow> zeroOr [] (nestedString (un_object vm) [''spec'', ''runStrategy'']) = ''Halted'')"

definition guardWindowsGPUTransition :: "lib \<Rightarrow> workspace \<Rightarrow> unstructured \<Rightarrow> unstructured \<Rightarrow> unit result prog" where
  "guardWindowsGPUTransition L ws desired current =
     (if deepEqual (JObj (windowsGPUHardware L desired)) (JObj (windowsGPUHardware L current)) then Ret (Inr ())
      else if \<not> vmHalted current then Ret (Inl (Errorf ''VM GPU changes require the existing virtual machine fully stopped''))
      else bind (getVMI ws) (\<lambda>g. case g of
          Inr vmi \<Rightarrow> Ret (Inl (Errorf ''VM GPU changes require the previous VMI to be absent''))
        | Inl e \<Rightarrow> if \<not> isNotFound e then Ret (Inl (Errorf ''VM GPU changes require the previous VMI to be absent''))
            else preflightWindowsGPU L ws))"

section \<open>Credentials\<close>

text \<open>A write of a sequence whose first part writes nothing is a write of the second part.\<close>

lemma quiet_tryP:
  assumes "calls (\<lambda>q. \<not> isWrite q) p" and "runs (tryP p k) tr r" and "(q, x) \<in> set tr" and "isWrite q"
  shows "\<exists>t1 y t2. tr = t1 @ t2 \<and> runs p t1 (Inr y) \<and> runs (k y) t2 r \<and> (q, x) \<in> set t2"
proof -
  from assms(2-4) no_writes[OF assms(1)] obtain t1 y t2 where "runs p t1 (Inr y)" "runs (k y) t2 r" "tr = t1 @ t2"
    unfolding runs_tryP by blast
  moreover from this(1) have "(q, x) \<notin> set t1" using no_writes[OF assms(1) _ assms(4)] by blast
  ultimately show ?thesis using assms(3) by auto
qed

lemma quiet_imports:
  "calls (\<lambda>q. \<not> isWrite q) (checkImportCredentials ws)" "calls (\<lambda>q. \<not> isWrite q) (checkImportCertificates ws)"
  unfolding checkImportCredentials_def checkImportCertificates_def by (simp_all add: replaceErr_calls)

lemma quiet_token: "calls (\<lambda>q. \<not> isWrite q) (windowsEnrollmentToken L uid g now)"
  unfolding windowsEnrollmentToken_def by (rule replaceErr_calls) simp_all

definition tokenAdded :: "secret \<Rightarrow> req \<Rightarrow> bool" where
  "tokenAdded s q \<longleftrightarrow> (\<exists>token. q = ReqUpdate (OSecret (s\<lparr>sec_data := mset (sec_data s) tokenKey token\<rparr>)))"

definition secretCreated :: "lib \<Rightarrow> workspace \<Rightarrow> req \<Rightarrow> bool" where
  "secretCreated L ws q \<longleftrightarrow> (\<exists>s bytes token. q = ReqCreate (OSecret s) \<and> m_name (sec_meta s) = windowsBootstrapSecretName L ws
     \<and> m_namespace (sec_meta s) = namespaceOf ws \<and> l_isControlledBy L (sec_meta s) (w_meta ws)
     \<and> sec_data s = sec_data (newWindowsSecret L ws (windowsPassword bytes) token))"

lemma backfillToken_calls: "calls (\<lambda>q. isWrite q \<longrightarrow> tokenAdded s q) (backfillToken L ws s)"
proof -
  have "calls (\<lambda>q. isWrite q \<longrightarrow> tokenAdded s q) (windowsEnrollmentToken L uid g now)" for uid g now
    by (rule calls_weaken[OF quiet_token]) simp
  then show ?thesis unfolding backfillToken_def by (auto simp: tokenAdded_def intro!: calls_bind calls_tryP)
qed

lemma createBootstrapSecret_calls:
  assumes "setControllerReference_doc L"
  shows "calls (\<lambda>q. isWrite q \<longrightarrow> secretCreated L ws q) (createBootstrapSecret L ws)"
proof -
  have token: "calls (\<lambda>q. isWrite q \<longrightarrow> secretCreated L ws q) (windowsEnrollmentToken L uid g now)" for uid g now
    by (rule calls_weaken[OF quiet_token]) simp
  have "secretCreated L ws (ReqCreate (OSecret (newWindowsSecret L ws (windowsPassword bytes) token\<lparr>sec_meta := m\<rparr>)))"
    if "l_setControllerReference L (w_meta ws) (sec_meta (newWindowsSecret L ws (windowsPassword bytes) token)) = Inr m" for bytes token m
    using setControllerReference_docD[OF assms that] unfolding secretCreated_def
    by (intro exI[of _ "newWindowsSecret L ws (windowsPassword bytes) token\<lparr>sec_meta := m\<rparr>"] exI[of _ bytes] exI[of _ token])
      (simp add: newWindowsSecret_def)
  then show ?thesis unfolding createBootstrapSecret_def Let_def
    by (auto intro!: calls_bind calls_tryP replaceErr_calls token split: sum.split)
qed

text \<open>
  C31. Initial credentials never rotate. Whatever the API server answers, reconciling the Windows bootstrap writes at
  most one Secret: it creates it, for this workspace, after it was reported absent and only while the generation
  is not provisioned; or it adds an enrollment token to the Secret it read, which this workspace controls and
  which has a password and no token yet, again only before provisioning. No other entry changes.
\<close>

theorem windows_credentials_stable:
  assumes "setControllerReference_doc L" and "runs (reconcileWindowsBootstrap L ws) tr r" and "(q, x) \<in> set tr" and "isWrite q"
  shows "\<not> provisioned ws \<and> (\<exists>g. (ReqGet Cached KSecret (namespaceOf ws, windowsBootstrapSecretName L ws), g) \<in> set tr
    \<and> (case g of RErr e \<Rightarrow> isNotFound e \<and> secretCreated L ws q
       | RObj (OSecret s) \<Rightarrow> l_isControlledBy L (sec_meta s) (w_meta ws) \<and> mget (sec_data s) ''password'' \<noteq> []
           \<and> mget (sec_data s) tokenKey = [] \<and> tokenAdded s q
       | _ \<Rightarrow> False))"
proof -
  from quiet_tryP[OF quiet_imports(1) assms(2)[unfolded reconcileWindowsBootstrap_def] assms(3,4)] obtain t0 t1 where
    t0: "tr = t0 @ t1" "runs (tryP (checkImportCertificates ws) (\<lambda>_. ensureWindowsSecret L ws)) t1 r" "(q, x) \<in> set t1" by blast
  from quiet_tryP[OF quiet_imports(2) t0(2,3) assms(4)] t0(1) obtain t1' t2 where
    t: "tr = t0 @ t1' @ t2" "runs (ensureWindowsSecret L ws) t2 r" "(q, x) \<in> set t2" by blast
  let ?get = "ReqGet Cached KSecret (namespaceOf ws, windowsBootstrapSecretName L ws)"
  from t(2,3) assms(4) consider
    (absent) e t3 where "isNotFound e" "t2 = (?get, RErr e) # t3" "\<not> provisioned ws" "runs (createBootstrapSecret L ws) t3 r" "(q, x) \<in> set t3"
  | (present) s t3 where "t2 = (?get, RObj (OSecret s)) # t3" "runs (keepBootstrapSecret L ws s) t3 r" "(q, x) \<in> set t3"
    unfolding ensureWindowsSecret_def runs_bind_sum by (auto simp: runs_client runs_Ret_iff asObj_notFound asObj_Inr split: if_splits)
  then show ?thesis
  proof cases
    case absent
    then have "secretCreated L ws q" using callsD[OF createBootstrapSecret_calls[OF assms(1)]] assms(4) by blast
    with absent t(1) show ?thesis by (intro conjI exI[of _ "RErr e"]) auto
  next
    case present
    then have c: "l_isControlledBy L (sec_meta s) (w_meta ws)" "mget (sec_data s) ''password'' \<noteq> []" "\<not> provisioned ws" "mget (sec_data s) tokenKey = []"
      and run: "runs (backfillToken L ws s) t3 r"
      unfolding keepBootstrapSecret_def by (auto simp: runs_Ret_iff split: if_splits)
    from callsD[OF backfillToken_calls run] present(3) assms(4) have "tokenAdded s q" by blast
    with c present t(1) show ?thesis by (intro conjI exI[of _ "RObj (OSecret s)"]) auto
  qed
qed

theorem windows_credentials_stable_witness:
  "\<exists>tr r q x. runs (reconcileWindowsBootstrap ref_lib exWindows) tr r \<and> (q, x) \<in> set tr \<and> isWrite q \<and> \<not> provisioned exWindows"
proof -
  let ?e = "exec (reconcileWindowsBootstrap ref_lib exWindows) [notFound, RStr (replicate 24 CHR ''r''), RInt 5, RStr (replicate 24 CHR ''s''), ROk]"
  have "snd ?e = Some (Inr ())" by code_simp
  then have "?e = (fst ?e, Some (Inr ()))" by (metis prod.collapse)
  then have run: "runs (reconcileWindowsBootstrap ref_lib exWindows) (fst ?e) (Inr ())" by (rule exec_runs)
  have "list_ex (\<lambda>(q, x). isWrite q) (fst ?e)" by code_simp
  then obtain q x where q: "(q, x) \<in> set (fst ?e)" "isWrite q" by (auto simp: list_ex_iff)
  from windows_credentials_stable[OF ref_setControllerReference_doc run q] run q show ?thesis by blast
qed

section \<open>Provisioning\<close>

abbreviation vmiGet :: "workspace \<Rightarrow> req" where
  "vmiGet ws \<equiv> ReqGet Cached KVirtualMachineInstance (namespaceOf ws, nameOf ws)"

abbreviation winSecretGet :: "lib \<Rightarrow> workspace \<Rightarrow> req" where
  "winSecretGet L ws \<equiv> ReqGet Cached KSecret (namespaceOf ws, windowsBootstrapSecretName L ws)"

lemma runs_getVMI: "runs (getVMI ws) tr r \<longleftrightarrow> (\<exists>x. tr = [(vmiGet ws, x)] \<and> asObj toUnstructured x = r)"
  by (simp add: getVMI_def runs_client)

lemma quiet_lifecycle:
  "calls (\<lambda>q. \<not> isWrite q) (getVMI ws)" "calls (\<lambda>q. \<not> isWrite q) (windowsAgentConnected ws)"
  "calls (\<lambda>q. \<not> isWrite q) (guestFinished L ws p)" "calls (\<lambda>q. \<not> isWrite q) (vmiAbsent ws)"
  unfolding windowsAgentConnected_def guestFinished_def stageWindowsEnrollment_def guestComplete_def vmiAbsent_def getVMI_def Let_def
  by (auto intro!: calls_bind calls_tryP split: sum.split)

text \<open>What the guest and the cluster have reported when provisioning is marked as finished.\<close>

definition guestEvidence :: "lib \<Rightarrow> workspace \<Rightarrow> pod \<Rightarrow> (req \<times> resp) set \<Rightarrow> bool" where
  "guestEvidence L ws p h \<longleftrightarrow> (\<exists>vmi s. (vmiGet ws, RObj (OUnstructured vmi)) \<in> h \<and> m_uid (pod_meta p) \<in> set (activePods vmi)
     \<and> (ReqGuestComplete (namespaceOf ws) (m_name (pod_meta p)) (nameOf ws) (windowsHostname L ws), RBool True) \<in> h
     \<and> (winSecretGet L ws, RObj (OSecret s)) \<in> h
     \<and> (mget (sec_data s) tokenKey = []
        \<or> (\<exists>z. (ReqGuestStage (namespaceOf ws) (m_name (pod_meta p)) (nameOf ws) (mget (sec_data s) tokenKey), z) \<in> h \<and> asUnit z = Inr ())))"

lemma guestEvidence_mono: "guestEvidence L ws p h \<Longrightarrow> h \<subseteq> h' \<Longrightarrow> guestEvidence L ws p h'"
  unfolding guestEvidence_def by blast

lemma asBool_Inr: "asBool r = Inr b \<longleftrightarrow> r = RBool b"
  by (auto simp: asBool_def split: resp.splits)

lemma stage_Inr:
  assumes "runs (stageWindowsEnrollment L ws pod) tr (Inr u)"
  shows "\<exists>s. (winSecretGet L ws, RObj (OSecret s)) \<in> set tr \<and> (mget (sec_data s) tokenKey = []
    \<or> (\<exists>z. (ReqGuestStage (namespaceOf ws) pod (nameOf ws) (mget (sec_data s) tokenKey), z) \<in> set tr \<and> asUnit z = Inr ()))"
  using assms unfolding stageWindowsEnrollment_def runs_tryP Let_def
  by (auto simp: runs_client runs_ask runs_Ret_iff asObj_Inr split: if_splits)

lemma guestFinished_True:
  assumes "runs (guestFinished L ws p) tr (Inr True)"
  shows "guestEvidence L ws p (set tr)"
proof -
  from assms obtain vmi t1 where vmi: "tr = (vmiGet ws, RObj (OUnstructured vmi)) # t1" "m_uid (pod_meta p) \<in> set (activePods vmi)"
    and t1: "runs (tryP (guestComplete L ws (m_name (pod_meta p))) (\<lambda>complete.
       if \<not> complete then Ret (Inr False) else tryP (stageWindowsEnrollment L ws (m_name (pod_meta p))) (\<lambda>_. Ret (Inr True)))) t1 (Inr True)"
    unfolding guestFinished_def runs_tryP[of "getVMI ws"] by (auto simp: runs_getVMI runs_Ret_iff asObj_Inr split: if_splits)
  from t1 obtain t2 where "t1 = (ReqGuestComplete (namespaceOf ws) (m_name (pod_meta p)) (nameOf ws) (windowsHostname L ws), RBool True) # t2"
    and t2: "runs (tryP (stageWindowsEnrollment L ws (m_name (pod_meta p))) (\<lambda>_. Ret (Inr True))) t2 (Inr True)"
    unfolding guestComplete_def runs_tryP[of "ask _ _"] by (auto simp: runs_ask asBool_Inr runs_Ret_iff split: if_splits)
  moreover from t2 have "runs (stageWindowsEnrollment L ws (m_name (pod_meta p))) t2 (Inr ())" by (auto simp: runs_tryP runs_Ret_iff)
  ultimately show ?thesis using vmi stage_Inr unfolding guestEvidence_def by fastforce
qed

lemma windowsReady_write:
  assumes "runs (windowsReady L hasAgent ws pod running) tr y" and "(q, x) \<in> set tr" and "isWrite q"
  shows "q = ReqUpdate (OWorkspace (markProvisioned ws)) \<and> \<not> stopped ws \<and> \<not> rebooting ws \<and> \<not> detaching ws \<and> \<not> provisioned ws
    \<and> running \<and> (\<exists>p. pod = Some p \<and> guestEvidence L ws p (set tr))"
proof -
  from assms have s: "\<not> stopped ws" "\<not> rebooting ws" "running"
    unfolding windowsReady_def by (auto simp: runs_Ret_iff split: if_splits)
  with assms(1) obtain t1 b t2 where t: "tr = t1 @ t2" "runs (windowsAgentConnected ws) t1 b"
    "runs (if \<not> b then Ret (ws, Inr False) else reconcileWindowsProvisioning L hasAgent ws pod) t2 y"
    unfolding windowsReady_def by (auto simp: runs_bind)
  then have q: "(q, x) \<in> set t2" using no_writes[OF quiet_lifecycle(2) t(2) assms(3)] assms(2) by auto
  with t(3) have "runs (reconcileWindowsProvisioning L hasAgent ws pod) t2 y" by (auto simp: runs_Ret_iff split: if_splits)
  with q obtain p where p: "pod = Some p" "\<not> detaching ws" "\<not> provisioned ws"
    and g: "runs (bind (guestFinished L ws p) (\<lambda>r. case r of
            Inl e \<Rightarrow> Ret (ws, Inl e)
          | Inr complete \<Rightarrow> if \<not> complete then Ret (ws, Inr False)
              else bind (updateWorkspaceW (markProvisioned ws)) (\<lambda>(ws', u). Ret (ws', case u of Inl e \<Rightarrow> Inl e | Inr _ \<Rightarrow> Inr False)))) t2 y"
    unfolding reconcileWindowsProvisioning_def by (auto simp: runs_Ret_iff split: if_splits option.splits)
  from g q obtain t3 t4 where t3: "runs (guestFinished L ws p) t3 (Inr True)" "t2 = t3 @ t4" "(q, x) \<in> set t4"
    and t4: "runs (bind (updateWorkspaceW (markProvisioned ws)) (\<lambda>(ws', u). Ret (ws', case u of Inl e \<Rightarrow> Inl e | Inr _ \<Rightarrow> Inr False))) t4 y"
    unfolding runs_bind_sum using no_writes[OF quiet_lifecycle(3) _ assms(3)] by (auto simp: runs_Ret_iff split: if_splits)
  from t4 t3(3) have "q = ReqUpdate (OWorkspace (markProvisioned ws))"
    unfolding runs_bind by (auto simp: runs_Ret_iff split: prod.splits dest!: runs_updateWorkspaceW)
  moreover have "guestEvidence L ws p (set tr)"
    by (rule guestEvidence_mono[OF guestFinished_True[OF t3(1)]]) (use t(1) t3(2) in auto)
  ultimately show ?thesis using s p by blast
qed

text \<open>
  C33. Provisioning is marked only on evidence. The only write of the readiness check of a Windows workspace sets
  the provisioned and the detaching annotation to the current generation, on a workspace that is neither stopped
  nor rebooting nor already provisioned or detaching; and only after the VMI was read and lists the pod as its
  active launcher, the guest agent reported setup as complete under the expected computer name, and the
  enrollment token, if the Secret has one, was staged.
\<close>

theorem windows_provisioned_on_evidence:
  assumes "runs (windowsReady L hasAgent ws pod running) tr y" and "(q, x) \<in> set tr" and "isWrite q"
  shows "q = ReqUpdate (OWorkspace (markProvisioned ws)) \<and> \<not> stopped ws \<and> \<not> rebooting ws \<and> \<not> detaching ws \<and> \<not> provisioned ws
    \<and> running \<and> (\<exists>p. pod = Some p \<and> guestEvidence L ws p (set tr))"
  using assms by (rule windowsReady_write)

definition exPod :: pod where
  "exPod = \<lparr>pod_meta = (objectMeta ''team'' ''virt-launcher-win'')\<lparr>m_uid := ''pod-1''\<rparr>, pod_conditions = [], pod_containerStatuses = [], pod_statusOther = JNull\<rparr>"

definition exVMI :: unstructured where
  "exVMI = \<lparr>un_apiVersion = ''kubevirt.io/v1'', un_kind = ''VirtualMachineInstance'', un_meta = objectMeta ''team'' ''win'',
     un_object = [(''status'', JObj [(''conditions'', JArr [JObj [(''type'', JStr ''AgentConnected''), (''status'', JStr ''True'')]]),
       (''activePods'', JObj [(''pod-1'', JStr ''n1'')])])]\<rparr>"

definition exWinSecret :: secret where
  "exWinSecret = \<lparr>sec_meta = (objectMeta ''team'' ''s'')\<lparr>m_ownerRefs := [ref_controllerRef (w_meta exWindows) GroupVersion ''Workspace'']\<rparr>, sec_type = ''Opaque'',
     sec_immutable = None, sec_data = [(answerKey, ''x''), (''password'', ''p''), (tokenKey, ''t'')], sec_stringData = []\<rparr>"

theorem windows_provisioned_on_evidence_witness:
  "\<exists>tr y q x. runs (windowsReady ref_lib True exWindows (Some exPod) True) tr y \<and> (q, x) \<in> set tr
     \<and> q = ReqUpdate (OWorkspace (markProvisioned exWindows)) \<and> guestEvidence ref_lib exWindows exPod (set tr)"
proof -
  let ?e = "exec (windowsReady ref_lib True exWindows (Some exPod) True)
    [RObj (OUnstructured exVMI), RObj (OUnstructured exVMI), RBool True, RObj (OSecret exWinSecret), ROk, RObj (OWorkspace exWindows)]"
  have "snd ?e = Some (exWindows, Inr False)" by code_simp
  then have "?e = (fst ?e, Some (exWindows, Inr False))" by (metis prod.collapse)
  then have run: "runs (windowsReady ref_lib True exWindows (Some exPod) True) (fst ?e) (exWindows, Inr False)" by (rule exec_runs)
  have "list_ex (\<lambda>(q, x). isWrite q) (fst ?e)" by code_simp
  then obtain q x where q: "(q, x) \<in> set (fst ?e)" "isWrite q" by (auto simp: list_ex_iff)
  from windows_provisioned_on_evidence[OF run q] run q show ?thesis by blast
qed

section \<open>Removing the bootstrap disc\<close>

lemma vmiAbsent_True: "runs (vmiAbsent ws) tr (Inr True) \<Longrightarrow> \<exists>e. isNotFound e \<and> tr = [(vmiGet ws, RErr e)]"
  unfolding vmiAbsent_def runs_bind_sum by (auto simp: runs_getVMI runs_Ret_iff asObj_notFound split: if_splits)

lemma detachSecret_trace:
  assumes "runs (detachSecret L ws) tr r" and "(q, x) \<in> set tr" and "isWrite q"
  shows "\<exists>s. (winSecretGet L ws, RObj (OSecret s)) \<in> set tr \<and> l_isControlledBy L (sec_meta s) (w_meta ws) \<and> q = ReqUpdate (OSecret (stripAnswer s))"
  using assms unfolding detachSecret_def runs_replaceErr
  by (auto simp: runs_client runs_ask runs_Ret_iff asObj_Inr split: if_splits)

lemma detachSecret_Inr:
  "runs (detachSecret L ws) tr (Inr u) \<Longrightarrow> \<exists>s x. (ReqUpdate (OSecret (stripAnswer s)), x) \<in> set tr \<and> asUnit x = Inr ()"
  unfolding detachSecret_def runs_replaceErr by (auto simp: runs_client runs_ask runs_Ret_iff asObj_Inr split: if_splits)

lemma finishWindowsDetach_write:
  assumes "runs (finishWindowsDetach L ws) tr y" and "(q, x) \<in> set tr" and "isWrite q"
  shows "detaching ws \<and> (\<exists>e. isNotFound e \<and> (vmiGet ws, RErr e) \<in> set tr)
    \<and> ((\<exists>s. (winSecretGet L ws, RObj (OSecret s)) \<in> set tr \<and> l_isControlledBy L (sec_meta s) (w_meta ws) \<and> q = ReqUpdate (OSecret (stripAnswer s)))
       \<or> q = ReqUpdate (OWorkspace (dropAnnotation ws windowsDetachingGeneration))
         \<and> (\<exists>s z. (ReqUpdate (OSecret (stripAnswer s)), z) \<in> set tr \<and> asUnit z = Inr ()))"
proof -
  from assms have d: "detaching ws" unfolding finishWindowsDetach_def by (auto simp: runs_Ret_iff split: if_splits)
  let ?k = "bind (detachSecret L ws) (\<lambda>r. case r of Inl e \<Rightarrow> Ret (ws, Inl e)
         | Inr _ \<Rightarrow> updateWorkspaceW (dropAnnotation ws windowsDetachingGeneration))"
  from assms(1) d have "runs (bind (vmiAbsent ws) (\<lambda>g. case g of Inl e \<Rightarrow> Ret (ws, Inl e) | Inr gone \<Rightarrow> if \<not> gone then Ret (ws, Inr ()) else ?k)) tr y"
    by (simp add: finishWindowsDetach_def)
  then obtain t1 t2 where t1: "runs (vmiAbsent ws) t1 (Inr True)" "tr = t1 @ t2" "(q, x) \<in> set t2" and t2: "runs ?k t2 y"
    unfolding runs_bind_sum[of "vmiAbsent ws"] using no_writes[OF quiet_lifecycle(4) _ assms(3)] assms(2)
    by (auto simp: runs_Ret_iff split: if_splits)
  from vmiAbsent_True[OF t1(1)] t1(2) have gone: "\<exists>e. isNotFound e \<and> (vmiGet ws, RErr e) \<in> set tr" by auto
  from t2 t1(3) consider r t3 where "runs (detachSecret L ws) t3 r" "(q, x) \<in> set t3" "set t3 \<subseteq> set t2"
    | u t3 t4 where "runs (detachSecret L ws) t3 (Inr u)" "runs (updateWorkspaceW (dropAnnotation ws windowsDetachingGeneration)) t4 y" "(q, x) \<in> set t4" "t2 = t3 @ t4"
    unfolding runs_bind_sum by (auto simp: runs_Ret_iff)
  then show ?thesis
  proof cases
    case 1
    from detachSecret_trace[OF 1(1,2) assms(3)] 1(3) t1(2) d gone show ?thesis by fastforce
  next
    case 2
    from runs_updateWorkspaceW[OF 2(2)] 2(3) have "q = ReqUpdate (OWorkspace (dropAnnotation ws windowsDetachingGeneration))" by auto
    with detachSecret_Inr[OF 2(1)] 2(4) t1(2) d gone show ?thesis by fastforce
  qed
qed

text \<open>
  C34. The bootstrap disc is removed only from a guest that is down. Finishing the detachment writes nothing unless
  the workspace is detaching and its VMI was reported absent. It then strips the answer file, and nothing else,
  from the Secret it read and controls, and clears the annotation on the Workspace only after that update was
  accepted. Every other entry of the Secret, the password among them, is kept.
\<close>

theorem windows_detach_when_down:
  assumes "runs (finishWindowsDetach L ws) tr y" and "(q, x) \<in> set tr" and "isWrite q"
  shows "detaching ws \<and> (\<exists>e. isNotFound e \<and> (vmiGet ws, RErr e) \<in> set tr)
    \<and> ((\<exists>s. (winSecretGet L ws, RObj (OSecret s)) \<in> set tr \<and> l_isControlledBy L (sec_meta s) (w_meta ws) \<and> q = ReqUpdate (OSecret (stripAnswer s)))
       \<or> q = ReqUpdate (OWorkspace (dropAnnotation ws windowsDetachingGeneration))
         \<and> (\<exists>s z. (ReqUpdate (OSecret (stripAnswer s)), z) \<in> set tr \<and> asUnit z = Inr ()))"
  using assms by (rule finishWindowsDetach_write)

lemma stripAnswer_keeps: "k \<noteq> answerKey \<Longrightarrow> mget (sec_data (stripAnswer s)) k = mget (sec_data s) k"
  by (simp add: stripAnswer_def)

theorem windows_detach_when_down_witness:
  "\<exists>tr y q x e. runs (finishWindowsDetach ref_lib (markProvisioned exWindows)) tr y \<and> (q, x) \<in> set tr \<and> isWrite q
     \<and> isNotFound e \<and> (vmiGet (markProvisioned exWindows), RErr e) \<in> set tr"
proof -
  let ?p = "finishWindowsDetach ref_lib (markProvisioned exWindows)"
  let ?e = "exec ?p [notFound, RObj (OSecret exWinSecret), ROk, RObj (OWorkspace exWindows)]"
  have "snd ?e = Some (exWindows, Inr ())" by code_simp
  then have "?e = (fst ?e, Some (exWindows, Inr ()))" by (metis prod.collapse)
  then have run: "runs ?p (fst ?e) (exWindows, Inr ())" by (rule exec_runs)
  have "list_ex (\<lambda>(q, x). isWrite q) (fst ?e)" by code_simp
  then obtain q x where q: "(q, x) \<in> set (fst ?e)" "isWrite q" by (auto simp: list_ex_iff)
  from windows_detach_when_down[OF run q] run q show ?thesis by blast
qed

section \<open>Phases\<close>

text \<open>
  The life of a Windows generation as an abstract machine: setup runs with the disc, then the guest is shut down to
  remove it, then it is ready. Only a reset leads back. The steps of the code are the writes of the Workspace by
  the four functions that maintain the annotations.
\<close>

datatype phase = Installing | Detaching | Settled

definition phaseOf :: "workspace \<Rightarrow> phase" where
  "phaseOf ws = (if detaching ws then Detaching else if provisioned ws then Settled else Installing)"

inductive phase_step :: "phase \<Rightarrow> phase \<Rightarrow> bool" where
  installed: "phase_step Installing Detaching"
| detached: "phase_step Detaching Settled"
| reset: "phase_step p Installing"
| unchanged: "phase_step p p"

inductive_simps phase_step_from_Installing: "phase_step Installing p"
inductive_simps phase_step_to_Settled: "phase_step p Settled"

inductive lifecycle_step :: "lib \<Rightarrow> workspace \<Rightarrow> workspace \<Rightarrow> bool" for L :: lib where
  ready: "runs (windowsReady L hasAgent ws pod running) tr y \<Longrightarrow> (ReqUpdate (OWorkspace ws'), x) \<in> set tr \<Longrightarrow> lifecycle_step L ws ws'"
| detach: "runs (finishWindowsDetach L ws) tr y \<Longrightarrow> (ReqUpdate (OWorkspace ws'), x) \<in> set tr \<Longrightarrow> lifecycle_step L ws ws'"
| reboot: "runs (finishWindowsReboot ws) tr y \<Longrightarrow> (ReqUpdate (OWorkspace ws'), x) \<in> set tr \<Longrightarrow> lifecycle_step L ws ws'"
| restart: "runs (resetWindowsGeneration L ws) tr (ws', Inr ()) \<Longrightarrow> windowsWorkspace ws \<Longrightarrow> generationOf ws' \<noteq> [] \<Longrightarrow> lifecycle_step L ws ws'"

lemma generationOf_annotations [simp]:
  "generationOf (setAnnotation ws k v) = generationOf ws" "generationOf (dropAnnotation ws k) = generationOf ws"
  by (simp_all add: generationOf_def setAnnotation_def dropAnnotation_def)

lemma annotation_reads [simp]:
  "mget (annotationsOf (setAnnotation ws k v)) j = (if j = k then v else mget (annotationsOf ws) j)"
  "mget (annotationsOf (dropAnnotation ws k)) j = (if j = k then [] else mget (annotationsOf ws) j)"
  by (simp_all add: setAnnotation_def dropAnnotation_def)

lemma phase_markProvisioned: "phaseOf (markProvisioned ws) = Detaching"
  by (simp add: phaseOf_def detaching_def markProvisioned_def)

lemma finishWindowsReboot_write:
  assumes "runs (finishWindowsReboot ws) tr y" and "(q, x) \<in> set tr" and "isWrite q"
  shows "q = ReqUpdate (OWorkspace (dropAnnotation ws windowsRebootAnnotation))"
proof -
  from assms(1,2) have "runs (bind (vmiAbsent ws) (\<lambda>g. case g of Inl e \<Rightarrow> Ret (ws, Inl e)
      | Inr gone \<Rightarrow> if \<not> gone then Ret (ws, Inr ()) else updateWorkspaceW (dropAnnotation ws windowsRebootAnnotation))) tr y"
    by (auto simp: finishWindowsReboot_def runs_Ret_iff split: if_splits)
  then show ?thesis using assms(2,3) no_writes[OF quiet_lifecycle(4) _ assms(3)]
    unfolding runs_bind_sum by (auto simp: runs_Ret_iff split: if_splits dest!: runs_updateWorkspaceW)
qed

lemma restart_result:
  assumes "runs (resetWindowsGeneration L ws) tr (ws', Inr ())" and "windowsWorkspace ws"
  shows "\<exists>u. ws' = dropAnnotation (dropAnnotation (withGeneration ws u) windowsProvisionedGeneration) windowsDetachingGeneration"
proof -
  from assms obtain t where "runs (freshGeneration ws) t (ws', Inr ())"
    unfolding resetWindowsGeneration_def if_not_P[OF notnotD] by (auto simp: runs_bind_sum runs_Ret_iff split: if_splits)
  then show ?thesis unfolding freshGeneration_def runs_bind by (auto simp: runs_Ret_iff)
qed

text \<open>
  C32. The annotations implement the abstract machine: from a workspace with a generation, every step of the code is a
  step of the machine between the phases of the two workspaces. In particular no step leads from setup to the
  settled phase without the shutdown in between.
\<close>

theorem windows_phases_refined:
  assumes "lifecycle_step L ws ws'" and "generationOf ws \<noteq> []"
  shows "phase_step (phaseOf ws) (phaseOf ws') \<and> (phaseOf ws, phaseOf ws') \<noteq> (Installing, Settled)"
proof -
  have "phase_step (phaseOf ws) (phaseOf ws')"
    using assms(1)
  proof cases
    case (ready hasAgent pod running tr y x)
    from windowsReady_write[OF this] have "ws' = markProvisioned ws" "phaseOf ws = Installing" by (auto simp: phaseOf_def)
    then show ?thesis by (simp add: phase_markProvisioned phase_step.installed)
  next
    case (detach tr y x)
    from finishWindowsDetach_write[OF this] have ws': "ws' = dropAnnotation ws windowsDetachingGeneration" "detaching ws" by auto
    have "phaseOf ws' \<in> {Settled, Installing}" using assms(2) ws' by (simp add: phaseOf_def detaching_def)
    then show ?thesis using ws'(2) by (auto simp: phaseOf_def intro: phase_step.intros)
  next
    case (reboot tr y x)
    from finishWindowsReboot_write[OF this] have "ws' = dropAnnotation ws windowsRebootAnnotation" by simp
    then have "phaseOf ws' = phaseOf ws" by (simp add: phaseOf_def detaching_def provisioned_def)
    then show ?thesis by (simp add: phase_step.unchanged)
  next
    case (restart tr)
    from restart_result[OF restart(1,2)] restart(3) have "phaseOf ws' = Installing"
      by (auto simp: phaseOf_def detaching_def provisioned_def)
    then show ?thesis by (simp add: phase_step.reset)
  qed
  then show ?thesis by (auto simp: phase_step_from_Installing)
qed

theorem windows_phases_refined_witness:
  "lifecycle_step ref_lib exWindows (markProvisioned exWindows) \<and> generationOf exWindows \<noteq> []
     \<and> phase_step (phaseOf exWindows) (phaseOf (markProvisioned exWindows))"
proof -
  let ?e = "exec (windowsReady ref_lib True exWindows (Some exPod) True)
    [RObj (OUnstructured exVMI), RObj (OUnstructured exVMI), RBool True, RObj (OSecret exWinSecret), ROk, RObj (OWorkspace exWindows)]"
  have "snd ?e = Some (exWindows, Inr False)" by code_simp
  then have "?e = (fst ?e, Some (exWindows, Inr False))" by (metis prod.collapse)
  then have run: "runs (windowsReady ref_lib True exWindows (Some exPod) True) (fst ?e) (exWindows, Inr False)" by (rule exec_runs)
  have "list_ex (\<lambda>(q, x). isWrite q) (fst ?e)" by code_simp
  then obtain q x where q: "(q, x) \<in> set (fst ?e)" "isWrite q" by (auto simp: list_ex_iff)
  with windowsReady_write[OF run q] have "(ReqUpdate (OWorkspace (markProvisioned exWindows)), x) \<in> set (fst ?e)" by simp
  with run have step: "lifecycle_step ref_lib exWindows (markProvisioned exWindows)" by (rule lifecycle_step.ready)
  have g: "generationOf exWindows \<noteq> []" by code_simp
  from windows_phases_refined[OF step g] step g show ?thesis by blast
qed

section \<open>The object in each phase\<close>

lemma windowsSpec_fields:
  "nestedField (JObj (windowsSpec L ws p g port)) [''running''] = Some (JBool (\<not> halted ws))"
  "nestedField (JObj (windowsSpec L ws p g port)) [''template'', ''spec'', ''volumes''] = Some (JArr (windowsVolumes L ws))"
  "nestedField (JObj (windowsSpec L ws p g port)) [''template'', ''spec'', ''domain''] = Some (JObj (windowsDomain L ws p g port))"
  "nestedField (JObj (windowsSpec L ws p g port)) [''template'', ''spec'', ''nodeSelector'', archLabel] = Some (JStr windowsGuestArchitecture)"
proof -
  let ?b = "windowsSpecBase L ws p g port" and ?n = "[''template'', ''spec'', ''nodeSelector'']"
  let ?s = "applyVMScheduling ?b (wss_template (w_spec ws))"
  have f: "nestedField (JObj (windowsSpec L ws p g port)) q = nestedField (JObj ?b) q"
    if "parted [''template'', ''spec'', ''tolerations''] q" "parted ?n q" for q
    using that by (simp add: windowsSpec_def applyVMScheduling_field del: nestedField.simps parted.simps)
  show "nestedField (JObj (windowsSpec L ws p g port)) [''running''] = Some (JBool (\<not> halted ws))"
    "nestedField (JObj (windowsSpec L ws p g port)) [''template'', ''spec'', ''volumes''] = Some (JArr (windowsVolumes L ws))"
    "nestedField (JObj (windowsSpec L ws p g port)) [''template'', ''spec'', ''domain''] = Some (JObj (windowsDomain L ws p g port))"
    by (subst f; simp add: windowsSpecBase_def)+
  have "nestedField (JObj ?s) [''template'', ''spec'', ''architecture''] = Some (JStr ''amd64'')"
    by (subst applyVMScheduling_field; simp add: windowsSpecBase_def)
  then obtain t sp where t: "map_of ?s ''template'' = Some (JObj t)" "map_of t ''spec'' = Some (JObj sp)"
    by (auto split: option.splits json.splits)
  then have "nestedField (JObj (windowsSpec L ws p g port)) ?n = Some (JObj (windowsSelector ws))"
    by (simp add: windowsSpec_def putNested_def)
  from nestedField_append[of "JObj (windowsSpec L ws p g port)" ?n "[archLabel]"] this
  show "nestedField (JObj (windowsSpec L ws p g port)) [''template'', ''spec'', ''nodeSelector'', archLabel] = Some (JStr windowsGuestArchitecture)"
    by (simp add: windowsSelector_def)
qed

text \<open>
  C35. What runs in each phase. A validated Windows workspace always yields a VM object; it names the generation, is
  scheduled on amd64 nodes, and runs unless the workspace is stopped, rebooting or detaching: in the detaching phase the guest is halted.
  The disc with the answer file is attached exactly while the generation is not marked as provisioned, whatever the other annotations say. So it is
  attached while installing and not attached once settled; and in the detaching phase, which the controller enters by the one update that also sets
  the provisioned mark (\<open>markProvisioned\<close>), it is gone. Only an edited annotation can leave a workspace detaching without that mark; the
  disc is then attached to a halted guest.
\<close>

theorem windows_vm_by_phase:
  assumes "validateWindowsProfile L ws = Inr ()"
  shows "\<exists>vm volumes. generateWindowsVirtualMachine L ws agentPort = Inr vm
    \<and> mget (m_annotations (un_meta vm)) windowsGenerationAnnotation = generationOf ws
    \<and> nestedBool (un_object vm) [''spec'', ''running''] = Some (\<not> stopped ws \<and> \<not> rebooting ws \<and> phaseOf ws \<noteq> Detaching)
    \<and> nestedString (un_object vm) (templateSpecPath @ [''nodeSelector'', archLabel]) = Some ''amd64''
    \<and> nestedSlice (un_object vm) volumesPath = Some volumes
    \<and> (Some (JStr ''sysprep'') \<in> nameField ` set volumes \<longleftrightarrow> \<not> provisioned ws)
    \<and> (case phaseOf ws of Installing \<Rightarrow> Some (JStr ''sysprep'') \<in> nameField ` set volumes
        | Settled \<Rightarrow> Some (JStr ''sysprep'') \<notin> nameField ` set volumes
        | Detaching \<Rightarrow> nestedBool (un_object vm) [''spec'', ''running''] = Some False)
    \<and> provisioned (markProvisioned ws) \<and> phaseOf (markProvisioned ws) = Detaching"
proof -
  from assms(1) obtain p g where p: "wss_vmProfile (w_spec ws) = Some p" "l_parseQuantity L (vp_guestMemory p) = Inr g"
    by (auto simp: validateWindowsProfile_def validWindowsHardware_def atLeast_def split: option.splits if_splits sum.splits)
  let ?vm = "newVirtualMachine ((objectMeta (namespaceOf ws) (nameOf ws))\<lparr>m_annotations := [(windowsGenerationAnnotation, vp_generation p)]\<rparr>)
    (windowsSpec L ws p g agentPort)"
  have f: "nestedField (JObj (un_object ?vm)) (''spec'' # q) = nestedField (JObj (windowsSpec L ws p g agentPort)) q" for q
    by (rule newVirtualMachine_field)
  have "generateWindowsVirtualMachine L ws agentPort = Inr ?vm" using p by (simp add: generateWindowsVirtualMachine_def)
  moreover have "mget (m_annotations (un_meta ?vm)) windowsGenerationAnnotation = generationOf ws"
    using p(1) by (simp add: newVirtualMachine_def generationOf_def mget_def)
  moreover have running: "nestedBool (un_object ?vm) [''spec'', ''running''] = Some (\<not> stopped ws \<and> \<not> rebooting ws \<and> phaseOf ws \<noteq> Detaching)"
    unfolding nestedBool_def f windowsSpec_fields(1) by (auto simp: halted_def phaseOf_def)
  moreover have "nestedString (un_object ?vm) (templateSpecPath @ [''nodeSelector'', archLabel]) = Some ''amd64''"
    unfolding nestedString_def using f windowsSpec_fields(4) by (simp del: nestedField.simps)
  moreover have "nestedSlice (un_object ?vm) volumesPath = Some (windowsVolumes L ws)"
    unfolding nestedSlice_def using f windowsSpec_fields(2) by (simp del: nestedField.simps)
  moreover have disc: "Some (JStr ''sysprep'') \<in> nameField ` set (windowsVolumes L ws) \<longleftrightarrow> \<not> provisioned ws"
    by (auto simp: windowsVolumes_def nameField_def)
  moreover have "case phaseOf ws of Installing \<Rightarrow> Some (JStr ''sysprep'') \<in> nameField ` set (windowsVolumes L ws)
      | Settled \<Rightarrow> Some (JStr ''sysprep'') \<notin> nameField ` set (windowsVolumes L ws)
      | Detaching \<Rightarrow> nestedBool (un_object ?vm) [''spec'', ''running''] = Some False"
    unfolding disc running by (auto simp: phaseOf_def)
  moreover have "provisioned (markProvisioned ws)" by (simp add: provisioned_def markProvisioned_def)
  ultimately show ?thesis using phase_markProvisioned by blast
qed

text \<open>The example workspace while installing, and the same one edited to be detaching without the provisioned mark.\<close>

theorem windows_vm_by_phase_witness:
  "validateWindowsProfile ref_lib exWindows = Inr () \<and> phaseOf exWindows = Installing
    \<and> (\<exists>vm volumes. generateWindowsVirtualMachine ref_lib exWindows 0 = Inr vm \<and> nestedSlice (un_object vm) volumesPath = Some volumes
        \<and> Some (JStr ''sysprep'') \<in> nameField ` set volumes)
    \<and> (let ws = setAnnotation exWindows windowsDetachingGeneration (generationOf exWindows) in
       phaseOf ws = Detaching \<and> (\<exists>vm volumes. generateWindowsVirtualMachine ref_lib ws 0 = Inr vm
        \<and> nestedSlice (un_object vm) volumesPath = Some volumes \<and> Some (JStr ''sysprep'') \<in> nameField ` set volumes
        \<and> nestedBool (un_object vm) [''spec'', ''running''] = Some False))"
proof -
  let ?ws = "setAnnotation exWindows windowsDetachingGeneration (generationOf exWindows)"
  have v: "validateWindowsProfile ref_lib exWindows = Inr ()" "validateWindowsProfile ref_lib ?ws = Inr ()" by code_simp+
  have p: "phaseOf exWindows = Installing" "\<not> provisioned exWindows" "phaseOf ?ws = Detaching" "\<not> provisioned ?ws" by code_simp+
  from windows_vm_by_phase[OF v(1), of 0] p(2) have "\<exists>vm volumes. generateWindowsVirtualMachine ref_lib exWindows 0 = Inr vm
    \<and> nestedSlice (un_object vm) volumesPath = Some volumes \<and> Some (JStr ''sysprep'') \<in> nameField ` set volumes" by blast
  moreover from windows_vm_by_phase[OF v(2), of 0] p(3,4) have "\<exists>vm volumes. generateWindowsVirtualMachine ref_lib ?ws 0 = Inr vm
    \<and> nestedSlice (un_object vm) volumesPath = Some volumes \<and> Some (JStr ''sysprep'') \<in> nameField ` set volumes
    \<and> nestedBool (un_object vm) [''spec'', ''running''] = Some False" by (simp only: phase.case) blast
  ultimately show ?thesis using v p by (simp only: Let_def simp_thms)
qed

end
