(* ===== verification/Workspace_Controller.thy ===== *)
theory Workspace_Controller
  imports Windows_Guest
begin

text \<open>
  The Workspace reconciler (src/internal/controller/workspace_controller.go): the guest bootstrap and the update of
  a VirtualMachine, the reset of a VM workspace and the main reconciliation, which composes the operations of the
  other theories. The counters and histograms of metrics.go and the log lines have no counterpart.
\<close>

section \<open>The reconciler\<close>

text \<open>
  The configuration. \<open>r_reader\<close> is \<open>Live\<close> when an \<^verbatim>\<open>APIReader\<close> is set, \<open>r_guestAgent\<close> says whether a guest agent is set.
\<close>

record workspaceReconciler =
  r_reader :: reader
  r_guestAgent :: bool
  r_managementNamespace :: string
  r_containerInitImage :: string

abbreviation readyTimeRecorded :: string where "readyTimeRecorded \<equiv> ''kubeworkspaces.io/ready-time-recorded''"
abbreviation KWorkspaceObject :: kind where "KWorkspaceObject \<equiv> KUnstructured GroupVersion ''Workspace''"

text \<open>
  Steps that change the caller's object return it beside their result; \<open>tryW\<close> goes on with the changed object,
  \<open>keepW\<close> is a step that leaves it alone.
\<close>

definition tryW :: "(workspace \<times> 'a result) prog \<Rightarrow> (workspace \<Rightarrow> 'a \<Rightarrow> (workspace \<times> 'b result) prog) \<Rightarrow> (workspace \<times> 'b result) prog" where
  "tryW p k = bind p (\<lambda>(ws, r). case r of Inl e \<Rightarrow> Ret (ws, Inl e) | Inr x \<Rightarrow> k ws x)"

definition keepW :: "workspace \<Rightarrow> 'a result prog \<Rightarrow> (workspace \<times> 'a result) prog" where
  "keepW ws p = mapP (\<lambda>r. (ws, r)) p"

section \<open>KubeVirt\<close>

definition isNoMatchError :: "gerr \<Rightarrow> bool" where
  "isNoMatchError e \<longleftrightarrow> (let msg = errText e in
     contains msg ''no matches for kind'' \<or> contains msg ''the server could not find the requested resource''
     \<or> contains msg ''no kind is registered'')"

definition kubeVirtInstalled :: "bool result prog" where
  "kubeVirtInstalled = bind (getP Cached KVirtualMachine toUnstructured ''kube-system'' ''kubevirt-probe'') (\<lambda>g. case g of
     Inr vm \<Rightarrow> Ret (Inr True)
   | Inl e \<Rightarrow> Ret (if isNotFound e then Inr True else if isNoMatchError e then Inr False else Inl e))"

definition vmiIsRunning :: "workspace \<Rightarrow> bool prog" where
  "vmiIsRunning ws = bind (getVMI ws) (\<lambda>g. Ret (case g of Inl e \<Rightarrow> False
     | Inr vmi \<Rightarrow> zeroOr [] (nestedString (un_object vmi) [''status'', ''phase'']) = ''Running''))"

section \<open>Guest bootstrap\<close>

definition linuxSSHKeys :: "lib \<Rightarrow> workspace \<Rightarrow> image option \<Rightarrow> string list result prog" where
  "linuxSSHKeys L ws img = tryP (sshAuthorizedKeysForWorkspace (namespaceOf ws)) (\<lambda>sshKeys.
     if usesGuestAgentSSH img then tryP (reconcileSSHKeySecret L ws sshKeys) (\<lambda>_. Ret (Inr [])) else Ret (Inr sshKeys))"

definition reconcileVMGuestBootstrap :: "lib \<Rightarrow> workspaceReconciler \<Rightarrow> workspace \<Rightarrow> image option \<Rightarrow> string list result prog" where
  "reconcileVMGuestBootstrap L r ws img =
     (if windowsWorkspace ws
      then if stopped ws \<or> detaching ws \<or> rebooting ws then Ret (case validateWindowsProfile L ws of Inl e \<Rightarrow> Inl e | Inr _ \<Rightarrow> Inr [])
           else tryP (preflightWindows L ws) (\<lambda>_. tryP (reconcileWindowsBootstrap L ws) (\<lambda>_. Ret (Inr [])))
      else tryP (linuxSSHKeys L ws img) (\<lambda>sshKeys. case vmCloudInitUserData L ws img sshKeys of
          (Some e, _) \<Rightarrow> Ret (Inl e)
        | (None, cloudUserData) \<Rightarrow> tryP (claimVMDisks L (r_reader r) ws) (\<lambda>_.
            tryP (reconcileCloudInitSecret L ws cloudUserData) (\<lambda>_. Ret (Inr sshKeys)))))"

section \<open>The VirtualMachine\<close>

text \<open>One attempt of the retried update.\<close>

definition updateAttempt :: "lib \<Rightarrow> workspace \<Rightarrow> unstructured \<Rightarrow> unstructured \<Rightarrow> unit result prog" where
  "updateAttempt L ws desired found =
     tryP (getP Cached KVirtualMachine toUnstructured (m_namespace (un_meta desired)) (m_name (un_meta desired))) (\<lambda>latest.
       if m_uid (un_meta latest) \<noteq> m_uid (un_meta found) \<or> m_deletion (un_meta latest) \<noteq> None
       then Ret (Inl (Errorf ''virtual machine identity changed while reconciling''))
       else if \<not> virtualMachineNeedsUpdate L desired latest then Ret (Inr ())
       else tryP (if windowsWorkspace ws then guardWindowsGPUTransition L ws desired latest else Ret (Inr ())) (\<lambda>_.
         ask (ReqUpdate (OUnstructured (withSpec desired latest))) asUnit))"

definition updateVirtualMachine :: "lib \<Rightarrow> workspace \<Rightarrow> unstructured \<Rightarrow> unstructured \<Rightarrow> unit result prog" where
  "updateVirtualMachine L ws desired found =
     (if \<not> virtualMachineNeedsUpdate L desired found then Ret (Inr ())
      else l_retryOnConflict L (updateAttempt L ws desired found))"

text \<open>The steps before the VirtualMachine is generated; \<open>None\<close> when the profile was just resolved.\<close>

definition prepareVM :: "lib \<Rightarrow> workspaceReconciler \<Rightarrow> workspace \<Rightarrow> (workspace \<times> (image option \<times> string list) option result) prog" where
  "prepareVM L r ws = tryW (keepW ws (lookupVMImage ws)) (\<lambda>ws img.
     tryW (resolveWindowsProfile L ws img) (\<lambda>ws resolved.
       if resolved then Ret (ws, Inr None)
       else tryW (keepW ws (Ret (validateVMRootImage L ws img))) (\<lambda>ws _.
         tryW (ensureLinuxAgentGeneration ws img) (\<lambda>ws _.
         tryW (if windowsWorkspace ws then finishWindowsLifecycle L ws else Ret (ws, Inr ())) (\<lambda>ws _.
         keepW ws (tryP (reconcileVMGuestBootstrap L r ws img) (\<lambda>sshKeys. Ret (Inr (Some (img, sshKeys))))))))))"

definition desiredVM :: "lib \<Rightarrow> workspace \<Rightarrow> image option \<Rightarrow> string list \<Rightarrow> unstructured result prog" where
  "desiredVM L ws img sshKeys =
     tryP (getP Cached KWorkspaceObject toUnstructured (namespaceOf ws) (nameOf ws)) (\<lambda>inst.
     bind (agentImageForWorkspace ws) (\<lambda>deviceImage. Ret
       (case generateVirtualMachine L ws img sshKeys (agentPortForImage deviceImage) (Some inst) of
          Inl e \<Rightarrow> Inl e
        | Inr vm \<Rightarrow> let desired = applyWindowsImageSoundDevice ws vm deviceImage in
            (case l_setControllerReference L (w_meta ws) (un_meta desired) of
               Inl e \<Rightarrow> Inl e | Inr m \<Rightarrow> Inr (desired\<lparr>un_meta := m\<rparr>)))))"

definition adoptVM :: "lib \<Rightarrow> workspace \<Rightarrow> unstructured \<Rightarrow> unstructured \<Rightarrow> unstructured result prog" where
  "adoptVM L ws desired found =
     (if windowsWorkspace ws \<and> (\<not> l_isControlledBy L (un_meta found) (w_meta ws)
           \<or> mget (m_annotations (un_meta found)) windowsGenerationAnnotation \<noteq> generationOf ws)
      then Ret (Inl (Errorf ''existing VM identity cannot change without an explicit Reset''))
      else tryP (Ret (preserveLegacyRootDisk desired found)) (\<lambda>desired.
        tryP (updateVirtualMachine L ws desired found) (\<lambda>_. Ret (Inr found))))"

text \<open>Creating or updating; the result is the object the management identity is issued for.\<close>

definition ensureVM :: "lib \<Rightarrow> workspace \<Rightarrow> unstructured \<Rightarrow> unstructured result prog" where
  "ensureVM L ws desired =
     bind (getP Cached KVirtualMachine toUnstructured (m_namespace (un_meta desired)) (m_name (un_meta desired))) (\<lambda>g. case g of
       Inr found \<Rightarrow> adoptVM L ws desired found
     | Inl e \<Rightarrow> if \<not> isNotFound e then Ret (Inl e)
         else tryP (if windowsWorkspace ws then preflightWindowsGPU L ws else Ret (Inr ())) (\<lambda>_.
           createP toUnstructured (OUnstructured desired)))"

definition observeVM :: "lib \<Rightarrow> workspaceReconciler \<Rightarrow> workspace \<Rightarrow> unstructured \<Rightarrow> (workspace \<times> (int \<times> pod option) result) prog" where
  "observeVM L r ws vm = tryW (keepW ws (podByLabel L (namespaceOf ws) (LabelKubevirtVM @ ''='' @ nameOf ws))) (\<lambda>ws pod.
     bind (vmiIsRunning ws) (\<lambda>running.
     tryW (if windowsWorkspace ws then windowsReady L (r_guestAgent r) ws pod running else Ret (ws, Inr running)) (\<lambda>ws vmiReady.
       if podReady pod \<and> vmiReady
       then tryW (reconcileManagementIdentity L (r_reader r) (r_managementNamespace r) ws vm) (\<lambda>ws _. Ret (ws, Inr (1, pod)))
       else Ret (ws, Inr (0, pod)))))"

definition reconcileVirtualMachine :: "lib \<Rightarrow> workspaceReconciler \<Rightarrow> workspace \<Rightarrow> (workspace \<times> (int \<times> pod option) result) prog" where
  "reconcileVirtualMachine L r ws = tryW (prepareVM L r ws) (\<lambda>ws prepared. case prepared of
     None \<Rightarrow> Ret (ws, Inr (0, None))
   | Some (img, sshKeys) \<Rightarrow> tryW (keepW ws (tryP (desiredVM L ws img sshKeys) (ensureVM L ws))) (observeVM L r))"

section \<open>Reset\<close>

text \<open>The result of a reset step is the requeue delay and whether the reset path was taken.\<close>

definition deleteVM :: "unstructured \<Rightarrow> (ctrlResult \<times> bool) result prog" where
  "deleteVM found = (if m_deletion (un_meta found) \<noteq> None then Ret (Inr (seconds 5, True))
     else bind (deleteP (OUnstructured found) [Foreground]) (\<lambda>g. case g of
       Inl e \<Rightarrow> Ret (if isNotFound e then Inr (seconds 5, True) else Inl e)
     | Inr _ \<Rightarrow> Ret (Inr (seconds 5, True))))"

definition haltVM :: "unstructured \<Rightarrow> (ctrlResult \<times> bool) result prog" where
  "haltVM found = (case setNested (un_object found) [''spec'', ''running''] (JBool False) of
     None \<Rightarrow> Ret (Inl (Errorf ''value cannot be set because a field on the way is not a map''))
   | Some ob \<Rightarrow> tryP (ask (ReqUpdate (OUnstructured (found\<lparr>un_object := ob\<rparr>))) asUnit) (\<lambda>_. Ret (Inr (seconds 5, True))))"

definition resetExisting :: "workspace \<Rightarrow> unstructured \<Rightarrow> (ctrlResult \<times> bool) result prog" where
  "resetExisting ws found =
     (if windowsWorkspace ws \<and> m_deletion (un_meta found) = None
      then if zeroOr False (nestedBool (un_object found) [''spec'', ''running'']) then haltVM found
           else bind (getVMI ws) (\<lambda>g. case g of
               Inr vmi \<Rightarrow> Ret (Inr (seconds 5, True))
             | Inl e \<Rightarrow> if isNotFound e then deleteVM found else Ret (Inl e))
      else deleteVM found)"

definition consumeReset :: "workspace \<Rightarrow> workspace" where
  "consumeReset ws = dropAnnotation (dropAnnotation (dropAnnotation ws AnnotationReset) annotationAgentGeneration) readyTimeRecorded"

definition handleReset :: "lib \<Rightarrow> workspace \<Rightarrow> (workspace \<times> (ctrlResult \<times> bool) result) prog" where
  "handleReset L ws =
     (if \<not> mhas (annotationsOf ws) AnnotationReset then Ret (ws, Inr (0, False))
      else bind (getP Cached KVirtualMachine toUnstructured (namespaceOf ws) (nameOf ws)) (\<lambda>g. case g of
        Inr found \<Rightarrow> keepW ws (resetExisting ws found)
      | Inl e \<Rightarrow> if \<not> isNotFound e then Ret (ws, Inl e)
          else tryW (resetWindowsGeneration L ws) (\<lambda>ws _.
            tryW (updateWorkspaceW (consumeReset ws)) (\<lambda>ws _. Ret (ws, Inr (seconds 3, True))))))"

section \<open>Reconciliation\<close>

definition recordReadyAttempt :: "key \<Rightarrow> unit result prog" where
  "recordReadyAttempt req = tryP (getP Cached KWorkspace toWorkspace (fst req) (snd req)) (\<lambda>latest.
     ask (ReqUpdate (OWorkspace (setAnnotation latest readyTimeRecorded LabelValueTrue))) asUnit)"

text \<open>A failure to record the time of the first ready state is only logged.\<close>

definition recordReadyTime :: "lib \<Rightarrow> key \<Rightarrow> workspace \<Rightarrow> int \<Rightarrow> unit prog" where
  "recordReadyTime L req ws readyReplicas = (case m_creation (w_meta ws) of None \<Rightarrow> Ret ()
     | Some created \<Rightarrow> if readyReplicas \<le> 0 then Ret ()
         else bind nowP (\<lambda>now.
           if now - created < seconds 1800 \<and> now - created > 0 \<and> \<not> mhas (annotationsOf ws) readyTimeRecorded
           then mapP (\<lambda>_. ()) (l_retryOnConflict L (recordReadyAttempt req)) else Ret ()))"

text \<open>A panic unwinds the reconciler: the condition is written for returned errors only.\<close>

definition reportFailure :: "workspace \<Rightarrow> string \<Rightarrow> gerr \<Rightarrow> unit prog" where
  "reportFailure ws reason e = (case e of PanicErr m \<Rightarrow> Ret () | _ \<Rightarrow> setNotReadyCondition ws reason (errText e))"

definition reconcileWorkload :: "lib \<Rightarrow> workspaceReconciler \<Rightarrow> workspace \<Rightarrow> (workspace \<times> (int \<times> pod option) result) prog" where
  "reconcileWorkload L r ws =
     (if workspaceTypeOf ws = WorkspaceTypeVM
      then bind (reconcileVirtualMachine L r ws) (\<lambda>(ws, result). case result of
          Inl e \<Rightarrow> bind (reportFailure ws ''VMReconcileFailed'' e) (\<lambda>_. Ret (ws, Inl e))
        | Inr x \<Rightarrow> Ret (ws, Inr x))
      else if workspaceTypeOf ws = WorkspaceTypeScratch then keepW ws (reconcileDeployment L (r_containerInitImage r) ws)
      else keepW ws (reconcileStatefulSet L (r_containerInitImage r) ws))"

text \<open>The part of \<^verbatim>\<open>Reconcile\<close> from the workload on.\<close>

definition reconcileObjects :: "lib \<Rightarrow> workspaceReconciler \<Rightarrow> key \<Rightarrow> workspace \<Rightarrow> ctrlResult result prog" where
  "reconcileObjects L r req ws0 = (let wsType = workspaceTypeOf ws0 in
     bind (reconcileWorkload L r ws0) (\<lambda>(ws, result). tryP (Ret result) (\<lambda>(readyReplicas, pod).
     tryP (reconcileService L ws wsType) (\<lambda>_.
     tryP (updateWorkspaceStatus L ws readyReplicas pod) (\<lambda>_.
     bind (recordReadyTime L req ws readyReplicas) (\<lambda>_.
     Ret (Inr (if windowsWorkspace ws \<and> \<not> stopped ws \<and> readyReplicas = 0 then seconds 10 else 0))))))))"

definition reconcileVMType :: "lib \<Rightarrow> workspaceReconciler \<Rightarrow> key \<Rightarrow> workspace \<Rightarrow> ctrlResult result prog" where
  "reconcileVMType L r req ws = tryP kubeVirtInstalled (\<lambda>installed.
     if \<not> installed
     then bind (setNotReadyCondition ws ''KubeVirtNotInstalled'' ''KubeVirt is not installed in this cluster'') (\<lambda>_. Ret (Inr 0))
     else bind (handleReset L ws) (\<lambda>(ws, result). tryP (Ret result) (\<lambda>(after, resetHandled).
       if resetHandled then Ret (Inr after) else reconcileObjects L r req ws)))"

definition reconcileWorkspace :: "lib \<Rightarrow> workspaceReconciler \<Rightarrow> key \<Rightarrow> ctrlResult result prog" where
  "reconcileWorkspace L r req =
     bind (getP Cached KWorkspace toWorkspace (fst req) (snd req)) (\<lambda>g. case g of
       Inl e \<Rightarrow> Ret (if isNotFound e then Inr 0 else Inl e)
     | Inr ws \<Rightarrow>
         if m_deletion (w_meta ws) \<noteq> None then Ret (Inr 0)
         else if workspaceTypeOf ws \<noteq> WorkspaceTypeVM then reconcileObjects L r req ws
         else if wss_containerInit (w_spec ws) \<noteq> None
         then let msg = ''container initialization is only supported for container and scratch workspaces'' in
           bind (setNotReadyCondition ws ''ContainerInitFailed'' msg) (\<lambda>_. Ret (Inl (Errorf msg)))
         else reconcileVMType L r req ws)"

section \<open>Programs that return the object\<close>

lemma runs_tryW [prog_inv]:
  "runs (tryW p k) tr y \<longleftrightarrow> (\<exists>ws e. runs p tr (ws, Inl e) \<and> y = (ws, Inl e))
     \<or> (\<exists>t1 ws x t2. runs p t1 (ws, Inr x) \<and> runs (k ws x) t2 y \<and> tr = t1 @ t2)"
proof -
  have "runs (tryW p k) tr y \<longleftrightarrow> (\<exists>ws r t1 t2. runs p t1 (ws, r) \<and> runs (case r of Inl e \<Rightarrow> Ret (ws, Inl e) | Inr x \<Rightarrow> k ws x) t2 y \<and> tr = t1 @ t2)"
    unfolding tryW_def runs_bind by (auto; blast)
  also have "\<dots> \<longleftrightarrow> (\<exists>ws e t1 t2. runs p t1 (ws, Inl e) \<and> runs (Ret (ws, Inl e)) t2 y \<and> tr = t1 @ t2)
      \<or> (\<exists>ws x t1 t2. runs p t1 (ws, Inr x) \<and> runs (k ws x) t2 y \<and> tr = t1 @ t2)"
    unfolding split_sum_ex[of "\<lambda>r. \<exists>t1 t2. runs p t1 (_, r) \<and> _ r t1 t2"] sum.case by blast
  finally show ?thesis by (auto simp: runs_Ret_iff; blast)
qed

lemma runs_keepW [prog_inv]: "runs (keepW ws p) tr y \<longleftrightarrow> (\<exists>r. runs p tr r \<and> y = (ws, r))"
  by (auto simp: keepW_def runs_mapP)

lemma calls_tryW [prog_frame]: "calls P p \<Longrightarrow> (\<And>ws x. calls P (k ws x)) \<Longrightarrow> calls P (tryW p k)"
  unfolding tryW_def by (rule calls_bind) (auto split: prod.split sum.split)

lemma calls_keepW [prog_frame]: "calls P p \<Longrightarrow> calls P (keepW ws p)"
  unfolding keepW_def by (rule calls_mapP)

section \<open>Writing the VirtualMachine\<close>

abbreviation vmGet :: "unstructured \<Rightarrow> req" where
  "vmGet vm \<equiv> ReqGet Cached KVirtualMachine (m_namespace (un_meta vm), m_name (un_meta vm))"

lemma quiet_preflightGPU: "calls (\<lambda>q. \<not> isWrite q) (preflightWindowsGPU L ws)"
  unfolding preflightWindowsGPU_def preflightGPU_def preflightWindowsNode_def singleton_def Let_def
  by (auto intro!: calls_bind calls_tryP replaceErr_calls split: option.split)

lemma quiet_guard: "calls (\<lambda>q. \<not> isWrite q) (guardWindowsGPUTransition L ws desired latest)"
  unfolding guardWindowsGPUTransition_def
  by (auto intro!: calls_bind quiet_lifecycle quiet_preflightGPU split: sum.split)

text \<open>What is known when a change of the GPU hardware passed the guard.\<close>

definition hardwareChangeSafe :: "lib \<Rightarrow> workspace \<Rightarrow> unstructured \<Rightarrow> unstructured \<Rightarrow> trace \<Rightarrow> bool" where
  "hardwareChangeSafe L ws desired latest tr \<longleftrightarrow>
     deepEqual (JObj (windowsGPUHardware L desired)) (JObj (windowsGPUHardware L latest))
     \<or> vmHalted latest \<and> (\<exists>e. isNotFound e \<and> (vmiGet ws, RErr e) \<in> set tr)
       \<and> (\<exists>t. set t \<subseteq> set tr \<and> runs (preflightWindowsGPU L ws) t (Inr ()))"

lemma guard_Inr:
  assumes "runs (guardWindowsGPUTransition L ws desired latest) tr (Inr u)" and "set tr \<subseteq> set tr'"
  shows "hardwareChangeSafe L ws desired latest tr'"
proof (cases "deepEqual (JObj (windowsGPUHardware L desired)) (JObj (windowsGPUHardware L latest))")
  case False
  with assms(1) have h: "vmHalted latest" and "runs (bind (getVMI ws) (\<lambda>g. case g of
          Inr vmi \<Rightarrow> Ret (Inl (Errorf ''VM GPU changes require the previous VMI to be absent''))
        | Inl e \<Rightarrow> if \<not> isNotFound e then Ret (Inl (Errorf ''VM GPU changes require the previous VMI to be absent''))
            else preflightWindowsGPU L ws)) tr (Inr u)"
    unfolding guardWindowsGPUTransition_def by (auto simp: runs_Ret_iff split: if_splits)
  then obtain e t where "isNotFound e" "tr = (vmiGet ws, RErr e) # t" "runs (preflightWindowsGPU L ws) t (Inr ())"
    unfolding runs_bind_sum by (auto simp: runs_getVMI runs_Ret_iff asObj_notFound split: if_splits)
  with h assms(2) show ?thesis unfolding hardwareChangeSafe_def by auto
qed (simp add: hardwareChangeSafe_def)

lemma hardwareChangeSafe_mono: "hardwareChangeSafe L ws d l t \<Longrightarrow> set t \<subseteq> set tr \<Longrightarrow> hardwareChangeSafe L ws d l tr"
  unfolding hardwareChangeSafe_def by blast

text \<open>The update of a VirtualMachine that was read with the identity of \<open>found\<close>.\<close>

definition vmUpdate :: "lib \<Rightarrow> workspace \<Rightarrow> unstructured \<Rightarrow> unstructured \<Rightarrow> trace \<Rightarrow> req \<Rightarrow> bool" where
  "vmUpdate L ws desired found tr q \<longleftrightarrow> (\<exists>latest. q = ReqUpdate (OUnstructured (withSpec desired latest))
     \<and> (vmGet desired, RObj (OUnstructured latest)) \<in> set tr \<and> m_uid (un_meta latest) = m_uid (un_meta found)
     \<and> m_deletion (un_meta latest) = None \<and> virtualMachineNeedsUpdate L desired latest
     \<and> (if windowsWorkspace ws then hardwareChangeSafe L ws desired latest tr else True))"

lemma updateAttempt_write:
  assumes "runs (updateAttempt L ws desired found) tr r" and "(q, x) \<in> set tr" and "isWrite q"
  shows "vmUpdate L ws desired found tr q"
proof -
  from assms(1-3) obtain latest t1 where l: "tr = (vmGet desired, RObj (OUnstructured latest)) # t1" "(q, x) \<in> set t1"
    "m_uid (un_meta latest) = m_uid (un_meta found)" "m_deletion (un_meta latest) = None" "virtualMachineNeedsUpdate L desired latest"
    and t1: "runs (tryP (if windowsWorkspace ws then guardWindowsGPUTransition L ws desired latest else Ret (Inr ())) (\<lambda>_.
         ask (ReqUpdate (OUnstructured (withSpec desired latest))) asUnit)) t1 r"
    unfolding updateAttempt_def runs_tryP[of "getP _ _ _ _ _"] by (auto simp: runs_client runs_Ret_iff asObj_Inr split: if_splits)
  have "calls (\<lambda>q. \<not> isWrite q) (if windowsWorkspace ws then guardWindowsGPUTransition L ws desired latest else Ret (Inr ()))"
    by (simp add: quiet_guard)
  from quiet_tryP[OF this t1 l(2) assms(3)] obtain t2 u t3 where
    t2: "t1 = t2 @ t3" "runs (if windowsWorkspace ws then guardWindowsGPUTransition L ws desired latest else Ret (Inr ())) t2 (Inr u)"
      "runs (ask (ReqUpdate (OUnstructured (withSpec desired latest))) asUnit) t3 r" "(q, x) \<in> set t3" by blast
  from t2(3,4) have "q = ReqUpdate (OUnstructured (withSpec desired latest))" by (auto simp: runs_ask)
  moreover have "if windowsWorkspace ws then hardwareChangeSafe L ws desired latest tr else True"
  proof (cases "windowsWorkspace ws")
    case True
    have "set t2 \<subseteq> set tr" using l(1) t2(1) by auto
    with True t2(2) guard_Inr show ?thesis by auto
  qed simp
  ultimately show ?thesis unfolding vmUpdate_def using l by auto
qed

lemma vmUpdate_mono: "vmUpdate L ws d f t q \<Longrightarrow> set t \<subseteq> set tr \<Longrightarrow> vmUpdate L ws d f tr q"
  unfolding vmUpdate_def using hardwareChangeSafe_mono by (auto split: if_splits)

lemma updateVirtualMachine_write:
  assumes "retryOnConflict_doc L" and "runs (updateVirtualMachine L ws desired found) tr r" and "(q, x) \<in> set tr" and "isWrite q"
  shows "vmUpdate L ws desired found tr q"
proof -
  from assms(2,3) have "runs (l_retryOnConflict L (updateAttempt L ws desired found)) tr r"
    unfolding updateVirtualMachine_def by (auto simp: runs_Ret_iff split: if_splits)
  with assms(1) have "retry_trace isConflict (updateAttempt L ws desired found) tr r" by (simp add: retryOnConflict_doc_def)
  from retry_trace_attempt[OF this assms(3)] obtain t y where "runs (updateAttempt L ws desired found) t y" "(q, x) \<in> set t" "set t \<subseteq> set tr" by blast
  then show ?thesis using updateAttempt_write[of L ws desired found t y q x] assms(4) vmUpdate_mono by blast
qed

lemma adoptVM_write:
  assumes "retryOnConflict_doc L" and "runs (adoptVM L ws desired found) tr r" and "(q, x) \<in> set tr" and "isWrite q"
  shows "(if windowsWorkspace ws then l_isControlledBy L (un_meta found) (w_meta ws)
            \<and> mget (m_annotations (un_meta found)) windowsGenerationAnnotation = generationOf ws else True)
    \<and> (\<exists>d. preserveLegacyRootDisk desired found = Inr d \<and> vmUpdate L ws d found tr q)"
proof -
  let ?k = "\<lambda>d. tryP (updateVirtualMachine L ws d found) (\<lambda>_. Ret (Inr found))"
  from assms(2,3) have w: "if windowsWorkspace ws then l_isControlledBy L (un_meta found) (w_meta ws)
            \<and> mget (m_annotations (un_meta found)) windowsGenerationAnnotation = generationOf ws else True"
    and run: "runs (tryP (Ret (preserveLegacyRootDisk desired found)) ?k) tr r"
    unfolding adoptVM_def by (auto simp: runs_Ret_iff split: if_splits)
  from run assms(3) obtain d where d: "preserveLegacyRootDisk desired found = Inr d" and "runs (?k d) tr r"
    by (cases "preserveLegacyRootDisk desired found") (auto simp: tryP_def runs_Ret_iff)
  then obtain t1 y where t1: "runs (updateVirtualMachine L ws d found) t1 y" "set t1 \<subseteq> set tr" "(q, x) \<in> set t1"
    using assms(3) unfolding runs_tryP by (auto simp: runs_Ret_iff)
  from updateVirtualMachine_write[OF assms(1) t1(1,3) assms(4)] t1(2) have "vmUpdate L ws d found tr q" by (rule vmUpdate_mono)
  with w d show ?thesis by blast
qed

lemma ensureVM_write:
  assumes "retryOnConflict_doc L" and "runs (ensureVM L ws desired) tr r" and "(q, x) \<in> set tr" and "isWrite q"
  shows "(\<exists>e t. isNotFound e \<and> (vmGet desired, RErr e) \<in> set tr \<and> q = ReqCreate (OUnstructured desired)
      \<and> (if windowsWorkspace ws then set t \<subseteq> set tr \<and> runs (preflightWindowsGPU L ws) t (Inr ()) else True))
    \<or> (\<exists>found d. (vmGet desired, RObj (OUnstructured found)) \<in> set tr
      \<and> (if windowsWorkspace ws then l_isControlledBy L (un_meta found) (w_meta ws)
            \<and> mget (m_annotations (un_meta found)) windowsGenerationAnnotation = generationOf ws else True)
      \<and> preserveLegacyRootDisk desired found = Inr d \<and> vmUpdate L ws d found tr q)"
proof -
  let ?pre = "if windowsWorkspace ws then preflightWindowsGPU L ws else Ret (Inr ())"
  from assms(2-4) consider (absent) e t where "isNotFound e" "tr = (vmGet desired, RErr e) # t" "(q, x) \<in> set t"
      "runs (tryP ?pre (\<lambda>_. createP toUnstructured (OUnstructured desired))) t r"
    | (present) found t where "tr = (vmGet desired, RObj (OUnstructured found)) # t" "(q, x) \<in> set t" "runs (adoptVM L ws desired found) t r"
    unfolding ensureVM_def runs_bind_sum by (auto simp: runs_client runs_Ret_iff asObj_notFound asObj_Inr split: if_splits)
  then show ?thesis
  proof cases
    case absent
    have "calls (\<lambda>q. \<not> isWrite q) ?pre" by (simp add: quiet_preflightGPU)
    from quiet_tryP[OF this absent(4,3) assms(4)] obtain t1 u t2 where t: "t = t1 @ t2" "runs ?pre t1 (Inr u)"
      "runs (createP toUnstructured (OUnstructured desired)) t2 r" "(q, x) \<in> set t2" by blast
    from t(3,4) have "q = ReqCreate (OUnstructured desired)" by (auto simp: runs_client)
    with absent(1,2) t(1,2) show ?thesis by (intro disjI1 exI[of _ e] exI[of _ t1]) auto
  next
    case present
    have "set t \<subseteq> set tr" "(vmGet desired, RObj (OUnstructured found)) \<in> set tr" using present(1) by auto
    with adoptVM_write[OF assms(1) present(3,2) assms(4)] vmUpdate_mono[of L ws _ found t q tr] show ?thesis by blast
  qed
qed

text \<open>
  C5. A VirtualMachine is written safely. Every write of the step that creates or updates the VirtualMachine of a
  workspace is one of two. It is the creation of the desired object, after the read reported that there is none,
  and for Windows after the GPU preflight succeeded. Or it replaces the spec, and only the spec, of the object last
  read, which has the UID of the object found first, is not being deleted and differs from the desired one; for
  Windows the object found is controlled by the Workspace and of its generation, and when the GPU hardware changes,
  the object read is halted, its VMI was reported absent and the GPU preflight succeeded.
\<close>

theorem vm_writes_safe:
  assumes "retryOnConflict_doc L" and "runs (ensureVM L ws desired) tr r" and "(q, x) \<in> set tr" and "isWrite q"
  shows "(\<exists>e t. isNotFound e \<and> (vmGet desired, RErr e) \<in> set tr \<and> q = ReqCreate (OUnstructured desired)
      \<and> (if windowsWorkspace ws then set t \<subseteq> set tr \<and> runs (preflightWindowsGPU L ws) t (Inr ()) else True))
    \<or> (\<exists>found d. (vmGet desired, RObj (OUnstructured found)) \<in> set tr
      \<and> (if windowsWorkspace ws then l_isControlledBy L (un_meta found) (w_meta ws)
            \<and> mget (m_annotations (un_meta found)) windowsGenerationAnnotation = generationOf ws else True)
      \<and> preserveLegacyRootDisk desired found = Inr d \<and> vmUpdate L ws d found tr q)"
  using assms by (rule ensureVM_write)

text \<open>A halted VM with one GPU, and the object without it that replaces it.\<close>

definition exWinVM :: "bool \<Rightarrow> json list \<Rightarrow> unstructured" where
  "exWinVM running gpus = \<lparr>un_apiVersion = ''kubevirt.io/v1'', un_kind = ''VirtualMachine'',
     un_meta = (objectMeta ''team'' ''win'')\<lparr>m_uid := ''vm-1'', m_annotations := [(windowsGenerationAnnotation, generationOf exWindows)],
       m_ownerRefs := [ref_controllerRef (w_meta exWindows) GroupVersion ''Workspace'']\<rparr>,
     un_object = [(''spec'', JObj [(''running'', JBool running), (''template'', JObj [(''spec'', JObj [(''domain'', JObj [(''devices'', JObj [(''gpus'', JArr gpus)])])])])])]\<rparr>"

theorem vm_writes_safe_witness:
  "\<exists>tr r q x. runs (ensureVM ref_lib exWindows (exWinVM True [])) tr r \<and> (q, x) \<in> set tr
     \<and> q = ReqUpdate (OUnstructured (withSpec (exWinVM True []) (exWinVM False [JStr ''gpu0''])))
     \<and> (\<exists>found d. (vmGet (exWinVM True []), RObj (OUnstructured found)) \<in> set tr \<and> vmUpdate ref_lib exWindows d found tr q)"
proof -
  let ?p = "ensureVM ref_lib exWindows (exWinVM True [])"
  let ?q = "ReqUpdate (OUnstructured (withSpec (exWinVM True []) (exWinVM False [JStr ''gpu0''])))"
  let ?e = "exec ?p [RObj (OUnstructured (exWinVM False [JStr ''gpu0''])), RObj (OUnstructured (exWinVM False [JStr ''gpu0''])), notFound, ROk]"
  have r: "snd ?e = Some (Inr (exWinVM False [JStr ''gpu0'']))" by code_simp
  then have "?e = (fst ?e, Some (Inr (exWinVM False [JStr ''gpu0''])))" by (metis prod.collapse)
  then have run: "runs ?p (fst ?e) (Inr (exWinVM False [JStr ''gpu0'']))" by (rule exec_runs)
  have "fst ?e \<noteq> []" "last (fst ?e) = (?q, ROk)" by code_simp+
  then have q: "(?q, ROk) \<in> set (fst ?e)" by (metis last_in_set)
  from vm_writes_safe[OF ref_retryOnConflict_doc run q] run q show ?thesis by auto
qed

section \<open>Reset\<close>

abbreviation workspaceVMGet :: "workspace \<Rightarrow> req" where
  "workspaceVMGet ws \<equiv> ReqGet Cached KVirtualMachine (namespaceOf ws, nameOf ws)"

abbreviation vmRunning :: "unstructured \<Rightarrow> bool" where
  "vmRunning vm \<equiv> zeroOr False (nestedBool (un_object vm) [''spec'', ''running''])"

text \<open>The workspace a reset continues with: a Windows workspace gets a new generation and loses its provisioning marks.\<close>

definition regenerated :: "workspace \<Rightarrow> string \<Rightarrow> workspace" where
  "regenerated ws u = (if windowsWorkspace ws
     then dropAnnotation (dropAnnotation (withGeneration ws u) windowsProvisionedGeneration) windowsDetachingGeneration else ws)"

text \<open>The writes a reset may issue, by what was read before in the same pass.\<close>

inductive reset_write :: "lib \<Rightarrow> workspace \<Rightarrow> trace \<Rightarrow> req \<Rightarrow> bool" for L :: lib and ws :: workspace and tr :: trace where
  halt: "(workspaceVMGet ws, RObj (OUnstructured vm)) \<in> set tr \<Longrightarrow> windowsWorkspace ws \<Longrightarrow> m_deletion (un_meta vm) = None \<Longrightarrow> vmRunning vm
     \<Longrightarrow> setNested (un_object vm) [''spec'', ''running''] (JBool False) = Some ob
     \<Longrightarrow> reset_write L ws tr (ReqUpdate (OUnstructured (vm\<lparr>un_object := ob\<rparr>)))"
| delete: "(workspaceVMGet ws, RObj (OUnstructured vm)) \<in> set tr \<Longrightarrow> m_deletion (un_meta vm) = None
     \<Longrightarrow> (if windowsWorkspace ws then \<not> vmRunning vm \<and> (\<exists>e. isNotFound e \<and> (vmiGet ws, RErr e) \<in> set tr) else True)
     \<Longrightarrow> reset_write L ws tr (ReqDelete (OUnstructured vm) [Foreground])"
| secret: "(workspaceVMGet ws, RErr e) \<in> set tr \<Longrightarrow> isNotFound e \<Longrightarrow> windowsWorkspace ws
     \<Longrightarrow> (winSecretGet L ws, RObj (OSecret s)) \<in> set tr \<Longrightarrow> l_isControlledBy L (sec_meta s) (w_meta ws)
     \<Longrightarrow> reset_write L ws tr (ReqDelete (OSecret s) [])"
| consume: "(workspaceVMGet ws, RErr e) \<in> set tr \<Longrightarrow> isNotFound e
     \<Longrightarrow> reset_write L ws tr (ReqUpdate (OWorkspace (consumeReset (regenerated ws u))))"

inductive_cases reset_write_workspaceE: "reset_write L ws tr (ReqUpdate (OWorkspace w))"

lemma deleteVM_write:
  "runs (deleteVM vm) tr r \<Longrightarrow> (q, x) \<in> set tr \<Longrightarrow> m_deletion (un_meta vm) = None \<and> q = ReqDelete (OUnstructured vm) [Foreground]"
  unfolding deleteVM_def by (auto simp: runs_bind_sum runs_client runs_Ret_iff split: if_splits)

lemma haltVM_write:
  "runs (haltVM vm) tr r \<Longrightarrow> (q, x) \<in> set tr \<Longrightarrow>
     \<exists>ob. setNested (un_object vm) [''spec'', ''running''] (JBool False) = Some ob \<and> q = ReqUpdate (OUnstructured (vm\<lparr>un_object := ob\<rparr>))"
  unfolding haltVM_def by (auto simp: runs_ask runs_tryP runs_Ret_iff split: option.splits)

lemma resetExisting_write:
  assumes "runs (resetExisting ws vm) tr r" and "(q, x) \<in> set tr" and "isWrite q" and "(workspaceVMGet ws, RObj (OUnstructured vm)) \<in> set tr'"
    and "set tr \<subseteq> set tr'"
  shows "reset_write L ws tr' q"
proof (cases "windowsWorkspace ws \<and> m_deletion (un_meta vm) = None")
  case False
  then have "runs (deleteVM vm) tr r" using assms(1) by (auto simp: resetExisting_def)
  from deleteVM_write[OF this assms(2)] False assms(4) show ?thesis by (auto intro: reset_write.delete)
next
  case True
  show ?thesis
  proof (cases "vmRunning vm")
    case running: True
    then have "runs (haltVM vm) tr r" using True assms(1) by (simp add: resetExisting_def)
    from haltVM_write[OF this assms(2)] True running assms(4) show ?thesis by (auto intro: reset_write.halt)
  next
    case halted: False
    have "resetExisting ws vm = bind (getVMI ws) (\<lambda>g. case g of Inr vmi \<Rightarrow> Ret (Inr (seconds 5, True))
             | Inl e \<Rightarrow> if isNotFound e then deleteVM vm else Ret (Inl e))"
      by (simp only: resetExisting_def True halted simp_thms if_True if_False)
    with assms(1) obtain e t where e: "isNotFound e" "tr = (vmiGet ws, RErr e) # t" "runs (deleteVM vm) t r" "(q, x) \<in> set t"
      using assms(2,3) by (auto simp: runs_bind_sum runs_getVMI runs_Ret_iff asObj_notFound split: if_splits)
    then have "(vmiGet ws, RErr e) \<in> set tr'" using assms(5) by auto
    with deleteVM_write[OF e(3,4)] e(1) True halted assms(4) show ?thesis by (auto intro!: reset_write.delete)
  qed
qed

lemma regenerate_result: "runs (resetWindowsGeneration L ws) tr (w, Inr ()) \<Longrightarrow> \<exists>u. w = regenerated ws u"
  using restart_result[of L ws tr w] by (cases "windowsWorkspace ws") (auto simp: regenerated_def resetWindowsGeneration_def runs_Ret_iff)

lemma regenerate_write:
  assumes "runs (resetWindowsGeneration L ws) tr y" and "(q, x) \<in> set tr" and "isWrite q"
  shows "windowsWorkspace ws \<and> (\<exists>s. (winSecretGet L ws, RObj (OSecret s)) \<in> set tr \<and> l_isControlledBy L (sec_meta s) (w_meta ws) \<and> q = ReqDelete (OSecret s) [])"
proof -
  have quiet: "calls (\<lambda>q. \<not> isWrite q) (freshGeneration ws)"
    unfolding freshGeneration_def newUUID_def by (auto intro!: calls_bind)
  from assms(1,2) have w: "windowsWorkspace ws" by (auto simp: resetWindowsGeneration_def runs_Ret_iff split: if_splits)
  with assms(1) have "runs (bind (getP Cached KSecret toSecret (namespaceOf ws) (windowsBootstrapSecretName L ws)) (\<lambda>g. case g of
       Inl e \<Rightarrow> if isNotFound e then freshGeneration ws else Ret (ws, Inl e)
     | Inr secret \<Rightarrow> if \<not> l_isControlledBy L (sec_meta secret) (w_meta ws)
         then Ret (ws, Inl (Errorf ''windows bootstrap Secret is owned by another resource''))
         else bind (deleteP (OSecret secret) []) (\<lambda>r. case r of Inl e \<Rightarrow> Ret (ws, Inl e) | Inr _ \<Rightarrow> freshGeneration ws))) tr y"
    by (simp add: resetWindowsGeneration_def)
  moreover have "runs (freshGeneration ws) t y \<Longrightarrow> (q, x) \<notin> set t" for t using no_writes[OF quiet _ assms(3)] by blast
  ultimately show ?thesis using assms(2,3) w
    unfolding runs_bind_sum by (auto simp: runs_client runs_Ret_iff asObj_Inr runs_bind_sum split: if_splits)
qed

lemma handleReset_requested:
  "mhas (annotationsOf ws) AnnotationReset \<Longrightarrow> handleReset L ws = bind (getP Cached KVirtualMachine toUnstructured (namespaceOf ws) (nameOf ws)) (\<lambda>g. case g of
        Inr found \<Rightarrow> keepW ws (resetExisting ws found)
      | Inl e \<Rightarrow> if \<not> isNotFound e then Ret (ws, Inl e)
          else tryW (resetWindowsGeneration L ws) (\<lambda>ws _.
            tryW (updateWorkspaceW (consumeReset ws)) (\<lambda>ws _. Ret (ws, Inr (seconds 3, True)))))"
  by (simp only: handleReset_def simp_thms if_False)

lemma handleReset_write:
  assumes "runs (handleReset L ws) tr y" and "(q, x) \<in> set tr" and "isWrite q"
  shows "mhas (annotationsOf ws) AnnotationReset \<and> reset_write L ws tr q"
proof -
  from assms(1,2) have a: "mhas (annotationsOf ws) AnnotationReset" by (auto simp: handleReset_def runs_Ret_iff split: if_splits)
  let ?k = "tryW (resetWindowsGeneration L ws) (\<lambda>ws _. tryW (updateWorkspaceW (consumeReset ws)) (\<lambda>ws _. Ret (ws, Inr (seconds 3, True))))"
  from a assms consider (present) vm t r where "tr = (workspaceVMGet ws, RObj (OUnstructured vm)) # t" "runs (resetExisting ws vm) t r" "(q, x) \<in> set t"
    | (absent) e t where "isNotFound e" "tr = (workspaceVMGet ws, RErr e) # t" "runs ?k t y" "(q, x) \<in> set t"
    unfolding handleReset_requested[OF a] runs_bind_sum
    by (auto simp: runs_client runs_keepW runs_Ret_iff asObj_notFound asObj_Inr split: if_splits)
  then have "reset_write L ws tr q"
  proof cases
    case present
    show ?thesis by (rule resetExisting_write[OF present(2,3) assms(3)]) (use present(1) in auto)
  next
    case absent
    have vm: "(workspaceVMGet ws, RErr e) \<in> set tr" using absent(2) by simp
    from absent(3,4) consider (regenerate) t1 y1 where "runs (resetWindowsGeneration L ws) t1 y1" "(q, x) \<in> set t1" "set t1 \<subseteq> set t"
      | (consume) t1 w t2 y2 where "runs (resetWindowsGeneration L ws) t1 (w, Inr ())" "runs (updateWorkspaceW (consumeReset w)) t2 y2" "(q, x) \<in> set t2"
      unfolding runs_tryW by (auto simp: runs_Ret_iff)
    then show ?thesis
    proof cases
      case regenerate
      have "set t1 \<subseteq> set tr" using regenerate(3) absent(2) by auto
      with regenerate_write[OF regenerate(1,2) assms(3)] absent(1) vm show ?thesis by (blast intro: reset_write.secret)
    next
      case consume
      from runs_updateWorkspaceW[OF consume(2)] consume(3) regenerate_result[OF consume(1)] absent(1) vm show ?thesis
        by (auto intro: reset_write.consume)
    qed
  qed
  with a show ?thesis by blast
qed

text \<open>
  C3. A reset destroys only what it may. A pass writes nothing unless the workspace carries the reset annotation.
  The VirtualMachine is deleted, in the foreground, only as it was read and while it is not already being deleted;
  a Windows one only when it is not set to run and its VMI was reported absent, and otherwise a running one is only
  switched off. The bootstrap Secret is deleted, if the Workspace controls it, and the annotation is cleared only
  after the VirtualMachine was reported absent; the Windows workspace then has a new generation and no marks of the old one.
\<close>

theorem reset_writes_safe:
  assumes "runs (handleReset L ws) tr y" and "(q, x) \<in> set tr" and "isWrite q"
  shows "mhas (annotationsOf ws) AnnotationReset \<and> reset_write L ws tr q"
  using assms by (rule handleReset_write)

definition exReset :: workspace where
  "exReset = setAnnotation exWindows AnnotationReset ''true''"

theorem reset_writes_safe_witness:
  "\<exists>tr y x. runs (handleReset ref_lib exReset) tr y \<and> (ReqDelete (OUnstructured (exWinVM False [])) [Foreground], x) \<in> set tr
     \<and> reset_write ref_lib exReset tr (ReqDelete (OUnstructured (exWinVM False [])) [Foreground])"
proof -
  let ?e = "exec (handleReset ref_lib exReset) [RObj (OUnstructured (exWinVM False [])), notFound, ROk]"
  have "snd ?e = Some (exReset, Inr (seconds 5, True))" by code_simp
  then have "?e = (fst ?e, Some (exReset, Inr (seconds 5, True)))" by (metis prod.collapse)
  then have run: "runs (handleReset ref_lib exReset) (fst ?e) (exReset, Inr (seconds 5, True))" by (rule exec_runs)
  have "fst ?e \<noteq> []" "last (fst ?e) = (ReqDelete (OUnstructured (exWinVM False [])) [Foreground], ROk)" by code_simp+
  then have q: "(ReqDelete (OUnstructured (exWinVM False [])) [Foreground], ROk) \<in> set (fst ?e)" by (metis last_in_set)
  from reset_writes_safe[OF run q] run q show ?thesis by auto
qed

section \<open>A reset completes\<close>

text \<open>
  The objects of one workspace as an API server without failures keeps them: a foreground deletion marks the
  VirtualMachine. Between two passes KubeVirt removes the VMI of a machine that its spec keeps halted, by
  \<open>spec.running\<close> or, without that field, by the run strategy \<open>Halted\<close>, and no other VMI of an unmarked machine; the
  garbage collector removes a marked machine with its VMI.
\<close>

record resetCluster =
  c_ws :: workspace
  c_vm :: "unstructured option"
  c_vmi :: "unstructured option"
  c_secret :: "secret option"
  c_uuid :: string

definition stored :: "('a \<Rightarrow> kobj) \<Rightarrow> 'a option \<Rightarrow> resp" where
  "stored con v = (case v of None \<Rightarrow> notFound | Some x \<Rightarrow> RObj (con x))"

definition markDeleted :: "unstructured \<Rightarrow> unstructured" where
  "markDeleted vm = vm\<lparr>un_meta := (un_meta vm)\<lparr>m_deletion := Some 0\<rparr>\<rparr>"

definition resetApi :: "resetCluster \<Rightarrow> req \<Rightarrow> resp \<times> resetCluster" where
  "resetApi c q = (case q of
     ReqGet rd k key \<Rightarrow> (if k = KVirtualMachine then stored OUnstructured (c_vm c) else if k = KVirtualMachineInstance then stored OUnstructured (c_vmi c)
        else if k = KSecret then stored OSecret (c_secret c) else RErr badResponse, c)
   | ReqUpdate (OWorkspace w) \<Rightarrow> (RObj (OWorkspace w), c\<lparr>c_ws := w\<rparr>)
   | ReqUpdate (OUnstructured v) \<Rightarrow> (RObj (OUnstructured v), c\<lparr>c_vm := Some v\<rparr>)
   | ReqDelete (OUnstructured v) opts \<Rightarrow> (ROk, c\<lparr>c_vm := map_option markDeleted (c_vm c)\<rparr>)
   | ReqDelete (OSecret s) opts \<Rightarrow> (ROk, c\<lparr>c_secret := None\<rparr>)
   | ReqUUID \<Rightarrow> (RStr (c_uuid c), c)
   | _ \<Rightarrow> (RErr badResponse, c))"

definition settle :: "resetCluster \<Rightarrow> resetCluster" where
  "settle c = (case c_vm c of None \<Rightarrow> c\<lparr>c_vmi := None\<rparr>
     | Some vm \<Rightarrow> if m_deletion (un_meta vm) \<noteq> None then c\<lparr>c_vm := None, c_vmi := None\<rparr>
         else if vmHalted vm then c\<lparr>c_vmi := None\<rparr> else c)"

definition resetPass :: "lib \<Rightarrow> resetCluster \<Rightarrow> resetCluster" where
  "resetPass L c = settle (snd (run resetApi (handleReset L (c_ws c)) c))"

definition resetDone :: "resetCluster \<Rightarrow> resetCluster" where
  "resetDone c = c\<lparr>c_ws := consumeReset (regenerated (c_ws c) (c_uuid c)), c_vm := None, c_vmi := None,
     c_secret := (if windowsWorkspace (c_ws c) then None else c_secret c)\<rparr>"

definition secretOwned :: "lib \<Rightarrow> resetCluster \<Rightarrow> bool" where
  "secretOwned L c = (case c_secret c of None \<Rightarrow> True | Some s \<Rightarrow> l_isControlledBy L (sec_meta s) (w_meta (c_ws c)))"

lemma run_tryW: "run h (tryW p k) w = (case run h p w of ((ws, Inl e), w') \<Rightarrow> ((ws, Inl e), w') | ((ws, Inr x), w') \<Rightarrow> run h (k ws x) w')"
  by (auto simp: tryW_def run_bind split: prod.split sum.split)

lemma run_keepW: "run h (keepW ws p) w = (case run h p w of (r, w') \<Rightarrow> ((ws, r), w'))"
  by (auto simp: keepW_def mapP_def run_bind split: prod.split)

lemma run_ask: "run h (ask q dec) w = (case h w q of (r, w') \<Rightarrow> (dec r, w'))"
  by (simp add: ask_def)

lemmas run_client = client_defs run_ask run_bind run_tryW run_keepW

lemma resetApi_simps:
  "resetApi c (ReqGet rd KVirtualMachine key) = (stored OUnstructured (c_vm c), c)"
  "resetApi c (ReqGet rd KVirtualMachineInstance key) = (stored OUnstructured (c_vmi c), c)"
  "resetApi c (ReqGet rd KSecret key) = (stored OSecret (c_secret c), c)"
  "resetApi c (ReqUpdate (OWorkspace w)) = (RObj (OWorkspace w), c\<lparr>c_ws := w\<rparr>)"
  "resetApi c (ReqUpdate (OUnstructured v)) = (RObj (OUnstructured v), c\<lparr>c_vm := Some v\<rparr>)"
  "resetApi c (ReqDelete (OUnstructured v) opts) = (ROk, c\<lparr>c_vm := map_option markDeleted (c_vm c)\<rparr>)"
  "resetApi c (ReqDelete (OSecret s) opts) = (ROk, c\<lparr>c_secret := None\<rparr>)"
  "resetApi c ReqUUID = (RStr (c_uuid c), c)"
  by (simp_all add: resetApi_def)

text \<open>The steps of a pass against this cluster.\<close>

lemma run_getVMI: "run resetApi (getVMI ws) c = (case c_vmi c of None \<Rightarrow> Inl (ApiErr ReasonNotFound ''not found'') | Some v \<Rightarrow> Inr v, c)"
  by (simp add: getVMI_def run_client resetApi_simps stored_def notFound_def split: option.split)

lemma run_getVM: "run resetApi (getP rd KVirtualMachine toUnstructured ns name) c
    = (case c_vm c of None \<Rightarrow> Inl (ApiErr ReasonNotFound ''not found'') | Some v \<Rightarrow> Inr v, c)"
  by (simp add: run_client resetApi_simps stored_def notFound_def split: option.split)

lemma run_update: "run resetApi (updateWorkspaceW w) c = ((w, Inr ()), c\<lparr>c_ws := w\<rparr>)"
  by (simp add: updateWorkspaceW_def run_client resetApi_simps)

lemma run_fresh: "windowsWorkspace ws \<Longrightarrow> run resetApi (freshGeneration ws) c = ((regenerated ws (c_uuid c), Inr ()), c)"
  by (simp add: freshGeneration_def newUUID_def run_client resetApi_simps regenerated_def)

lemma run_regenerate:
  assumes "secretOwned L c" and "ws = c_ws c"
  shows "run resetApi (resetWindowsGeneration L ws) c
    = ((regenerated ws (c_uuid c), Inr ()), if windowsWorkspace ws then c\<lparr>c_secret := None\<rparr> else c)"
proof (cases "windowsWorkspace ws")
  case True
  show ?thesis
  proof (cases "c_secret c")
    case None
    with True show ?thesis unfolding resetWindowsGeneration_def by (simp add: run_bind getP_def run_ask resetApi_simps stored_def notFound_def run_fresh)
  next
    case (Some s)
    with assms True show ?thesis unfolding resetWindowsGeneration_def
      by (simp add: run_bind getP_def deleteP_def run_ask resetApi_simps stored_def run_fresh secretOwned_def)
  qed
qed (simp add: resetWindowsGeneration_def regenerated_def)

lemma pass_gone:
  assumes "mhas (annotationsOf (c_ws c)) AnnotationReset" and "c_vm c = None" and "secretOwned L c"
  shows "resetPass L c = resetDone c"
  unfolding resetPass_def handleReset_requested[OF assms(1)] using assms(2,3)
  by (simp add: run_bind run_tryW run_getVM run_regenerate run_update settle_def resetDone_def)

lemma run_deleteVM: "run resetApi (deleteVM vm) c
    = (Inr (seconds 5, True), if m_deletion (un_meta vm) = None then c\<lparr>c_vm := map_option markDeleted (c_vm c)\<rparr> else c)"
  by (simp add: deleteVM_def run_client resetApi_simps)

lemma settle_deleted: "settle (c\<lparr>c_vm := Some (markDeleted vm)\<rparr>) = c\<lparr>c_vm := None, c_vmi := None\<rparr>"
  by (simp add: settle_def markDeleted_def)

text \<open>Whether a Windows machine has to be switched off first.\<close>

definition mustHalt :: "resetCluster \<Rightarrow> unstructured \<Rightarrow> bool" where
  "mustHalt c vm \<longleftrightarrow> windowsWorkspace (c_ws c) \<and> m_deletion (un_meta vm) = None \<and> (vmRunning vm \<or> c_vmi c \<noteq> None)"

lemma pass_delete:
  assumes "mhas (annotationsOf (c_ws c)) AnnotationReset" and "c_vm c = Some vm" and "\<not> mustHalt c vm"
  shows "resetPass L c = c\<lparr>c_vm := None, c_vmi := None\<rparr>"
proof -
  have "run resetApi (resetExisting (c_ws c) vm) c = run resetApi (deleteVM vm) c"
    using assms(3) by (auto simp: resetExisting_def mustHalt_def run_bind run_getVMI)
  then have "resetPass L c = settle (if m_deletion (un_meta vm) = None then c\<lparr>c_vm := Some (markDeleted vm)\<rparr> else c)"
    unfolding resetPass_def handleReset_requested[OF assms(1)] using assms(2)
    by (simp add: run_bind run_keepW run_getVM run_deleteVM)
  then show ?thesis using assms(2) by (simp add: settle_deleted) (simp add: settle_def)
qed

lemma running_off:
  assumes "vmRunning vm"
  shows "\<exists>ob. setNested (un_object vm) [''spec'', ''running''] (JBool False) = Some ob \<and> \<not> vmRunning (vm\<lparr>un_object := ob\<rparr>)
     \<and> vmHalted (vm\<lparr>un_object := ob\<rparr>)"
proof -
  from assms obtain y where "map_of (un_object vm) ''spec'' = Some (JObj y)"
    by (auto simp: nestedBool_def split: option.splits json.splits)
  then show ?thesis by (simp add: nestedBool_def vmHalted_def)
qed

text \<open>
  A Windows machine whose spec neither sets \<open>running\<close> nor halts it, as one with the run strategy \<open>Always\<close>: the pass does
  not take it for running, so it does not switch it off, and waits for its VMI.
\<close>

definition unhaltable :: "resetCluster \<Rightarrow> unstructured \<Rightarrow> bool" where
  "unhaltable c vm \<longleftrightarrow> windowsWorkspace (c_ws c) \<and> m_deletion (un_meta vm) = None \<and> \<not> vmRunning vm \<and> \<not> vmHalted vm \<and> c_vmi c \<noteq> None"

definition resetBlocked :: "resetCluster \<Rightarrow> bool" where
  "resetBlocked c \<longleftrightarrow> (case c_vm c of None \<Rightarrow> False | Some vm \<Rightarrow> unhaltable c vm)"

lemma unhaltable_mustHalt: "unhaltable c vm \<Longrightarrow> mustHalt c vm"
  by (simp add: unhaltable_def mustHalt_def)

lemma pass_waits:
  assumes "mhas (annotationsOf (c_ws c)) AnnotationReset" and "mustHalt c vm" and "c_vm c = Some vm" and "\<not> vmRunning vm"
  shows "resetPass L c = settle c"
proof -
  from assms(2,4) obtain v where "c_vmi c = Some v" by (auto simp: mustHalt_def)
  with assms show ?thesis unfolding resetPass_def handleReset_requested[OF assms(1)]
    by (simp add: run_bind run_keepW run_getVM run_getVMI resetExisting_def mustHalt_def)
qed

lemma pass_blocked:
  assumes "mhas (annotationsOf (c_ws c)) AnnotationReset" and "resetBlocked c"
  shows "resetPass L c = c"
proof -
  from assms(2) obtain vm where vm: "c_vm c = Some vm" "unhaltable c vm" by (auto simp: resetBlocked_def split: option.splits)
  then have "resetPass L c = settle c" using assms(1) by (intro pass_waits unhaltable_mustHalt) (auto simp: unhaltable_def)
  with vm show ?thesis by (simp add: settle_def unhaltable_def)
qed

lemma pass_halt:
  assumes "mhas (annotationsOf (c_ws c)) AnnotationReset" and "c_vm c = Some vm" and "mustHalt c vm" and "\<not> unhaltable c vm"
  shows "\<exists>vm'. resetPass L c = c\<lparr>c_vm := Some vm', c_vmi := None\<rparr> \<and> \<not> mustHalt (resetPass L c) vm'"
proof (cases "vmRunning vm")
  case True
  from running_off[OF this] obtain ob where ob: "setNested (un_object vm) [''spec'', ''running''] (JBool False) = Some ob"
    "\<not> vmRunning (vm\<lparr>un_object := ob\<rparr>)" "vmHalted (vm\<lparr>un_object := ob\<rparr>)" by blast
  have "resetPass L c = c\<lparr>c_vm := Some (vm\<lparr>un_object := ob\<rparr>), c_vmi := None\<rparr>"
    unfolding resetPass_def handleReset_requested[OF assms(1)] using assms(2,3) True ob
    by (simp add: run_bind run_keepW run_getVM resetExisting_def mustHalt_def haltVM_def tryP_def run_ask resetApi_simps settle_def)
  with ob show ?thesis by (auto simp: mustHalt_def)
next
  case False
  with assms have "vmHalted vm" "m_deletion (un_meta vm) = None" by (auto simp: mustHalt_def unhaltable_def)
  with False assms have "resetPass L c = c\<lparr>c_vm := Some vm, c_vmi := None\<rparr>" by (simp add: pass_waits settle_def)
  with False show ?thesis by (auto simp: mustHalt_def)
qed

lemma secretOwned_vm [simp]: "secretOwned L (c\<lparr>c_vm := a, c_vmi := b\<rparr>) = secretOwned L c"
  by (simp add: secretOwned_def cong: option.case_cong)

lemma resetDone_vm [simp]: "resetDone (c\<lparr>c_vm := a, c_vmi := b\<rparr>) = resetDone c"
  by (simp add: resetDone_def)

lemma consumeReset_done: "\<not> mhas (annotationsOf (consumeReset ws)) AnnotationReset"
  by (simp add: consumeReset_def dropAnnotation_def)

lemma reset_from_stopped:
  assumes "mhas (annotationsOf (c_ws c)) AnnotationReset" and "secretOwned L c"
    and "case c_vm c of None \<Rightarrow> True | Some vm \<Rightarrow> \<not> mustHalt c vm"
  shows "\<exists>n \<le> 2. (resetPass L ^^ n) c = resetDone c"
proof (cases "c_vm c")
  case None
  then have "(resetPass L ^^ 1) c = resetDone c" using pass_gone assms by simp
  then show ?thesis by (intro exI[of _ 1]) simp
next
  case (Some vm)
  let ?c = "c\<lparr>c_vm := None, c_vmi := None\<rparr>"
  from Some assms have "resetPass L c = ?c" by (intro pass_delete) auto
  moreover have "resetPass L ?c = resetDone ?c" by (rule pass_gone) (use assms in simp_all)
  ultimately have "(resetPass L ^^ 2) c = resetDone c" by (simp add: numeral_2_eq_2)
  then show ?thesis by (intro exI[of _ 2]) simp
qed

lemma reset_unblocked:
  assumes "mhas (annotationsOf (c_ws c)) AnnotationReset" and "secretOwned L c" and "\<not> resetBlocked c"
  shows "\<exists>n \<le> 3. (resetPass L ^^ n) c = resetDone c"
proof (cases "case c_vm c of None \<Rightarrow> True | Some vm \<Rightarrow> \<not> mustHalt c vm")
  case True
  from reset_from_stopped[OF assms(1,2) True] obtain n where "n \<le> 2" "(resetPass L ^^ n) c = resetDone c" by blast
  then show ?thesis by (intro exI[of _ n]) simp
next
  case False
  then obtain vm where vm: "c_vm c = Some vm" "mustHalt c vm" by (auto split: option.splits)
  with assms(3) have "\<not> unhaltable c vm" by (simp add: resetBlocked_def)
  from pass_halt[OF assms(1) vm this] obtain vm' where vm': "resetPass L c = c\<lparr>c_vm := Some vm', c_vmi := None\<rparr>" "\<not> mustHalt (resetPass L c) vm'" by blast
  have "\<exists>n \<le> 2. (resetPass L ^^ n) (resetPass L c) = resetDone (resetPass L c)"
    by (rule reset_from_stopped) (use assms vm'(2) in \<open>simp_all add: vm'(1)\<close>)
  then obtain n where "n \<le> 2" "(resetPass L ^^ n) (resetPass L c) = resetDone c" by (auto simp: vm'(1))
  then have "n \<le> 2" "(resetPass L ^^ Suc n) c = resetDone c" by (simp_all only: funpow_Suc_right o_apply)
  then show ?thesis by (intro exI[of _ "Suc n"]) simp
qed

text \<open>
  C4. When a reset completes. Take any workspace that carries the reset annotation, of any guest, in any state of its
  VirtualMachine (absent, halted, running, being deleted) and its VMI, whose bootstrap Secret, if there is one, it controls. Let
  the API server answer without failures, KubeVirt remove the VMI of a halted machine and the garbage collector remove
  a machine marked for deletion with its VMI, between passes. Then exactly one state never ends: a Windows workspace with a VMI whose machine is not
  being deleted, does not set \<open>spec.running\<close> to true and yet is not halted, because it leaves the field out and has a
  run strategy other than \<open>Halted\<close>. There every pass waits for the VMI and changes nothing. From every other state
  at most three passes lead to the end of the reset: the machine and its VMI are gone, the annotation is consumed,
  and a Windows workspace has its Secret removed and a new generation.
\<close>

theorem reset_completes:
  assumes "mhas (annotationsOf (c_ws c)) AnnotationReset" and "secretOwned L c"
  shows "if resetBlocked c then \<forall>n. (resetPass L ^^ n) c = c
     else \<exists>n. n \<le> 3 \<and> (resetPass L ^^ n) c = resetDone c \<and> \<not> mhas (annotationsOf (c_ws (resetDone c))) AnnotationReset"
proof (cases "resetBlocked c")
  case True
  have "(resetPass L ^^ n) c = c" for n by (induction n) (simp_all add: pass_blocked[OF assms(1) True])
  with True show ?thesis by simp
next
  case False
  have "\<not> mhas (annotationsOf (c_ws (resetDone c))) AnnotationReset" using consumeReset_done by (simp add: resetDone_def)
  with False reset_unblocked[OF assms False] show ?thesis by auto
qed

definition exCluster :: resetCluster where
  "exCluster = \<lparr>c_ws = exReset, c_vm = Some (exWinVM True []), c_vmi = Some exVMI, c_secret = Some exWinSecret, c_uuid = ''g2''\<rparr>"

text \<open>The same machine kept up by its run strategy.\<close>

definition exAlways :: resetCluster where
  "exAlways = exCluster\<lparr>c_vm := Some ((exWinVM True [])\<lparr>un_object := [(''spec'', JObj [(''runStrategy'', JStr ''Always'')])]\<rparr>)\<rparr>"

theorem reset_completes_witness:
  "mhas (annotationsOf (c_ws exCluster)) AnnotationReset \<and> secretOwned ref_lib exCluster
     \<and> (\<exists>n. n \<le> 3 \<and> (resetPass ref_lib ^^ n) exCluster = resetDone exCluster) \<and> c_vm (resetDone exCluster) = None
     \<and> mhas (annotationsOf (c_ws exAlways)) AnnotationReset \<and> (\<forall>n. (resetPass ref_lib ^^ n) exAlways = exAlways)"
proof -
  have h: "mhas (annotationsOf (c_ws exCluster)) AnnotationReset" "secretOwned ref_lib exCluster" "\<not> resetBlocked exCluster" by code_simp+
  have a: "mhas (annotationsOf (c_ws exAlways)) AnnotationReset" "secretOwned ref_lib exAlways" "resetBlocked exAlways" by code_simp+
  from reset_completes[OF h(1,2)] h have "\<exists>n. n \<le> 3 \<and> (resetPass ref_lib ^^ n) exCluster = resetDone exCluster" by auto
  moreover from reset_completes[OF a(1,2)] a have "\<forall>n. (resetPass ref_lib ^^ n) exAlways = exAlways" by simp
  moreover have "c_vm (resetDone exCluster) = None" by (simp add: resetDone_def)
  ultimately show ?thesis using h a by blast
qed

section \<open>Readiness\<close>

abbreviation vmiPhase :: "unstructured \<Rightarrow> string" where
  "vmiPhase vmi \<equiv> zeroOr [] (nestedString (un_object vmi) [''status'', ''phase''])"

abbreviation agentConnected :: "unstructured \<Rightarrow> bool" where
  "agentConnected vmi \<equiv> list_ex (isConditionTrue ''AgentConnected'') (zeroOr [] (nestedSlice (un_object vmi) [''status'', ''conditions'']))"

lemma runs_holds:
  "runs (bind p (\<lambda>g. Ret (case g of Inl e \<Rightarrow> False | Inr v \<Rightarrow> P v))) tr True \<Longrightarrow> \<exists>v. runs p tr (Inr v) \<and> P v"
proof -
  assume "runs (bind p (\<lambda>g. Ret (case g of Inl e \<Rightarrow> False | Inr v \<Rightarrow> P v))) tr True"
  then obtain g where "runs p tr g" "case g of Inl e \<Rightarrow> False | Inr v \<Rightarrow> P v" by (auto simp: runs_bind runs_Ret_iff)
  then show ?thesis by (cases g) auto
qed

lemma vmiIsRunning_True:
  "runs (vmiIsRunning ws) tr True \<Longrightarrow> \<exists>vmi. (vmiGet ws, RObj (OUnstructured vmi)) \<in> set tr \<and> vmiPhase vmi = ''Running''"
  unfolding vmiIsRunning_def by (drule runs_holds) (auto simp: runs_getVMI asObj_Inr)

lemma agentConnected_True:
  "runs (windowsAgentConnected ws) tr True \<Longrightarrow> \<exists>vmi. (vmiGet ws, RObj (OUnstructured vmi)) \<in> set tr \<and> agentConnected vmi"
  unfolding windowsAgentConnected_def by (drule runs_holds) (auto simp: runs_getVMI asObj_Inr)

lemma provisioning_True:
  assumes "runs (reconcileWindowsProvisioning L hasAgent ws pod) tr (ws', Inr True)"
  shows "ws' = ws \<and> provisioned ws \<and> \<not> detaching ws"
proof -
  have "\<not> runs (bind (guestFinished L ws p) (\<lambda>r. case r of
            Inl e \<Rightarrow> Ret (ws, Inl e)
          | Inr complete \<Rightarrow> if \<not> complete then Ret (ws, Inr False)
              else bind (updateWorkspaceW (markProvisioned ws)) (\<lambda>(ws', u). Ret (ws', case u of Inl e \<Rightarrow> Inl e | Inr _ \<Rightarrow> Inr False))))
          tr (ws', Inr True)" for p
    by (auto simp: runs_bind_sum runs_bind runs_Ret_iff split: if_splits prod.splits sum.split_asm)
      (metis sum.exhaust unit.exhaust)
  with assms show ?thesis unfolding reconcileWindowsProvisioning_def by (auto simp: runs_Ret_iff split: if_splits option.splits)
qed

lemma windowsReady_True:
  assumes "runs (windowsReady L hasAgent ws pod running) tr (ws', Inr True)"
  shows "ws' = ws \<and> running \<and> \<not> stopped ws \<and> \<not> rebooting ws \<and> provisioned ws \<and> \<not> detaching ws
    \<and> (\<exists>vmi. (vmiGet ws, RObj (OUnstructured vmi)) \<in> set tr \<and> agentConnected vmi)"
proof -
  from assms have s: "\<not> stopped ws" "\<not> rebooting ws" "running" unfolding windowsReady_def by (auto simp: runs_Ret_iff split: if_splits)
  with assms obtain t1 b t2 where t: "runs (windowsAgentConnected ws) t1 b" "tr = t1 @ t2"
    "runs (if \<not> b then Ret (ws, Inr False) else reconcileWindowsProvisioning L hasAgent ws pod) t2 (ws', Inr True)"
    unfolding windowsReady_def by (auto simp: runs_bind)
  from t(3) have b: b by (auto simp: runs_Ret_iff split: if_splits)
  with t provisioning_True[of L hasAgent ws pod t2 ws'] agentConnected_True[of ws t1] s show ?thesis by auto
qed

text \<open>
  C6. A VM workspace is reported ready only on evidence. When the observation of a VirtualMachine counts a ready replica,
  it counts one; the pod was found by the label of the machine and its Ready condition is true, and the VMI was read in
  phase Running. A Windows workspace is in addition provisioned in its current generation, not detaching,
  neither stopped nor rebooting, and its VMI reported the guest agent as connected. The management identity of the machine was
  reconciled without an error before.
\<close>

theorem vm_ready_on_evidence:
  assumes "runs (observeVM L r ws vm) tr (ws', Inr (n, pod))" and "n \<noteq> 0"
  shows "n = 1 \<and> podReady pod \<and> (\<exists>t. set t \<subseteq> set tr \<and> runs (podByLabel L (namespaceOf ws) (LabelKubevirtVM @ ''='' @ nameOf ws)) t (Inr pod))
    \<and> (\<exists>vmi. (vmiGet ws, RObj (OUnstructured vmi)) \<in> set tr \<and> vmiPhase vmi = ''Running'')
    \<and> (if windowsWorkspace ws then \<not> stopped ws \<and> \<not> rebooting ws \<and> provisioned ws \<and> \<not> detaching ws
         \<and> (\<exists>vmi. (vmiGet ws, RObj (OUnstructured vmi)) \<in> set tr \<and> agentConnected vmi) else True)
    \<and> (\<exists>t. set t \<subseteq> set tr \<and> runs (reconcileManagementIdentity L (r_reader r) (r_managementNamespace r) ws vm) t (ws', Inr ()))"
proof -
  let ?ready = "\<lambda>running pod. if windowsWorkspace ws then windowsReady L (r_guestAgent r) ws pod running else Ret (ws, Inr running)"
  let ?tail = "\<lambda>pod ws vmiReady. if podReady pod \<and> vmiReady
       then tryW (reconcileManagementIdentity L (r_reader r) (r_managementNamespace r) ws vm) (\<lambda>ws _. Ret (ws, Inr (1, pod)))
       else Ret (ws, Inr (0, pod))"
  from assms(1) obtain t1 p t2 running t3 w vmiReady t4 where
    t1: "runs (podByLabel L (namespaceOf ws) (LabelKubevirtVM @ ''='' @ nameOf ws)) t1 (Inr p)" and t2: "runs (vmiIsRunning ws) t2 running"
    and t3: "runs (?ready running p) t3 (w, Inr vmiReady)" and t4: "runs (?tail p w vmiReady) t4 (ws', Inr (n, pod))" and tr: "tr = t1 @ t2 @ t3 @ t4"
    unfolding observeVM_def runs_tryW runs_keepW runs_bind by auto
  from t4 assms(2) have n: "n = 1" "pod = p" "podReady p" "vmiReady"
    and m: "runs (reconcileManagementIdentity L (r_reader r) (r_managementNamespace r) w vm) t4 (ws', Inr ())"
    by (auto simp: runs_tryW runs_Ret_iff split: if_splits)
  have w: "w = ws \<and> running \<and> (if windowsWorkspace ws then \<not> stopped ws \<and> \<not> rebooting ws \<and> provisioned ws \<and> \<not> detaching ws
         \<and> (\<exists>vmi. (vmiGet ws, RObj (OUnstructured vmi)) \<in> set tr \<and> agentConnected vmi) else True)"
  proof (cases "windowsWorkspace ws")
    case True
    with t3 n(4) have "runs (windowsReady L (r_guestAgent r) ws p running) t3 (w, Inr True)" by simp
    from windowsReady_True[OF this] True tr show ?thesis by auto
  next
    case False
    with t3 n(4) show ?thesis by (simp add: runs_Ret_iff)
  qed
  from vmiIsRunning_True[of ws t2] t2 w tr have "\<exists>vmi. (vmiGet ws, RObj (OUnstructured vmi)) \<in> set tr \<and> vmiPhase vmi = ''Running''" by auto
  moreover have "set t1 \<subseteq> set tr" "set t4 \<subseteq> set tr" using tr by auto
  ultimately show ?thesis using n t1 m w by blast
qed

definition exReconciler :: workspaceReconciler where
  "exReconciler = \<lparr>r_reader = Live, r_guestAgent = True, r_managementNamespace = [], r_containerInitImage = []\<rparr>"

definition exReadyPod :: pod where
  "exReadyPod = exPod\<lparr>pod_conditions := [\<lparr>pc_type = ''Ready'', pc_status = ''True'', pc_reason = [], pc_message = [], pc_lastProbeTime = None,
     pc_lastTransitionTime = None\<rparr>]\<rparr>"

definition exRunning :: unstructured where
  "exRunning = exVMI\<lparr>un_object := [(''status'', JObj [(''phase'', JStr ''Running'')])]\<rparr>"

theorem vm_ready_on_evidence_witness:
  "\<exists>tr ws' pod vmi. runs (observeVM ref_lib exReconciler exManaged exVM) tr (ws', Inr (1, pod)) \<and> podReady pod
     \<and> (vmiGet exManaged, RObj (OUnstructured vmi)) \<in> set tr \<and> vmiPhase vmi = ''Running''"
proof -
  let ?p = "observeVM ref_lib exReconciler exManaged exVM"
  let ?e = "exec ?p [RList [OPod exReadyPod], RObj (OUnstructured exRunning), RObj (OWorkspace exManaged), RObj (OUnstructured exVM)]"
  have "snd ?e = Some (exManaged, Inr (1, Some exReadyPod))" by code_simp
  then have "?e = (fst ?e, Some (exManaged, Inr (1, Some exReadyPod)))" by (metis prod.collapse)
  then have run: "runs ?p (fst ?e) (exManaged, Inr (1, Some exReadyPod))" by (rule exec_runs)
  from vm_ready_on_evidence[OF run] run show ?thesis by fastforce
qed

end
