(* ===== verification/Workspace_Dispatch.thy ===== *)
theory Workspace_Dispatch
  imports Workspace_Controller
begin

text \<open>
  The composition of the Workspace reconciler: which kinds of object a pass may write, by the type of the workspace.
  The interfaces are locales over a set \<open>K\<close> of objects that must not be written; each fixes the kinds a group of
  operations needs, and its lemmas say that the group leaves \<open>K\<close> alone. They are interpreted on the sets of forbidden
  objects of the three workspace types.
\<close>

section \<open>Objects that are not written\<close>

definition spares :: "(kobj \<Rightarrow> bool) \<Rightarrow> req \<Rightarrow> bool" where
  "spares K q = (case q of ReqCreate ob \<Rightarrow> \<not> K ob | ReqUpdate ob \<Rightarrow> \<not> K ob | ReqStatusUpdate ob \<Rightarrow> \<not> K ob
     | ReqDelete ob opts \<Rightarrow> \<not> K ob | _ \<Rightarrow> True)"

lemma spares_simps [simp]:
  "spares K (ReqCreate ob) = (\<not> K ob)" "spares K (ReqUpdate ob) = (\<not> K ob)" "spares K (ReqStatusUpdate ob) = (\<not> K ob)"
  "spares K (ReqDelete ob opts) = (\<not> K ob)" "spares K (ReqGet rd k key)" "spares K (ReqList rd k sc sel)" "spares K ReqNow"
  "spares K ReqUUID" "spares K (ReqRandBytes n)" "spares K (ReqGuestComplete a b c d)" "spares K (ReqGuestStage a b c d)"
  by (simp_all add: spares_def)

lemma spares_quiet: "calls (\<lambda>q. \<not> isWrite q) p \<Longrightarrow> calls (spares K) p"
  by (erule calls_weaken, rename_tac q, case_tac q) (simp_all add: spares_def)

lemmas frame_rules = calls_bind calls_tryP calls_wrapP calls_forE calls_tryW calls_keepW calls_mapP replaceErr_calls calls_retryOnConflict

section \<open>Operations of every workspace\<close>

locale workspace_frame =
  fixes K :: "kobj \<Rightarrow> bool"
  assumes ws_free: "\<not> K (OWorkspace w)" and secret_free: "\<not> K (OSecret s)" and service_free: "\<not> K (OService v)"
begin

lemmas free [simp] = ws_free secret_free service_free

lemma spares_status:
  "retryOnConflict_doc L \<Longrightarrow> calls (spares K) (updateWorkspaceStatus L ws n p)"
  unfolding updateWorkspaceStatus_def windowsStatusConditions_def writeStatus_def by (auto intro!: frame_rules)

lemma spares_notReady: "calls (spares K) (setNotReadyCondition ws reason msg)"
  unfolding setNotReadyCondition_def Let_def by (auto intro!: frame_rules)

lemma spares_service: "calls (spares K) (reconcileService L ws t)"
  unfolding reconcileService_def Let_def ensureObject_def agentImageForWorkspace_def imageByRef_def
  by (auto intro!: frame_rules split: sum.split)

lemma spares_readyTime: "retryOnConflict_doc L \<Longrightarrow> calls (spares K) (recordReadyTime L req ws n)"
  unfolding recordReadyTime_def recordReadyAttempt_def by (auto intro!: frame_rules split: option.split)

lemma spares_failure: "calls (spares K) (reportFailure ws reason e)"
  unfolding reportFailure_def by (auto intro: spares_notReady split: gerr.split)

lemma spares_objects:
  assumes "retryOnConflict_doc L" and "calls (spares K) (reconcileWorkload L r ws)"
  shows "calls (spares K) (reconcileObjects L r req ws)"
  unfolding reconcileObjects_def Let_def
  by (auto intro!: frame_rules spares_service spares_status spares_readyTime assms split: prod.split)

lemma spares_containerInit: "calls (spares K) (prepareContainerInit L initImage ws pod)"
  unfolding prepareContainerInit_def containerInitData_def inlineInitData_def referencedInitData_def removeContainerInitSecret_def Let_def
  by (auto intro!: frame_rules split: option.split sum.split prod.split)

lemma spares_prepare: "calls (spares K) (prepareWorkload L initImage ws wl)"
  unfolding prepareWorkload_def by (auto intro!: frame_rules spares_containerInit spares_notReady split: sum.split)

end

section \<open>Container and scratch workspaces\<close>

locale statefulset_frame = workspace_frame +
  assumes statefulset_free: "\<not> K (OStatefulSet w)"
begin

lemma spares_statefulSet: "calls (spares K) (reconcileStatefulSet L initImage ws)"
  unfolding reconcileStatefulSet_def ensureStatefulSet_def ensureObject_def getPod_def Let_def
  by (auto intro!: frame_rules spares_prepare simp: statefulset_free split: sum.split)

end

locale deployment_frame = workspace_frame +
  assumes deployment_free: "\<not> K (ODeployment w)"
begin

lemma spares_deployment: "calls (spares K) (reconcileDeployment L initImage ws)"
  unfolding reconcileDeployment_def ensureDeployment_def ensureObject_def podByLabel_def Let_def
  by (auto intro!: frame_rules spares_prepare simp: deployment_free split: sum.split)

end

section \<open>VM workspaces\<close>

locale vm_frame = workspace_frame +
  assumes unstructured_free: "\<not> K (OUnstructured u)"
begin

lemmas vm_free [simp] = unstructured_free

lemma spares_updateWorkspace: "calls (spares K) (updateWorkspaceW ws)"
  unfolding updateWorkspaceW_def by (auto intro!: frame_rules)

lemma spares_resolve: "calls (spares K) (resolveWindowsProfile L ws img)"
  unfolding resolveWindowsProfile_def snapshotWindows_def storeResolved_def newUUID_def Let_def
  by (auto intro!: frame_rules spares_updateWorkspace split: option.split sum.split prod.split)

lemma spares_agentGeneration: "calls (spares K) (ensureLinuxAgentGeneration ws img)"
  unfolding ensureLinuxAgentGeneration_def newUUID_def
  by (auto intro!: frame_rules spares_updateWorkspace split: option.split)

lemma spares_lifecycle: "calls (spares K) (finishWindowsLifecycle L ws)"
  unfolding finishWindowsLifecycle_def finishWindowsDetach_def finishWindowsReboot_def detachSecret_def
  by (auto intro!: frame_rules spares_updateWorkspace spares_quiet[OF quiet_lifecycle(4)] split: sum.split prod.split)

lemma spares_preflight: "calls (spares K) (preflightWindows L ws)"
  unfolding preflightWindows_def preflightWindowsNode_def preflightWindowsInfrastructure_def checkStateStorage_def singleton_def Let_def
  by (auto intro!: frame_rules spares_quiet[OF quiet_preflightGPU] split: list.split sum.split)

lemma spares_windowsBootstrap: "calls (spares K) (reconcileWindowsBootstrap L ws)"
  unfolding reconcileWindowsBootstrap_def ensureWindowsSecret_def keepBootstrapSecret_def backfillToken_def createBootstrapSecret_def Let_def
  by (auto intro!: frame_rules spares_quiet[OF quiet_imports(1)] spares_quiet[OF quiet_imports(2)] spares_quiet[OF quiet_token] split: sum.split)

lemma spares_disks: "retryOnConflict_doc L \<Longrightarrow> calls (spares K) (claimVMDisks L rd ws)"
  unfolding claimVMDisks_def claimVMDataVolume_def claimAttempt_def takeClaim_def Let_def
  by (auto intro!: frame_rules spares_quiet[OF checkPreviousOwner_calls] split: list.split)

lemma spares_cloudInit: "calls (spares K) (reconcileCloudInitSecret L ws data)"
  unfolding reconcileCloudInitSecret_def removeCloudInitSecret_def Let_def by (auto intro!: frame_rules split: sum.split)

lemma spares_sshKeys: "createOrUpdate_doc L \<Longrightarrow> calls (spares K) (reconcileSSHKeySecret L ws sshKeys)"
  unfolding reconcileSSHKeySecret_def
  by (rule calls_createOrUpdate) (auto simp: mutateSSHKeySecret_def split: kobj.splits sum.splits)

lemma spares_guestBootstrap:
  "retryOnConflict_doc L \<Longrightarrow> createOrUpdate_doc L \<Longrightarrow> calls (spares K) (reconcileVMGuestBootstrap L r ws img)"
  unfolding reconcileVMGuestBootstrap_def linuxSSHKeys_def sshAuthorizedKeysForWorkspace_def
  by (auto intro!: frame_rules spares_preflight spares_windowsBootstrap spares_disks spares_cloudInit spares_sshKeys split: prod.split option.split)

lemma spares_prepareVM:
  "retryOnConflict_doc L \<Longrightarrow> createOrUpdate_doc L \<Longrightarrow> calls (spares K) (prepareVM L r ws)"
  unfolding prepareVM_def lookupVMImage_def imageByRef_def
  by (auto intro!: frame_rules spares_resolve spares_agentGeneration spares_lifecycle spares_guestBootstrap)

lemma spares_ensureVM: "retryOnConflict_doc L \<Longrightarrow> calls (spares K) (ensureVM L ws desired)"
  unfolding ensureVM_def adoptVM_def updateVirtualMachine_def updateAttempt_def
  by (auto intro!: frame_rules spares_quiet[OF quiet_preflightGPU] spares_quiet[OF quiet_guard] split: sum.split)

lemma spares_desiredVM: "calls (spares K) (desiredVM L ws img sshKeys)"
  unfolding desiredVM_def agentImageForWorkspace_def imageByRef_def Let_def by (auto intro!: frame_rules)

lemma spares_management: "calls (spares K) (reconcileManagementIdentity L rd ns ws vm)"
  unfolding reconcileManagementIdentity_def reconcileExecutionEpoch_def reconcileManagementBootstrap_def ensureBootstrapSecret_def
    issueBootstrapSecret_def Let_def
  by (auto intro!: frame_rules split: sum.split option.split)

lemma spares_windowsReady: "calls (spares K) (windowsReady L hasAgent ws pod running)"
  unfolding windowsReady_def reconcileWindowsProvisioning_def
  by (auto intro!: frame_rules spares_updateWorkspace spares_quiet[OF quiet_lifecycle(2)] spares_quiet[OF quiet_lifecycle(3)]
      split: option.split sum.split prod.split)

lemma spares_observeVM: "calls (spares K) (observeVM L r ws vm)"
  unfolding observeVM_def podByLabel_def vmiIsRunning_def
  by (auto intro!: frame_rules spares_windowsReady spares_management spares_quiet[OF quiet_lifecycle(1)] split: sum.split)

lemma spares_vm:
  "retryOnConflict_doc L \<Longrightarrow> createOrUpdate_doc L \<Longrightarrow> calls (spares K) (reconcileVirtualMachine L r ws)"
  unfolding reconcileVirtualMachine_def
  by (auto intro!: frame_rules spares_prepareVM spares_desiredVM spares_ensureVM spares_observeVM split: option.split)

lemma spares_reset: "calls (spares K) (handleReset L ws)"
  unfolding handleReset_def resetExisting_def deleteVM_def haltVM_def resetWindowsGeneration_def freshGeneration_def newUUID_def
  by (auto intro!: frame_rules spares_updateWorkspace spares_quiet[OF quiet_lifecycle(1)] split: sum.split option.split)

end

section \<open>Kinds by type\<close>

datatype workloadClass = VMClass | DeploymentClass | StatefulSetClass

definition classOf :: "workspace \<Rightarrow> workloadClass" where
  "classOf ws = (if workspaceTypeOf ws = WorkspaceTypeVM then VMClass
     else if workspaceTypeOf ws = WorkspaceTypeScratch then DeploymentClass else StatefulSetClass)"

fun writable :: "workloadClass \<Rightarrow> kobj \<Rightarrow> bool" where
  "writable c (OWorkspace w) = True"
| "writable c (OSecret s) = True"
| "writable c (OService s) = True"
| "writable c (OUnstructured u) = (c = VMClass)"
| "writable c (ODeployment w) = (c = DeploymentClass)"
| "writable c (OStatefulSet w) = (c = StatefulSetClass)"
| "writable c _ = False"

interpretation vmw: vm_frame "\<lambda>ob. \<not> writable VMClass ob"
  by unfold_locales simp_all

interpretation scratchw: deployment_frame "\<lambda>ob. \<not> writable DeploymentClass ob"
  by unfold_locales simp_all

interpretation containerw: statefulset_frame "\<lambda>ob. \<not> writable StatefulSetClass ob"
  by unfold_locales simp_all

interpretation everyw: workspace_frame "\<lambda>ob. \<not> writable c ob" for c
  by unfold_locales simp_all

abbreviation obeys :: "workspace \<Rightarrow> req \<Rightarrow> bool" where
  "obeys ws \<equiv> spares (\<lambda>ob. \<not> writable (classOf ws) ob)"

lemma workload_obeys:
  assumes "retryOnConflict_doc L" and "createOrUpdate_doc L"
  shows "calls (obeys ws) (reconcileWorkload L r ws)"
proof -
  consider (vm) "classOf ws = VMClass" "workspaceTypeOf ws = WorkspaceTypeVM"
    | (scratch) "classOf ws = DeploymentClass" "workspaceTypeOf ws = WorkspaceTypeScratch"
    | (container) "classOf ws = StatefulSetClass" "workspaceTypeOf ws \<noteq> WorkspaceTypeVM" "workspaceTypeOf ws \<noteq> WorkspaceTypeScratch"
    by (auto simp: classOf_def)
  then show ?thesis
  proof cases
    case vm
    then show ?thesis unfolding reconcileWorkload_def
      by (auto intro!: calls_bind vmw.spares_vm assms vmw.spares_failure split: prod.split sum.split)
  next
    case scratch
    then show ?thesis unfolding reconcileWorkload_def by (auto intro!: calls_keepW scratchw.spares_deployment)
  next
    case container
    then show ?thesis unfolding reconcileWorkload_def by (auto intro!: calls_keepW containerw.spares_statefulSet)
  qed
qed

lemma objects_obey:
  "retryOnConflict_doc L \<Longrightarrow> createOrUpdate_doc L \<Longrightarrow> calls (obeys ws) (reconcileObjects L r req ws)"
  by (intro everyw.spares_objects workload_obeys)

text \<open>An unhandled reset leaves the workspace as it is, so the pass goes on with the same class.\<close>

lemma reset_unhandled:
  assumes "runs (handleReset L ws) tr (ws', Inr (after, False))" shows "ws' = ws"
proof (rule ccontr)
  assume "ws' \<noteq> ws"
  with assms have "mhas (annotationsOf ws) AnnotationReset" by (auto simp: handleReset_def runs_Ret_iff split: if_splits)
  from assms[unfolded handleReset_requested[OF this]] show False
    by (auto simp: runs_bind_sum runs_tryW runs_keepW runs_Ret_iff resetExisting_def deleteVM_def haltVM_def runs_tryP split: if_splits option.splits)
qed

lemma calls_bind_runs: "calls P p \<Longrightarrow> (\<And>tr x. runs p tr x \<Longrightarrow> calls P (f x)) \<Longrightarrow> calls P (bind p f)"
proof (induction p)
  case (Ret x)
  then show ?case using runs_Ret[of x] by auto
next
  case (Call q k)
  have "calls P (bind (k r) f)" for r
    by (rule Call.IH) (use Call.prems in \<open>auto intro: runs_Call\<close>)
  with Call.prems(1) show ?case by simp
qed

lemma vmType_obeys:
  assumes "retryOnConflict_doc L" and "createOrUpdate_doc L" and "classOf ws = VMClass"
  shows "calls (obeys ws) (reconcileVMType L r req ws)"
proof -
  have probe: "calls (obeys ws) kubeVirtInstalled"
    unfolding kubeVirtInstalled_def by (auto intro!: calls_bind split: sum.split)
  have reset: "calls (obeys ws) (handleReset L ws)" using vmw.spares_reset by (simp add: assms(3))
  have rest: "calls (obeys ws) (case y of (ws, result) \<Rightarrow> tryP (Ret result) (\<lambda>(after, resetHandled).
       if resetHandled then Ret (Inr after) else reconcileObjects L r req ws))" if "runs (handleReset L ws) t y" for t y
  proof -
    obtain w result where y: "y = (w, result)" by (cases y)
    have "calls (obeys ws) (reconcileObjects L r req w)" if "result = Inr (after, False)" for after
      using reset_unhandled[of L ws t w after] \<open>runs (handleReset L ws) t y\<close> y that objects_obey[OF assms(1,2)] by blast
    then show ?thesis unfolding y tryP_def by (auto split: sum.split prod.split)
  qed
  have missing: "calls (obeys ws) (bind (setNotReadyCondition ws reason msg) (\<lambda>_. Ret (Inr (0 :: ctrlResult))))" for reason msg
    by (auto intro!: calls_bind everyw.spares_notReady)
  show ?thesis unfolding reconcileVMType_def
    by (intro calls_tryP probe) (simp only: if_split missing calls_bind_runs[OF reset rest] simp_thms)
qed

text \<open>
  C2. A pass of the Workspace reconciler stays in its lane. Whatever the API server answers, a pass writes only after it read
  the Workspace and found it not being deleted; and it writes only Workspaces, Secrets and Services, a StatefulSet for a
  container workspace, a Deployment for a scratch workspace, and KubeVirt or CDI objects for a VM workspace. So a
  workspace that is absent or being deleted is left to the garbage collector, and no type touches the workload of another.
\<close>

theorem workspace_pass_confined:
  assumes "retryOnConflict_doc L" and "createOrUpdate_doc L"
    and "runs (reconcileWorkspace L r req) tr res" and "(q, x) \<in> set tr" and "isWrite q"
  shows "\<exists>ws rest. tr = (ReqGet Cached KWorkspace req, RObj (OWorkspace ws)) # rest \<and> m_deletion (w_meta ws) = None
    \<and> (case q of ReqCreate ob \<Rightarrow> writable (classOf ws) ob | ReqUpdate ob \<Rightarrow> writable (classOf ws) ob
       | ReqStatusUpdate ob \<Rightarrow> writable (classOf ws) ob | ReqDelete ob opts \<Rightarrow> writable (classOf ws) ob | _ \<Rightarrow> False)"
proof -
  let ?msg = "''container initialization is only supported for container and scratch workspaces''"
  let ?k = "\<lambda>ws. if m_deletion (w_meta ws) \<noteq> None then Ret (Inr 0)
         else if workspaceTypeOf ws \<noteq> WorkspaceTypeVM then reconcileObjects L r req ws
         else if wss_containerInit (w_spec ws) \<noteq> None
         then bind (setNotReadyCondition ws ''ContainerInitFailed'' ?msg) (\<lambda>_. Ret (Inl (Errorf ?msg)))
         else reconcileVMType L r req ws"
  from assms(3-5) obtain ws rest where ws: "tr = (ReqGet Cached KWorkspace req, RObj (OWorkspace ws)) # rest" "(q, x) \<in> set rest"
    and k: "runs (?k ws) rest res"
    unfolding reconcileWorkspace_def runs_bind_sum Let_def by (auto simp: runs_client runs_Ret_iff asObj_Inr)
  from k ws(2) have d: "m_deletion (w_meta ws) = None" by (auto simp: runs_Ret_iff split: if_splits)
  have "calls (obeys ws) (?k ws)"
  proof -
    have "workspaceTypeOf ws = WorkspaceTypeVM \<Longrightarrow> calls (obeys ws) (reconcileVMType L r req ws)"
      by (rule vmType_obeys[OF assms(1,2)]) (simp add: classOf_def)
    then show ?thesis using objects_obey[OF assms(1,2)] by (auto intro!: calls_bind everyw.spares_notReady)
  qed
  from callsD[OF this k ws(2)] assms(5) have "case q of ReqCreate ob \<Rightarrow> writable (classOf ws) ob | ReqUpdate ob \<Rightarrow> writable (classOf ws) ob
       | ReqStatusUpdate ob \<Rightarrow> writable (classOf ws) ob | ReqDelete ob opts \<Rightarrow> writable (classOf ws) ob | _ \<Rightarrow> False"
    by (cases q) auto
  with ws(1) d show ?thesis by blast
qed

theorem workspace_pass_confined_witness:
  "\<exists>tr res x. runs (reconcileWorkspace ref_lib exReconciler (''team'', ''ws'')) tr res
     \<and> (ReqDelete (OUnstructured exVM) [Foreground], x) \<in> set tr
     \<and> (case tr of (g, RObj (OWorkspace ws)) # rest \<Rightarrow> writable (classOf ws) (OUnstructured exVM) | _ \<Rightarrow> False)"
proof -
  let ?ws = "setAnnotation (exWorkspace ''vm'') AnnotationReset ''true''"
  let ?p = "reconcileWorkspace ref_lib exReconciler (''team'', ''ws'')"
  let ?e = "exec ?p [RObj (OWorkspace ?ws), notFound, RObj (OUnstructured exVM), ROk]"
  have "snd ?e = Some (Inr (seconds 5))" by code_simp
  then have "?e = (fst ?e, Some (Inr (seconds 5)))" by (metis prod.collapse)
  then have run: "runs ?p (fst ?e) (Inr (seconds 5))" by (rule exec_runs)
  have "fst ?e \<noteq> []" "last (fst ?e) = (ReqDelete (OUnstructured exVM) [Foreground], ROk)" by code_simp+
  then have q: "(ReqDelete (OUnstructured exVM) [Foreground], ROk) \<in> set (fst ?e)" by (metis last_in_set)
  from workspace_pass_confined[OF ref_retryOnConflict_doc ref_createOrUpdate_doc run q] run q show ?thesis by fastforce
qed

end
