(* ===== verification/Weakest_Precondition.thy ===== *)
theory Weakest_Precondition
  imports Workspace_Controller
begin

text \<open>
  A program logic for the requests of a program and its result, for environments that answer with the object that was asked for.
  \<open>wp P p Q\<close>: as long as every answer carries the key of its request, every request of \<open>p\<close> satisfies \<open>P\<close> and the result satisfies \<open>Q\<close>.
  The equations compute the precondition along the program text; a loop of the library below has a rule from its documentation.
\<close>

section \<open>Answers\<close>

text \<open>What the API server promises: an object read has the namespace and the name asked for, an object written keeps them.\<close>

definition answers :: "req \<Rightarrow> resp \<Rightarrow> bool" where
  "answers q r = (case r of RObj ob \<Rightarrow> (case q of ReqGet rd k key \<Rightarrow> keyOf ob = key | ReqCreate ob' \<Rightarrow> keyOf ob = keyOf ob'
     | ReqUpdate ob' \<Rightarrow> keyOf ob = keyOf ob' | ReqStatusUpdate ob' \<Rightarrow> keyOf ob = keyOf ob' | _ \<Rightarrow> True) | _ \<Rightarrow> True)"

definition keyed :: "trace \<Rightarrow> bool" where
  "keyed tr \<longleftrightarrow> list_all (\<lambda>(q, r). answers q r) tr"

lemma answers_RErr [simp]: "answers q (RErr e)"
  by (simp add: answers_def)

lemma keyed_simps [simp]:
  "keyed []" "keyed ((q, r) # tr) \<longleftrightarrow> answers q r \<and> keyed tr" "keyed (t1 @ t2) \<longleftrightarrow> keyed t1 \<and> keyed t2"
  by (simp_all add: keyed_def)

lemma keyed_subset: "keyed tr \<Longrightarrow> set t \<subseteq> set tr \<Longrightarrow> keyed t"
  by (auto simp: keyed_def list_all_iff)

section \<open>Weakest preconditions\<close>

primrec wp :: "(req \<Rightarrow> bool) \<Rightarrow> 'a prog \<Rightarrow> ('a \<Rightarrow> bool) \<Rightarrow> bool" where
  "wp P (Ret x) Q = Q x"
| "wp P (Call q k) Q = (P q \<and> (\<forall>r. answers q r \<longrightarrow> wp P (k r) Q))"

lemma keyed_total: "\<exists>tr x. runs p tr x \<and> keyed tr"
proof (induction p)
  case (Ret x)
  have "runs (Ret x) [] x \<and> keyed []" by (simp add: runs_Ret)
  then show ?case by (intro exI)
next
  case (Call q k)
  then obtain tr x where "runs (k (RErr badResponse)) tr x" "keyed tr" by blast
  then have "runs (Call q k) ((q, RErr badResponse) # tr) x \<and> keyed ((q, RErr badResponse) # tr)" by (simp add: runs_Call)
  then show ?case by blast
qed

text \<open>The meaning of \<open>wp\<close> in terms of runs.\<close>

lemma wp_iff: "wp P p Q \<longleftrightarrow> (\<forall>tr x. runs p tr x \<longrightarrow> keyed tr \<longrightarrow> (\<forall>e \<in> set tr. P (fst e)) \<and> Q x)"
proof (induction p)
  case (Ret x)
  then show ?case by (auto simp: runs_Ret_iff)
next
  case (Call q k)
  show ?case
  proof
    assume "wp P (Call q k) Q"
    then show "\<forall>tr x. runs (Call q k) tr x \<longrightarrow> keyed tr \<longrightarrow> (\<forall>e \<in> set tr. P (fst e)) \<and> Q x"
      using Call.IH[OF rangeI] by (fastforce simp: runs_Call_iff)
  next
    assume all: "\<forall>tr x. runs (Call q k) tr x \<longrightarrow> keyed tr \<longrightarrow> (\<forall>e \<in> set tr. P (fst e)) \<and> Q x"
    have "P q" using all keyed_total[of "Call q k"] by (fastforce simp: runs_Call_iff)
    moreover have "wp P (k r) Q" if "answers q r" for r
      unfolding Call.IH[OF rangeI]
    proof (intro allI impI)
      fix tr x assume "runs (k r) tr x" "keyed tr"
      with that all[rule_format, of "(q, r) # tr" x] show "(\<forall>e \<in> set tr. P (fst e)) \<and> Q x" by (auto intro: runs_Call)
    qed
    ultimately show "wp P (Call q k) Q" by simp
  qed
qed

lemma wpD: "wp P p Q \<Longrightarrow> runs p tr x \<Longrightarrow> keyed tr \<Longrightarrow> (q, r) \<in> set tr \<Longrightarrow> P q"
  by (fastforce simp: wp_iff)

lemma wp_result: "wp P p Q \<Longrightarrow> runs p tr x \<Longrightarrow> keyed tr \<Longrightarrow> Q x"
  by (simp add: wp_iff)

lemma wp_mono: "wp P p Q' \<Longrightarrow> (\<And>x. Q' x \<Longrightarrow> Q x) \<Longrightarrow> wp P p Q"
  by (simp add: wp_iff)

lemma wp_calls: "calls P p \<Longrightarrow> (\<And>x. Q x) \<Longrightarrow> wp P p Q"
  by (simp add: wp_iff calls_iff)

section \<open>Equations\<close>

named_theorems wp_eqs "the precondition of each way to compose programs and of each client call"

lemma wp_bind [wp_eqs]: "wp P (bind p f) Q = wp P p (\<lambda>x. wp P (f x) Q)"
  by (induction p) simp_all

lemma wp_tryP [wp_eqs]: "wp P (tryP p k) Q = wp P p (\<lambda>r. case r of Inl e \<Rightarrow> Q (Inl e) | Inr x \<Rightarrow> wp P (k x) Q)"
  unfolding tryP_def wp_bind by (rule arg_cong[where f = "wp P p"]) (auto split: sum.split)

lemma wp_wrapP [wp_eqs]: "wp P (wrapP m p k) Q = wp P p (\<lambda>r. case r of Inl e \<Rightarrow> Q (Inl (Wrapf m e)) | Inr x \<Rightarrow> wp P (k x) Q)"
  unfolding wrapP_def wp_bind by (rule arg_cong[where f = "wp P p"]) (auto split: sum.split)

lemma wp_replaceErr [wp_eqs]: "wp P (replaceErr m p k) Q = wp P p (\<lambda>r. case r of Inl e \<Rightarrow> Q (Inl (Errorf m)) | Inr x \<Rightarrow> wp P (k x) Q)"
  unfolding replaceErr_def wp_bind by (rule arg_cong[where f = "wp P p"]) (auto split: sum.split)

lemma wp_tryW [wp_eqs]: "wp P (tryW p k) Q = wp P p (\<lambda>(ws, r). case r of Inl e \<Rightarrow> Q (ws, Inl e) | Inr x \<Rightarrow> wp P (k ws x) Q)"
  unfolding tryW_def wp_bind by (rule arg_cong[where f = "wp P p"]) (auto split: sum.split prod.split)

lemma wp_mapP [wp_eqs]: "wp P (mapP f p) Q = wp P p (\<lambda>x. Q (f x))"
  by (simp add: mapP_def wp_bind)

lemma wp_keepW [wp_eqs]: "wp P (keepW ws p) Q = wp P p (\<lambda>r. Q (ws, r))"
  by (simp add: keepW_def wp_mapP)

lemma wp_ask: "wp P (ask q dec) Q \<longleftrightarrow> P q \<and> (\<forall>r. answers q r \<longrightarrow> Q (dec r))"
  by (simp add: ask_def)

text \<open>A call that returns an object: any error, or an object of the key.\<close>

lemma wp_object:
  assumes "\<And>r. answers q r \<longleftrightarrow> (\<forall>ob. r = RObj ob \<longrightarrow> keyOf ob = key)"
  shows "wp P (ask q (asObj proj)) Q \<longleftrightarrow> P q \<and> (\<forall>e. Q (Inl e)) \<and> (\<forall>x ob. proj ob = Some x \<longrightarrow> keyOf ob = key \<longrightarrow> Q (Inr x))"
proof -
  have "(\<forall>r. answers q r \<longrightarrow> Q (asObj proj r)) \<longleftrightarrow> (\<forall>e. Q (Inl e)) \<and> (\<forall>x ob. proj ob = Some x \<longrightarrow> keyOf ob = key \<longrightarrow> Q (Inr x))"
  proof
    assume all: "\<forall>r. answers q r \<longrightarrow> Q (asObj proj r)"
    have "Q (Inl e)" for e using all[rule_format, of "RErr e"] by simp
    moreover have "Q (Inr x)" if "proj ob = Some x" "keyOf ob = key" for x ob
      using all[rule_format, of "RObj ob"] that assms by simp
    ultimately show "(\<forall>e. Q (Inl e)) \<and> (\<forall>x ob. proj ob = Some x \<longrightarrow> keyOf ob = key \<longrightarrow> Q (Inr x))" by blast
  next
    assume "(\<forall>e. Q (Inl e)) \<and> (\<forall>x ob. proj ob = Some x \<longrightarrow> keyOf ob = key \<longrightarrow> Q (Inr x))"
    then show "\<forall>r. answers q r \<longrightarrow> Q (asObj proj r)" using assms by (auto simp: asObj_def split: resp.split option.split)
  qed
  then show ?thesis by (simp add: wp_ask)
qed

lemma wp_client [wp_eqs]:
  "wp P (getP rd k proj ns name) Q \<longleftrightarrow> P (ReqGet rd k (ns, name)) \<and> (\<forall>e. Q (Inl e))
     \<and> (\<forall>x ob. proj ob = Some x \<longrightarrow> keyOf ob = (ns, name) \<longrightarrow> Q (Inr x))"
  "wp P (createP proj ob') Q \<longleftrightarrow> P (ReqCreate ob') \<and> (\<forall>e. Q (Inl e)) \<and> (\<forall>x ob. proj ob = Some x \<longrightarrow> keyOf ob = keyOf ob' \<longrightarrow> Q (Inr x))"
  "wp P (updateP proj ob') Q \<longleftrightarrow> P (ReqUpdate ob') \<and> (\<forall>e. Q (Inl e)) \<and> (\<forall>x ob. proj ob = Some x \<longrightarrow> keyOf ob = keyOf ob' \<longrightarrow> Q (Inr x))"
  "wp P (statusUpdateP proj ob') Q \<longleftrightarrow> P (ReqStatusUpdate ob') \<and> (\<forall>e. Q (Inl e)) \<and> (\<forall>x ob. proj ob = Some x \<longrightarrow> keyOf ob = keyOf ob' \<longrightarrow> Q (Inr x))"
  unfolding client_defs by (rule wp_object, simp add: answers_def split: resp.split)+

lemma wp_list [wp_eqs]: "wp P (listP rd k proj sc sel) Q \<longleftrightarrow> P (ReqList rd k sc sel) \<and> (\<forall>e. Q (Inl e)) \<and> (\<forall>obs. Q (Inr (List.map_filter proj obs)))"
proof -
  have "(\<forall>r. answers (ReqList rd k sc sel) r \<longrightarrow> Q (asList proj r)) \<longleftrightarrow> (\<forall>e. Q (Inl e)) \<and> (\<forall>obs. Q (Inr (List.map_filter proj obs)))"
  proof
    assume all: "\<forall>r. answers (ReqList rd k sc sel) r \<longrightarrow> Q (asList proj r)"
    show "(\<forall>e. Q (Inl e)) \<and> (\<forall>obs. Q (Inr (List.map_filter proj obs)))"
      using all[rule_format, of "RErr _"] all[rule_format, of "RList _"] by (simp add: asList_def answers_def)
  qed (auto simp: asList_def split: resp.split)
  then show ?thesis by (simp add: listP_def wp_ask)
qed

text \<open>The other calls tell nothing about an object.\<close>

lemma wp_unit [wp_eqs]:
  "wp P (ask q asUnit) Q \<longleftrightarrow> P q \<and> (\<forall>r. Q r)"
  "wp P (deleteP ob opts) Q \<longleftrightarrow> P (ReqDelete ob opts) \<and> (\<forall>r. Q r)"
proof -
  have "(\<forall>r. answers q r \<longrightarrow> Q (asUnit r)) \<longleftrightarrow> (\<forall>r. Q r)" for q
  proof (intro iffI allI impI)
    fix r assume all: "\<forall>r. answers q r \<longrightarrow> Q (asUnit r)"
    show "Q r" using all[rule_format, of "RErr _"] all[rule_format, of ROk] by (cases r) (simp_all add: answers_def)
  qed blast
  then show "wp P (ask q asUnit) Q \<longleftrightarrow> P q \<and> (\<forall>r. Q r)" "wp P (deleteP ob opts) Q \<longleftrightarrow> P (ReqDelete ob opts) \<and> (\<forall>r. Q r)"
    by (simp_all add: deleteP_def wp_ask)
qed

section \<open>Rules\<close>

lemma wp_nowP: "P ReqNow \<Longrightarrow> (\<And>t. Q t) \<Longrightarrow> wp P nowP Q"
  by (simp add: nowP_def wp_ask)

lemma wp_forE:
  assumes "\<And>x. x \<in> set xs \<Longrightarrow> wp P (f x) (\<lambda>_. True)" and "\<And>r. Q r"
  shows "wp P (forE f xs) Q"
proof -
  have "wp P (forE f xs) (\<lambda>_. True)"
    using assms(1)
  proof (induction xs)
    case (Cons x xs)
    then have "wp P (f x) (\<lambda>_. True)" and rest: "wp P (forE f xs) (\<lambda>_. True)" by simp_all
    from this(1) show ?case unfolding forE.simps wp_tryP by (rule wp_mono) (simp add: rest split: sum.split)
  qed simp
  then show ?thesis using assms(2) by (rule wp_mono)
qed

lemma wp_retryOnConflict: "retryOnConflict_doc L \<Longrightarrow> wp P p Q \<Longrightarrow> wp P (l_retryOnConflict L p) Q"
  unfolding wp_iff retryOnConflict_doc_def by (metis keyed_subset retry_trace_attempt retry_trace_result)

lemma wp_createOrUpdate:
  assumes "createOrUpdate_doc L" and "P (ReqGet Cached (kindOf ob) (keyOf ob))"
    and "\<And>ob'. f ob = Inr ob' \<Longrightarrow> keyOf ob' = keyOf ob \<Longrightarrow> P (ReqCreate ob')"
    and "\<And>cur ob'. f cur = Inr ob' \<Longrightarrow> keyOf ob' = keyOf ob \<Longrightarrow> P (ReqUpdate ob')" and "\<And>r. Q r"
  shows "wp P (l_createOrUpdate L ob f) Q"
  unfolding wp_iff
proof (intro allI impI conjI ballI)
  fix tr r e assume "runs (l_createOrUpdate L ob f) tr r" and k: "keyed tr" and e: "e \<in> set tr"
  then have "cou_trace ob f tr r" using assms(1) by (simp add: createOrUpdate_doc_def)
  then show "P (fst e)" using e k assms(2-4) by cases (auto simp: answers_def)
qed (rule assms(5))

end
