(* ===== verification/Observers.thy ===== *)
theory Observers
  imports Workspace_Controller
begin

text \<open>
  What observes the Workspace controller and what wakes it: the gauges of src/internal/controller/metrics.go and the maps from
  watched objects to reconcile requests in SetupWithManager of workspace_controller.go; and the reconciler with the counters it increments.
\<close>

section \<open>Gauges\<close>

text \<open>The state a workspace is counted under. A stop annotation wins over ready replicas.\<close>

definition countState :: "workspace \<Rightarrow> string" where
  "countState ws = (if stopped ws then ''stopped'' else if wst_readyReplicas (w_status ws) > 0 then ''running'' else ''starting'')"

type_synonym stateCounts = "(string \<times> int) list"

definition newCounts :: stateCounts where
  "newCounts = [(''running'', 0), (''stopped'', 0), (''starting'', 0)]"

definition countWorkspace :: "(string \<times> stateCounts) list \<Rightarrow> workspace \<Rightarrow> (string \<times> stateCounts) list" where
  "countWorkspace counts ws = (let states = zeroOr newCounts (map_of counts (namespaceOf ws)) in
     mset counts (namespaceOf ws) (mset states (countState ws) (zeroOr 0 (map_of states (countState ws)) + 1)))"

definition workspaceCounts :: "workspace list \<Rightarrow> (string \<times> stateCounts) list" where
  "workspaceCounts items = foldl countWorkspace [] items"

text \<open>\<^verbatim>\<open>Collect\<close>: one gauge per namespace and state, in no particular order; an error becomes one invalid metric.\<close>

definition collect :: "(string \<times> string \<times> int) list result prog" where
  "collect = tryP (listP Cached KWorkspace toWorkspace None []) (\<lambda>items.
     Ret (Inr (concat (map (\<lambda>(ns, states). map (\<lambda>(st, n). (ns, st, n)) states) (workspaceCounts items)))))"

section \<open>Watches\<close>

definition mapPodToRequest :: "ometa \<Rightarrow> key list" where
  "mapPodToRequest m = (case map_of (m_labels m) LabelWorkspaceName of None \<Rightarrow> [] | Some name \<Rightarrow> [(m_namespace m, name)])"

definition mapVMToRequest :: "ometa \<Rightarrow> key list" where
  "mapVMToRequest m = [(m_namespace m, m_name m)]"

definition mapVMIToRequest :: "ometa \<Rightarrow> key list" where
  "mapVMIToRequest m = (case map_of (m_labels m) LabelWorkspaceName of None \<Rightarrow> [] | Some name \<Rightarrow> [(m_namespace m, name)])"

text \<open>\<^verbatim>\<open>kubeVirtGVKInstalled\<close>, with the error of the REST mapper, if any, and \<^verbatim>\<open>meta.IsNoMatchError\<close> as its reason.\<close>

definition kubeVirtGVKInstalled :: "gerr option \<Rightarrow> bool result" where
  "kubeVirtGVKInstalled err = (case err of None \<Rightarrow> Inr True
     | Some e \<Rightarrow> if errReason e = Some ReasonNoMatch then Inr False else Inl e)"

section \<open>The gauges count\<close>

definition inState :: "string \<Rightarrow> string \<Rightarrow> workspace \<Rightarrow> bool" where
  "inState ns st ws \<longleftrightarrow> namespaceOf ws = ns \<and> countState ws = st"

definition gauge :: "(string \<times> stateCounts) list \<Rightarrow> string \<Rightarrow> string \<Rightarrow> int option" where
  "gauge counts ns st = (case map_of counts ns of None \<Rightarrow> None | Some states \<Rightarrow> map_of states st)"

definition countStates :: "string list" where
  "countStates = [''running'', ''stopped'', ''starting'']"

lemma countState_mem: "countState ws \<in> set countStates"
  by (simp add: countState_def countStates_def)

lemma newCounts_of: "st \<in> set countStates \<Longrightarrow> map_of newCounts st = Some 0"
  by (auto simp: newCounts_def countStates_def)

lemma map_of_countWorkspace:
  "map_of (countWorkspace c ws) ns = (if ns = namespaceOf ws
     then Some (let states = zeroOr newCounts (map_of c ns) in mset states (countState ws) (zeroOr 0 (map_of states (countState ws)) + 1))
     else map_of c ns)"
  by (simp add: countWorkspace_def Let_def)

lemma counts_present: "map_of (foldl countWorkspace [] items) ns = None \<longleftrightarrow> \<not> list_ex (\<lambda>ws. namespaceOf ws = ns) items"
  by (induction items rule: rev_induct) (simp_all add: map_of_countWorkspace)

lemma gauge_step:
  assumes "st \<in> set countStates"
  shows "gauge (countWorkspace c ws) ns st = (if ns \<noteq> namespaceOf ws then gauge c ns st
     else let g = (if map_of c ns = None then Some 0 else gauge c ns st) in if st = countState ws then Some (zeroOr 0 g + 1) else g)"
  using newCounts_of[OF assms] unfolding gauge_def map_of_countWorkspace
  by (cases "map_of c ns") (auto simp: Let_def)

text \<open>
  The gauges agree with counting: a namespace has gauges exactly if it has workspaces, and each gauge is the number of its
  workspaces in that state. The three gauges of a namespace add up to its workspaces.
\<close>

theorem workspace_counts_exact:
  assumes "st \<in> set countStates"
  shows "gauge (workspaceCounts items) ns st =
    (if list_ex (\<lambda>ws. namespaceOf ws = ns) items then Some (int (length (filter (inState ns st) items))) else None)"
  unfolding workspaceCounts_def
proof (induction items rule: rev_induct)
  case (snoc ws items)
  have "length (filter (inState ns st) items) = 0" if "\<not> list_ex (\<lambda>ws. namespaceOf ws = ns) items"
    using that by (auto simp: list_ex_iff inState_def filter_empty_conv)
  with snoc show ?case by (auto simp: gauge_step[OF assms] counts_present Let_def inState_def[of ns st ws])
qed (simp add: gauge_def)

lemma counts_partition:
  "length (filter (\<lambda>ws. namespaceOf ws = ns) items) = (\<Sum>st \<leftarrow> countStates. length (filter (inState ns st) items))"
  by (induction items) (auto simp: countStates_def inState_def countState_def)

text \<open>The VirtualMachine of a workspace wakes its workspace.\<close>

lemma generated_vm_watched:
  "generateVirtualMachine L ws img sshKeys agentPort inst = Inr vm \<Longrightarrow> mapVMToRequest (un_meta vm) = [(namespaceOf ws, nameOf ws)]"
  unfolding generateVirtualMachine_def generateWindowsVirtualMachine_def generateLinuxVirtualMachine_def mapVMToRequest_def
  by (auto simp: newVirtualMachine_def objectMeta_def split: if_splits option.splits sum.splits)

text \<open>So do the pods of its workload, unless the Workspace overrides the label.\<close>

lemma template_watched:
  "map_of (m_labels (w_meta ws)) LabelWorkspaceName = None \<Longrightarrow> m_labels m = pt_labels (workspaceTemplate k ws) \<Longrightarrow> m_namespace m = namespaceOf ws
     \<Longrightarrow> mapPodToRequest m = [(namespaceOf ws, nameOf ws)]"
  unfolding mapPodToRequest_def workspaceTemplate_def by (auto simp: map_add_def split: option.split)

section \<open>Counters\<close>

text \<open>
  What a pass reports: a count of the attempt by its result, its duration (an observation, whose value is left out) and the time to the
  first ready state. The metered program is the reconciler with the observations of each return; a panic unwinds without any.
\<close>

datatype metric = ReconcileTotal string | ReconcileDuration | WorkspaceReadyTime int

definition failed :: "gerr \<Rightarrow> metric list" where
  "failed e = (case e of PanicErr msg \<Rightarrow> [] | _ \<Rightarrow> [ReconcileTotal ''error'', ReconcileDuration])"

definition meteredReadyTime :: "lib \<Rightarrow> key \<Rightarrow> workspace \<Rightarrow> int \<Rightarrow> metric list prog" where
  "meteredReadyTime L req ws readyReplicas = (case m_creation (w_meta ws) of None \<Rightarrow> Ret []
     | Some created \<Rightarrow> if readyReplicas \<le> 0 then Ret []
         else bind nowP (\<lambda>now.
           if now - created < seconds 1800 \<and> now - created > 0 \<and> \<not> mhas (annotationsOf ws) readyTimeRecorded
           then mapP (\<lambda>_. [WorkspaceReadyTime (now - created)]) (l_retryOnConflict L (recordReadyAttempt req)) else Ret []))"

definition meteredObjects :: "lib \<Rightarrow> workspaceReconciler \<Rightarrow> key \<Rightarrow> workspace \<Rightarrow> (ctrlResult result \<times> metric list) prog" where
  "meteredObjects L r req ws0 = (let wsType = workspaceTypeOf ws0 in
     bind (reconcileWorkload L r ws0) (\<lambda>(ws, result). case result of Inl e \<Rightarrow> Ret (Inl e, failed e) | Inr (readyReplicas, pod) \<Rightarrow>
     bind (reconcileService L ws wsType) (\<lambda>s. case s of Inl e \<Rightarrow> Ret (Inl e, failed e) | Inr _ \<Rightarrow>
     bind (updateWorkspaceStatus L ws readyReplicas pod) (\<lambda>u. case u of Inl e \<Rightarrow> Ret (Inl e, failed e) | Inr _ \<Rightarrow>
     mapP (\<lambda>ready. (Inr (if windowsWorkspace ws \<and> \<not> stopped ws \<and> readyReplicas = 0 then seconds 10 else 0),
         [ReconcileTotal ''success'', ReconcileDuration] @ ready)) (meteredReadyTime L req ws readyReplicas)))))"

definition meteredVMType :: "lib \<Rightarrow> workspaceReconciler \<Rightarrow> key \<Rightarrow> workspace \<Rightarrow> (ctrlResult result \<times> metric list) prog" where
  "meteredVMType L r req ws = bind kubeVirtInstalled (\<lambda>k. case k of Inl e \<Rightarrow> Ret (Inl e, []) | Inr installed \<Rightarrow>
     if \<not> installed
     then bind (setNotReadyCondition ws ''KubeVirtNotInstalled'' ''KubeVirt is not installed in this cluster'') (\<lambda>_. Ret (Inr 0, []))
     else bind (handleReset L ws) (\<lambda>(ws, result). case result of Inl e \<Rightarrow> Ret (Inl e, failed e) | Inr (after, resetHandled) \<Rightarrow>
       if resetHandled then Ret (Inr after, []) else meteredObjects L r req ws))"

definition meteredWorkspace :: "lib \<Rightarrow> workspaceReconciler \<Rightarrow> key \<Rightarrow> (ctrlResult result \<times> metric list) prog" where
  "meteredWorkspace L r req =
     bind (getP Cached KWorkspace toWorkspace (fst req) (snd req)) (\<lambda>g. case g of
       Inl e \<Rightarrow> if isNotFound e then Ret (Inr 0, []) else Ret (Inl e, failed e)
     | Inr ws \<Rightarrow>
         if m_deletion (w_meta ws) \<noteq> None then Ret (Inr 0, [])
         else if workspaceTypeOf ws \<noteq> WorkspaceTypeVM then meteredObjects L r req ws
         else if wss_containerInit (w_spec ws) \<noteq> None
         then let msg = ''container initialization is only supported for container and scratch workspaces'' in
           bind (setNotReadyCondition ws ''ContainerInitFailed'' msg) (\<lambda>_. Ret (Inl (Errorf msg), []))
         else meteredVMType L r req ws)"

text \<open>The observations do not change what the reconciler does.\<close>

lemma bind_steps: "(\<And>x. f x = g x) \<Longrightarrow> bind p f = bind p g"
  by (rule arg_cong[where f = "bind p"]) (rule ext)

lemmas erase = mapP_def tryP_def bind_assoc bind.simps(1)

lemma erase_ready: "bind (meteredReadyTime L req ws k) (\<lambda>_. f) = bind (recordReadyTime L req ws k) (\<lambda>_. f)"
  unfolding meteredReadyTime_def recordReadyTime_def
  by (auto simp: erase intro!: bind_steps split: option.split)

lemma erase_objects: "bind (meteredObjects L r req ws) (\<lambda>x. Ret (fst x)) = reconcileObjects L r req ws"
  unfolding meteredObjects_def reconcileObjects_def Let_def
  by (auto simp: erase erase_ready intro!: bind_steps split: sum.split prod.split)

lemma erase_VMType: "bind (meteredVMType L r req ws) (\<lambda>x. Ret (fst x)) = reconcileVMType L r req ws"
  unfolding meteredVMType_def reconcileVMType_def
  by (auto simp: erase erase_objects intro!: bind_steps split: sum.split prod.split)

theorem metering_transparent: "mapP fst (meteredWorkspace L r req) = reconcileWorkspace L r req"
  unfolding meteredWorkspace_def reconcileWorkspace_def Let_def
  by (auto simp: erase erase_objects erase_VMType intro!: bind_steps split: sum.split)

text \<open>At most one attempt is counted, under the label of its result; the ready time is observed on success only and is below half an hour.\<close>

fun truthful :: "ctrlResult result \<Rightarrow> metric list \<Rightarrow> bool" where
  "truthful res [] = True"
| "truthful res [ReconcileTotal l, ReconcileDuration] = (l = (case res of Inl _ \<Rightarrow> ''error'' | Inr _ \<Rightarrow> ''success''))"
| "truthful res [ReconcileTotal l, ReconcileDuration, WorkspaceReadyTime t] = (l = ''success'' \<and> (\<exists>x. res = Inr x) \<and> 0 < t \<and> t < seconds 1800)"
| "truthful res _ = False"

lemma truthful_failed: "truthful (Inl e) (failed e)"
  by (simp add: failed_def split: gerr.split)

definition returns :: "'a prog \<Rightarrow> ('a \<Rightarrow> bool) \<Rightarrow> bool" where
  "returns p Q \<longleftrightarrow> (\<forall>tr x. runs p tr x \<longrightarrow> Q x)"

lemma returns_Ret [simp]: "returns (Ret x) Q \<longleftrightarrow> Q x"
  by (simp add: returns_def runs_Ret_iff)

lemma returns_bind: "(\<And>x. returns (f x) Q) \<Longrightarrow> returns (bind p f) Q"
  by (auto simp: returns_def runs_bind)

lemma returns_mapP: "returns p (\<lambda>x. Q (f x)) \<Longrightarrow> returns (mapP f p) Q"
  by (auto simp: returns_def runs_mapP)

lemma ready_observed:
  "Q [] \<Longrightarrow> (\<And>t. 0 < t \<Longrightarrow> t < seconds 1800 \<Longrightarrow> Q [WorkspaceReadyTime t]) \<Longrightarrow> returns (meteredReadyTime L req ws k) Q"
  unfolding meteredReadyTime_def by (auto simp: returns_def runs_Ret_iff runs_bind runs_mapP split: option.splits if_splits)

lemma objects_truthful: "returns (meteredObjects L r req ws) (\<lambda>(res, ms). truthful res ms)"
  unfolding meteredObjects_def Let_def
  by (auto intro!: returns_bind returns_mapP ready_observed truthful_failed split: sum.split prod.split)

lemma VMType_truthful: "returns (meteredVMType L r req ws) (\<lambda>(res, ms). truthful res ms)"
  unfolding meteredVMType_def by (auto intro!: returns_bind objects_truthful truthful_failed split: sum.split prod.split)

theorem metrics_truthful: "runs (meteredWorkspace L r req) tr (res, ms) \<Longrightarrow> truthful res ms"
proof -
  have "returns (meteredWorkspace L r req) (\<lambda>(res, ms). truthful res ms)"
    unfolding meteredWorkspace_def Let_def
    by (auto intro!: returns_bind objects_truthful VMType_truthful truthful_failed split: sum.split)
  then show "runs (meteredWorkspace L r req) tr (res, ms) \<Longrightarrow> truthful res ms" by (auto simp: returns_def)
qed

text \<open>Not every failing attempt is counted: an error of the KubeVirt probe is returned without an observation.\<close>

lemma uncounted_error:
  "runs (meteredWorkspace L r req) [(ReqGet Cached KWorkspace req, RObj (OWorkspace (exWorkspace ''vm''))),
      (ReqGet Cached KVirtualMachine (''kube-system'', ''kubevirt-probe''), RErr (Errorf ''timeout''))] (Inl (Errorf ''timeout''), [])"
proof -
  let ?ws = "exWorkspace ''vm''"
  have ws: "m_deletion (w_meta ?ws) = None" "workspaceTypeOf ?ws = WorkspaceTypeVM" "wss_containerInit (w_spec ?ws) = None" by code_simp+
  have e: "\<not> isNotFound (Errorf ''timeout'')" "\<not> isNoMatchError (Errorf ''timeout'')" by code_simp+
  show ?thesis unfolding meteredWorkspace_def meteredVMType_def kubeVirtInstalled_def client_defs
    using ws e by (auto simp: ask_def intro!: runs_Call runs_Ret)
qed

end
