(* ===== verification/Manager.thy ===== *)
theory Manager
  imports Observers Filepath
begin

text \<open>
  The process that hosts the reconcilers, src/cmd/main.go: its flags, the options of its two servers, the order of its
  start-up, and SetupWithManager of the Workspace controller. A call that can fail is an \<open>action\<close>; whether it succeeds is an argument.
\<close>

section \<open>Flags\<close>

record flags =
  containerInitImage :: string
  managementBootstrapNamespace :: string
  metricsAddr :: string
  probeAddr :: string
  enableLeaderElection :: bool
  secureMetrics :: bool
  webhookCertPath :: string
  webhookCertName :: string
  webhookCertKey :: string
  metricsCertPath :: string
  metricsCertName :: string
  metricsCertKey :: string
  enableHTTP2 :: bool
  showVersion :: bool

definition defaultFlags :: "(string \<Rightarrow> string) \<Rightarrow> flags" where
  "defaultFlags getenv = \<lparr>containerInitImage = getenv ''KW_CONTAINER_INIT_IMAGE'',
     managementBootstrapNamespace = getenv ''KW_MANAGEMENT_BOOTSTRAP_NAMESPACE'',
     metricsAddr = '':8080'', probeAddr = '':8081'', enableLeaderElection = False, secureMetrics = True,
     webhookCertPath = [], webhookCertName = ''tls.crt'', webhookCertKey = ''tls.key'',
     metricsCertPath = [], metricsCertName = ''tls.crt'', metricsCertKey = ''tls.key'',
     enableHTTP2 = False, showVersion = False\<rparr>"

text \<open>The flags of the program: a string or a boolean, with its assignment.\<close>

datatype flagVar = StringVar "string \<Rightarrow> flags \<Rightarrow> flags" | BoolVar "bool \<Rightarrow> flags \<Rightarrow> flags"

definition flagTable :: "(string \<times> flagVar) list" where
  "flagTable = [
     (''container-init-image'', StringVar (\<lambda>v f. f\<lparr>containerInitImage := v\<rparr>)),
     (''management-bootstrap-namespace'', StringVar (\<lambda>v f. f\<lparr>managementBootstrapNamespace := v\<rparr>)),
     (''metrics-bind-address'', StringVar (\<lambda>v f. f\<lparr>metricsAddr := v\<rparr>)),
     (''health-probe-bind-address'', StringVar (\<lambda>v f. f\<lparr>probeAddr := v\<rparr>)),
     (''leader-elect'', BoolVar (\<lambda>v f. f\<lparr>enableLeaderElection := v\<rparr>)),
     (''metrics-secure'', BoolVar (\<lambda>v f. f\<lparr>secureMetrics := v\<rparr>)),
     (''webhook-cert-path'', StringVar (\<lambda>v f. f\<lparr>webhookCertPath := v\<rparr>)),
     (''webhook-cert-name'', StringVar (\<lambda>v f. f\<lparr>webhookCertName := v\<rparr>)),
     (''webhook-cert-key'', StringVar (\<lambda>v f. f\<lparr>webhookCertKey := v\<rparr>)),
     (''metrics-cert-path'', StringVar (\<lambda>v f. f\<lparr>metricsCertPath := v\<rparr>)),
     (''metrics-cert-name'', StringVar (\<lambda>v f. f\<lparr>metricsCertName := v\<rparr>)),
     (''metrics-cert-key'', StringVar (\<lambda>v f. f\<lparr>metricsCertKey := v\<rparr>)),
     (''enable-http2'', BoolVar (\<lambda>v f. f\<lparr>enableHTTP2 := v\<rparr>)),
     (''version'', BoolVar (\<lambda>v f. f\<lparr>showVersion := v\<rparr>))]"

text \<open>
  The flags that zap and controller-runtime register in the same set: which names exist, which of them take no value, and
  which values they accept. They leave the variables above alone.
\<close>

record foreignFlags =
  ff_known :: "string \<Rightarrow> bool"
  ff_bool :: "string \<Rightarrow> bool"
  ff_accepts :: "string \<Rightarrow> string \<Rightarrow> bool"

text \<open>\<^verbatim>\<open>strconv.ParseBool\<close> and the package flag, with \<^verbatim>\<open>flag.ExitOnError\<close>.\<close>

definition parseBool :: "string \<Rightarrow> bool option" where
  "parseBool s = (if s \<in> {''1'', ''t'', ''T'', ''true'', ''TRUE'', ''True''} then Some True
     else if s \<in> {''0'', ''f'', ''F'', ''false'', ''FALSE'', ''False''} then Some False else None)"

definition isBoolFlag :: "foreignFlags \<Rightarrow> string \<Rightarrow> bool option" where
  "isBoolFlag X name = (case map_of flagTable name of Some (BoolVar u) \<Rightarrow> Some True | Some (StringVar u) \<Rightarrow> Some False
     | None \<Rightarrow> if ff_known X name then Some (ff_bool X name) else None)"

definition setFlag :: "foreignFlags \<Rightarrow> string \<Rightarrow> string \<Rightarrow> flags \<Rightarrow> flags option" where
  "setFlag X name v f = (case map_of flagTable name of Some (StringVar u) \<Rightarrow> Some (u v f)
     | Some (BoolVar u) \<Rightarrow> (case parseBool v of None \<Rightarrow> None | Some b \<Rightarrow> Some (u b f))
     | None \<Rightarrow> if ff_accepts X name v then Some f else None)"

text \<open>One argument: not a flag (parsing stops), malformed, or a name with a value after the first equals sign.\<close>

datatype flagArg = NoFlag | BadSyntax | FlagArg string "string option"

definition flagName :: "string \<Rightarrow> flagArg" where
  "flagName name = (if name = [] \<or> hd name = CHR ''-'' \<or> hd name = CHR ''='' then BadSyntax
     else let n = takeWhile (\<lambda>c. c \<noteq> CHR ''='') name; rest = dropWhile (\<lambda>c. c \<noteq> CHR ''='') name
          in FlagArg n (if rest = [] then None else Some (tl rest)))"

definition flagArgOf :: "string \<Rightarrow> flagArg" where
  "flagArgOf s = (if length s < 2 \<or> hd s \<noteq> CHR ''-'' then NoFlag
     else if s ! 1 = CHR ''-'' then (if length s = 2 then NoFlag else flagName (drop 2 s)) else flagName (drop 1 s))"

datatype parsed = Parsed flags | ExitCode nat

fun parseFlags :: "foreignFlags \<Rightarrow> string list \<Rightarrow> flags \<Rightarrow> parsed" where
  "parseFlags X [] f = Parsed f"
| "parseFlags X (arg # args) f = (case flagArgOf arg of NoFlag \<Rightarrow> Parsed f | BadSyntax \<Rightarrow> ExitCode 2
     | FlagArg name value \<Rightarrow> (case isBoolFlag X name of
         None \<Rightarrow> ExitCode (if name = ''help'' \<or> name = ''h'' then 0 else 2)
       | Some True \<Rightarrow> (case setFlag X name (case value of None \<Rightarrow> ''true'' | Some v \<Rightarrow> v) f of None \<Rightarrow> ExitCode 2 | Some f' \<Rightarrow> parseFlags X args f')
       | Some False \<Rightarrow> (case value of
           Some v \<Rightarrow> (case setFlag X name v f of None \<Rightarrow> ExitCode 2 | Some f' \<Rightarrow> parseFlags X args f')
         | None \<Rightarrow> (case args of [] \<Rightarrow> ExitCode 2
             | v # args' \<Rightarrow> (case setFlag X name v f of None \<Rightarrow> ExitCode 2 | Some f' \<Rightarrow> parseFlags X args' f')))))"

section \<open>Options of the servers\<close>

text \<open>A certificate watcher, by its two files, and the functions that main puts in the slices of TLS options.\<close>

datatype watcher = Watcher string string

datatype tlsOpt = DisableHTTP2 | GetCertificate watcher

record tlsConfig =
  nextProtos :: "string list"
  getCertificate :: "watcher option"

primrec applyTLSOpt :: "tlsOpt \<Rightarrow> tlsConfig \<Rightarrow> tlsConfig" where
  "applyTLSOpt DisableHTTP2 c = c\<lparr>nextProtos := [''http/1.1'']\<rparr>"
| "applyTLSOpt (GetCertificate w) c = c\<lparr>getCertificate := Some w\<rparr>"

text \<open>
  Go slices: a backing array, a length and a capacity. \<^verbatim>\<open>append\<close> writes into the array while the capacity lasts, where every slice
  over that array sees it, and copies to a new one otherwise. \<open>grow\<close> is the capacity the runtime chooses for a new array.
\<close>

record slice =
  s_base :: nat
  s_len :: nat
  s_cap :: nat

type_synonym 'a arrays = "'a option list list"

definition nilSlice :: slice where
  "nilSlice = \<lparr>s_base = 0, s_len = 0, s_cap = 0\<rparr>"

definition sliceElems :: "'a arrays \<Rightarrow> slice \<Rightarrow> 'a option list" where
  "sliceElems h s = (if s_cap s = 0 then [] else take (s_len s) (h ! s_base s))"

definition appendSlice :: "(nat \<Rightarrow> nat \<Rightarrow> nat) \<Rightarrow> 'a arrays \<Rightarrow> slice \<Rightarrow> 'a \<Rightarrow> 'a arrays \<times> slice" where
  "appendSlice grow h s x = (if s_len s < s_cap s
     then (h[s_base s := (h ! s_base s)[s_len s := Some x]], s\<lparr>s_len := s_len s + 1\<rparr>)
     else let cap = max (s_len s + 1) (grow (s_cap s) (s_len s + 1))
          in (h @ [sliceElems h s @ [Some x] @ replicate (cap - s_len s - 1) None],
              \<lparr>s_base = length h, s_len = s_len s + 1, s_cap = cap\<rparr>))"

text \<open>A server applies its options in order, when it starts, to a configuration of its own.\<close>

definition applyTLSOpts :: "tlsOpt option list \<Rightarrow> tlsConfig \<Rightarrow> tlsConfig" where
  "applyTLSOpts opts c = fold (\<lambda>x c. case x of None \<Rightarrow> c | Some opt \<Rightarrow> applyTLSOpt opt c) opts c"

section \<open>Start-up\<close>

record managerOptions =
  mo_metricsBindAddress :: string
  mo_secureServing :: bool
  mo_authFilter :: bool  \<comment> \<open>FilterProvider is set\<close>
  mo_metricsTLS :: "tlsOpt option list"
  mo_webhookTLS :: "tlsOpt option list"
  mo_probeAddress :: string
  mo_leaderElection :: bool
  mo_leaderElectionID :: string
  mo_syncSeconds :: int

datatype controllerSetup = WorkspaceSetup workspaceReconciler | UserSetup | AuthConfigSetup | ImageRepositorySetup

datatype action =
    PrintLine string
  | NewWatcher watcher
  | GetConfig
  | NewManager managerOptions
  | SetupController controllerSetup
  | AddWatcher watcher
  | AddHealthzCheck
  | AddReadyzCheck
  | Start

text \<open>The actions of a run, the last of which may have failed, and the exit code of the process.\<close>

type_synonym startup = "action list \<times> nat"

definition attempt :: "(action \<Rightarrow> bool) \<Rightarrow> action \<Rightarrow> startup \<Rightarrow> startup" where
  "attempt ok a k = (if ok a then (a # fst k, snd k) else ([a], 1))"

definition attemptIf :: "bool \<Rightarrow> (action \<Rightarrow> bool) \<Rightarrow> action \<Rightarrow> startup \<Rightarrow> startup" where
  "attemptIf c ok a k = (if c then attempt ok a k else k)"

definition webhookWatcher :: "flags \<Rightarrow> watcher" where
  "webhookWatcher f = Watcher (joinPath (webhookCertPath f) (webhookCertName f)) (joinPath (webhookCertPath f) (webhookCertKey f))"

definition metricsWatcher :: "flags \<Rightarrow> watcher" where
  "metricsWatcher f = Watcher (joinPath (metricsCertPath f) (metricsCertName f)) (joinPath (metricsCertPath f) (metricsCertKey f))"

definition appendIf :: "bool \<Rightarrow> (nat \<Rightarrow> nat \<Rightarrow> nat) \<Rightarrow> 'a \<Rightarrow> 'a arrays \<times> slice \<Rightarrow> 'a arrays \<times> slice" where
  "appendIf c grow x hs = (if c then appendSlice grow (fst hs) (snd hs) x else hs)"

text \<open>
  The two slices of TLS options. Both start as \<^verbatim>\<open>tlsOpts\<close>; the webhook's is extended first, the metrics server's second, and both
  are read when the servers start, from the memory as it is then.
\<close>

definition serverOpts :: "(nat \<Rightarrow> nat \<Rightarrow> nat) \<Rightarrow> flags \<Rightarrow> tlsOpt option list \<times> tlsOpt option list" where
  "serverOpts grow f = (
     let (h0, tlsOpts) = appendIf (\<not> enableHTTP2 f) grow DisableHTTP2 ([], nilSlice);
         (h1, webhookTLSOpts) = appendIf (webhookCertPath f \<noteq> []) grow (GetCertificate (webhookWatcher f)) (h0, tlsOpts);
         (h2, metricsTLSOpts) = appendIf (metricsCertPath f \<noteq> []) grow (GetCertificate (metricsWatcher f)) (h1, tlsOpts)
     in (sliceElems h2 webhookTLSOpts, sliceElems h2 metricsTLSOpts))"

definition managerOptionsOf :: "(nat \<Rightarrow> nat \<Rightarrow> nat) \<Rightarrow> flags \<Rightarrow> managerOptions" where
  "managerOptionsOf grow f = \<lparr>mo_metricsBindAddress = metricsAddr f, mo_secureServing = secureMetrics f,
     mo_authFilter = secureMetrics f, mo_metricsTLS = snd (serverOpts grow f), mo_webhookTLS = fst (serverOpts grow f),
     mo_probeAddress = probeAddr f, mo_leaderElection = enableLeaderElection f,
     mo_leaderElectionID = ''6dfb8862.kubeworkspaces.io'', mo_syncSeconds = 120\<rparr>"

definition newReconciler :: "flags \<Rightarrow> workspaceReconciler" where
  "newReconciler f = \<lparr>r_reader = Live, r_guestAgent = False, r_managementNamespace = managementBootstrapNamespace f,
     r_containerInitImage = containerInitImage f\<rparr>"

definition runManager :: "(action \<Rightarrow> bool) \<Rightarrow> flags \<Rightarrow> startup" where
  "runManager ok f =
     attempt ok (SetupController (WorkspaceSetup (newReconciler f))) (
     attempt ok (SetupController UserSetup) (
     attempt ok (SetupController AuthConfigSetup) (
     attempt ok (SetupController ImageRepositorySetup) (
     attemptIf (metricsCertPath f \<noteq> []) ok (AddWatcher (metricsWatcher f)) (
     attemptIf (webhookCertPath f \<noteq> []) ok (AddWatcher (webhookWatcher f)) (
     attempt ok AddHealthzCheck (
     attempt ok AddReadyzCheck (
     attempt ok Start ([], 0)))))))))"

record buildInfo =
  b_version :: string
  b_commit :: string
  b_buildDate :: string
  b_os :: string
  b_arch :: string
  b_go :: string

definition versionString :: "buildInfo \<Rightarrow> string" where
  "versionString b = b_version b @ '' (commit '' @ b_commit b @ '', built '' @ b_buildDate b @ '', '' @ b_os b @ ''/'' @ b_arch b
     @ '', '' @ b_go b @ '')''"

definition startManager :: "(nat \<Rightarrow> nat \<Rightarrow> nat) \<Rightarrow> (action \<Rightarrow> bool) \<Rightarrow> flags \<Rightarrow> startup" where
  "startManager grow ok f =
     attemptIf (webhookCertPath f \<noteq> []) ok (NewWatcher (webhookWatcher f)) (
     attemptIf (metricsCertPath f \<noteq> []) ok (NewWatcher (metricsWatcher f)) (
     attempt ok GetConfig (
     attempt ok (NewManager (managerOptionsOf grow f)) (
     runManager ok f))))"

definition mainProgram :: "lib \<Rightarrow> (nat \<Rightarrow> nat \<Rightarrow> nat) \<Rightarrow> foreignFlags \<Rightarrow> buildInfo \<Rightarrow> (string \<Rightarrow> string) \<Rightarrow> string list \<Rightarrow> (action \<Rightarrow> bool) \<Rightarrow> startup" where
  "mainProgram L grow X b getenv args ok = (case parseFlags X args (defaultFlags getenv) of ExitCode n \<Rightarrow> ([], n)
     | Parsed f \<Rightarrow>
         if showVersion f then ([PrintLine (versionString b)], 0)
         else if managementBootstrapNamespace f \<noteq> [] \<and> \<not> l_isDNS1123Label L (managementBootstrapNamespace f) then ([], 1)
         else startManager grow ok f)"

text \<open>
  SetupWithManager of the Workspace controller: the error of the registration of the gauges, the error of the guest agent's client,
  the answers of the REST mapper for the two KubeVirt kinds and the error of the builder are arguments.
\<close>

datatype watch = For kind | Owns kind | Watches kind

definition setupWithManager :: "gerr option \<Rightarrow> gerr option \<Rightarrow> gerr option \<Rightarrow> gerr option \<Rightarrow> gerr option \<Rightarrow> workspaceReconciler
    \<Rightarrow> (workspaceReconciler \<times> watch list) result" where
  "setupWithManager register newAgent mapVM mapVMI complete r = (case register of Some e \<Rightarrow> Inl e | None \<Rightarrow>
     (case (if r_guestAgent r then None else newAgent) of Some e \<Rightarrow> Inl e | None \<Rightarrow>
     (case kubeVirtGVKInstalled mapVM of Inl e \<Rightarrow> Inl e | Inr vmInstalled \<Rightarrow>
     (case kubeVirtGVKInstalled mapVMI of Inl e \<Rightarrow> Inl e | Inr vmiInstalled \<Rightarrow>
     (case complete of Some e \<Rightarrow> Inl e | None \<Rightarrow>
       Inr (r\<lparr>r_guestAgent := True\<rparr>,
         [For KWorkspace, Owns KStatefulSet, Owns KDeployment, Owns KService, Owns KSecret, Watches KSecret, Watches KSshKey, Watches KPod]
         @ (if vmInstalled then [Watches KVirtualMachine] else []) @ (if vmiInstalled then [Watches KVirtualMachineInstance] else [])))))))"

section \<open>What the servers and the reconcilers get\<close>

text \<open>With an exact first allocation the two servers do not share the slots they append to.\<close>

lemma serverOpts_separate:
  assumes "grow 0 1 \<le> 1"
  shows "serverOpts grow f =
    ((if enableHTTP2 f then [] else [Some DisableHTTP2]) @ (if webhookCertPath f = [] then [] else [Some (GetCertificate (webhookWatcher f))]),
     (if enableHTTP2 f then [] else [Some DisableHTTP2]) @ (if metricsCertPath f = [] then [] else [Some (GetCertificate (metricsWatcher f))]))"
  using assms by (simp add: serverOpts_def appendIf_def appendSlice_def sliceElems_def nilSlice_def Let_def max_def nth_append)

text \<open>
  The language leaves the capacity to the runtime. One that leaves room in the first array makes the second append overwrite the
  webhook's certificate with the one of the metrics server.
\<close>

lemma serverOpts_shared:
  assumes "2 \<le> grow 0 1" and "\<not> enableHTTP2 f" and "webhookCertPath f \<noteq> []" and "metricsCertPath f \<noteq> []"
  shows "fst (serverOpts grow f) = [Some DisableHTTP2, Some (GetCertificate (metricsWatcher f))]"
proof -
  obtain n where "grow 0 1 = n + 2" using assms(1) by (metis le_Suc_ex add.commute)
  with assms show ?thesis
    by (simp add: serverOpts_def appendIf_def appendSlice_def sliceElems_def nilSlice_def Let_def max_def replicate_Suc numeral_2_eq_2)
qed

text \<open>The start-up as a list: the actions are performed in order up to the first that fails.\<close>

fun perform :: "(action \<Rightarrow> bool) \<Rightarrow> action list \<Rightarrow> startup" where
  "perform ok [] = ([], 0)"
| "perform ok (a # as) = (if ok a then (a # fst (perform ok as), snd (perform ok as)) else ([a], 1))"

definition plan :: "(nat \<Rightarrow> nat \<Rightarrow> nat) \<Rightarrow> flags \<Rightarrow> action list" where
  "plan grow f = (if webhookCertPath f = [] then [] else [NewWatcher (webhookWatcher f)])
     @ (if metricsCertPath f = [] then [] else [NewWatcher (metricsWatcher f)])
     @ [GetConfig, NewManager (managerOptionsOf grow f), SetupController (WorkspaceSetup (newReconciler f)), SetupController UserSetup,
        SetupController AuthConfigSetup, SetupController ImageRepositorySetup]
     @ (if metricsCertPath f = [] then [] else [AddWatcher (metricsWatcher f)])
     @ (if webhookCertPath f = [] then [] else [AddWatcher (webhookWatcher f)])
     @ [AddHealthzCheck, AddReadyzCheck, Start]"

lemma startManager_plan: "startManager grow ok f = perform ok (plan grow f)"
  by (simp add: startManager_def runManager_def plan_def attempt_def attemptIf_def)

lemma set_perform: "set (fst (perform ok as)) \<subseteq> set as"
  by (induction as) auto

lemma perform_snoc:
  "fst (perform ok (as @ [a])) = as @ [a] \<Longrightarrow> list_all ok as \<and> snd (perform ok (as @ [a])) = (if ok a then 0 else 1)"
  by (induction as) (auto split: if_splits)

lemma plan_Start: "Start \<in> set (fst (perform ok (plan grow f))) \<Longrightarrow> fst (perform ok (plan grow f)) = plan grow f"
  by (simp add: plan_def split: if_splits)

lemma mainProgram_started:
  assumes "a \<in> set (fst (mainProgram L grow X b getenv args ok))" and "\<And>s. a \<noteq> PrintLine s"
  obtains f where "parseFlags X args (defaultFlags getenv) = Parsed f"
    "managementBootstrapNamespace f = [] \<or> l_isDNS1123Label L (managementBootstrapNamespace f)"
    "mainProgram L grow X b getenv args ok = perform ok (plan grow f)"
  using assms by (auto simp: mainProgram_def startManager_plan split: parsed.splits if_splits)

text \<open>
  A boolean flag has the value of its default unless an argument names it. The metrics server is served without the
  authorization filter only on an explicit request.
\<close>

lemma map_of_flagTable_bool:
  assumes "setFlag X name v f = Some f'"
  shows "secureMetrics f' = secureMetrics f \<or> name = ''metrics-secure'' \<and> parseBool v = Some (secureMetrics f')"
  using assms by (auto simp: setFlag_def flagTable_def split: if_splits option.splits)

text \<open>One step of the parser: which arguments it consumes and what it assigns.\<close>

lemma parseFlags_step:
  assumes "parseFlags X (arg # args) f = Parsed f'" and "f' \<noteq> f"
  obtains (flag_bool) name val f1 rest where "flagArgOf arg = FlagArg name val" "setFlag X name (case val of Some v \<Rightarrow> v | None \<Rightarrow> ''true'') f = Some f1"
      "isBoolFlag X name = Some True" "rest = args" "parseFlags X rest f1 = Parsed f'"
    | (flag_string) name v f1 rest where "isBoolFlag X name = Some False" "setFlag X name v f = Some f1"
        "parseFlags X rest f1 = Parsed f'" "rest = args \<or> (\<exists>u. args = u # rest)"
  using assms by (auto split: flagArg.splits option.splits bool.splits list.splits)

lemma insecure_requested:
  "parseFlags X args f = Parsed f' \<Longrightarrow> secureMetrics f \<Longrightarrow> \<not> secureMetrics f' \<Longrightarrow>
   \<exists>a \<in> set args. \<exists>v. flagArgOf a = FlagArg ''metrics-secure'' (Some v) \<and> parseBool v = Some False"
proof (induction args arbitrary: f rule: length_induct)
  case (1 args)
  note IH = 1(1) and prems = 1(2-)
  then obtain arg rest where args: "args = arg # rest" by (cases args) auto
  have "f' \<noteq> f" using prems by auto
  with prems(1)[unfolded args] show ?case
  proof (cases rule: parseFlags_step)
    case (flag_bool name val f1 r)
    then show ?thesis
    proof (cases "secureMetrics f1")
      case True
      then show ?thesis using IH[rule_format, of r f1] flag_bool prems args by auto
    next
      case False
      with map_of_flagTable_bool[OF flag_bool(2)] prems(2) have "name = ''metrics-secure''"
        and b: "parseBool (case val of Some v \<Rightarrow> v | None \<Rightarrow> ''true'') = Some False" by simp_all
      moreover from b obtain v where "val = Some v" by (cases val) (simp_all add: parseBool_def)
      ultimately show ?thesis using flag_bool(1) args by auto
    qed
  next
    case (flag_string name v f1 r)
    then have "name \<noteq> ''metrics-secure''" by (auto simp: isBoolFlag_def flagTable_def)
    then have "secureMetrics f1" using map_of_flagTable_bool[OF flag_string(2)] prems by simp
    then show ?thesis using IH[rule_format, of r f1] flag_string prems args by auto
  qed
qed

text \<open>
  C40. The servers of the manager are what the flags ask for. Whenever a manager is created, its metrics endpoint has the
  authentication filter, or some argument switches secure serving off by name. Unless HTTP/2 is enabled both servers speak HTTP/1.1
  only. Each server uses its own certificate, the files of its own flags: the options are appended to slices that start out
  shared, and as the runtime allocates the first array without spare room the later append does not reach the webhook's.
\<close>

theorem manager_serves_as_configured:
  assumes "grow 0 1 \<le> 1" and "NewManager mo \<in> set (fst (mainProgram L grow X b getenv args ok))"
  shows "\<exists>f. parseFlags X args (defaultFlags getenv) = Parsed f \<and> mo_secureServing mo = secureMetrics f \<and> mo_authFilter mo = secureMetrics f
    \<and> (mo_authFilter mo \<or> (\<exists>a \<in> set args. \<exists>v. flagArgOf a = FlagArg ''metrics-secure'' (Some v) \<and> parseBool v = Some False))
    \<and> applyTLSOpts (mo_webhookTLS mo) c = \<lparr>nextProtos = (if enableHTTP2 f then nextProtos c else [''http/1.1'']),
         getCertificate = (if webhookCertPath f = [] then getCertificate c else Some (webhookWatcher f))\<rparr>
    \<and> applyTLSOpts (mo_metricsTLS mo) c = \<lparr>nextProtos = (if enableHTTP2 f then nextProtos c else [''http/1.1'']),
         getCertificate = (if metricsCertPath f = [] then getCertificate c else Some (metricsWatcher f))\<rparr>"
proof -
  from assms(2) obtain f where f: "parseFlags X args (defaultFlags getenv) = Parsed f"
    and run: "mainProgram L grow X b getenv args ok = perform ok (plan grow f)" by (rule mainProgram_started) simp
  have "NewManager mo \<in> set (plan grow f)" using assms(2) set_perform unfolding run by blast
  then have mo: "mo = managerOptionsOf grow f" by (auto simp: plan_def split: if_splits)
  have "secureMetrics f \<or> (\<exists>a \<in> set args. \<exists>v. flagArgOf a = FlagArg ''metrics-secure'' (Some v) \<and> parseBool v = Some False)"
    using insecure_requested[OF f] by (auto simp: defaultFlags_def)
  with f mo show ?thesis
    by (intro exI[of _ f]) (cases c, simp add: managerOptionsOf_def serverOpts_separate[of grow, OF assms(1)] applyTLSOpts_def)
qed

definition exArgs :: "string list" where
  "exArgs = [''--webhook-cert-path=/etc/w'', ''-metrics-cert-path'', ''/etc/m'', ''--leader-elect'']"

definition exFlags :: flags where
  "exFlags = (defaultFlags (\<lambda>_. []))\<lparr>webhookCertPath := ''/etc/w'', metricsCertPath := ''/etc/m'', enableLeaderElection := True\<rparr>"

definition exForeign :: foreignFlags where
  "exForeign = \<lparr>ff_known = (\<lambda>n. n = ''kubeconfig''), ff_bool = (\<lambda>_. False), ff_accepts = (\<lambda>_ _. True)\<rparr>"

definition exBuild :: buildInfo where
  "exBuild = \<lparr>b_version = ''dev'', b_commit = ''unknown'', b_buildDate = ''unknown'', b_os = ''linux'', b_arch = ''amd64'', b_go = ''go1.24''\<rparr>"

lemma exArgs_parsed: "parseFlags exForeign exArgs (defaultFlags (\<lambda>_. [])) = Parsed exFlags"
  by code_simp

lemma exMain_plan: "mainProgram ref_lib (\<lambda>_ n. n) exForeign exBuild (\<lambda>_. []) exArgs (\<lambda>_. True) = (plan (\<lambda>_ n. n) exFlags, 0)"
proof -
  have "perform (\<lambda>_. True) as = (as, 0)" for as by (induction as) simp_all
  then show ?thesis by (simp add: mainProgram_def exArgs_parsed startManager_plan) (simp add: exFlags_def defaultFlags_def)
qed

theorem manager_serves_as_configured_witness:
  "NewManager (managerOptionsOf (\<lambda>_ n. n) exFlags) \<in> set (fst (mainProgram ref_lib (\<lambda>_ n. n) exForeign exBuild (\<lambda>_. []) exArgs (\<lambda>_. True)))
   \<and> applyTLSOpts (mo_webhookTLS (managerOptionsOf (\<lambda>_ n. n) exFlags)) \<lparr>nextProtos = [''h2''], getCertificate = None\<rparr>
     = \<lparr>nextProtos = [''http/1.1''], getCertificate = Some (Watcher ''/etc/w/tls.crt'' ''/etc/w/tls.key'')\<rparr>"
proof -
  have mem: "NewManager (managerOptionsOf (\<lambda>_ n. n) exFlags) \<in> set (fst (mainProgram ref_lib (\<lambda>_ n. n) exForeign exBuild (\<lambda>_. []) exArgs (\<lambda>_. True)))"
    by (simp add: exMain_plan plan_def)
  have "\<not> enableHTTP2 exFlags" "webhookCertPath exFlags \<noteq> []" by (simp_all add: exFlags_def defaultFlags_def)
  moreover have "webhookWatcher exFlags = Watcher ''/etc/w/tls.crt'' ''/etc/w/tls.key''" by code_simp
  ultimately show ?thesis
    using mem manager_serves_as_configured[OF _ mem, of "\<lparr>nextProtos = [''h2''], getCertificate = None\<rparr>"] exArgs_parsed by auto
qed

text \<open>
  The manager starts only when every step before has succeeded: both certificates are watched where they are configured, all four
  controllers are set up, in order, with the reconciler configured by the flags, and both probes are registered. The namespace of
  management credentials is then empty or a DNS label, and the exit code tells whether the manager ended without an error.
\<close>

theorem start_needs_setup:
  assumes "Start \<in> set (fst (mainProgram L grow X b getenv args ok))"
  shows "\<exists>f. parseFlags X args (defaultFlags getenv) = Parsed f
    \<and> (managementBootstrapNamespace f = [] \<or> l_isDNS1123Label L (managementBootstrapNamespace f))
    \<and> fst (mainProgram L grow X b getenv args ok) = plan grow f
    \<and> list_all ok (butlast (plan grow f)) \<and> snd (mainProgram L grow X b getenv args ok) = (if ok Start then 0 else 1)"
proof -
  from assms obtain f where f: "parseFlags X args (defaultFlags getenv) = Parsed f"
      "managementBootstrapNamespace f = [] \<or> l_isDNS1123Label L (managementBootstrapNamespace f)"
    and run: "mainProgram L grow X b getenv args ok = perform ok (plan grow f)" by (rule mainProgram_started) simp
  have all: "fst (perform ok (plan grow f)) = plan grow f" using assms unfolding run by (rule plan_Start)
  have pl: "plan grow f = butlast (plan grow f) @ [Start]" by (simp add: plan_def)
  have "list_all ok (butlast (plan grow f)) \<and> snd (perform ok (plan grow f)) = (if ok Start then 0 else 1)"
    using perform_snoc[of ok "butlast (plan grow f)" Start] all pl by metis
  with f run all show ?thesis by (intro exI[of _ f]) simp
qed

text \<open>A successful set-up provides the guest agent and watches the KubeVirt kinds exactly when they are installed.\<close>

lemma setup_complete:
  assumes "setupWithManager register newAgent mapVM mapVMI complete r = Inr (r', ws)"
  shows "r_guestAgent r' \<and> r_managementNamespace r' = r_managementNamespace r \<and> r_containerInitImage r' = r_containerInitImage r
    \<and> (Watches KVirtualMachine \<in> set ws \<longleftrightarrow> mapVM = None) \<and> (Watches KVirtualMachineInstance \<in> set ws \<longleftrightarrow> mapVMI = None)"
  using assms by (auto simp: setupWithManager_def kubeVirtGVKInstalled_def split: option.splits if_splits)

end
