(* ===== verification/Guest_Agent.thy ===== *)
theory Guest_Agent
  imports Windows_Guest Runes
begin

text \<open>
  The channel into a Windows guest (src/internal/controller/vm_windows_agent.go): a PowerShell script is encoded, started
  through the QEMU agent of the launcher pod and polled until it exits. The executor and its stream are environment
  requests; the answer of an exec is the sequence of writes to its two outputs.
\<close>

section \<open>Text encodings\<close>

text \<open>\<^verbatim>\<open>utf16.Encode\<close>, and the units as little-endian bytes.\<close>

definition utf16 :: "nat \<Rightarrow> nat list" where
  "utf16 r = (if r < 0x10000 then [r] else [0xD800 + (r - 0x10000) div 0x400, 0xDC00 + (r - 0x10000) mod 0x400])"

definition unitBytes :: "nat \<Rightarrow> string" where
  "unitBytes u = [char_of (u mod 256), char_of (u div 256)]"

text \<open>\<^verbatim>\<open>base64.StdEncoding\<close>: the other alphabet, with padding. The decoder skips line breaks.\<close>

definition toStd :: "char \<Rightarrow> char" where
  "toStd c = (if c = CHR ''-'' then CHR ''+'' else if c = CHR ''_'' then CHR ''/'' else c)"

definition fromStd :: "char \<Rightarrow> char option" where
  "fromStd c = (if c = CHR ''+'' then Some CHR ''-'' else if c = CHR ''/'' then Some CHR ''_''
     else if c = CHR ''-'' \<or> c = CHR ''_'' then None else Some c)"

definition encodeStd :: "string \<Rightarrow> string" where
  "encodeStd s = (let body = map toStd (encodeBase64 s) in body @ replicate ((4 - length body mod 4) mod 4) CHR ''='')"

fun unpad :: "string \<Rightarrow> string" where
  "unpad s = (if length s < 2 \<or> last s \<noteq> CHR ''='' then s
     else if last (butlast s) \<noteq> CHR ''='' then butlast s else butlast (butlast s))"

definition decodeStd :: "string \<Rightarrow> string option" where
  "decodeStd t = (let s = filter (\<lambda>c. c \<noteq> CHR 0x0A \<and> c \<noteq> CHR 0x0D) t; body = unpad s in
     if length s mod 4 \<noteq> 0 \<or> list_ex (\<lambda>c. fromStd c = None) body then None
     else decodeBase64 (map (\<lambda>c. the (fromStd c)) body))"

definition encodeCommand :: "string \<Rightarrow> string" where
  "encodeCommand script = encodeStd (concat (map unitBytes (concat (map utf16 (runes script)))))"

section \<open>The agent channel\<close>

definition maxAgentOutput :: nat where
  "maxAgentOutput = 64 * 1024"

text \<open>\<^verbatim>\<open>boundedAgentOutput.Write\<close>: the buffer afterwards.\<close>

definition boundedWrite :: "string \<Rightarrow> string \<Rightarrow> string result" where
  "boundedWrite buffer data = (if int (length buffer) + int (length data) > int maxAgentOutput
     then Inl (Errorf ''guest agent response exceeds its limit'') else Inr (buffer @ data))"

text \<open>The writes of a stream in their order, \<open>True\<close> for stderr; the result is stdout. A refused write ends the stream.\<close>

fun streamOutput :: "string \<Rightarrow> string \<Rightarrow> (bool \<times> string) list \<Rightarrow> string result" where
  "streamOutput out err [] = Inr out"
| "streamOutput out err ((isErr, data) # ws) =
     (if isErr then (case boundedWrite err data of Inl e \<Rightarrow> Inl e | Inr b \<Rightarrow> streamOutput out b ws)
      else (case boundedWrite out data of Inl e \<Rightarrow> Inl e | Inr b \<Rightarrow> streamOutput b err ws))"

definition execOutput :: "resp \<Rightarrow> string result" where
  "execOutput r = (case r of RErr e \<Rightarrow> Inl e | RChunks c \<Rightarrow> streamOutput [] [] c | _ \<Rightarrow> Inl badResponse)"

text \<open>
  Decoding into a struct: every member whose name matches the tag, exactly or in another case, sets the field in turn; a
  null leaves it alone and a value of another type is an error.
\<close>

definition lowerASCII :: "char \<Rightarrow> char" where
  "lowerASCII c = (if CHR ''A'' \<le> c \<and> c \<le> CHR ''Z'' then char_of (of_char c + 32 :: nat) else c)"

definition matching :: "string \<Rightarrow> jobj \<Rightarrow> json list" where
  "matching name m = map snd (filter (\<lambda>(k, v). map lowerASCII k = map lowerASCII name) m)"

definition typedMember :: "(json \<Rightarrow> 'a option) \<Rightarrow> 'a \<Rightarrow> string \<Rightarrow> jobj \<Rightarrow> 'a result" where
  "typedMember dec zero name m = (let vs = map dec (filter (\<lambda>v. v \<noteq> JNull) (matching name m)) in
     if None \<in> set vs then Inl (Errorf ''json: cannot unmarshal into Go struct field'')
     else (case rev vs of Some x # _ \<Rightarrow> Inr x | _ \<Rightarrow> Inr zero))"

definition structOf :: "json \<Rightarrow> jobj result" where
  "structOf v = (case v of JObj m \<Rightarrow> Inr m | JNull \<Rightarrow> Inr [] | _ \<Rightarrow> Inl (Errorf ''json: cannot unmarshal into Go value''))"

definition boolMember :: "string \<Rightarrow> jobj \<Rightarrow> bool result" where
  "boolMember = typedMember (\<lambda>v. case v of JBool b \<Rightarrow> Some b | _ \<Rightarrow> None) False"

definition intMember :: "string \<Rightarrow> jobj \<Rightarrow> int result" where
  "intMember = typedMember (\<lambda>v. case v of JInt i \<Rightarrow> if - (2 ^ 63) \<le> i \<and> i < 2 ^ 63 then Some i else None | _ \<Rightarrow> None) 0"

definition strMember :: "string \<Rightarrow> jobj \<Rightarrow> string result" where
  "strMember = typedMember (\<lambda>v. case v of JStr s \<Rightarrow> Some s | _ \<Rightarrow> None) []"

record execStatus =
  es_exited :: bool
  es_exit :: int
  es_output :: string

definition statusOf :: "json \<Rightarrow> execStatus result" where
  "statusOf v = (case structOf v of Inl e \<Rightarrow> Inl e | Inr m \<Rightarrow>
     (case (boolMember ''exited'' m, intMember ''exitcode'' m, strMember ''out-data'' m) of
        (Inr x, Inr c, Inr d) \<Rightarrow> Inr \<lparr>es_exited = x, es_exit = c, es_output = d\<rparr>
      | _ \<Rightarrow> Inl (Errorf ''json: cannot unmarshal into status'')))"

definition pidOf :: "json \<Rightarrow> int result" where
  "pidOf v = (case structOf v of Inl e \<Rightarrow> Inl e | Inr m \<Rightarrow> intMember ''pid'' m)"

text \<open>The raw member \<^verbatim>\<open>return\<close>: absent when no name matches, and kept when it is a null.\<close>

definition rawMember :: "string \<Rightarrow> jobj \<Rightarrow> json option" where
  "rawMember name m = (case rev (matching name m) of [] \<Rightarrow> None | v # _ \<Rightarrow> Some v)"

definition decodeReturn :: "lib \<Rightarrow> (json \<Rightarrow> 'a result) \<Rightarrow> string \<Rightarrow> 'a result" where
  "decodeReturn L dec out = (case l_jsonUnmarshal L out of
     Inl e \<Rightarrow> Inl (Errorf ''invalid Windows guest agent response'')
   | Inr v \<Rightarrow> (case structOf v of Inl e \<Rightarrow> Inl (Errorf ''invalid Windows guest agent response'')
     | Inr m \<Rightarrow> (case rawMember ''return'' m of None \<Rightarrow> Inl (Errorf ''invalid Windows guest agent response'')
       | Some ret \<Rightarrow> (case dec ret of Inl e \<Rightarrow> Inl (Errorf ''invalid Windows guest agent response'') | Inr x \<Rightarrow> Inr x))))"

definition agentRPC :: "lib \<Rightarrow> string \<Rightarrow> string \<Rightarrow> string \<Rightarrow> string \<Rightarrow> jobj \<Rightarrow> (json \<Rightarrow> 'a result) \<Rightarrow> 'a result prog" where
  "agentRPC L ns pod domain operation arguments dec =
     (case l_jsonMarshal L (JObj [(''execute'', JStr operation), (''arguments'', JObj arguments)]) of
        Inl e \<Rightarrow> Ret (Inl e)
      | Inr command \<Rightarrow> replaceErr ''unable to connect to Windows guest agent'' (ask (ReqGuestDial ns pod) asUnit) (\<lambda>_.
          replaceErr ''windows guest agent request failed''
            (ask (ReqGuestExec ns pod [''virsh'', ''qemu-agent-command'', domain, command]) execOutput)
            (\<lambda>out. Ret (decodeReturn L dec out))))"

text \<open>
  The polling loop. A pause answers whether the context is done. The deadline is 25 s and a pause lasts 250 ms, so the
  context is done after 100 pauses and \<open>maxPolls\<close> rounds are enough; the last one times out.
\<close>

definition maxPolls :: nat where
  "maxPolls = 101"

definition asDone :: "resp \<Rightarrow> bool" where
  "asDone r = (case r of RBool b \<Rightarrow> b | _ \<Rightarrow> True)"

definition exitedOutput :: "execStatus \<Rightarrow> string result" where
  "exitedOutput s = (if es_exit s \<noteq> 0 then Inl (Errorf (''windows guest script exited '' @ showInt (es_exit s)))
     else (case decodeStd (es_output s) of None \<Rightarrow> Inl (Errorf ''invalid Windows guest script output'') | Some out \<Rightarrow> Inr out))"

fun pollScript :: "lib \<Rightarrow> string \<Rightarrow> string \<Rightarrow> string \<Rightarrow> int \<Rightarrow> nat \<Rightarrow> string result prog" where
  "pollScript L ns pod domain pid 0 = Ret (Inl (Errorf ''windows guest script timed out''))"
| "pollScript L ns pod domain pid (Suc n) =
     tryP (agentRPC L ns pod domain ''guest-exec-status'' [(''pid'', JInt pid)] statusOf) (\<lambda>status.
       if es_exited status then Ret (exitedOutput status)
       else bind (ask (ReqPause 250000000) asDone) (\<lambda>isDone.
         if isDone then Ret (Inl (Errorf ''windows guest script timed out'')) else pollScript L ns pod domain pid n))"

definition powershellPath :: string where
  "powershellPath = ''C:'' @ [CHR 0x5C] @ ''Windows'' @ [CHR 0x5C] @ ''System32'' @ [CHR 0x5C] @ ''WindowsPowerShell'' @ [CHR 0x5C] @ ''v1.0'' @ [CHR 0x5C] @ ''powershell.exe''"

definition execScript :: "lib \<Rightarrow> string \<Rightarrow> string \<Rightarrow> string \<Rightarrow> string \<Rightarrow> string result prog" where
  "execScript L ns pod vm script = (let domain = ns @ ''_'' @ vm in
     tryP (agentRPC L ns pod domain ''guest-exec''
        [(''path'', JStr powershellPath),
         (''arg'', JArr (map JStr [''-NoProfile'', ''-NonInteractive'', ''-EncodedCommand'', encodeCommand script])),
         (''capture-output'', JBool True)] pidOf) (\<lambda>pid.
       pollScript L ns pod domain pid maxPolls))"

section \<open>The two operations\<close>

text \<open>Script text, with \<^verbatim>\<open>~\<close> for the single quote and \<^verbatim>\<open>^\<close> for the backslash; neither occurs in the scripts.\<close>

definition psText :: "string \<Rightarrow> string" where
  "psText s = map (\<lambda>c. if c = CHR ''~'' then CHR 0x27 else if c = CHR ''^'' then CHR 0x5C else c) s"

definition completeScript :: "string \<Rightarrow> string" where
  "completeScript hostname = psText (
     ''$ErrorActionPreference=~Stop~; $ProgressPreference=~SilentlyContinue~'' @ NL
     @ ''$state=(Get-ItemProperty ~HKLM:^SOFTWARE^Microsoft^Windows^CurrentVersion^Setup^State~).ImageState'' @ NL
     @ ''$user=Get-LocalUser -Name workspace -ErrorAction SilentlyContinue'' @ NL
     @ ''$complete=$state -eq ~IMAGE_STATE_COMPLETE~ -and $null -ne $user -and $user.Enabled -and $env:COMPUTERNAME -eq ~'') @ hostname @ psText (''~'' @ NL
     @ ''if ($complete) {'' @ NL
     @ ''  Remove-ItemProperty ~HKLM:^SYSTEM^Setup~ -Name UnattendFile -ErrorAction SilentlyContinue'' @ NL
     @ ''  foreach ($base in @(~C:^Windows^Panther~,~C:^Windows^System32^Sysprep~)) {'' @ NL
     @ ''    Get-ChildItem $base -Recurse -File -Filter ~*unattend*.xml~ | Remove-Item -Force'' @ NL
     @ ''  }'' @ NL @ ''}'' @ NL
     @ ''@'' @ ''{complete=[bool]$complete} | ConvertTo-Json -Compress'')"

definition CompleteBootstrap :: "lib \<Rightarrow> string \<Rightarrow> string \<Rightarrow> string \<Rightarrow> string \<Rightarrow> bool result prog" where
  "CompleteBootstrap L ns pod vm hostname = tryP (execScript L ns pod vm (completeScript hostname)) (\<lambda>output.
     Ret (case l_jsonUnmarshal L output of Inl e \<Rightarrow> Inl (Errorf ''invalid Windows provisioning status'')
       | Inr v \<Rightarrow> (case structOf v of Inl e \<Rightarrow> Inl (Errorf ''invalid Windows provisioning status'')
         | Inr m \<Rightarrow> (case boolMember ''complete'' m of Inl e \<Rightarrow> Inl (Errorf ''invalid Windows provisioning status'') | Inr b \<Rightarrow> Inr b))))"

definition stagePrefix :: string where
  "stagePrefix = psText (''$ErrorActionPreference=~Stop~; $ProgressPreference=~SilentlyContinue~'' @ NL
     @ ''$dir=~C:^ProgramData^workspace-agent~'' @ NL
     @ ''New-Item -ItemType Directory -Force -Path $dir | Out-Null'' @ NL
     @ ''Set-Content -Path ($dir+~^enrollment-token.json~) -Value '')"

definition stageSuffix :: string where
  "stageSuffix = '' -Encoding UTF8 -NoNewline -Force'' @ NL @ ''@'' @ ''{staged=$true} | ConvertTo-Json -Compress''"

definition enrollmentStageScript :: "lib \<Rightarrow> string \<Rightarrow> string result" where
  "enrollmentStageScript L token =
     (if CHR 0x27 \<in> set token then Inl (Errorf ''refusing to stage an enrollment token with quoting'')
      else case l_jsonUnmarshal L token of
        Inl e \<Rightarrow> Inl (Errorf ''refusing to stage a malformed enrollment token'')
      | Inr v \<Rightarrow> (case structOf v of Inl e \<Rightarrow> Inl (Errorf ''refusing to stage a malformed enrollment token'')
        | Inr m \<Rightarrow> Inr (stagePrefix @ [CHR 0x27] @ token @ [CHR 0x27] @ stageSuffix)))"

definition stageEnrollment :: "lib \<Rightarrow> string \<Rightarrow> string \<Rightarrow> string \<Rightarrow> string \<Rightarrow> unit result prog" where
  "stageEnrollment L ns pod vm token = (case enrollmentStageScript L token of
     Inl e \<Rightarrow> Ret (Inl e)
   | Inr script \<Rightarrow> wrapP ''windows enrollment staging failed: '' (execScript L ns pod vm script) (\<lambda>_. Ret (Inr ())))"

section \<open>The script arrives\<close>

lemma sextet_alphabet: "sextet a b c d e f \<in> set base64Alphabet"
  using sextetTable_mem[of a b c d e f] unfolding sextetTable_chars[symmetric] set_map by (rule image_eqI[rotated]) simp

lemma encodeBits_alphabet: "set (encodeBits bs) \<subseteq> set base64Alphabet"
  by (induction bs rule: encodeBits.induct) (auto simp: sextet_alphabet)

lemma fromStd_toStd: "c \<in> set base64Alphabet \<Longrightarrow> fromStd (toStd c) = Some c"
  by (auto simp: base64Alphabet_def fromStd_def toStd_def)

lemma toStd_plain: "c \<in> set base64Alphabet \<Longrightarrow> toStd c \<noteq> CHR ''='' \<and> toStd c \<noteq> CHR 0x0A \<and> toStd c \<noteq> CHR 0x0D"
  by (auto simp: base64Alphabet_def toStd_def)

lemma unpad_padded:
  assumes "list_all (\<lambda>c. c \<noteq> CHR ''='') body" and "length body mod 4 \<noteq> 1"
  shows "unpad (body @ replicate ((4 - length body mod 4) mod 4) CHR ''='') = body"
proof -
  have plain: "body \<noteq> [] \<Longrightarrow> last body \<noteq> CHR ''=''" using assms(1) by (auto simp: list_all_iff)
  consider "length body mod 4 = 0" | "length body mod 4 = 2" | "length body mod 4 = 3" using assms(2) by fastforce
  then show ?thesis
  proof cases
    case 1
    with plain show ?thesis by (cases "body = []") simp_all
  next
    case 2
    then have "body \<noteq> []" by auto
    with 2 show ?thesis by (simp add: numeral_2_eq_2 butlast_append)
  next
    case 3
    then have "body \<noteq> []" by auto
    with 3 plain show ?thesis by (simp add: butlast_append)
  qed
qed

lemma decode_encodeStd: "decodeStd (encodeStd s) = Some s"
proof -
  let ?e = "encodeBase64 s" let ?b = "map toStd ?e"
  have al: "set ?e \<subseteq> set base64Alphabet" unfolding encodeBase64_def by (rule encodeBits_alphabet)
  have "length ?e = (8 * length s + 5) div 6" unfolding encodeBase64_def by (simp add: length_encodeBits length_bits)
  then have len: "length ?b mod 4 \<noteq> 1" by (simp, presburger)
  have eq: "list_all (\<lambda>c. c \<noteq> CHR ''='') ?b" using al toStd_plain by (auto simp: list_all_iff)
  have nl: "filter (\<lambda>c. c \<noteq> CHR 0x0A \<and> c \<noteq> CHR 0x0D) (encodeStd s) = encodeStd s"
  proof (rule filter_True, rule ballI)
    fix c assume "c \<in> set (encodeStd s)"
    then have "c = CHR ''='' \<or> (\<exists>x \<in> set base64Alphabet. c = toStd x)" using al by (auto simp: encodeStd_def Let_def)
    then show "c \<noteq> CHR 0x0A \<and> c \<noteq> CHR 0x0D" using toStd_plain by auto
  qed
  have "map (\<lambda>c. the (fromStd c)) ?b = ?e" using al fromStd_toStd by (simp add: map_idI subset_iff)
  moreover have "\<not> list_ex (\<lambda>c. fromStd c = None) ?b" using al fromStd_toStd by (auto simp: list_ex_iff)
  moreover have "unpad (encodeStd s) = ?b" using unpad_padded[OF eq len] by (simp add: encodeStd_def Let_def del: unpad.simps)
  moreover have "length (encodeStd s) mod 4 = 0"
  proof -
    have "(n + (4 - n mod 4) mod 4) mod 4 = 0" for n :: nat
    proof -
      have "n mod 4 < 4" by simp
      then consider "n mod 4 = 0" | "n mod 4 = 1" | "n mod 4 = 2" | "n mod 4 = 3" by linarith
      then show ?thesis
      proof cases
        case 2 then have "(n + 3) mod 4 = 0" by presburger
        with 2 show ?thesis by simp
      next
        case 3 then have "(n + 2) mod 4 = 0" by presburger
        with 3 show ?thesis by simp
      next
        case 4 then have "(n + 1) mod 4 = 0" by presburger
        with 4 show ?thesis by simp
      qed simp
    qed
    then show ?thesis by (simp only: encodeStd_def Let_def length_append length_replicate)
  qed
  ultimately show ?thesis unfolding decodeStd_def nl Let_def by (simp add: decode_encodeBase64 del: unpad.simps)
qed

text \<open>The receiver: UTF-16 from little-endian bytes.\<close>

fun unitsOf :: "string \<Rightarrow> nat list" where
  "unitsOf (a # b # cs) = (of_char a + 256 * of_char b) # unitsOf cs"
| "unitsOf cs = []"

fun fromUtf16 :: "nat list \<Rightarrow> nat list" where
  "fromUtf16 (u # v # us) = (if 0xD800 \<le> u \<and> u < 0xDC00 \<and> 0xDC00 \<le> v \<and> v < 0xE000
     then (0x10000 + (u - 0xD800) * 0x400 + (v - 0xDC00)) # fromUtf16 us else u # fromUtf16 (v # us))"
| "fromUtf16 us = us"

definition decodeCommand :: "string \<Rightarrow> nat list option" where
  "decodeCommand s = map_option (\<lambda>b. fromUtf16 (unitsOf b)) (decodeStd s)"

definition scalar :: "nat \<Rightarrow> bool" where
  "scalar r \<longleftrightarrow> r < 0xD800 \<or> 0xE000 \<le> r \<and> r < 0x110000"

lemma utf16_unit: "scalar r \<Longrightarrow> u \<in> set (utf16 r) \<Longrightarrow> u < 0x10000"
  by (auto simp: scalar_def utf16_def split: if_splits)

lemma units_bytes: "list_all (\<lambda>u. u < 0x10000) us \<Longrightarrow> unitsOf (concat (map unitBytes us)) = us"
  by (induction us) (auto simp: unitBytes_def)

lemma fromUtf16_plain: "u < 0xD800 \<or> 0xE000 \<le> u \<Longrightarrow> fromUtf16 (u # us) = u # fromUtf16 us"
  by (cases us) auto

lemma fromUtf16_pair:
  "0x10000 \<le> r \<Longrightarrow> r < 0x110000 \<Longrightarrow> fromUtf16 ((0xD800 + (r - 0x10000) div 0x400) # (0xDC00 + (r - 0x10000) mod 0x400) # us) = r # fromUtf16 us"
  by auto

lemma fromUtf16_encode: "list_all scalar rs \<Longrightarrow> fromUtf16 (concat (map utf16 rs)) = rs"
proof (induction rs)
  case (Cons r rs)
  then show ?case
  proof (cases "r < 0x10000")
    case True
    with Cons show ?thesis by (simp add: utf16_def scalar_def fromUtf16_plain del: fromUtf16.simps)
  next
    case False
    with Cons show ?thesis using fromUtf16_pair[of r] by (simp add: utf16_def scalar_def del: fromUtf16.simps)
  qed
qed simp

text \<open>A well-formed sequence encodes a scalar value beyond ASCII.\<close>

abbreviation wide :: "nat \<Rightarrow> bool" where
  "wide r \<equiv> scalar r \<and> 0x80 \<le> r"

lemma joinRune_two:
  assumes "0xC2 \<le> b" and "b \<le> 0xDF" and "cont b1"
  shows "wide (joinRune b [b1])"
proof -
  from assms obtain d c where c: "b = 0xC2 + d" "b1 = 0x80 + c" unfolding cont_def by (metis le_iff_add)
  have lt: "d < 30" "c < 64" using assms(2,3) by (auto simp: c cont_def)
  have "b mod 32 = (d + 2 + 32 * 6) mod 32" using c(1) by (simp add: add.commute)
  then have "b mod 32 = d + 2" using lt(1) by (simp only: mod_mult_self2 mod_less)
  then have "joinRune b [b1] = (d + 2) * 64 + c" by (simp add: c(2) joinRune_def)
  with lt show ?thesis by (simp add: scalar_def)
qed

lemma joinRune_three:
  assumes "0xE0 \<le> b" and "b \<le> 0xEF" and "second b b1" and "cont b2"
  shows "wide (joinRune b [b1, b2])"
proof -
  from assms obtain d c1 c2 where c: "b = 0xE0 + d" "b1 = 0x80 + c1" "b2 = 0x80 + c2" unfolding cont_def second_def by (metis le_iff_add)
  have lt: "c1 < 64" "c2 < 64" "d < 16" using assms(2-4) by (auto simp: c cont_def second_def)
  have "b mod 16 = (d + 16 * 14) mod 16" using c(1) by (simp add: add.commute)
  then have "b mod 16 = d" using lt(3) by (simp only: mod_mult_self2 mod_less)
  then have v: "joinRune b [b1, b2] = d * 4096 + c1 * 64 + c2" by (simp add: c(2,3) joinRune_def algebra_simps)
  have "(d = 0 \<and> 32 \<le> c1 \<or> 1 \<le> d \<and> d \<le> 12 \<or> d = 13 \<and> c1 < 32) \<or> 14 \<le> d" using assms(3) by (auto simp: c second_def)
  then consider (low) "d = 0 \<and> 32 \<le> c1 \<or> 1 \<le> d \<and> d \<le> 12 \<or> d = 13 \<and> c1 < 32" | (high) "14 \<le> d" by blast
  then show ?thesis
  proof cases
    case low
    then have "0x80 \<le> d * 4096 + c1 * 64 + c2 \<and> d * 4096 + c1 * 64 + c2 < 0xD800"
      using lt by (elim disjE conjE) (intro conjI; linarith)+
    then show ?thesis unfolding v scalar_def by simp
  next
    case high
    then have "0xE000 \<le> d * 4096 + c1 * 64 + c2" "d * 4096 + c1 * 64 + c2 < 0x110000" using lt by linarith+
    then show ?thesis unfolding v scalar_def by simp
  qed
qed

lemma joinRune_four:
  assumes "0xF0 \<le> b" and "b \<le> 0xF4" and "second b b1" and "cont b2" and "cont b3"
  shows "wide (joinRune b [b1, b2, b3])"
proof -
  from assms obtain d c1 c2 c3 where c: "b = 0xF0 + d" "b1 = 0x80 + c1" "b2 = 0x80 + c2" "b3 = 0x80 + c3"
    unfolding cont_def second_def by (metis le_iff_add)
  have lt: "c2 < 64" "c3 < 64" "c1 < 64" "d < 8" using assms(2-5) by (auto simp: c cont_def second_def)
  have "b mod 8 = (d + 8 * 30) mod 8" using c(1) by (simp add: add.commute)
  then have "b mod 8 = d" using lt(4) by (simp only: mod_mult_self2 mod_less)
  then have "joinRune b [b1, b2, b3] = ((d * 64 + c1) * 64 + c2) * 64 + c3" by (simp add: c(2-4) joinRune_def)
  then have v: "joinRune b [b1, b2, b3] = d * 262144 + c1 * 4096 + c2 * 64 + c3" by (simp add: distrib_right)
  have "d = 0 \<and> 16 \<le> c1 \<or> 1 \<le> d \<and> d \<le> 3 \<or> d = 4 \<and> c1 < 16" using assms(1-3) by (auto simp: c second_def)
  then have "0xE000 \<le> d * 262144 + c1 * 4096 + c2 * 64 + c3 \<and> d * 262144 + c1 * 4096 + c2 * 64 + c3 < 0x110000"
    using lt by (elim disjE conjE) (intro conjI; linarith)+
  then show ?thesis unfolding v scalar_def by simp
qed

lemma joinRune_range:
  assumes "follow b bs = Suc n" shows "wide (joinRune b (take (Suc n) bs))"
proof -
  consider (two) b1 r where "0xC2 \<le> b" "b \<le> 0xDF" "bs = b1 # r" "cont b1" "n = 0"
    | (three) b1 b2 r where "0xE0 \<le> b" "b \<le> 0xEF" "bs = b1 # b2 # r" "second b b1" "cont b2" "n = 1"
    | (four) b1 b2 b3 r where "0xF0 \<le> b" "b \<le> 0xF4" "bs = b1 # b2 # b3 # r" "second b b1" "cont b2" "cont b3" "n = 2"
    using assms unfolding follow_def by (auto split: if_splits list.splits)
  then show ?thesis
  proof cases
    case two then show ?thesis using joinRune_two by simp
  next
    case three then show ?thesis using joinRune_three by simp
  next
    case four then show ?thesis using joinRune_four by (simp add: numeral_3_eq_3)
  qed
qed

lemma runesOf_scalar: "list_all scalar (runesOf bs)"
proof (induction bs rule: runesOf.induct)
  case (2 b bs)
  have "scalar b" if "b < 0x80" using that by (simp add: scalar_def)
  moreover have "scalar 0xFFFD" by (simp add: scalar_def)
  ultimately show ?case using 2 by (auto simp: joinRune_range split: nat.split)
qed simp

lemma command_roundtrip: "decodeCommand (encodeCommand script) = Some (runes script)"
proof -
  have s: "list_all scalar (runes script)" unfolding runes_def by (rule runesOf_scalar)
  then have "list_all (\<lambda>u. u < 0x10000) (concat (map utf16 (runes script)))"
    using utf16_unit by (fastforce simp: list_all_iff)
  with s show ?thesis unfolding decodeCommand_def encodeCommand_def decode_encodeStd by (simp add: units_bytes fromUtf16_encode)
qed

section \<open>Staging the token\<close>

text \<open>
  A verbatim string of PowerShell, from behind its opening quote: the contents and the text behind the closing quote. The
  language takes the typographic quotes U+2018 to U+201B for the apostrophe, and a doubled quote for a quote.
\<close>

definition psQuote :: "nat \<Rightarrow> bool" where
  "psQuote r \<longleftrightarrow> r = 0x27 \<or> 0x2018 \<le> r \<and> r \<le> 0x201B"

fun psVerbatim :: "nat list \<Rightarrow> (nat list \<times> nat list) option" where
  "psVerbatim [] = None"
| "psVerbatim (r # rs) = (if \<not> psQuote r then map_option (\<lambda>(c, rest). (r # c, rest)) (psVerbatim rs)
     else (case rs of q # qs \<Rightarrow> if psQuote q then map_option (\<lambda>(c, rest). (r # c, rest)) (psVerbatim qs) else Some ([], rs) | [] \<Rightarrow> Some ([], [])))"

lemma psVerbatim_plain:
  "list_all (\<lambda>r. \<not> psQuote r) rs \<Longrightarrow> \<not> psQuote p \<Longrightarrow> psVerbatim (rs @ 0x27 # p # post) = Some (rs, p # post)"
  by (induction rs) (auto simp: psQuote_def)

text \<open>An ASCII byte ends every sequence before it, so decoding splits there.\<close>

lemma follow_ascii: "c < 0x80 \<Longrightarrow> follow b (bs @ c # cs) = follow b bs"
  unfolding follow_def by (cases bs; cases "tl bs"; cases "tl (tl bs)") (auto simp: cont_def second_def split: list.split)

lemma follow_length: "follow b bs \<le> length bs"
  unfolding follow_def by (auto split: list.split)

lemma runesOf_ascii: "c < 0x80 \<Longrightarrow> runesOf (bs @ c # cs) = runesOf bs @ runesOf (c # cs)"
proof (induction bs rule: runesOf.induct)
  case (2 b bs)
  then show ?case using follow_length[of b bs] by (auto simp: follow_ascii split: nat.split)
qed simp

lemma runes_ascii: "of_char c < (0x80 :: nat) \<Longrightarrow> runes (s @ c # t) = runes s @ of_char c # runes t"
  unfolding runes_def map_append list.map using runesOf_ascii[of "of_char c"] by simp

lemma runes_apostrophe: "CHR 0x27 \<notin> set s \<Longrightarrow> 0x27 \<notin> set (runes s)"
proof -
  have "0x27 \<in> set (runesOf bs) \<Longrightarrow> 0x27 \<in> set bs" for bs
  proof (induction bs rule: runesOf.induct)
    case (2 b bs)
    show ?case
    proof (cases "follow b bs")
      case 0
      with 2 show ?thesis by (auto split: if_splits)
    next
      case (Suc n)
      have "joinRune b (take (Suc n) bs) \<noteq> 0x27" using joinRune_range[OF Suc] by auto
      with 2 Suc show ?thesis by (auto split: if_splits dest: in_set_dropD)
    qed
  qed simp
  moreover have "0x27 \<in> set (map of_char s :: nat list) \<Longrightarrow> CHR 0x27 \<in> set s"
  proof -
    have "of_char (CHR 0x27) = (0x27 :: nat)" by simp
    then have "of_char c = (0x27 :: nat) \<Longrightarrow> c = CHR 0x27" for c :: char by (metis of_char_eq_iff)
    then show "0x27 \<in> set (map of_char s :: nat list) \<Longrightarrow> CHR 0x27 \<in> set s" by auto
  qed
  ultimately show "CHR 0x27 \<notin> set s \<Longrightarrow> 0x27 \<notin> set (runes s)" unfolding runes_def by blast
qed

lemma stageSuffix_runes: "\<exists>post. runes stageSuffix = 0x20 # post"
  by (simp add: stageSuffix_def runes_def)

text \<open>
  C39. A staged token arrives verbatim. When a script for staging is rendered, the guest decodes the command argument to the script
  text with the token between apostrophes; and unless the token holds one of the typographic quotes that PowerShell takes for
  an apostrophe, the literal that starts there is exactly the token, for every sequence of bytes, and the rest of the script
  follows it: the token cannot break out.
\<close>

theorem staged_token_verbatim:
  assumes "enrollmentStageScript L token = Inr script" and "list_all (\<lambda>r. r < 0x2018 \<or> 0x201B < r) (runes token)"
  shows "decodeCommand (encodeCommand script) = Some (runes stagePrefix @ 0x27 # runes token @ 0x27 # runes stageSuffix)
    \<and> psVerbatim (runes token @ 0x27 # runes stageSuffix) = Some (runes token, runes stageSuffix)"
proof -
  from assms(1) have q: "CHR 0x27 \<notin> set token" and script: "script = stagePrefix @ CHR 0x27 # token @ CHR 0x27 # stageSuffix"
    by (auto simp: enrollmentStageScript_def split: if_splits sum.splits)
  have r: "runes script = runes stagePrefix @ 0x27 # runes token @ 0x27 # runes stageSuffix"
    unfolding script by (subst runes_ascii, simp, subst runes_ascii) simp_all
  have plain: "list_all (\<lambda>r. \<not> psQuote r) (runes token)"
    using assms(2) runes_apostrophe[OF q] by (auto simp: list_all_iff psQuote_def)
  obtain post where post: "runes stageSuffix = 0x20 # post" using stageSuffix_runes by blast
  have "psVerbatim (runes token @ 0x27 # runes stageSuffix) = Some (runes token, runes stageSuffix)"
    unfolding post by (rule psVerbatim_plain[OF plain]) (simp add: psQuote_def)
  with r show ?thesis by (simp add: command_roundtrip)
qed

theorem staged_token_verbatim_witness:
  "\<exists>script. enrollmentStageScript ref_lib ''{}'' = Inr script
     \<and> psVerbatim (runes ''{}'' @ 0x27 # runes stageSuffix) = Some (runes ''{}'', runes stageSuffix)"
proof -
  have "enrollmentStageScript ref_lib ''{}'' = Inr (stagePrefix @ [CHR 0x27] @ ''{}'' @ [CHR 0x27] @ stageSuffix)"
    "list_all (\<lambda>r. r < 0x2018 \<or> 0x201B < r) (runes ''{}'')" by code_simp+
  from staged_token_verbatim[OF this] this(1) show ?thesis by blast
qed

text \<open>
  A token with the quote U+2019 (the bytes E2 80 99) is accepted, and PowerShell ends the literal there: what follows it in the
  token is script text.
\<close>

lemma staged_token_escapes:
  "\<exists>script. enrollmentStageScript ref_lib ([CHR 0xE2, CHR 0x80, CHR 0x99] @ ''x'') = Inr script
     \<and> runes script = runes stagePrefix @ 0x27 # 0x2019 # 0x78 # 0x27 # runes stageSuffix
     \<and> psVerbatim (0x2019 # 0x78 # 0x27 # runes stageSuffix) = Some ([], 0x78 # 0x27 # runes stageSuffix)"
proof -
  let ?token = "[CHR 0xE2, CHR 0x80, CHR 0x99] @ ''x''"
  have "runes (stagePrefix @ CHR 0x27 # ?token @ CHR 0x27 # stageSuffix) = runes stagePrefix @ 0x27 # runes ?token @ 0x27 # runes stageSuffix"
    by (subst runes_ascii, simp, subst runes_ascii) simp_all
  moreover have "runes ?token = [0x2019, 0x78]" by code_simp
  moreover have "enrollmentStageScript ref_lib ?token = Inr (stagePrefix @ CHR 0x27 # ?token @ CHR 0x27 # stageSuffix)" by code_simp
  ultimately show ?thesis by (simp add: psQuote_def)
qed

section \<open>Completion\<close>

lemma execOutput_Inr: "execOutput r = Inr out \<longleftrightarrow> (\<exists>c. r = RChunks c \<and> streamOutput [] [] c = Inr out)"
  by (cases r) (auto simp: execOutput_def)

lemma agentRPC_Inr:
  assumes "runs (agentRPC L ns pod domain operation args dec) tr (Inr x)"
  shows "\<exists>command chunks out y. l_jsonMarshal L (JObj [(''execute'', JStr operation), (''arguments'', JObj args)]) = Inr command
    \<and> tr = [(ReqGuestDial ns pod, y), (ReqGuestExec ns pod [''virsh'', ''qemu-agent-command'', domain, command], RChunks chunks)]
    \<and> asUnit y = Inr () \<and> streamOutput [] [] chunks = Inr out \<and> decodeReturn L dec out = Inr x"
  using assms unfolding agentRPC_def
  by (auto simp: runs_replaceErr runs_ask runs_Ret_iff execOutput_Inr split: sum.splits)

lemma streamOutput_bound:
  "streamOutput out err chunks = Inr res \<Longrightarrow> length out \<le> maxAgentOutput \<Longrightarrow> length res \<le> maxAgentOutput"
  by (induction out err chunks rule: streamOutput.induct) (auto simp: boundedWrite_def split: if_splits sum.splits)

text \<open>
  What the guest reported when a script is taken to have succeeded, with the last exchange; and an exchange that delivered: the connection was made,
  the output stayed within its limit and is a JSON object with a member \<^verbatim>\<open>return\<close>, and a pause ended before the deadline.
\<close>

definition reported :: "lib \<Rightarrow> string \<Rightarrow> string \<Rightarrow> string \<Rightarrow> trace \<Rightarrow> string \<Rightarrow> bool" where
  "reported L ns pod domain tr res \<longleftrightarrow> (\<exists>pre command chunks out status.
     tr = pre @ [(ReqGuestExec ns pod [''virsh'', ''qemu-agent-command'', domain, command], RChunks chunks)]
     \<and> streamOutput [] [] chunks = Inr out \<and> length out \<le> maxAgentOutput \<and> decodeReturn L statusOf out = Inr status
     \<and> es_exited status \<and> es_exit status = 0 \<and> decodeStd (es_output status) = Some res)"

definition delivered :: "lib \<Rightarrow> req \<times> resp \<Rightarrow> bool" where
  "delivered L e \<longleftrightarrow> (case e of
     (ReqGuestDial ns pod, x) \<Rightarrow> asUnit x = Inr ()
   | (ReqGuestExec ns pod command, x) \<Rightarrow> (\<exists>chunks out v m. x = RChunks chunks \<and> streamOutput [] [] chunks = Inr out
        \<and> length out \<le> maxAgentOutput \<and> l_jsonUnmarshal L out = Inr v \<and> structOf v = Inr m \<and> rawMember ''return'' m \<noteq> None)
   | (ReqPause d, x) \<Rightarrow> x = RBool False
   | _ \<Rightarrow> False)"

lemma reported_after: "reported L ns pod domain t out \<Longrightarrow> reported L ns pod domain (l @ t) out"
  unfolding reported_def by (metis append.assoc)

lemma decodeReturn_Inr:
  "decodeReturn L dec out = Inr x \<Longrightarrow> \<exists>v m. l_jsonUnmarshal L out = Inr v \<and> structOf v = Inr m \<and> rawMember ''return'' m \<noteq> None"
  by (auto simp: decodeReturn_def split: sum.splits option.splits)

lemma agentRPC_delivered:
  assumes "runs (agentRPC L ns pod domain operation args dec) tr (Inr x)"
  shows "list_all (delivered L) tr"
proof -
  from agentRPC_Inr[OF assms] obtain command chunks out y where
    tr: "tr = [(ReqGuestDial ns pod, y), (ReqGuestExec ns pod [''virsh'', ''qemu-agent-command'', domain, command], RChunks chunks)]"
    and y: "asUnit y = Inr ()" and out: "streamOutput [] [] chunks = Inr out" "decodeReturn L dec out = Inr x" by blast
  from streamOutput_bound[OF out(1)] have "length out \<le> maxAgentOutput" by simp
  with tr y out(1) decodeReturn_Inr[OF out(2)] show ?thesis by (auto simp: delivered_def)
qed

lemma pollScript_Inr:
  "runs (pollScript L ns pod domain pid n) tr (Inr res) \<Longrightarrow> reported L ns pod domain tr res \<and> list_all (delivered L) tr"
proof (induction n arbitrary: tr)
  case (Suc n)
  from Suc.prems obtain t1 status t2 where t1: "runs (agentRPC L ns pod domain ''guest-exec-status'' [(''pid'', JInt pid)] statusOf) t1 (Inr status)"
    and t2: "runs (if es_exited status then Ret (exitedOutput status)
       else bind (ask (ReqPause 250000000) asDone) (\<lambda>isDone.
         if isDone then Ret (Inl (Errorf ''windows guest script timed out'')) else pollScript L ns pod domain pid n)) t2 (Inr res)"
    and tr: "tr = t1 @ t2" by (auto simp: runs_tryP)
  note d1 = agentRPC_delivered[OF t1]
  show ?case
  proof (cases "es_exited status")
    case True
    with t2 have s: "t2 = []" "es_exit status = 0" "decodeStd (es_output status) = Some res"
      by (auto simp: runs_Ret_iff exitedOutput_def split: if_splits option.splits)
    from agentRPC_Inr[OF t1] obtain command chunks out y where
      "t1 = [(ReqGuestDial ns pod, y)] @ [(ReqGuestExec ns pod [''virsh'', ''qemu-agent-command'', domain, command], RChunks chunks)]"
      "streamOutput [] [] chunks = Inr out" "decodeReturn L statusOf out = Inr status" by auto
    moreover from this(2) have "length out \<le> maxAgentOutput" by (rule streamOutput_bound) simp
    ultimately have "reported L ns pod domain t1 res" using True s unfolding reported_def by blast
    with d1 s(1) tr show ?thesis by simp
  next
    case False
    with t2 obtain x t3 where "runs (pollScript L ns pod domain pid n) t3 (Inr res)" "t2 = (ReqPause 250000000, x) # t3" "\<not> asDone x"
      by (auto simp: runs_bind runs_ask runs_Ret_iff split: if_splits)
    moreover from this(3) have "x = RBool False" by (cases x) (auto simp: asDone_def)
    moreover have "delivered L (ReqPause 250000000, RBool False)" by (simp add: delivered_def)
    ultimately show ?thesis using Suc.IH d1 reported_after[of L ns pod domain t3 res "t1 @ [(ReqPause 250000000, x)]"] tr
      by simp
  qed
qed (simp add: runs_Ret_iff)

lemma execScript_Inr:
  assumes "runs (execScript L ns pod vm script) tr (Inr res)"
  shows "reported L ns pod (ns @ ''_'' @ vm) tr res \<and> list_all (delivered L) tr"
proof -
  from assms obtain pid t1 t2 where
    "runs (agentRPC L ns pod (ns @ ''_'' @ vm) ''guest-exec''
        [(''path'', JStr powershellPath),
         (''arg'', JArr (map JStr [''-NoProfile'', ''-NonInteractive'', ''-EncodedCommand'', encodeCommand script])),
         (''capture-output'', JBool True)] pidOf) t1 (Inr pid)"
    "runs (pollScript L ns pod (ns @ ''_'' @ vm) pid maxPolls) t2 (Inr res)" "tr = t1 @ t2"
    unfolding execScript_def Let_def runs_tryP by auto
  with agentRPC_delivered[OF this(1)] pollScript_Inr[OF this(2)] reported_after show ?thesis by simp
qed

text \<open>
  C38. Setup is reported complete only on the word of the guest, and every failure is an error. When the completion check answers at all, yes or no,
  every exchange with the guest delivered: each connection was made, each output stayed within 64 KiB and was a JSON object with the member return, no
  pause met the deadline. The last exchange was the status of a process that exited with code 0, and the decoded output of that process
  is a JSON object whose member complete, false when absent, is the answer. So a failed or oversized exchange, a nonzero exit,
  undecodable output and a timeout yield an error, never an answer.
\<close>

theorem guest_completion_on_report:
  assumes "runs (CompleteBootstrap L ns pod vm hostname) tr (Inr answer)"
  shows "list_all (delivered L) tr
    \<and> (\<exists>res v m. reported L ns pod (ns @ ''_'' @ vm) tr res \<and> l_jsonUnmarshal L res = Inr v
         \<and> structOf v = Inr m \<and> boolMember ''complete'' m = Inr answer)"
proof -
  from assms obtain res where t: "runs (execScript L ns pod vm (completeScript hostname)) tr (Inr res)"
    and dec: "(case l_jsonUnmarshal L res of Inl e \<Rightarrow> Inl (Errorf ''invalid Windows provisioning status'')
       | Inr v \<Rightarrow> (case structOf v of Inl e \<Rightarrow> Inl (Errorf ''invalid Windows provisioning status'')
         | Inr m \<Rightarrow> (case boolMember ''complete'' m of Inl e \<Rightarrow> Inl (Errorf ''invalid Windows provisioning status'') | Inr b \<Rightarrow> Inr b))) = Inr answer"
    unfolding CompleteBootstrap_def runs_tryP by (auto simp: runs_Ret_iff)
  from execScript_Inr[OF t] dec show ?thesis by (auto split: sum.splits)
qed

lemma ref_json:
  "l_jsonMarshal ref_lib v = Inr ''{}''"
  "l_jsonUnmarshal ref_lib s = Inr (JObj [(''return'', JObj [(''pid'', JInt 1), (''exited'', JBool True), (''out-data'', JStr s)]), (''complete'', JBool True)])"
  by (simp_all add: ref_lib_def)

lemma exRPC:
  assumes "decodeReturn ref_lib dec ''e30='' = Inr x"
  shows "runs (agentRPC ref_lib ns pod domain operation args dec)
    [(ReqGuestDial ns pod, ROk), (ReqGuestExec ns pod [''virsh'', ''qemu-agent-command'', domain, ''{}''], RChunks [(False, ''e30='')])] (Inr x)"
  using assms by (intro exec_runs[of _ "[ROk, RChunks [(False, ''e30='')]]"])
    (simp add: agentRPC_def ref_json replaceErr_def ask_def execOutput_def boundedWrite_def maxAgentOutput_def)

theorem guest_completion_on_report_witness:
  "\<exists>tr res. runs (CompleteBootstrap ref_lib ''team'' ''pod'' ''win'' ''KW-1'') tr (Inr True) \<and> reported ref_lib ''team'' ''pod'' ''team_win'' tr res"
proof -
  let ?st = "\<lparr>es_exited = True, es_exit = 0, es_output = ''e30=''\<rparr>"
  have pid: "decodeReturn ref_lib pidOf ''e30='' = Inr 1" and st: "decodeReturn ref_lib statusOf ''e30='' = Inr ?st"
    and ex: "exitedOutput ?st = Inr ''{}''" by code_simp+
  have "runs (if es_exited ?st then Ret (exitedOutput ?st) else p) [] (Inr ''{}'')" for p using ex runs_Ret by simp
  then have "\<exists>t. runs (pollScript ref_lib ''team'' ''pod'' ''team_win'' 1 (Suc 100)) t (Inr ''{}'')"
    unfolding pollScript.simps(2) runs_tryP using exRPC[OF st] by blast
  then have "\<exists>t. runs (pollScript ref_lib ''team'' ''pod'' ''team_win'' 1 maxPolls) t (Inr ''{}'')" by (simp add: maxPolls_def)
  then have "\<exists>t. runs (execScript ref_lib ''team'' ''pod'' ''win'' (completeScript ''KW-1'')) t (Inr ''{}'')"
    unfolding execScript_def Let_def runs_tryP using exRPC[OF pid] by fastforce
  moreover have "(case l_jsonUnmarshal ref_lib ''{}'' of Inl e \<Rightarrow> Inl (Errorf ''invalid Windows provisioning status'')
       | Inr v \<Rightarrow> (case structOf v of Inl e \<Rightarrow> Inl (Errorf ''invalid Windows provisioning status'')
         | Inr m \<Rightarrow> (case boolMember ''complete'' m of Inl e \<Rightarrow> Inl (Errorf ''invalid Windows provisioning status'') | Inr b \<Rightarrow> Inr b))) = Inr True"
    by code_simp
  ultimately obtain tr where run: "runs (CompleteBootstrap ref_lib ''team'' ''pod'' ''win'' ''KW-1'') tr (Inr True)"
    unfolding CompleteBootstrap_def runs_tryP runs_Ret_iff by metis
  from guest_completion_on_report[OF run] run show ?thesis by auto
qed

end
