(* ===== verification/Tenancy.thy ===== *)
theory Tenancy
  imports Weakest_Precondition Manager Guest_Agent
begin

text \<open>
  The Workspace controller between namespaces: a pass for a workspace writes only into the workspace's namespace, reads Secrets only there,
  and runs guest commands only in pods there. The one exception is the namespace of the management credentials, where it
  looks for a Secret and may create it. The locale \<open>tenancy\<close> carries one lemma for each operation; it is used through the flags of the
  process, which fix that namespace. The guest agent reaches pods of the namespace it is called for (\<open>agent_in_tenant\<close>).
\<close>

section \<open>Requests of a tenant\<close>

fun inTenant :: "string \<Rightarrow> string \<Rightarrow> req \<Rightarrow> bool" where
  "inTenant n m (ReqGet rd k key) = (k = KSecret \<longrightarrow> fst key = n \<or> m \<noteq> [] \<and> fst key = m)"
| "inTenant n m (ReqList rd k sc sel) = (k \<noteq> KSecret)"
| "inTenant n m (ReqCreate ob) = (m_namespace (metaOf ob) = n \<or> kindOf ob = KSecret \<and> m \<noteq> [] \<and> m_namespace (metaOf ob) = m)"
| "inTenant n m (ReqUpdate ob) = (m_namespace (metaOf ob) = n)"
| "inTenant n m (ReqStatusUpdate ob) = (m_namespace (metaOf ob) = n)"
| "inTenant n m (ReqDelete ob opts) = (m_namespace (metaOf ob) = n)"
| "inTenant n m (ReqGuestComplete ns p vm host) = (ns = n)"
| "inTenant n m (ReqGuestStage ns p vm token) = (ns = n)"
| "inTenant n m (ReqGuestDial ns p) = (ns = n)"
| "inTenant n m (ReqGuestExec ns p cmd) = (ns = n)"
| "inTenant n m q = True"

text \<open>The proofs below treat the namespace of the tenant as a predicate.\<close>

definition here :: "string \<Rightarrow> string \<Rightarrow> bool" where
  "here n ns \<longleftrightarrow> ns = n"

lemma tenant_simps [simp]:
  "inTenant n m (ReqGet rd k key) \<longleftrightarrow> (k = KSecret \<longrightarrow> here n (fst key) \<or> fst key \<noteq> [] \<and> here m (fst key))"
  "inTenant n m (ReqCreate ob) \<longleftrightarrow> here n (m_namespace (metaOf ob)) \<or> kindOf ob = KSecret \<and> m_namespace (metaOf ob) \<noteq> [] \<and> here m (m_namespace (metaOf ob))"
  "inTenant n m (ReqUpdate ob) \<longleftrightarrow> here n (m_namespace (metaOf ob))" "inTenant n m (ReqStatusUpdate ob) \<longleftrightarrow> here n (m_namespace (metaOf ob))"
  "inTenant n m (ReqDelete ob opts) \<longleftrightarrow> here n (m_namespace (metaOf ob))"
  "inTenant n m (ReqGuestComplete ns p vm host) \<longleftrightarrow> here n ns" "inTenant n m (ReqGuestStage ns p vm token) \<longleftrightarrow> here n ns"
  by (auto simp: here_def)

lemma here_refl: "here n n"
  by (simp add: here_def)

declare inTenant.simps(1,3-8) [simp del]

lemma namespace_kept [simp]:
  "namespaceOf (setAnnotation ws k v) = namespaceOf ws" "namespaceOf (dropAnnotation ws k) = namespaceOf ws"
  "namespaceOf (withProfile ws p) = namespaceOf ws" "namespaceOf (withGeneration ws u) = namespaceOf ws"
  "namespaceOf (markProvisioned ws) = namespaceOf ws" "namespaceOf (consumeReset ws) = namespaceOf ws"
  "namespaceOf (withExecution ws v e) = namespaceOf ws" "namespaceOf (copyExecution ws ws') = namespaceOf ws"
  "m_namespace (un_meta (withDiskOwner ws disk)) = m_namespace (un_meta disk)" "m_namespace (un_meta (withSpec d disk)) = m_namespace (un_meta disk)"
  "m_namespace (sec_meta (stripAnswer s)) = m_namespace (sec_meta s)" "m_namespace (setPodTemplateHash L t mt) = m_namespace mt"
  by (simp_all add: setAnnotation_def dropAnnotation_def withProfile_def withGeneration_def markProvisioned_def consumeReset_def withExecution_def
      copyExecution_def withDiskOwner_def withSpec_def stripAnswer_def setPodTemplateHash_def split: option.split)

lemma namespace_new [simp]:
  "m_namespace (sec_meta (newInitSecret L ws data)) = namespaceOf ws" "m_namespace (sec_meta (newCloudInitSecret ws data)) = namespaceOf ws"
  "m_namespace (sec_meta (newWindowsSecret L ws pw token)) = namespaceOf ws" "m_namespace (sec_meta (newBootstrapSecret ns nm ws vm raw)) = ns"
  "m_namespace (svc_meta (generateService ws t p)) = namespaceOf ws" "m_namespace (wl_meta (generateWorkload key L ws)) = namespaceOf ws"
  by (simp_all add: newInitSecret_def newCloudInitSecret_def newWindowsSecret_def newBootstrapSecret_def generateService_def generateWorkload_def Let_def)

text \<open>A guest command asked for in a namespace reaches pods of that namespace only.\<close>

lemma rpc_in_tenant: "calls (inTenant ns m) (agentRPC L ns pod domain operation args dec)"
  unfolding agentRPC_def by (auto intro!: replaceErr_calls split: sum.split)

lemma poll_in_tenant: "calls (inTenant ns m) (pollScript L ns pod domain pid k)"
  by (induction k) (auto intro!: calls_tryP calls_bind rpc_in_tenant)

lemma agent_in_tenant:
  "calls (inTenant ns m) (CompleteBootstrap L ns pod vm hostname)" "calls (inTenant ns m) (stageEnrollment L ns pod vm token)"
  unfolding CompleteBootstrap_def stageEnrollment_def execScript_def Let_def
  by (auto intro!: calls_tryP calls_bind calls_wrapP rpc_in_tenant poll_in_tenant split: sum.split)

section \<open>Operations\<close>

locale tenancy =
  fixes L :: lib and n m :: string
  assumes retry: "retryOnConflict_doc L" and create_or_update: "createOrUpdate_doc L" and reference: "setControllerReference_doc L"
begin

abbreviation T :: "req \<Rightarrow> bool" where "T \<equiv> inTenant n m"

lemma reference_namespace: "l_setControllerReference L owner mt = Inr mt' \<Longrightarrow> m_namespace mt' = m_namespace mt"
  using reference unfolding setControllerReference_doc_def by (metis ometa.select_convs(2) ometa.ext_inject ometa.surjective ometa.update_convs(9))

lemmas now_wp = wp_nowP[of T, simplified]

lemma updateWorkspace_wp:
  "here n (namespaceOf ws) \<Longrightarrow> (\<And>w r. here n (namespaceOf w) \<Longrightarrow> Q (w, r)) \<Longrightarrow> wp T (updateWorkspaceW ws) Q"
  unfolding updateWorkspaceW_def by (auto simp: wp_eqs keyOf_def)

lemma newUUID_wp: "(\<And>u. Q u) \<Longrightarrow> wp T newUUID Q"
  unfolding newUUID_def by (simp add: wp_ask)

lemma notReady_wp: "here n (namespaceOf ws) \<Longrightarrow> (\<And>u. Q u) \<Longrightarrow> wp T (setNotReadyCondition ws reason msg) Q"
  unfolding setNotReadyCondition_def Let_def by (auto simp: wp_eqs intro!: now_wp)

lemma status_wp: "here n (namespaceOf ws) \<Longrightarrow> (\<And>r. Q r) \<Longrightarrow> wp T (updateWorkspaceStatus L ws k p) Q"
  unfolding updateWorkspaceStatus_def windowsStatusConditions_def writeStatus_def
  by (auto simp: wp_eqs keyOf_def intro!: now_wp wp_retryOnConflict[OF retry])

lemma image_wp: "(\<And>r. Q r) \<Longrightarrow> wp T (imageByRef ref) Q" "(\<And>i. Q' i) \<Longrightarrow> wp T (agentImageForWorkspace ws) Q'"
  unfolding agentImageForWorkspace_def imageByRef_def by (auto simp: wp_eqs)

lemma ensure_wp:
  assumes "here n (m_namespace (metaOf (wrap desired)))" and "kindOf (wrap desired) \<noteq> KSecret"
    and "\<And>ob x. proj ob = Some x \<Longrightarrow> ob = wrap x" and "\<And>x. m_namespace (metaOf (wrap (change desired x))) = m_namespace (metaOf (wrap x))"
    and "\<And>r. Q r"
  shows "wp T (ensureObject wrap proj needs change blank desired) Q"
  unfolding ensureObject_def Let_def using assms by (auto simp: wp_eqs keyOf_def dest!: assms(3))

lemma service_wp: "here n (namespaceOf ws) \<Longrightarrow> (\<And>r. Q r) \<Longrightarrow> wp T (reconcileService L ws t) Q"
  unfolding reconcileService_def Let_def
  by (auto simp: wp_eqs applyService_def reference_namespace intro!: image_wp ensure_wp split: sum.split)

lemma readyTime_wp: "here n (fst req) \<Longrightarrow> Q () \<Longrightarrow> wp T (recordReadyTime L req ws k) Q"
  unfolding recordReadyTime_def recordReadyAttempt_def
  by (auto simp: wp_eqs keyOf_def intro!: now_wp wp_retryOnConflict[OF retry] split: option.split)

text \<open>Container and scratch workspaces.\<close>

lemma removeInit_wp: "here n (namespaceOf ws) \<Longrightarrow> (\<And>r. Q r) \<Longrightarrow> wp T (removeContainerInitSecret L ws) Q"
  unfolding removeContainerInitSecret_def by (auto simp: wp_eqs keyOf_def)

lemma inlineInit_wp: "here n (namespaceOf ws) \<Longrightarrow> (\<And>r. Q r) \<Longrightarrow> wp T (inlineInitData L ws data) Q"
  unfolding inlineInitData_def Let_def by (auto simp: wp_eqs keyOf_def reference_namespace split: sum.split)

lemma referencedInit_wp: "here n (namespaceOf ws) \<Longrightarrow> (\<And>r. Q r) \<Longrightarrow> wp T (referencedInitData L ws cfg ref) Q"
  unfolding referencedInitData_def Let_def by (auto simp: wp_eqs intro!: removeInit_wp split: sum.split)

lemma prepareInit_wp: "here n (namespaceOf ws) \<Longrightarrow> (\<And>r. Q r) \<Longrightarrow> wp T (prepareContainerInit L initImage ws pod) Q"
  unfolding prepareContainerInit_def containerInitData_def Let_def
  by (auto simp: wp_eqs intro!: removeInit_wp inlineInit_wp referencedInit_wp split: option.split sum.split prod.split)

lemma desiredWorkload_namespace: "desiredWorkload L ws wl t = Inr d \<Longrightarrow> m_namespace (wl_meta d) = m_namespace (wl_meta wl)"
  by (auto simp: desiredWorkload_def reference_namespace split: sum.splits)

lemma prepareWorkload_wp:
  assumes "here n (namespaceOf ws)" and "here n (m_namespace (wl_meta wl))" and "\<And>e. Q (Inl e)" and "\<And>d. here n (m_namespace (wl_meta d)) \<Longrightarrow> Q (Inr d)"
  shows "wp T (prepareWorkload L initImage ws wl) Q"
proof -
  have "Q (desiredWorkload L ws wl t)" for t
    using assms by (cases "desiredWorkload L ws wl t") (simp_all add: desiredWorkload_namespace)
  then show ?thesis unfolding prepareWorkload_def
    using assms by (auto simp: wp_eqs intro!: prepareInit_wp notReady_wp split: sum.split)
qed

lemma pod_wp: "(\<And>r. Q r) \<Longrightarrow> wp T (podByLabel L ns sel) Q" "(\<And>r. Q r) \<Longrightarrow> wp T (getPod ns nm) Q"
  unfolding podByLabel_def getPod_def by (auto simp: wp_eqs split: sum.split)

lemma workload_wp:
  assumes "here n (namespaceOf ws)" and "\<And>r. Q r"
  shows "wp T (reconcileStatefulSet L initImage ws) Q" and "wp T (reconcileDeployment L initImage ws) Q"
  unfolding reconcileStatefulSet_def reconcileDeployment_def ensureStatefulSet_def ensureDeployment_def
  using assms by (auto simp: wp_eqs generateStatefulSet_def generateDeployment_def applyWorkload_def
      intro!: prepareWorkload_wp ensure_wp pod_wp split: sum.split)

text \<open>VM workspaces: the steps before the VirtualMachine.\<close>

lemma resolve_wp:
  assumes "here n (namespaceOf ws)" and "\<And>w r. here n (namespaceOf w) \<Longrightarrow> Q (w, r)"
  shows "wp T (resolveWindowsProfile L ws img) Q"
  unfolding resolveWindowsProfile_def snapshotWindows_def storeResolved_def Let_def
  using assms by (auto simp: wp_eqs intro!: newUUID_wp updateWorkspace_wp split: option.split sum.split)

lemma agentGeneration_wp:
  assumes "here n (namespaceOf ws)" and "\<And>w r. here n (namespaceOf w) \<Longrightarrow> Q (w, r)"
  shows "wp T (ensureLinuxAgentGeneration ws img) Q"
  unfolding ensureLinuxAgentGeneration_def using assms by (auto simp: wp_eqs intro!: newUUID_wp updateWorkspace_wp split: option.split)

lemma vmi_wp: "(\<And>r. Q r) \<Longrightarrow> wp T (getVMI ws) Q" "(\<And>r. Q' r) \<Longrightarrow> wp T (vmiAbsent ws) Q'" "(\<And>r. R r) \<Longrightarrow> wp T (vmiIsRunning ws) R"
    "(\<And>r. R r) \<Longrightarrow> wp T (windowsAgentConnected ws) R"
  unfolding vmiAbsent_def vmiIsRunning_def windowsAgentConnected_def getVMI_def by (auto simp: wp_eqs)

lemma detach_wp: "here n (namespaceOf ws) \<Longrightarrow> (\<And>r. Q r) \<Longrightarrow> wp T (detachSecret L ws) Q"
  unfolding detachSecret_def by (auto simp: wp_eqs keyOf_def)

lemma lifecycle_wp:
  assumes "here n (namespaceOf ws)" and "\<And>w r. here n (namespaceOf w) \<Longrightarrow> Q (w, r)"
  shows "wp T (finishWindowsLifecycle L ws) Q"
  unfolding finishWindowsLifecycle_def finishWindowsDetach_def finishWindowsReboot_def
  using assms by (auto simp: wp_eqs intro!: vmi_wp detach_wp updateWorkspace_wp split: sum.split)

lemma node_wp: "(\<And>r. Q r) \<Longrightarrow> wp T (preflightWindowsNode ws) Q"
  unfolding preflightWindowsNode_def Let_def by (auto simp: wp_eqs)

lemma gpu_wp: "(\<And>r. Q r) \<Longrightarrow> wp T (preflightWindowsGPU L ws) Q"
  unfolding preflightWindowsGPU_def preflightGPU_def singleton_def by (auto simp: wp_eqs intro!: node_wp split: option.split sum.split)

lemma preflight_wp: "(\<And>r. Q r) \<Longrightarrow> wp T (preflightWindows L ws) Q"
  unfolding preflightWindows_def preflightWindowsInfrastructure_def checkStateStorage_def singleton_def Let_def
  by (auto simp: wp_eqs intro!: node_wp gpu_wp split: list.split sum.split)

lemma token_wp: "(\<And>r. Q r) \<Longrightarrow> wp T (windowsEnrollmentToken L uid g now) Q"
  unfolding windowsEnrollmentToken_def by (auto simp: wp_eqs wp_ask split: sum.split)

lemma windowsSecret_wp:
  assumes "here n (namespaceOf ws)" and "\<And>r. Q r"
  shows "wp T (reconcileWindowsBootstrap L ws) Q"
  unfolding reconcileWindowsBootstrap_def ensureWindowsSecret_def keepBootstrapSecret_def backfillToken_def createBootstrapSecret_def
    checkImportCredentials_def checkImportCertificates_def Let_def
  using assms by (auto simp: wp_eqs wp_ask keyOf_def reference_namespace intro!: now_wp token_wp split: sum.split)

lemma disks_wp:
  assumes "here n (namespaceOf ws)" and "\<And>r. Q r"
  shows "wp T (claimVMDisks L rd ws) Q"
  unfolding claimVMDisks_def claimVMDataVolume_def claimAttempt_def takeClaim_def checkPreviousOwner_def ownerVMIGone_def Let_def
  using assms by (auto simp: wp_eqs keyOf_def intro!: wp_forE wp_retryOnConflict[OF retry] split: list.split sum.split)

lemma cloudInit_wp:
  assumes "here n (namespaceOf ws)" and "\<And>r. Q r"
  shows "wp T (reconcileCloudInitSecret L ws data) Q"
  unfolding reconcileCloudInitSecret_def removeCloudInitSecret_def Let_def
  using assms by (auto simp: wp_eqs keyOf_def reference_namespace split: sum.split)

lemma sshKeys_wp:
  assumes "here n (namespaceOf ws)" and "\<And>r. Q r"
  shows "wp T (reconcileSSHKeySecret L ws ks) Q"
  unfolding reconcileSSHKeySecret_def using assms by (auto simp: keyOf_def intro!: wp_createOrUpdate[OF create_or_update])

lemma guestBootstrap_wp:
  assumes "here n (namespaceOf ws)" and "\<And>r. Q r"
  shows "wp T (reconcileVMGuestBootstrap L r ws img) Q"
  unfolding reconcileVMGuestBootstrap_def linuxSSHKeys_def sshAuthorizedKeysForWorkspace_def
  using assms by (auto simp: wp_eqs intro!: preflight_wp windowsSecret_wp disks_wp cloudInit_wp sshKeys_wp split: prod.split option.split sum.split)

lemma prepareVM_wp:
  assumes "here n (namespaceOf ws)" and "\<And>w r. here n (namespaceOf w) \<Longrightarrow> Q (w, r)"
  shows "wp T (prepareVM L r ws) Q"
  unfolding prepareVM_def lookupVMImage_def
  using assms by (auto simp: wp_eqs intro!: image_wp resolve_wp agentGeneration_wp lifecycle_wp guestBootstrap_wp split: sum.split)

text \<open>The VirtualMachine and what follows it.\<close>

lemma generated_namespace: "generateVirtualMachine L ws img ks port inst = Inr vm \<Longrightarrow> m_namespace (un_meta vm) = namespaceOf ws"
  by (auto simp: generateVirtualMachine_def generateWindowsVirtualMachine_def generateLinuxVirtualMachine_def newVirtualMachine_def
      split: if_splits option.splits sum.splits)

lemma sound_namespace: "un_meta (applyWindowsImageSoundDevice ws vm img) = un_meta vm"
  by (simp add: applyWindowsImageSoundDevice_def putObject_def split: option.split)

lemma desired_wp:
  assumes "here n (namespaceOf ws)" and "\<And>e. Q (Inl e)" and "\<And>vm. here n (m_namespace (un_meta vm)) \<Longrightarrow> Q (Inr vm)"
  shows "wp T (desiredVM L ws img ks) Q"
  unfolding desiredVM_def Let_def
  using assms by (auto simp: wp_eqs reference_namespace generated_namespace sound_namespace intro!: image_wp split: sum.split)

lemma preserved_namespace: "preserveLegacyRootDisk desired current = Inr d \<Longrightarrow> m_namespace (un_meta d) = m_namespace (un_meta desired)"
proof -
  have rename: "renameRootDisk x = Inr d \<Longrightarrow> un_meta d = un_meta x" for x d
    by (auto simp: renameRootDisk_def putObject_def Let_def split: list.splits json.splits)
  have "preserveIn x vs = Inr d \<Longrightarrow> un_meta d = un_meta x" for x vs d
    by (induction x vs rule: preserveIn.induct) (auto split: json.splits if_splits dest: rename)
  then show "preserveLegacyRootDisk desired current = Inr d \<Longrightarrow> m_namespace (un_meta d) = m_namespace (un_meta desired)"
    by (auto simp: preserveLegacyRootDisk_def split: if_splits)
qed

lemma updateVM_wp:
  assumes "here n (m_namespace (un_meta desired))" and "\<And>r. Q r"
  shows "wp T (updateVirtualMachine L ws desired found) Q"
  unfolding updateVirtualMachine_def updateAttempt_def guardWindowsGPUTransition_def
  using assms by (auto simp: wp_eqs keyOf_def intro!: wp_retryOnConflict[OF retry] vmi_wp gpu_wp split: sum.split)

lemma ensureVM_wp:
  assumes "here n (m_namespace (un_meta desired))" and "\<And>r. Q r"
  shows "wp T (ensureVM L ws desired) Q"
  unfolding ensureVM_def adoptVM_def
  using assms by (auto simp: wp_eqs preserved_namespace intro!: updateVM_wp gpu_wp split: sum.split)

lemma epoch_wp:
  assumes "here n (namespaceOf ws)" and "\<And>e. Q (Inl e)" and "\<And>w. here n (namespaceOf w) \<Longrightarrow> Q (Inr w)"
  shows "wp T (reconcileExecutionEpoch L rd ws vm) Q"
  unfolding reconcileExecutionEpoch_def Let_def using assms by (auto simp: wp_eqs keyOf_def split: sum.split)

lemma managementBootstrap_wp:
  assumes "here n (namespaceOf ws)" and "here m mns" and "\<And>r. Q r"
  shows "wp T (reconcileManagementBootstrap L rd mns ws vm) Q"
  unfolding reconcileManagementBootstrap_def ensureBootstrapSecret_def issueBootstrapSecret_def Let_def
  using assms by (auto simp: wp_eqs wp_ask intro!: now_wp split: sum.split option.split)

lemma provisioning_wp:
  assumes "here n (namespaceOf ws)" and "\<And>w r. here n (namespaceOf w) \<Longrightarrow> Q (w, r)"
  shows "wp T (windowsReady L hasAgent ws pod running) Q"
  unfolding windowsReady_def reconcileWindowsProvisioning_def guestFinished_def guestComplete_def stageWindowsEnrollment_def Let_def
  using assms by (auto simp: wp_eqs wp_ask intro!: vmi_wp updateWorkspace_wp split: sum.split option.split)

lemma observe_wp:
  assumes "here n (namespaceOf ws)" and "\<And>w r. here n (namespaceOf w) \<Longrightarrow> Q (w, r)" and "here m (r_managementNamespace r)"
  shows "wp T (observeVM L r ws vm) Q"
  unfolding observeVM_def reconcileManagementIdentity_def
  using assms by (auto simp: wp_eqs intro!: pod_wp vmi_wp provisioning_wp epoch_wp managementBootstrap_wp split: sum.split)

lemma vm_wp:
  assumes "here n (namespaceOf ws)" and "\<And>w r. here n (namespaceOf w) \<Longrightarrow> Q (w, r)" and "here m (r_managementNamespace r)"
  shows "wp T (reconcileVirtualMachine L r ws) Q"
  unfolding reconcileVirtualMachine_def
  using assms by (auto simp: wp_eqs intro!: prepareVM_wp desired_wp ensureVM_wp observe_wp split: sum.split option.split)

lemma reset_wp:
  assumes "here n (namespaceOf ws)" and "\<And>w r. here n (namespaceOf w) \<Longrightarrow> Q (w, r)"
  shows "wp T (handleReset L ws) Q"
  unfolding handleReset_def resetExisting_def deleteVM_def haltVM_def resetWindowsGeneration_def freshGeneration_def
  using assms by (auto simp: wp_eqs keyOf_def intro!: newUUID_wp vmi_wp updateWorkspace_wp split: sum.split option.split)

section \<open>A pass\<close>

lemma failure_wp: "here n (namespaceOf ws) \<Longrightarrow> (\<And>u. Q u) \<Longrightarrow> wp T (reportFailure ws reason e) Q"
  unfolding reportFailure_def by (auto intro!: notReady_wp split: gerr.split)

lemma reconcileWorkload_wp:
  assumes "here n (namespaceOf ws)" and "\<And>w r. here n (namespaceOf w) \<Longrightarrow> Q (w, r)" and "here m (r_managementNamespace r)"
  shows "wp T (reconcileWorkload L r ws) Q"
  unfolding reconcileWorkload_def using assms by (auto simp: wp_eqs intro!: vm_wp failure_wp workload_wp split: sum.split)

lemma objects_wp:
  assumes "here n (namespaceOf ws)" and "here n (fst req)" and "here m (r_managementNamespace r)" and "\<And>x. Q x"
  shows "wp T (reconcileObjects L r req ws) Q"
  unfolding reconcileObjects_def Let_def
  using assms by (auto simp: wp_eqs intro!: reconcileWorkload_wp service_wp status_wp readyTime_wp split: sum.split)

lemma vmType_wp:
  assumes "here n (namespaceOf ws)" and "here n (fst req)" and "here m (r_managementNamespace r)" and "\<And>x. Q x"
  shows "wp T (reconcileVMType L r req ws) Q"
  unfolding reconcileVMType_def kubeVirtInstalled_def
  using assms by (auto simp: wp_eqs intro!: notReady_wp reset_wp objects_wp split: sum.split)

lemma pass_wp:
  assumes "here n (fst req)" and "here m (r_managementNamespace r)" and "\<And>x. Q x"
  shows "wp T (reconcileWorkspace L r req) Q"
  unfolding reconcileWorkspace_def Let_def
  using assms by (auto simp: wp_eqs keyOf_def intro!: notReady_wp objects_wp vmType_wp)

lemma pass_in_tenant:
  assumes "runs (reconcileWorkspace L r (n, name)) tr res" and "keyed tr" and "(q, x) \<in> set tr" and "r_managementNamespace r = m"
  shows "inTenant n m q"
  by (rule wpD[OF pass_wp[where Q = "\<lambda>_. True"] assms(1-3)]) (simp_all add: here_def assms(4))

end

interpretation reference: tenancy ref_lib n m for n m
  by unfold_locales (rule ref_retryOnConflict_doc ref_createOrUpdate_doc ref_setControllerReference_doc)+

end
