(* ===== verification/Spec2Isabelle.thy ===== *)
theory Spec2Isabelle
  imports User_Controller Auth_Config Image_Repository Workspace_Dispatch Tenancy
begin

text \<open>
  A verification library of the kube-workspaces controller (src/), a Kubernetes operator in Go.

  \<^bold>\<open>The program.\<close> One manager process runs four reconcilers against the API server. The User controller gives every User a
  personal namespace, RoleBindings and a quota. The AuthConfig controller checks the configured login methods and
  creates a first local administrator. The ImageRepository controller imports Image manifests from git and prunes
  the ones that left the repository. The Workspace controller turns a Workspace into a StatefulSet, a Deployment or a
  KubeVirt VirtualMachine with a Service; VM workspaces add cloud-init, data disks, GPUs, a Windows guest lifecycle,
  a management credential and a reset. Reconcilers share no memory; they meet in the objects of the API server.

  \<^bold>\<open>Model of effects.\<close> A Go function that talks to its surroundings is a value of type \<open>'a prog\<close>: a tree of requests (reads and
  writes of the API server, clock, random source, git, file system, guest agent) and continuations of the responses.
  \<open>runs p tr x\<close> is the relation between a program, a trace of requests with their answers and a result. The answers are not
  computed, so a theorem over every \<open>tr\<close> covers failures, stale caches and concurrent writers. \<open>calls\<close> and \<open>guarded\<close> state
  which requests a program can issue and what justifies them; \<open>exec\<close> runs a program on given answers (the witnesses use it)
  and \<open>run\<close> on a cluster given as a state. Errors are the left injection of a sum; a run time panic is an error \<open>PanicErr\<close>.
  A function that changes the caller's Workspace returns it beside its result. Programs are finite trees: every call returns.
  Loops over lists are structural; retries on conflict belong to the library below. The one open loop, the poll of a guest script,
  runs at most 101 rounds: its deadline of 25 s ends it after 100 pauses of 250 ms.

  \<^bold>\<open>Third-party code\<close> (controller-runtime, apimachinery, client-go, bcrypt, YAML and JSON codecs, SHA-256) is a record \<open>lib\<close>
  of functions, an argument of the definitions. What a theorem relies on is a hypothesis named \<open>..._doc\<close>; \<open>ref_lib\<close>
  is a concrete library that meets them all and instantiates them in the witnesses.

  \<^bold>\<open>Theories.\<close>
  \<^item> \<^verbatim>\<open>Prelude\<close>: the collections \<open>prog_inv\<close> and \<open>prog_frame\<close>, Go strings and maps, error values. \<^verbatim>\<open>Runes\<close>: UTF-8
    decoding and the comparison under Unicode case folding. \<^verbatim>\<open>Objects\<close>: Kubernetes objects and
    untyped values. \<^verbatim>\<open>Api_Types\<close>: the resources of src/api/v1alpha1. \<^verbatim>\<open>Client\<close>: requests, programs and their calculus.
    \<^verbatim>\<open>Library\<close>: third-party functions, their documented behaviour and the locale \<open>mutator\<close> (the callback of CreateOrUpdate keeps
    kind and key and establishes a property). \<^verbatim>\<open>Common\<close>: shared constants. \<^verbatim>\<open>Filepath\<close>: path/filepath.
  \<^item> \<^verbatim>\<open>User_Controller\<close>: user_controller.go. Namespaces are deleted or adopted only if owned; a grant rests on a namespaceAccess entry, or on an AuthConfig
    that was read and a namespace claimed for the User before; a role change
    revokes first, disabled users lose their grants, the finalizer goes last. Interpretations of \<open>mutator\<close> for bindings, quotas, namespaces.
  \<^item> \<^verbatim>\<open>Local_Auth\<close>, \<^verbatim>\<open>Auth_Config\<close>: localauth.go, authconfig_controller.go. Passwords, the bootstrap administrator, and the refinement of
    a decision table by the status conditions.
  \<^item> \<^verbatim>\<open>Image_Repository\<close>: imagerepository_controller.go. Manifests stay inside the clone; imports replace the spec
    and set the labels and annotations of manifest and repository, nothing else; pruning needs every manifest of every directory decoded and stored.
  \<^item> \<^verbatim>\<open>Naming\<close>, \<^verbatim>\<open>Workload_Objects\<close>, \<^verbatim>\<open>Container_Init\<close>, \<^verbatim>\<open>Workload_Reconcile\<close>: derived names, generated objects and their comparison, container_init.go,
    and the reconciliation of workloads, Service and status. The locale \<open>managed\<close> is the get-create-or-update step; it is
    interpreted for StatefulSets, Deployments and Services and gives convergence.
  \<^item> \<^verbatim>\<open>VM_Disks\<close> (vm_disks.go), \<^verbatim>\<open>Management\<close> (vm_execution_epoch.go, vm_management_bootstrap.go), \<^verbatim>\<open>Cloud_Init\<close> (vm_linux_agent.go, vm_root_disk.go and the
    cloud-init part of workspace_controller.go), \<^verbatim>\<open>VM_Gen\<close> (the Linux VirtualMachine): admitted mount paths, disk claims, monotone epochs, the
    credential round trip, delivery of user data, domain resources, disks and volumes.
  \<^item> \<^verbatim>\<open>Windows_Profile\<close>, \<^verbatim>\<open>Windows_Guest\<close>: vm_windows_guest.go, vm_windows_gpu.go. The profile snapshot, GPU approval, stable credentials,
    provisioning on evidence, and the refinement of the machine installing, detaching, settled (\<open>phase_step\<close>) by the annotations.
  \<^item> \<^verbatim>\<open>Workspace_Controller\<close>: Reconcile, reconcileVirtualMachine, handleReset and the guest bootstrap of workspace_controller.go, composed of the
    operations above. Writes of a VirtualMachine, readiness on evidence, the writes of a reset (\<open>reset_write\<close>), and exactly when it completes
    on the cluster \<open>resetCluster\<close>, in which KubeVirt removes the VMI of a halted machine only.
  \<^item> \<^verbatim>\<open>Workspace_Dispatch\<close>: the composition. The locales \<open>workspace_frame\<close>, \<open>statefulset_frame\<close>, \<open>deployment_frame\<close> and \<open>vm_frame\<close> carry the lemmas
    that a group of operations leaves a set of objects alone; interpreted on the objects a workspace type must not
    touch, they confine every pass.

  \<^item> \<^verbatim>\<open>Guest_Agent\<close>: vm_windows_agent.go. The command argument decodes back to the script, a staged token is read back verbatim, the completion check
    answers only on the word of the guest and turns every failure into an error. \<^verbatim>\<open>Observers\<close>: the gauges of metrics.go agree with counting; the watch maps of SetupWithManager; the metered
    reconciler equals the plain one without its observations, and its observations tell the truth.
  \<^item> \<^verbatim>\<open>Manager\<close>: cmd/main.go. Flags and their parser, the TLS options of the two servers as Go slices over shared arrays, the start-up as a sequence of
    actions with an exit code (equal to the list \<open>plan\<close>, performed up to the first failure), and SetupWithManager of the Workspace controller.
  \<^item> \<^verbatim>\<open>Weakest_Precondition\<close>: a program logic \<open>wp\<close> over the requests and the result of a program, for servers that answer with the object asked for
    (\<open>keyed\<close>). \<^verbatim>\<open>Tenancy\<close>: the locale \<open>tenancy\<close>, one lemma per operation of the Workspace controller: it stays in the namespace of its workspace. The
    section below puts it together with main.

  \<^bold>\<open>Bounds.\<close> Byte limits of the source (262144 for initialization data, 2048 for inline user data, 4096 for a bootstrap document) are
  compared as integers. The FNV hash, the revocation epoch and the CPU count are words of their width. A reset needs at most three passes,
  or never ends: a Windows machine with a VMI that leaves \<open>spec.running\<close> out and has a run strategy other than \<open>Halted\<close> (\<open>resetBlocked\<close>).

  \<^bold>\<open>Not modelled.\<close> zz_generated.deepcopy.go (generated copies; HOL values are not shared); the registration of types in the scheme
  and the logger of cmd/main.go; the buckets and durations of the histograms of metrics.go and log lines (no effect on the cluster);
  PodDefault and the parts of PlatformConfig that no controller reads;
  fields of API types that the
  controller only passes through are kept as one opaque field.
\<close>

section \<open>The whole controller\<close>

text \<open>
  C1. Tenants are kept apart. Take the Workspace reconciler as main configures it from the command line and SetupWithManager
  completes it, and any pass of it for a workspace in namespace \<open>n\<close>, on an API server that answers reads and writes with the object of
  the key. Whatever else it answers, the pass updates, deletes and creates objects in \<open>n\<close> only, reads Secrets in \<open>n\<close> only, lists none,
  and runs guest commands in pods of \<open>n\<close> only. The exception is the namespace named by a flag, which is empty or a DNS label: when it is
  not empty, a Secret may be looked up and created there.
\<close>

theorem tenants_confined:
  assumes "retryOnConflict_doc L" and "createOrUpdate_doc L" and "setControllerReference_doc L"
    and "SetupController (WorkspaceSetup r0) \<in> set (fst (mainProgram L grow X b getenv args ok))"
    and "setupWithManager register newAgent mapVM mapVMI complete r0 = Inr (r, watches)"
    and "runs (reconcileWorkspace L r (n, name)) tr res" and "keyed tr" and "(q, x) \<in> set tr"
  shows "\<exists>f. parseFlags X args (defaultFlags getenv) = Parsed f
    \<and> (managementBootstrapNamespace f = [] \<or> l_isDNS1123Label L (managementBootstrapNamespace f))
    \<and> inTenant n (managementBootstrapNamespace f) q"
proof -
  from assms(4) obtain f where f: "parseFlags X args (defaultFlags getenv) = Parsed f"
      "managementBootstrapNamespace f = [] \<or> l_isDNS1123Label L (managementBootstrapNamespace f)"
    and run: "mainProgram L grow X b getenv args ok = perform ok (plan grow f)" by (rule mainProgram_started) simp
  have "SetupController (WorkspaceSetup r0) \<in> set (plan grow f)" using assms(4) set_perform unfolding run by blast
  then have "r0 = newReconciler f" by (auto simp: plan_def split: if_splits)
  then have "r_managementNamespace r = managementBootstrapNamespace f"
    using setup_complete[OF assms(5)] by (simp add: newReconciler_def)
  moreover have "tenancy L" using assms(1-3) by unfold_locales
  ultimately have "inTenant n (managementBootstrapNamespace f) q"
    using tenancy.pass_in_tenant assms(6-8) by blast
  with f show ?thesis by blast
qed

theorem tenants_confined_witness:
  "\<exists>tr res x. runs (reconcileWorkspace ref_lib exReconciler (''team'', ''ws'')) tr res \<and> keyed tr
     \<and> (ReqDelete (OUnstructured exVM) [Foreground], x) \<in> set tr \<and> inTenant ''team'' [] (ReqDelete (OUnstructured exVM) [Foreground])"
proof -
  let ?ws = "setAnnotation (exWorkspace ''vm'') AnnotationReset ''true''"
  let ?p = "reconcileWorkspace ref_lib exReconciler (''team'', ''ws'')"
  let ?e = "exec ?p [RObj (OWorkspace ?ws), notFound, RObj (OUnstructured exVM), ROk]"
  have "snd ?e = Some (Inr (seconds 5))" by code_simp
  then have "?e = (fst ?e, Some (Inr (seconds 5)))" by (metis prod.collapse)
  then have run: "runs ?p (fst ?e) (Inr (seconds 5))" by (rule exec_runs)
  have k: "keyed (fst ?e)" by code_simp
  have "fst ?e \<noteq> []" "last (fst ?e) = (ReqDelete (OUnstructured exVM) [Foreground], ROk)" by code_simp+
  then have q: "(ReqDelete (OUnstructured exVM) [Foreground], ROk) \<in> set (fst ?e)" by (metis last_in_set)
  have main: "SetupController (WorkspaceSetup (newReconciler exFlags))
      \<in> set (fst (mainProgram ref_lib (\<lambda>_ n. n) exForeign exBuild (\<lambda>_. []) exArgs (\<lambda>_. True)))"
    by (simp add: exMain_plan plan_def)
  have flags: "managementBootstrapNamespace exFlags = []" "containerInitImage exFlags = []" by (simp_all add: exFlags_def defaultFlags_def)
  then have "\<exists>ws. setupWithManager None None None None None (newReconciler exFlags) = Inr (exReconciler, ws)"
    by (simp add: setupWithManager_def kubeVirtGVKInstalled_def newReconciler_def exReconciler_def)
  then obtain ws where completed: "setupWithManager None None None None None (newReconciler exFlags) = Inr (exReconciler, ws)" ..
  have "inTenant ''team'' [] (ReqDelete (OUnstructured exVM) [Foreground])"
    using tenants_confined[OF ref_retryOnConflict_doc ref_createOrUpdate_doc ref_setControllerReference_doc main completed run k q] exArgs_parsed flags
    by auto
  with run k q show ?thesis by blast
qed

end
